(* ===== verification/ART_Prelude.thy ===== *)
theory ART_Prelude
  imports Main "HOL-Library.Word" "HOL-Library.Signed_Division" "HOL-Library.Monad_Syntax"
begin

text \<open>
  Shared vocabulary of the development: the machine integer types of the C++ sources, the
  conventions for memory accesses that leave an array (undefined behaviour in C++, the value
  \<open>None\<close> here), C's truncating division on two's complement values, and the generic lemmas
  on words, lists and options that the component theories use.
\<close>

unbundle bit_operations_syntax

section \<open>Machine integers\<close>

type_synonym uint8 = "8 word"
type_synonym uint16 = "16 word"
type_synonym uint32 = "32 word"
type_synonym uint64 = "64 word"

text \<open>
  A value of type \<open>int32_t\<close> or \<open>int64_t\<close> is the word with the same bits; \<^const>\<open>sint\<close> reads it.
\<close>

type_synonym int32 = "32 word"
type_synonym int64 = "64 word"

named_theorems array_access \<open>equations for reads and writes of C arrays\<close>
named_theorems word_masks \<open>bit masks of the sources as \<open>take_bit\<close>\<close>

section \<open>Array accesses\<close>

text \<open>Reading or writing outside an array is undefined behaviour in C++: the access is \<open>None\<close>.\<close>

definition array_get :: "'a list \<Rightarrow> nat \<Rightarrow> 'a option" where
  "array_get xs i = (if i < length xs then Some (xs ! i) else None)"

definition array_set :: "'a list \<Rightarrow> nat \<Rightarrow> 'a \<Rightarrow> 'a list option" where
  "array_set xs i v = (if i < length xs then Some (xs[i := v]) else None)"

lemma array_get_Some [simp]: "array_get xs i = Some x \<longleftrightarrow> i < length xs \<and> x = xs ! i"
  by (auto simp: array_get_def)

lemma array_set_Some [simp]: "array_set xs i v = Some ys \<longleftrightarrow> i < length xs \<and> ys = xs[i := v]"
  by (auto simp: array_set_def)

lemma array_get_in [array_access]: "i < length xs \<Longrightarrow> array_get xs i = Some (xs ! i)"
  by simp

lemma array_set_in [array_access]: "i < length xs \<Longrightarrow> array_set xs i v = Some (xs[i := v])"
  by simp

lemma array_get_None: "array_get xs i = None \<longleftrightarrow> length xs \<le> i"
  by (auto simp: array_get_def)

section \<open>Options\<close>

lemma bind_Some_iff: "Option.bind m f = Some y \<longleftrightarrow> (\<exists>x. m = Some x \<and> f x = Some y)"
  by (cases m) auto

section \<open>Bit masks\<close>

lemma and_0x7f [word_masks]: "w AND 0x7f = take_bit 7 (w :: 'a::len word)"
  by (simp add: take_bit_eq_mask mask_eq_exp_minus_1)

lemma and_0xff [word_masks]: "w AND 0xff = take_bit 8 (w :: 'a::len word)"
  by (simp add: take_bit_eq_mask mask_eq_exp_minus_1)

lemma and_0xf [word_masks]: "w AND 0xf = take_bit 4 (w :: 'a::len word)"
  by (simp add: take_bit_eq_mask mask_eq_exp_minus_1)

lemma and_0x1f [word_masks]: "w AND 0x1f = take_bit 5 (w :: 'a::len word)"
  by (simp add: take_bit_eq_mask mask_eq_exp_minus_1)

lemma and_0x3f [word_masks]: "w AND 0x3f = take_bit 6 (w :: 'a::len word)"
  by (simp add: take_bit_eq_mask mask_eq_exp_minus_1)

lemma unat_take_bit_less: "n < LENGTH('a) \<Longrightarrow> unat (take_bit n (w :: 'a::len word)) < 2 ^ n"
  by (simp add: unsigned_take_bit_eq)

lemma unat_drop_bit: "unat (drop_bit n (w :: 'a::len word)) = unat w div 2 ^ n"
  using drop_bit_eq_div [of n "unat w"]
  by (simp add: unsigned_drop_bit_eq take_bit_nat_eq_self unsigned_less)

lemma unat_drop_bit_less:
  "unat (drop_bit n (w :: 'a::len word)) < 2 ^ (LENGTH('a) - n)"
proof (cases "n \<le> LENGTH('a)")
  case True
  have "unat w < 2 ^ n * 2 ^ (LENGTH('a) - n)"
    using True unsigned_less [of w] by (simp flip: power_add)
  then show ?thesis
    by (simp add: unat_drop_bit less_mult_imp_div_less mult.commute)
next
  case False
  then have "drop_bit n w = 0"
    by (intro bit_word_eqI) (auto simp: bit_simps dest: bit_imp_le_length)
  then show ?thesis by simp
qed

lemma bit_unat_div: "bit (w :: 'a::len word) n \<longleftrightarrow> odd (unat w div 2 ^ n)"
proof -
  have "bit (unat w) n \<longleftrightarrow> bit w n"
    by (auto simp: bit_unsigned_iff)
  then show ?thesis by (simp add: bit_iff_odd)
qed

lemma bit_signed_drop_bit_32:
  "bit (signed_drop_bit m (v :: int32)) n \<longleftrightarrow> n < 32 \<and> bit v (if n + m < 32 then n + m else 31)"
proof -
  have L: "LENGTH(32) = 32" by simp
  have "bit (signed_drop_bit m v) n \<longleftrightarrow> bit v (if 32 - m \<le> n \<and> n < 32 then 31 else m + n)"
    unfolding bit_signed_drop_bit_iff L by simp
  then show ?thesis
    using bit_imp_le_length [of v "m + n"] by (auto simp: add.commute)
qed

lemma bit32_less: "bit (v :: uint32) n \<Longrightarrow> n < 32"
  using bit_imp_le_length [of v n] by simp

lemma bit_beyond_32: "32 \<le> n \<Longrightarrow> \<not> bit (v :: uint32) n"
  using bit_imp_le_length [of v n] by auto

lemmas bit32_simps = bit_and_iff bit_or_iff bit_xor_iff bit_push_bit_iff bit_take_bit_iff
  bit_drop_bit_eq bit_signed_drop_bit_32 bit_beyond_32 add.commute add.left_commute

lemma unat_ucast_widen [simp]:
  "unat (ucast (b :: uint8) :: uint16) = unat b"
  "unat (ucast (b :: uint8) :: uint32) = unat b"
  "unat (ucast (h :: uint16) :: uint32) = unat h"
  "unat (ucast (h :: uint16) :: uint64) = unat h"
  "unat (ucast (w :: uint32) :: uint64) = unat w"
  using unsigned_less [of b, where 'a = nat] unsigned_less [of h, where 'a = nat]
    unsigned_less [of w, where 'a = nat]
  by (simp_all add: unsigned_ucast_eq take_bit_nat_eq_self)

section \<open>Signed values\<close>

lemma sint_of_int_word:
  "- (2 ^ (LENGTH('a) - 1)) \<le> x \<Longrightarrow> x < 2 ^ (LENGTH('a) - 1) \<Longrightarrow>
   sint (word_of_int x :: 'a::len word) = x"
  by (simp only: sint_sbintrunc' signed_take_bit_int_eq_self_iff)

lemma sint_of_int32: "- (2 ^ 31) \<le> x \<Longrightarrow> x < 2 ^ 31 \<Longrightarrow> sint (word_of_int x :: int32) = x"
  using sint_of_int_word [of x, where 'a = 32] by simp

lemma sint_range32: "- (2 ^ 31) \<le> sint (w :: int32)" "sint (w :: int32) < 2 ^ 31"
  using sint_greater_eq [of w] sint_less [of w] by simp_all

lemma int_unat_sint: "0 \<le> sint (w :: int32) \<Longrightarrow> int (unat w) = sint w"
proof -
  assume a: "0 \<le> sint w"
  have "uint w = uint (word_of_int (sint w) :: int32)" by simp
  also have "\<dots> = sint w mod 2 ^ 32" unfolding uint_word_of_int by simp
  also have "\<dots> = sint w" using a sint_range32 [of w] by (intro mod_pos_pos_trivial) auto
  finally show ?thesis by simp
qed

lemma sint_minus_1:
  assumes "0 < sint (w :: int32)" shows "sint (w - 1) = sint w - 1"
proof -
  have w: "w - 1 = word_of_int (sint w - 1)" by simp
  show ?thesis
    unfolding w using assms sint_range32 [of w] by (intro sint_of_int32) linarith+
qed

section \<open>Truncating division\<close>

text \<open>
  C++ division and remainder of \<open>int32_t\<close> and \<open>int64_t\<close> round towards zero; the sources never
  divide by zero or divide the least value by -1 (both undefined in C++).
\<close>

definition c_div :: "'a::len word \<Rightarrow> 'a word \<Rightarrow> 'a word" where
  "c_div a b = word_of_int (sint a sdiv sint b)"

definition c_rem :: "'a::len word \<Rightarrow> 'a word \<Rightarrow> 'a word" where
  "c_rem a b = word_of_int (sint a smod sint b)"

section \<open>Stream codecs\<close>

text \<open>
  The contract of a variable length encoding: decoding a stream that starts with the encoding
  of a value returns the value and the rest of the stream.  Clients that store sequences of
  values one after another rely on nothing else.
\<close>

primrec decode_many ::
    "('b list \<Rightarrow> ('a \<times> 'b list) option) \<Rightarrow> nat \<Rightarrow> 'b list \<Rightarrow> ('a list \<times> 'b list) option" where
  "decode_many dec 0 data = Some ([], data)"
| "decode_many dec (Suc n) data = do {
     (v, data) \<leftarrow> dec data;
     (vs, data) \<leftarrow> decode_many dec n data;
     Some (v # vs, data)
   }"

locale codec =
  fixes enc :: "'a \<Rightarrow> 'b list"
    and dec :: "'b list \<Rightarrow> ('a \<times> 'b list) option"
  assumes decode_encode: "dec (enc v @ rest) = Some (v, rest)"
begin

lemma decode_many_encode:
  "decode_many dec (length vs) (concat (map enc vs) @ rest) = Some (vs, rest)"
  by (induction vs) (auto simp: decode_encode)

lemma prefix_free: "enc v @ r = enc w @ s \<Longrightarrow> v = w \<and> r = s"
  by (metis decode_encode option.inject prod.inject)

end

end
