(* ===== verification/Dex_Instruction_List.thy ===== *)
theory Dex_Instruction_List
  imports ART_Prelude
begin

text \<open>
  The dex instruction set: the enumerations of \<open>runtime/dex_instruction.h\<close> (opcodes, formats,
  index types, flags, verify flags) and the table of \<open>runtime/dex_instruction_list.h\<close>.  An opcode
  is the low byte of the first code unit, so \<open>Code\<close> is a byte and its enumerators are numerals.
  The result column of the table is used by no generated array and is left out.
\<close>

section \<open>Opcodes\<close>

type_synonym Code = uint8

abbreviation (input) NOP :: Code where "NOP \<equiv> 0x00"
abbreviation (input) MOVE :: Code where "MOVE \<equiv> 0x01"
abbreviation (input) MOVE_FROM16 :: Code where "MOVE_FROM16 \<equiv> 0x02"
abbreviation (input) MOVE_16 :: Code where "MOVE_16 \<equiv> 0x03"
abbreviation (input) MOVE_WIDE :: Code where "MOVE_WIDE \<equiv> 0x04"
abbreviation (input) MOVE_WIDE_FROM16 :: Code where "MOVE_WIDE_FROM16 \<equiv> 0x05"
abbreviation (input) MOVE_WIDE_16 :: Code where "MOVE_WIDE_16 \<equiv> 0x06"
abbreviation (input) MOVE_OBJECT :: Code where "MOVE_OBJECT \<equiv> 0x07"
abbreviation (input) MOVE_OBJECT_FROM16 :: Code where "MOVE_OBJECT_FROM16 \<equiv> 0x08"
abbreviation (input) MOVE_OBJECT_16 :: Code where "MOVE_OBJECT_16 \<equiv> 0x09"
abbreviation (input) MOVE_RESULT :: Code where "MOVE_RESULT \<equiv> 0x0A"
abbreviation (input) MOVE_RESULT_WIDE :: Code where "MOVE_RESULT_WIDE \<equiv> 0x0B"
abbreviation (input) MOVE_RESULT_OBJECT :: Code where "MOVE_RESULT_OBJECT \<equiv> 0x0C"
abbreviation (input) MOVE_EXCEPTION :: Code where "MOVE_EXCEPTION \<equiv> 0x0D"
abbreviation (input) RETURN_VOID :: Code where "RETURN_VOID \<equiv> 0x0E"
abbreviation (input) RETURN :: Code where "RETURN \<equiv> 0x0F"
abbreviation (input) RETURN_WIDE :: Code where "RETURN_WIDE \<equiv> 0x10"
abbreviation (input) RETURN_OBJECT :: Code where "RETURN_OBJECT \<equiv> 0x11"
abbreviation (input) CONST_4 :: Code where "CONST_4 \<equiv> 0x12"
abbreviation (input) CONST_16 :: Code where "CONST_16 \<equiv> 0x13"
abbreviation (input) CONST_op :: Code where "CONST_op \<equiv> 0x14"
abbreviation (input) CONST_HIGH16 :: Code where "CONST_HIGH16 \<equiv> 0x15"
abbreviation (input) CONST_WIDE_16 :: Code where "CONST_WIDE_16 \<equiv> 0x16"
abbreviation (input) CONST_WIDE_32 :: Code where "CONST_WIDE_32 \<equiv> 0x17"
abbreviation (input) CONST_WIDE :: Code where "CONST_WIDE \<equiv> 0x18"
abbreviation (input) CONST_WIDE_HIGH16 :: Code where "CONST_WIDE_HIGH16 \<equiv> 0x19"
abbreviation (input) CONST_STRING :: Code where "CONST_STRING \<equiv> 0x1A"
abbreviation (input) CONST_STRING_JUMBO :: Code where "CONST_STRING_JUMBO \<equiv> 0x1B"
abbreviation (input) CONST_CLASS :: Code where "CONST_CLASS \<equiv> 0x1C"
abbreviation (input) MONITOR_ENTER :: Code where "MONITOR_ENTER \<equiv> 0x1D"
abbreviation (input) MONITOR_EXIT :: Code where "MONITOR_EXIT \<equiv> 0x1E"
abbreviation (input) CHECK_CAST :: Code where "CHECK_CAST \<equiv> 0x1F"
abbreviation (input) INSTANCE_OF :: Code where "INSTANCE_OF \<equiv> 0x20"
abbreviation (input) ARRAY_LENGTH :: Code where "ARRAY_LENGTH \<equiv> 0x21"
abbreviation (input) NEW_INSTANCE :: Code where "NEW_INSTANCE \<equiv> 0x22"
abbreviation (input) NEW_ARRAY :: Code where "NEW_ARRAY \<equiv> 0x23"
abbreviation (input) FILLED_NEW_ARRAY :: Code where "FILLED_NEW_ARRAY \<equiv> 0x24"
abbreviation (input) FILLED_NEW_ARRAY_RANGE :: Code where "FILLED_NEW_ARRAY_RANGE \<equiv> 0x25"
abbreviation (input) FILL_ARRAY_DATA :: Code where "FILL_ARRAY_DATA \<equiv> 0x26"
abbreviation (input) THROW :: Code where "THROW \<equiv> 0x27"
abbreviation (input) GOTO :: Code where "GOTO \<equiv> 0x28"
abbreviation (input) GOTO_16 :: Code where "GOTO_16 \<equiv> 0x29"
abbreviation (input) GOTO_32 :: Code where "GOTO_32 \<equiv> 0x2A"
abbreviation (input) PACKED_SWITCH :: Code where "PACKED_SWITCH \<equiv> 0x2B"
abbreviation (input) SPARSE_SWITCH :: Code where "SPARSE_SWITCH \<equiv> 0x2C"
abbreviation (input) CMPL_FLOAT :: Code where "CMPL_FLOAT \<equiv> 0x2D"
abbreviation (input) CMPG_FLOAT :: Code where "CMPG_FLOAT \<equiv> 0x2E"
abbreviation (input) CMPL_DOUBLE :: Code where "CMPL_DOUBLE \<equiv> 0x2F"
abbreviation (input) CMPG_DOUBLE :: Code where "CMPG_DOUBLE \<equiv> 0x30"
abbreviation (input) CMP_LONG :: Code where "CMP_LONG \<equiv> 0x31"
abbreviation (input) IF_EQ :: Code where "IF_EQ \<equiv> 0x32"
abbreviation (input) IF_NE :: Code where "IF_NE \<equiv> 0x33"
abbreviation (input) IF_LT :: Code where "IF_LT \<equiv> 0x34"
abbreviation (input) IF_GE :: Code where "IF_GE \<equiv> 0x35"
abbreviation (input) IF_GT :: Code where "IF_GT \<equiv> 0x36"
abbreviation (input) IF_LE :: Code where "IF_LE \<equiv> 0x37"
abbreviation (input) IF_EQZ :: Code where "IF_EQZ \<equiv> 0x38"
abbreviation (input) IF_NEZ :: Code where "IF_NEZ \<equiv> 0x39"
abbreviation (input) IF_LTZ :: Code where "IF_LTZ \<equiv> 0x3A"
abbreviation (input) IF_GEZ :: Code where "IF_GEZ \<equiv> 0x3B"
abbreviation (input) IF_GTZ :: Code where "IF_GTZ \<equiv> 0x3C"
abbreviation (input) IF_LEZ :: Code where "IF_LEZ \<equiv> 0x3D"
abbreviation (input) UNUSED_3E :: Code where "UNUSED_3E \<equiv> 0x3E"
abbreviation (input) UNUSED_3F :: Code where "UNUSED_3F \<equiv> 0x3F"
abbreviation (input) UNUSED_40 :: Code where "UNUSED_40 \<equiv> 0x40"
abbreviation (input) UNUSED_41 :: Code where "UNUSED_41 \<equiv> 0x41"
abbreviation (input) UNUSED_42 :: Code where "UNUSED_42 \<equiv> 0x42"
abbreviation (input) UNUSED_43 :: Code where "UNUSED_43 \<equiv> 0x43"
abbreviation (input) AGET :: Code where "AGET \<equiv> 0x44"
abbreviation (input) AGET_WIDE :: Code where "AGET_WIDE \<equiv> 0x45"
abbreviation (input) AGET_OBJECT :: Code where "AGET_OBJECT \<equiv> 0x46"
abbreviation (input) AGET_BOOLEAN :: Code where "AGET_BOOLEAN \<equiv> 0x47"
abbreviation (input) AGET_BYTE :: Code where "AGET_BYTE \<equiv> 0x48"
abbreviation (input) AGET_CHAR :: Code where "AGET_CHAR \<equiv> 0x49"
abbreviation (input) AGET_SHORT :: Code where "AGET_SHORT \<equiv> 0x4A"
abbreviation (input) APUT :: Code where "APUT \<equiv> 0x4B"
abbreviation (input) APUT_WIDE :: Code where "APUT_WIDE \<equiv> 0x4C"
abbreviation (input) APUT_OBJECT :: Code where "APUT_OBJECT \<equiv> 0x4D"
abbreviation (input) APUT_BOOLEAN :: Code where "APUT_BOOLEAN \<equiv> 0x4E"
abbreviation (input) APUT_BYTE :: Code where "APUT_BYTE \<equiv> 0x4F"
abbreviation (input) APUT_CHAR :: Code where "APUT_CHAR \<equiv> 0x50"
abbreviation (input) APUT_SHORT :: Code where "APUT_SHORT \<equiv> 0x51"
abbreviation (input) IGET :: Code where "IGET \<equiv> 0x52"
abbreviation (input) IGET_WIDE :: Code where "IGET_WIDE \<equiv> 0x53"
abbreviation (input) IGET_OBJECT :: Code where "IGET_OBJECT \<equiv> 0x54"
abbreviation (input) IGET_BOOLEAN :: Code where "IGET_BOOLEAN \<equiv> 0x55"
abbreviation (input) IGET_BYTE :: Code where "IGET_BYTE \<equiv> 0x56"
abbreviation (input) IGET_CHAR :: Code where "IGET_CHAR \<equiv> 0x57"
abbreviation (input) IGET_SHORT :: Code where "IGET_SHORT \<equiv> 0x58"
abbreviation (input) IPUT :: Code where "IPUT \<equiv> 0x59"
abbreviation (input) IPUT_WIDE :: Code where "IPUT_WIDE \<equiv> 0x5A"
abbreviation (input) IPUT_OBJECT :: Code where "IPUT_OBJECT \<equiv> 0x5B"
abbreviation (input) IPUT_BOOLEAN :: Code where "IPUT_BOOLEAN \<equiv> 0x5C"
abbreviation (input) IPUT_BYTE :: Code where "IPUT_BYTE \<equiv> 0x5D"
abbreviation (input) IPUT_CHAR :: Code where "IPUT_CHAR \<equiv> 0x5E"
abbreviation (input) IPUT_SHORT :: Code where "IPUT_SHORT \<equiv> 0x5F"
abbreviation (input) SGET :: Code where "SGET \<equiv> 0x60"
abbreviation (input) SGET_WIDE :: Code where "SGET_WIDE \<equiv> 0x61"
abbreviation (input) SGET_OBJECT :: Code where "SGET_OBJECT \<equiv> 0x62"
abbreviation (input) SGET_BOOLEAN :: Code where "SGET_BOOLEAN \<equiv> 0x63"
abbreviation (input) SGET_BYTE :: Code where "SGET_BYTE \<equiv> 0x64"
abbreviation (input) SGET_CHAR :: Code where "SGET_CHAR \<equiv> 0x65"
abbreviation (input) SGET_SHORT :: Code where "SGET_SHORT \<equiv> 0x66"
abbreviation (input) SPUT :: Code where "SPUT \<equiv> 0x67"
abbreviation (input) SPUT_WIDE :: Code where "SPUT_WIDE \<equiv> 0x68"
abbreviation (input) SPUT_OBJECT :: Code where "SPUT_OBJECT \<equiv> 0x69"
abbreviation (input) SPUT_BOOLEAN :: Code where "SPUT_BOOLEAN \<equiv> 0x6A"
abbreviation (input) SPUT_BYTE :: Code where "SPUT_BYTE \<equiv> 0x6B"
abbreviation (input) SPUT_CHAR :: Code where "SPUT_CHAR \<equiv> 0x6C"
abbreviation (input) SPUT_SHORT :: Code where "SPUT_SHORT \<equiv> 0x6D"
abbreviation (input) INVOKE_VIRTUAL :: Code where "INVOKE_VIRTUAL \<equiv> 0x6E"
abbreviation (input) INVOKE_SUPER :: Code where "INVOKE_SUPER \<equiv> 0x6F"
abbreviation (input) INVOKE_DIRECT :: Code where "INVOKE_DIRECT \<equiv> 0x70"
abbreviation (input) INVOKE_STATIC :: Code where "INVOKE_STATIC \<equiv> 0x71"
abbreviation (input) INVOKE_INTERFACE :: Code where "INVOKE_INTERFACE \<equiv> 0x72"
abbreviation (input) RETURN_VOID_NO_BARRIER :: Code where "RETURN_VOID_NO_BARRIER \<equiv> 0x73"
abbreviation (input) INVOKE_VIRTUAL_RANGE :: Code where "INVOKE_VIRTUAL_RANGE \<equiv> 0x74"
abbreviation (input) INVOKE_SUPER_RANGE :: Code where "INVOKE_SUPER_RANGE \<equiv> 0x75"
abbreviation (input) INVOKE_DIRECT_RANGE :: Code where "INVOKE_DIRECT_RANGE \<equiv> 0x76"
abbreviation (input) INVOKE_STATIC_RANGE :: Code where "INVOKE_STATIC_RANGE \<equiv> 0x77"
abbreviation (input) INVOKE_INTERFACE_RANGE :: Code where "INVOKE_INTERFACE_RANGE \<equiv> 0x78"
abbreviation (input) UNUSED_79 :: Code where "UNUSED_79 \<equiv> 0x79"
abbreviation (input) UNUSED_7A :: Code where "UNUSED_7A \<equiv> 0x7A"
abbreviation (input) NEG_INT :: Code where "NEG_INT \<equiv> 0x7B"
abbreviation (input) NOT_INT :: Code where "NOT_INT \<equiv> 0x7C"
abbreviation (input) NEG_LONG :: Code where "NEG_LONG \<equiv> 0x7D"
abbreviation (input) NOT_LONG :: Code where "NOT_LONG \<equiv> 0x7E"
abbreviation (input) NEG_FLOAT :: Code where "NEG_FLOAT \<equiv> 0x7F"
abbreviation (input) NEG_DOUBLE :: Code where "NEG_DOUBLE \<equiv> 0x80"
abbreviation (input) INT_TO_LONG :: Code where "INT_TO_LONG \<equiv> 0x81"
abbreviation (input) INT_TO_FLOAT :: Code where "INT_TO_FLOAT \<equiv> 0x82"
abbreviation (input) INT_TO_DOUBLE :: Code where "INT_TO_DOUBLE \<equiv> 0x83"
abbreviation (input) LONG_TO_INT :: Code where "LONG_TO_INT \<equiv> 0x84"
abbreviation (input) LONG_TO_FLOAT :: Code where "LONG_TO_FLOAT \<equiv> 0x85"
abbreviation (input) LONG_TO_DOUBLE :: Code where "LONG_TO_DOUBLE \<equiv> 0x86"
abbreviation (input) FLOAT_TO_INT :: Code where "FLOAT_TO_INT \<equiv> 0x87"
abbreviation (input) FLOAT_TO_LONG :: Code where "FLOAT_TO_LONG \<equiv> 0x88"
abbreviation (input) FLOAT_TO_DOUBLE :: Code where "FLOAT_TO_DOUBLE \<equiv> 0x89"
abbreviation (input) DOUBLE_TO_INT :: Code where "DOUBLE_TO_INT \<equiv> 0x8A"
abbreviation (input) DOUBLE_TO_LONG :: Code where "DOUBLE_TO_LONG \<equiv> 0x8B"
abbreviation (input) DOUBLE_TO_FLOAT :: Code where "DOUBLE_TO_FLOAT \<equiv> 0x8C"
abbreviation (input) INT_TO_BYTE :: Code where "INT_TO_BYTE \<equiv> 0x8D"
abbreviation (input) INT_TO_CHAR :: Code where "INT_TO_CHAR \<equiv> 0x8E"
abbreviation (input) INT_TO_SHORT :: Code where "INT_TO_SHORT \<equiv> 0x8F"
abbreviation (input) ADD_INT :: Code where "ADD_INT \<equiv> 0x90"
abbreviation (input) SUB_INT :: Code where "SUB_INT \<equiv> 0x91"
abbreviation (input) MUL_INT :: Code where "MUL_INT \<equiv> 0x92"
abbreviation (input) DIV_INT :: Code where "DIV_INT \<equiv> 0x93"
abbreviation (input) REM_INT :: Code where "REM_INT \<equiv> 0x94"
abbreviation (input) AND_INT :: Code where "AND_INT \<equiv> 0x95"
abbreviation (input) OR_INT :: Code where "OR_INT \<equiv> 0x96"
abbreviation (input) XOR_INT :: Code where "XOR_INT \<equiv> 0x97"
abbreviation (input) SHL_INT :: Code where "SHL_INT \<equiv> 0x98"
abbreviation (input) SHR_INT :: Code where "SHR_INT \<equiv> 0x99"
abbreviation (input) USHR_INT :: Code where "USHR_INT \<equiv> 0x9A"
abbreviation (input) ADD_LONG :: Code where "ADD_LONG \<equiv> 0x9B"
abbreviation (input) SUB_LONG :: Code where "SUB_LONG \<equiv> 0x9C"
abbreviation (input) MUL_LONG :: Code where "MUL_LONG \<equiv> 0x9D"
abbreviation (input) DIV_LONG :: Code where "DIV_LONG \<equiv> 0x9E"
abbreviation (input) REM_LONG :: Code where "REM_LONG \<equiv> 0x9F"
abbreviation (input) AND_LONG :: Code where "AND_LONG \<equiv> 0xA0"
abbreviation (input) OR_LONG :: Code where "OR_LONG \<equiv> 0xA1"
abbreviation (input) XOR_LONG :: Code where "XOR_LONG \<equiv> 0xA2"
abbreviation (input) SHL_LONG :: Code where "SHL_LONG \<equiv> 0xA3"
abbreviation (input) SHR_LONG :: Code where "SHR_LONG \<equiv> 0xA4"
abbreviation (input) USHR_LONG :: Code where "USHR_LONG \<equiv> 0xA5"
abbreviation (input) ADD_FLOAT :: Code where "ADD_FLOAT \<equiv> 0xA6"
abbreviation (input) SUB_FLOAT :: Code where "SUB_FLOAT \<equiv> 0xA7"
abbreviation (input) MUL_FLOAT :: Code where "MUL_FLOAT \<equiv> 0xA8"
abbreviation (input) DIV_FLOAT :: Code where "DIV_FLOAT \<equiv> 0xA9"
abbreviation (input) REM_FLOAT :: Code where "REM_FLOAT \<equiv> 0xAA"
abbreviation (input) ADD_DOUBLE :: Code where "ADD_DOUBLE \<equiv> 0xAB"
abbreviation (input) SUB_DOUBLE :: Code where "SUB_DOUBLE \<equiv> 0xAC"
abbreviation (input) MUL_DOUBLE :: Code where "MUL_DOUBLE \<equiv> 0xAD"
abbreviation (input) DIV_DOUBLE :: Code where "DIV_DOUBLE \<equiv> 0xAE"
abbreviation (input) REM_DOUBLE :: Code where "REM_DOUBLE \<equiv> 0xAF"
abbreviation (input) ADD_INT_2ADDR :: Code where "ADD_INT_2ADDR \<equiv> 0xB0"
abbreviation (input) SUB_INT_2ADDR :: Code where "SUB_INT_2ADDR \<equiv> 0xB1"
abbreviation (input) MUL_INT_2ADDR :: Code where "MUL_INT_2ADDR \<equiv> 0xB2"
abbreviation (input) DIV_INT_2ADDR :: Code where "DIV_INT_2ADDR \<equiv> 0xB3"
abbreviation (input) REM_INT_2ADDR :: Code where "REM_INT_2ADDR \<equiv> 0xB4"
abbreviation (input) AND_INT_2ADDR :: Code where "AND_INT_2ADDR \<equiv> 0xB5"
abbreviation (input) OR_INT_2ADDR :: Code where "OR_INT_2ADDR \<equiv> 0xB6"
abbreviation (input) XOR_INT_2ADDR :: Code where "XOR_INT_2ADDR \<equiv> 0xB7"
abbreviation (input) SHL_INT_2ADDR :: Code where "SHL_INT_2ADDR \<equiv> 0xB8"
abbreviation (input) SHR_INT_2ADDR :: Code where "SHR_INT_2ADDR \<equiv> 0xB9"
abbreviation (input) USHR_INT_2ADDR :: Code where "USHR_INT_2ADDR \<equiv> 0xBA"
abbreviation (input) ADD_LONG_2ADDR :: Code where "ADD_LONG_2ADDR \<equiv> 0xBB"
abbreviation (input) SUB_LONG_2ADDR :: Code where "SUB_LONG_2ADDR \<equiv> 0xBC"
abbreviation (input) MUL_LONG_2ADDR :: Code where "MUL_LONG_2ADDR \<equiv> 0xBD"
abbreviation (input) DIV_LONG_2ADDR :: Code where "DIV_LONG_2ADDR \<equiv> 0xBE"
abbreviation (input) REM_LONG_2ADDR :: Code where "REM_LONG_2ADDR \<equiv> 0xBF"
abbreviation (input) AND_LONG_2ADDR :: Code where "AND_LONG_2ADDR \<equiv> 0xC0"
abbreviation (input) OR_LONG_2ADDR :: Code where "OR_LONG_2ADDR \<equiv> 0xC1"
abbreviation (input) XOR_LONG_2ADDR :: Code where "XOR_LONG_2ADDR \<equiv> 0xC2"
abbreviation (input) SHL_LONG_2ADDR :: Code where "SHL_LONG_2ADDR \<equiv> 0xC3"
abbreviation (input) SHR_LONG_2ADDR :: Code where "SHR_LONG_2ADDR \<equiv> 0xC4"
abbreviation (input) USHR_LONG_2ADDR :: Code where "USHR_LONG_2ADDR \<equiv> 0xC5"
abbreviation (input) ADD_FLOAT_2ADDR :: Code where "ADD_FLOAT_2ADDR \<equiv> 0xC6"
abbreviation (input) SUB_FLOAT_2ADDR :: Code where "SUB_FLOAT_2ADDR \<equiv> 0xC7"
abbreviation (input) MUL_FLOAT_2ADDR :: Code where "MUL_FLOAT_2ADDR \<equiv> 0xC8"
abbreviation (input) DIV_FLOAT_2ADDR :: Code where "DIV_FLOAT_2ADDR \<equiv> 0xC9"
abbreviation (input) REM_FLOAT_2ADDR :: Code where "REM_FLOAT_2ADDR \<equiv> 0xCA"
abbreviation (input) ADD_DOUBLE_2ADDR :: Code where "ADD_DOUBLE_2ADDR \<equiv> 0xCB"
abbreviation (input) SUB_DOUBLE_2ADDR :: Code where "SUB_DOUBLE_2ADDR \<equiv> 0xCC"
abbreviation (input) MUL_DOUBLE_2ADDR :: Code where "MUL_DOUBLE_2ADDR \<equiv> 0xCD"
abbreviation (input) DIV_DOUBLE_2ADDR :: Code where "DIV_DOUBLE_2ADDR \<equiv> 0xCE"
abbreviation (input) REM_DOUBLE_2ADDR :: Code where "REM_DOUBLE_2ADDR \<equiv> 0xCF"
abbreviation (input) ADD_INT_LIT16 :: Code where "ADD_INT_LIT16 \<equiv> 0xD0"
abbreviation (input) RSUB_INT :: Code where "RSUB_INT \<equiv> 0xD1"
abbreviation (input) MUL_INT_LIT16 :: Code where "MUL_INT_LIT16 \<equiv> 0xD2"
abbreviation (input) DIV_INT_LIT16 :: Code where "DIV_INT_LIT16 \<equiv> 0xD3"
abbreviation (input) REM_INT_LIT16 :: Code where "REM_INT_LIT16 \<equiv> 0xD4"
abbreviation (input) AND_INT_LIT16 :: Code where "AND_INT_LIT16 \<equiv> 0xD5"
abbreviation (input) OR_INT_LIT16 :: Code where "OR_INT_LIT16 \<equiv> 0xD6"
abbreviation (input) XOR_INT_LIT16 :: Code where "XOR_INT_LIT16 \<equiv> 0xD7"
abbreviation (input) ADD_INT_LIT8 :: Code where "ADD_INT_LIT8 \<equiv> 0xD8"
abbreviation (input) RSUB_INT_LIT8 :: Code where "RSUB_INT_LIT8 \<equiv> 0xD9"
abbreviation (input) MUL_INT_LIT8 :: Code where "MUL_INT_LIT8 \<equiv> 0xDA"
abbreviation (input) DIV_INT_LIT8 :: Code where "DIV_INT_LIT8 \<equiv> 0xDB"
abbreviation (input) REM_INT_LIT8 :: Code where "REM_INT_LIT8 \<equiv> 0xDC"
abbreviation (input) AND_INT_LIT8 :: Code where "AND_INT_LIT8 \<equiv> 0xDD"
abbreviation (input) OR_INT_LIT8 :: Code where "OR_INT_LIT8 \<equiv> 0xDE"
abbreviation (input) XOR_INT_LIT8 :: Code where "XOR_INT_LIT8 \<equiv> 0xDF"
abbreviation (input) SHL_INT_LIT8 :: Code where "SHL_INT_LIT8 \<equiv> 0xE0"
abbreviation (input) SHR_INT_LIT8 :: Code where "SHR_INT_LIT8 \<equiv> 0xE1"
abbreviation (input) USHR_INT_LIT8 :: Code where "USHR_INT_LIT8 \<equiv> 0xE2"
abbreviation (input) IGET_QUICK :: Code where "IGET_QUICK \<equiv> 0xE3"
abbreviation (input) IGET_WIDE_QUICK :: Code where "IGET_WIDE_QUICK \<equiv> 0xE4"
abbreviation (input) IGET_OBJECT_QUICK :: Code where "IGET_OBJECT_QUICK \<equiv> 0xE5"
abbreviation (input) IPUT_QUICK :: Code where "IPUT_QUICK \<equiv> 0xE6"
abbreviation (input) IPUT_WIDE_QUICK :: Code where "IPUT_WIDE_QUICK \<equiv> 0xE7"
abbreviation (input) IPUT_OBJECT_QUICK :: Code where "IPUT_OBJECT_QUICK \<equiv> 0xE8"
abbreviation (input) INVOKE_VIRTUAL_QUICK :: Code where "INVOKE_VIRTUAL_QUICK \<equiv> 0xE9"
abbreviation (input) INVOKE_VIRTUAL_RANGE_QUICK :: Code where "INVOKE_VIRTUAL_RANGE_QUICK \<equiv> 0xEA"
abbreviation (input) IPUT_BOOLEAN_QUICK :: Code where "IPUT_BOOLEAN_QUICK \<equiv> 0xEB"
abbreviation (input) IPUT_BYTE_QUICK :: Code where "IPUT_BYTE_QUICK \<equiv> 0xEC"
abbreviation (input) IPUT_CHAR_QUICK :: Code where "IPUT_CHAR_QUICK \<equiv> 0xED"
abbreviation (input) IPUT_SHORT_QUICK :: Code where "IPUT_SHORT_QUICK \<equiv> 0xEE"
abbreviation (input) IGET_BOOLEAN_QUICK :: Code where "IGET_BOOLEAN_QUICK \<equiv> 0xEF"
abbreviation (input) IGET_BYTE_QUICK :: Code where "IGET_BYTE_QUICK \<equiv> 0xF0"
abbreviation (input) IGET_CHAR_QUICK :: Code where "IGET_CHAR_QUICK \<equiv> 0xF1"
abbreviation (input) IGET_SHORT_QUICK :: Code where "IGET_SHORT_QUICK \<equiv> 0xF2"
abbreviation (input) INVOKE_LAMBDA :: Code where "INVOKE_LAMBDA \<equiv> 0xF3"
abbreviation (input) UNUSED_F4 :: Code where "UNUSED_F4 \<equiv> 0xF4"
abbreviation (input) CAPTURE_VARIABLE :: Code where "CAPTURE_VARIABLE \<equiv> 0xF5"
abbreviation (input) CREATE_LAMBDA :: Code where "CREATE_LAMBDA \<equiv> 0xF6"
abbreviation (input) LIBERATE_VARIABLE :: Code where "LIBERATE_VARIABLE \<equiv> 0xF7"
abbreviation (input) BOX_LAMBDA :: Code where "BOX_LAMBDA \<equiv> 0xF8"
abbreviation (input) UNBOX_LAMBDA :: Code where "UNBOX_LAMBDA \<equiv> 0xF9"
abbreviation (input) UNUSED_FA :: Code where "UNUSED_FA \<equiv> 0xFA"
abbreviation (input) UNUSED_FB :: Code where "UNUSED_FB \<equiv> 0xFB"
abbreviation (input) UNUSED_FC :: Code where "UNUSED_FC \<equiv> 0xFC"
abbreviation (input) UNUSED_FD :: Code where "UNUSED_FD \<equiv> 0xFD"
abbreviation (input) UNUSED_FE :: Code where "UNUSED_FE \<equiv> 0xFE"
abbreviation (input) UNUSED_FF :: Code where "UNUSED_FF \<equiv> 0xFF"

section \<open>Formats and index types\<close>

datatype Format =
    k10x | k12x | k11n | k11x | k10t | k20t | k22x | k21t | k21s
  | k21h | k21c | k23x | k22b | k22t | k22s | k22c | k25x | k32x
  | k30t | k31t | k31i | k31c | k35c | k3rc | k51l

text \<open>The numeric value of an enumerator, which the comparisons of formats use.\<close>

primrec format_value :: "Format \<Rightarrow> nat" where
  "format_value k10x = 0"
| "format_value k12x = 1"
| "format_value k11n = 2"
| "format_value k11x = 3"
| "format_value k10t = 4"
| "format_value k20t = 5"
| "format_value k22x = 6"
| "format_value k21t = 7"
| "format_value k21s = 8"
| "format_value k21h = 9"
| "format_value k21c = 10"
| "format_value k23x = 11"
| "format_value k22b = 12"
| "format_value k22t = 13"
| "format_value k22s = 14"
| "format_value k22c = 15"
| "format_value k25x = 16"
| "format_value k32x = 17"
| "format_value k30t = 18"
| "format_value k31t = 19"
| "format_value k31i = 20"
| "format_value k31c = 21"
| "format_value k35c = 22"
| "format_value k3rc = 23"
| "format_value k51l = 24"

instantiation Format :: linorder
begin

definition less_eq_Format :: "Format \<Rightarrow> Format \<Rightarrow> bool" where
  "less_eq_Format x y = (format_value x \<le> format_value y)"

definition less_Format :: "Format \<Rightarrow> Format \<Rightarrow> bool" where
  "less_Format x y = (format_value x < format_value y)"

instance
proof
  fix x y :: Format
  show "x = y" if "x \<le> y" "y \<le> x"
  proof -
    have "format_value x = format_value y" using that by (simp add: less_eq_Format_def)
    then show ?thesis by (cases x; cases y) simp_all
  qed
qed (auto simp: less_eq_Format_def less_Format_def)

end

datatype IndexType =
    kIndexUnknown | kIndexNone | kIndexTypeRef | kIndexStringRef | kIndexMethodRef
  | kIndexFieldRef | kIndexFieldOffset | kIndexVtableOffset

section \<open>Flags\<close>

abbreviation (input) kBranch :: uint32 where "kBranch \<equiv> 0x1"
abbreviation (input) kContinue :: uint32 where "kContinue \<equiv> 0x2"
abbreviation (input) kSwitch :: uint32 where "kSwitch \<equiv> 0x4"
abbreviation (input) kThrow :: uint32 where "kThrow \<equiv> 0x8"
abbreviation (input) kReturn :: uint32 where "kReturn \<equiv> 0x10"
abbreviation (input) kInvoke :: uint32 where "kInvoke \<equiv> 0x20"
abbreviation (input) kUnconditional :: uint32 where "kUnconditional \<equiv> 0x40"
abbreviation (input) kAdd :: uint32 where "kAdd \<equiv> 0x80"
abbreviation (input) kSubtract :: uint32 where "kSubtract \<equiv> 0x100"
abbreviation (input) kMultiply :: uint32 where "kMultiply \<equiv> 0x200"
abbreviation (input) kDivide :: uint32 where "kDivide \<equiv> 0x400"
abbreviation (input) kRemainder :: uint32 where "kRemainder \<equiv> 0x800"
abbreviation (input) kAnd :: uint32 where "kAnd \<equiv> 0x1000"
abbreviation (input) kOr :: uint32 where "kOr \<equiv> 0x2000"
abbreviation (input) kXor :: uint32 where "kXor \<equiv> 0x4000"
abbreviation (input) kShl :: uint32 where "kShl \<equiv> 0x8000"
abbreviation (input) kShr :: uint32 where "kShr \<equiv> 0x10000"
abbreviation (input) kUshr :: uint32 where "kUshr \<equiv> 0x20000"
abbreviation (input) kCast :: uint32 where "kCast \<equiv> 0x40000"
abbreviation (input) kStore :: uint32 where "kStore \<equiv> 0x80000"
abbreviation (input) kLoad :: uint32 where "kLoad \<equiv> 0x100000"
abbreviation (input) kClobber :: uint32 where "kClobber \<equiv> 0x200000"
abbreviation (input) kRegCFieldOrConstant :: uint32 where "kRegCFieldOrConstant \<equiv> 0x400000"
abbreviation (input) kRegBFieldOrConstant :: uint32 where "kRegBFieldOrConstant \<equiv> 0x800000"
abbreviation (input) kExperimental :: uint32 where "kExperimental \<equiv> 0x1000000"

section \<open>Verify flags\<close>

abbreviation (input) kVerifyNone :: uint32 where "kVerifyNone \<equiv> 0x0"
abbreviation (input) kVerifyRegA :: uint32 where "kVerifyRegA \<equiv> 0x1"
abbreviation (input) kVerifyRegAWide :: uint32 where "kVerifyRegAWide \<equiv> 0x2"
abbreviation (input) kVerifyRegB :: uint32 where "kVerifyRegB \<equiv> 0x4"
abbreviation (input) kVerifyRegBField :: uint32 where "kVerifyRegBField \<equiv> 0x8"
abbreviation (input) kVerifyRegBMethod :: uint32 where "kVerifyRegBMethod \<equiv> 0x10"
abbreviation (input) kVerifyRegBNewInstance :: uint32 where "kVerifyRegBNewInstance \<equiv> 0x20"
abbreviation (input) kVerifyRegBString :: uint32 where "kVerifyRegBString \<equiv> 0x40"
abbreviation (input) kVerifyRegBType :: uint32 where "kVerifyRegBType \<equiv> 0x80"
abbreviation (input) kVerifyRegBWide :: uint32 where "kVerifyRegBWide \<equiv> 0x100"
abbreviation (input) kVerifyRegC :: uint32 where "kVerifyRegC \<equiv> 0x200"
abbreviation (input) kVerifyRegCField :: uint32 where "kVerifyRegCField \<equiv> 0x400"
abbreviation (input) kVerifyRegCNewArray :: uint32 where "kVerifyRegCNewArray \<equiv> 0x800"
abbreviation (input) kVerifyRegCType :: uint32 where "kVerifyRegCType \<equiv> 0x1000"
abbreviation (input) kVerifyRegCWide :: uint32 where "kVerifyRegCWide \<equiv> 0x2000"
abbreviation (input) kVerifyArrayData :: uint32 where "kVerifyArrayData \<equiv> 0x4000"
abbreviation (input) kVerifyBranchTarget :: uint32 where "kVerifyBranchTarget \<equiv> 0x8000"
abbreviation (input) kVerifySwitchTargets :: uint32 where "kVerifySwitchTargets \<equiv> 0x10000"
abbreviation (input) kVerifyVarArg :: uint32 where "kVerifyVarArg \<equiv> 0x20000"
abbreviation (input) kVerifyVarArgNonZero :: uint32 where "kVerifyVarArgNonZero \<equiv> 0x40000"
abbreviation (input) kVerifyVarArgRange :: uint32 where "kVerifyVarArgRange \<equiv> 0x80000"
abbreviation (input) kVerifyVarArgRangeNonZero :: uint32 where "kVerifyVarArgRangeNonZero \<equiv> 0x100000"
abbreviation (input) kVerifyRuntimeOnly :: uint32 where "kVerifyRuntimeOnly \<equiv> 0x200000"
abbreviation (input) kVerifyError :: uint32 where "kVerifyError \<equiv> 0x400000"
abbreviation (input) kVerifyRegCString :: uint32 where "kVerifyRegCString \<equiv> 0x800000"

section \<open>The table\<close>

datatype insn_row =
  V (row_opcode: Code) (row_name: string) (row_format: Format) (row_index: IndexType)
    (row_flags: uint32) (row_verify: uint32)

definition dex_instruction_list_lo :: "insn_row list" where
  "dex_instruction_list_lo = [
     V NOP ''nop'' k10x kIndexNone kContinue kVerifyNone,
     V MOVE ''move'' k12x kIndexNone kContinue (kVerifyRegA OR kVerifyRegB),
     V MOVE_FROM16 ''move/from16'' k22x kIndexNone kContinue (kVerifyRegA OR kVerifyRegB),
     V MOVE_16 ''move/16'' k32x kIndexNone kContinue (kVerifyRegA OR kVerifyRegB),
     V MOVE_WIDE ''move-wide'' k12x kIndexNone kContinue (kVerifyRegAWide OR kVerifyRegBWide),
     V MOVE_WIDE_FROM16 ''move-wide/from16'' k22x kIndexNone kContinue (kVerifyRegAWide OR kVerifyRegBWide),
     V MOVE_WIDE_16 ''move-wide/16'' k32x kIndexNone kContinue (kVerifyRegAWide OR kVerifyRegBWide),
     V MOVE_OBJECT ''move-object'' k12x kIndexNone kContinue (kVerifyRegA OR kVerifyRegB),
     V MOVE_OBJECT_FROM16 ''move-object/from16'' k22x kIndexNone kContinue (kVerifyRegA OR kVerifyRegB),
     V MOVE_OBJECT_16 ''move-object/16'' k32x kIndexNone kContinue (kVerifyRegA OR kVerifyRegB),
     V MOVE_RESULT ''move-result'' k11x kIndexNone kContinue kVerifyRegA,
     V MOVE_RESULT_WIDE ''move-result-wide'' k11x kIndexNone kContinue kVerifyRegAWide,
     V MOVE_RESULT_OBJECT ''move-result-object'' k11x kIndexNone kContinue kVerifyRegA,
     V MOVE_EXCEPTION ''move-exception'' k11x kIndexNone kContinue kVerifyRegA,
     V RETURN_VOID ''return-void'' k10x kIndexNone kReturn kVerifyNone,
     V RETURN ''return'' k11x kIndexNone kReturn kVerifyRegA,
     V RETURN_WIDE ''return-wide'' k11x kIndexNone kReturn kVerifyRegAWide,
     V RETURN_OBJECT ''return-object'' k11x kIndexNone kReturn kVerifyRegA,
     V CONST_4 ''const/4'' k11n kIndexNone (kContinue OR kRegBFieldOrConstant) kVerifyRegA,
     V CONST_16 ''const/16'' k21s kIndexNone (kContinue OR kRegBFieldOrConstant) kVerifyRegA,
     V CONST_op ''const'' k31i kIndexNone (kContinue OR kRegBFieldOrConstant) kVerifyRegA,
     V CONST_HIGH16 ''const/high16'' k21h kIndexNone (kContinue OR kRegBFieldOrConstant) kVerifyRegA,
     V CONST_WIDE_16 ''const-wide/16'' k21s kIndexNone (kContinue OR kRegBFieldOrConstant) kVerifyRegAWide,
     V CONST_WIDE_32 ''const-wide/32'' k31i kIndexNone (kContinue OR kRegBFieldOrConstant) kVerifyRegAWide,
     V CONST_WIDE ''const-wide'' k51l kIndexNone (kContinue OR kRegBFieldOrConstant) kVerifyRegAWide,
     V CONST_WIDE_HIGH16 ''const-wide/high16'' k21h kIndexNone (kContinue OR kRegBFieldOrConstant) kVerifyRegAWide,
     V CONST_STRING ''const-string'' k21c kIndexStringRef (kContinue OR kThrow) (kVerifyRegA OR kVerifyRegBString),
     V CONST_STRING_JUMBO ''const-string/jumbo'' k31c kIndexStringRef (kContinue OR kThrow) (kVerifyRegA OR kVerifyRegBString),
     V CONST_CLASS ''const-class'' k21c kIndexTypeRef (kContinue OR kThrow) (kVerifyRegA OR kVerifyRegBType),
     V MONITOR_ENTER ''monitor-enter'' k11x kIndexNone (kContinue OR kThrow OR kClobber) kVerifyRegA,
     V MONITOR_EXIT ''monitor-exit'' k11x kIndexNone (kContinue OR kThrow OR kClobber) kVerifyRegA,
     V CHECK_CAST ''check-cast'' k21c kIndexTypeRef (kContinue OR kThrow) (kVerifyRegA OR kVerifyRegBType),
     V INSTANCE_OF ''instance-of'' k22c kIndexTypeRef (kContinue OR kThrow) (kVerifyRegA OR kVerifyRegB OR kVerifyRegCType),
     V ARRAY_LENGTH ''array-length'' k12x kIndexNone (kContinue OR kThrow) (kVerifyRegA OR kVerifyRegB),
     V NEW_INSTANCE ''new-instance'' k21c kIndexTypeRef (kContinue OR kThrow OR kClobber) (kVerifyRegA OR kVerifyRegBNewInstance),
     V NEW_ARRAY ''new-array'' k22c kIndexTypeRef (kContinue OR kThrow OR kClobber) (kVerifyRegA OR kVerifyRegB OR kVerifyRegCNewArray),
     V FILLED_NEW_ARRAY ''filled-new-array'' k35c kIndexTypeRef (kContinue OR kThrow OR kClobber) (kVerifyRegBType OR kVerifyVarArg),
     V FILLED_NEW_ARRAY_RANGE ''filled-new-array/range'' k3rc kIndexTypeRef (kContinue OR kThrow OR kClobber) (kVerifyRegBType OR kVerifyVarArgRange),
     V FILL_ARRAY_DATA ''fill-array-data'' k31t kIndexNone (kContinue OR kThrow OR kClobber) (kVerifyRegA OR kVerifyArrayData),
     V THROW ''throw'' k11x kIndexNone kThrow kVerifyRegA,
     V GOTO ''goto'' k10t kIndexNone (kBranch OR kUnconditional) kVerifyBranchTarget,
     V GOTO_16 ''goto/16'' k20t kIndexNone (kBranch OR kUnconditional) kVerifyBranchTarget,
     V GOTO_32 ''goto/32'' k30t kIndexNone (kBranch OR kUnconditional) kVerifyBranchTarget,
     V PACKED_SWITCH ''packed-switch'' k31t kIndexNone (kContinue OR kSwitch) (kVerifyRegA OR kVerifySwitchTargets),
     V SPARSE_SWITCH ''sparse-switch'' k31t kIndexNone (kContinue OR kSwitch) (kVerifyRegA OR kVerifySwitchTargets),
     V CMPL_FLOAT ''cmpl-float'' k23x kIndexNone kContinue (kVerifyRegA OR kVerifyRegB OR kVerifyRegC),
     V CMPG_FLOAT ''cmpg-float'' k23x kIndexNone kContinue (kVerifyRegA OR kVerifyRegB OR kVerifyRegC),
     V CMPL_DOUBLE ''cmpl-double'' k23x kIndexNone kContinue (kVerifyRegA OR kVerifyRegBWide OR kVerifyRegCWide),
     V CMPG_DOUBLE ''cmpg-double'' k23x kIndexNone kContinue (kVerifyRegA OR kVerifyRegBWide OR kVerifyRegCWide),
     V CMP_LONG ''cmp-long'' k23x kIndexNone kContinue (kVerifyRegA OR kVerifyRegBWide OR kVerifyRegCWide),
     V IF_EQ ''if-eq'' k22t kIndexNone (kContinue OR kBranch) (kVerifyRegA OR kVerifyRegB OR kVerifyBranchTarget),
     V IF_NE ''if-ne'' k22t kIndexNone (kContinue OR kBranch) (kVerifyRegA OR kVerifyRegB OR kVerifyBranchTarget),
     V IF_LT ''if-lt'' k22t kIndexNone (kContinue OR kBranch) (kVerifyRegA OR kVerifyRegB OR kVerifyBranchTarget),
     V IF_GE ''if-ge'' k22t kIndexNone (kContinue OR kBranch) (kVerifyRegA OR kVerifyRegB OR kVerifyBranchTarget),
     V IF_GT ''if-gt'' k22t kIndexNone (kContinue OR kBranch) (kVerifyRegA OR kVerifyRegB OR kVerifyBranchTarget),
     V IF_LE ''if-le'' k22t kIndexNone (kContinue OR kBranch) (kVerifyRegA OR kVerifyRegB OR kVerifyBranchTarget),
     V IF_EQZ ''if-eqz'' k21t kIndexNone (kContinue OR kBranch) (kVerifyRegA OR kVerifyBranchTarget),
     V IF_NEZ ''if-nez'' k21t kIndexNone (kContinue OR kBranch) (kVerifyRegA OR kVerifyBranchTarget),
     V IF_LTZ ''if-ltz'' k21t kIndexNone (kContinue OR kBranch) (kVerifyRegA OR kVerifyBranchTarget),
     V IF_GEZ ''if-gez'' k21t kIndexNone (kContinue OR kBranch) (kVerifyRegA OR kVerifyBranchTarget),
     V IF_GTZ ''if-gtz'' k21t kIndexNone (kContinue OR kBranch) (kVerifyRegA OR kVerifyBranchTarget),
     V IF_LEZ ''if-lez'' k21t kIndexNone (kContinue OR kBranch) (kVerifyRegA OR kVerifyBranchTarget),
     V UNUSED_3E ''unused-3e'' k10x kIndexUnknown 0 kVerifyError,
     V UNUSED_3F ''unused-3f'' k10x kIndexUnknown 0 kVerifyError,
     V UNUSED_40 ''unused-40'' k10x kIndexUnknown 0 kVerifyError,
     V UNUSED_41 ''unused-41'' k10x kIndexUnknown 0 kVerifyError,
     V UNUSED_42 ''unused-42'' k10x kIndexUnknown 0 kVerifyError,
     V UNUSED_43 ''unused-43'' k10x kIndexUnknown 0 kVerifyError,
     V AGET ''aget'' k23x kIndexNone (kContinue OR kThrow OR kLoad) (kVerifyRegA OR kVerifyRegB OR kVerifyRegC),
     V AGET_WIDE ''aget-wide'' k23x kIndexNone (kContinue OR kThrow OR kLoad) (kVerifyRegAWide OR kVerifyRegB OR kVerifyRegC),
     V AGET_OBJECT ''aget-object'' k23x kIndexNone (kContinue OR kThrow OR kLoad) (kVerifyRegA OR kVerifyRegB OR kVerifyRegC),
     V AGET_BOOLEAN ''aget-boolean'' k23x kIndexNone (kContinue OR kThrow OR kLoad) (kVerifyRegA OR kVerifyRegB OR kVerifyRegC),
     V AGET_BYTE ''aget-byte'' k23x kIndexNone (kContinue OR kThrow OR kLoad) (kVerifyRegA OR kVerifyRegB OR kVerifyRegC),
     V AGET_CHAR ''aget-char'' k23x kIndexNone (kContinue OR kThrow OR kLoad) (kVerifyRegA OR kVerifyRegB OR kVerifyRegC),
     V AGET_SHORT ''aget-short'' k23x kIndexNone (kContinue OR kThrow OR kLoad) (kVerifyRegA OR kVerifyRegB OR kVerifyRegC),
     V APUT ''aput'' k23x kIndexNone (kContinue OR kThrow OR kStore) (kVerifyRegA OR kVerifyRegB OR kVerifyRegC),
     V APUT_WIDE ''aput-wide'' k23x kIndexNone (kContinue OR kThrow OR kStore) (kVerifyRegAWide OR kVerifyRegB OR kVerifyRegC),
     V APUT_OBJECT ''aput-object'' k23x kIndexNone (kContinue OR kThrow OR kStore) (kVerifyRegA OR kVerifyRegB OR kVerifyRegC),
     V APUT_BOOLEAN ''aput-boolean'' k23x kIndexNone (kContinue OR kThrow OR kStore) (kVerifyRegA OR kVerifyRegB OR kVerifyRegC),
     V APUT_BYTE ''aput-byte'' k23x kIndexNone (kContinue OR kThrow OR kStore) (kVerifyRegA OR kVerifyRegB OR kVerifyRegC),
     V APUT_CHAR ''aput-char'' k23x kIndexNone (kContinue OR kThrow OR kStore) (kVerifyRegA OR kVerifyRegB OR kVerifyRegC),
     V APUT_SHORT ''aput-short'' k23x kIndexNone (kContinue OR kThrow OR kStore) (kVerifyRegA OR kVerifyRegB OR kVerifyRegC),
     V IGET ''iget'' k22c kIndexFieldRef (kContinue OR kThrow OR kLoad OR kRegCFieldOrConstant) (kVerifyRegA OR kVerifyRegB OR kVerifyRegCField),
     V IGET_WIDE ''iget-wide'' k22c kIndexFieldRef (kContinue OR kThrow OR kLoad OR kRegCFieldOrConstant) (kVerifyRegAWide OR kVerifyRegB OR kVerifyRegCField),
     V IGET_OBJECT ''iget-object'' k22c kIndexFieldRef (kContinue OR kThrow OR kLoad OR kRegCFieldOrConstant) (kVerifyRegA OR kVerifyRegB OR kVerifyRegCField),
     V IGET_BOOLEAN ''iget-boolean'' k22c kIndexFieldRef (kContinue OR kThrow OR kLoad OR kRegCFieldOrConstant) (kVerifyRegA OR kVerifyRegB OR kVerifyRegCField),
     V IGET_BYTE ''iget-byte'' k22c kIndexFieldRef (kContinue OR kThrow OR kLoad OR kRegCFieldOrConstant) (kVerifyRegA OR kVerifyRegB OR kVerifyRegCField),
     V IGET_CHAR ''iget-char'' k22c kIndexFieldRef (kContinue OR kThrow OR kLoad OR kRegCFieldOrConstant) (kVerifyRegA OR kVerifyRegB OR kVerifyRegCField),
     V IGET_SHORT ''iget-short'' k22c kIndexFieldRef (kContinue OR kThrow OR kLoad OR kRegCFieldOrConstant) (kVerifyRegA OR kVerifyRegB OR kVerifyRegCField),
     V IPUT ''iput'' k22c kIndexFieldRef (kContinue OR kThrow OR kStore OR kRegCFieldOrConstant) (kVerifyRegA OR kVerifyRegB OR kVerifyRegCField),
     V IPUT_WIDE ''iput-wide'' k22c kIndexFieldRef (kContinue OR kThrow OR kStore OR kRegCFieldOrConstant) (kVerifyRegAWide OR kVerifyRegB OR kVerifyRegCField),
     V IPUT_OBJECT ''iput-object'' k22c kIndexFieldRef (kContinue OR kThrow OR kStore OR kRegCFieldOrConstant) (kVerifyRegA OR kVerifyRegB OR kVerifyRegCField),
     V IPUT_BOOLEAN ''iput-boolean'' k22c kIndexFieldRef (kContinue OR kThrow OR kStore OR kRegCFieldOrConstant) (kVerifyRegA OR kVerifyRegB OR kVerifyRegCField),
     V IPUT_BYTE ''iput-byte'' k22c kIndexFieldRef (kContinue OR kThrow OR kStore OR kRegCFieldOrConstant) (kVerifyRegA OR kVerifyRegB OR kVerifyRegCField),
     V IPUT_CHAR ''iput-char'' k22c kIndexFieldRef (kContinue OR kThrow OR kStore OR kRegCFieldOrConstant) (kVerifyRegA OR kVerifyRegB OR kVerifyRegCField),
     V IPUT_SHORT ''iput-short'' k22c kIndexFieldRef (kContinue OR kThrow OR kStore OR kRegCFieldOrConstant) (kVerifyRegA OR kVerifyRegB OR kVerifyRegCField),
     V SGET ''sget'' k21c kIndexFieldRef (kContinue OR kThrow OR kLoad OR kRegBFieldOrConstant) (kVerifyRegA OR kVerifyRegBField),
     V SGET_WIDE ''sget-wide'' k21c kIndexFieldRef (kContinue OR kThrow OR kLoad OR kRegBFieldOrConstant) (kVerifyRegAWide OR kVerifyRegBField),
     V SGET_OBJECT ''sget-object'' k21c kIndexFieldRef (kContinue OR kThrow OR kLoad OR kRegBFieldOrConstant) (kVerifyRegA OR kVerifyRegBField),
     V SGET_BOOLEAN ''sget-boolean'' k21c kIndexFieldRef (kContinue OR kThrow OR kLoad OR kRegBFieldOrConstant) (kVerifyRegA OR kVerifyRegBField),
     V SGET_BYTE ''sget-byte'' k21c kIndexFieldRef (kContinue OR kThrow OR kLoad OR kRegBFieldOrConstant) (kVerifyRegA OR kVerifyRegBField),
     V SGET_CHAR ''sget-char'' k21c kIndexFieldRef (kContinue OR kThrow OR kLoad OR kRegBFieldOrConstant) (kVerifyRegA OR kVerifyRegBField),
     V SGET_SHORT ''sget-short'' k21c kIndexFieldRef (kContinue OR kThrow OR kLoad OR kRegBFieldOrConstant) (kVerifyRegA OR kVerifyRegBField),
     V SPUT ''sput'' k21c kIndexFieldRef (kContinue OR kThrow OR kStore OR kRegBFieldOrConstant) (kVerifyRegA OR kVerifyRegBField),
     V SPUT_WIDE ''sput-wide'' k21c kIndexFieldRef (kContinue OR kThrow OR kStore OR kRegBFieldOrConstant) (kVerifyRegAWide OR kVerifyRegBField),
     V SPUT_OBJECT ''sput-object'' k21c kIndexFieldRef (kContinue OR kThrow OR kStore OR kRegBFieldOrConstant) (kVerifyRegA OR kVerifyRegBField),
     V SPUT_BOOLEAN ''sput-boolean'' k21c kIndexFieldRef (kContinue OR kThrow OR kStore OR kRegBFieldOrConstant) (kVerifyRegA OR kVerifyRegBField),
     V SPUT_BYTE ''sput-byte'' k21c kIndexFieldRef (kContinue OR kThrow OR kStore OR kRegBFieldOrConstant) (kVerifyRegA OR kVerifyRegBField),
     V SPUT_CHAR ''sput-char'' k21c kIndexFieldRef (kContinue OR kThrow OR kStore OR kRegBFieldOrConstant) (kVerifyRegA OR kVerifyRegBField),
     V SPUT_SHORT ''sput-short'' k21c kIndexFieldRef (kContinue OR kThrow OR kStore OR kRegBFieldOrConstant) (kVerifyRegA OR kVerifyRegBField),
     V INVOKE_VIRTUAL ''invoke-virtual'' k35c kIndexMethodRef (kContinue OR kThrow OR kInvoke) (kVerifyRegBMethod OR kVerifyVarArgNonZero),
     V INVOKE_SUPER ''invoke-super'' k35c kIndexMethodRef (kContinue OR kThrow OR kInvoke) (kVerifyRegBMethod OR kVerifyVarArgNonZero),
     V INVOKE_DIRECT ''invoke-direct'' k35c kIndexMethodRef (kContinue OR kThrow OR kInvoke) (kVerifyRegBMethod OR kVerifyVarArgNonZero),
     V INVOKE_STATIC ''invoke-static'' k35c kIndexMethodRef (kContinue OR kThrow OR kInvoke) (kVerifyRegBMethod OR kVerifyVarArg),
     V INVOKE_INTERFACE ''invoke-interface'' k35c kIndexMethodRef (kContinue OR kThrow OR kInvoke) (kVerifyRegBMethod OR kVerifyVarArgNonZero),
     V RETURN_VOID_NO_BARRIER ''return-void-no-barrier'' k10x kIndexNone kReturn kVerifyNone,
     V INVOKE_VIRTUAL_RANGE ''invoke-virtual/range'' k3rc kIndexMethodRef (kContinue OR kThrow OR kInvoke) (kVerifyRegBMethod OR kVerifyVarArgRangeNonZero),
     V INVOKE_SUPER_RANGE ''invoke-super/range'' k3rc kIndexMethodRef (kContinue OR kThrow OR kInvoke) (kVerifyRegBMethod OR kVerifyVarArgRangeNonZero),
     V INVOKE_DIRECT_RANGE ''invoke-direct/range'' k3rc kIndexMethodRef (kContinue OR kThrow OR kInvoke) (kVerifyRegBMethod OR kVerifyVarArgRangeNonZero),
     V INVOKE_STATIC_RANGE ''invoke-static/range'' k3rc kIndexMethodRef (kContinue OR kThrow OR kInvoke) (kVerifyRegBMethod OR kVerifyVarArgRange),
     V INVOKE_INTERFACE_RANGE ''invoke-interface/range'' k3rc kIndexMethodRef (kContinue OR kThrow OR kInvoke) (kVerifyRegBMethod OR kVerifyVarArgRangeNonZero),
     V UNUSED_79 ''unused-79'' k10x kIndexUnknown 0 kVerifyError,
     V UNUSED_7A ''unused-7a'' k10x kIndexUnknown 0 kVerifyError,
     V NEG_INT ''neg-int'' k12x kIndexNone kContinue (kVerifyRegA OR kVerifyRegB),
     V NOT_INT ''not-int'' k12x kIndexNone kContinue (kVerifyRegA OR kVerifyRegB),
     V NEG_LONG ''neg-long'' k12x kIndexNone kContinue (kVerifyRegAWide OR kVerifyRegBWide),
     V NOT_LONG ''not-long'' k12x kIndexNone kContinue (kVerifyRegAWide OR kVerifyRegBWide),
     V NEG_FLOAT ''neg-float'' k12x kIndexNone kContinue (kVerifyRegA OR kVerifyRegB)]"

definition dex_instruction_list_hi :: "insn_row list" where
  "dex_instruction_list_hi = [
     V NEG_DOUBLE ''neg-double'' k12x kIndexNone kContinue (kVerifyRegAWide OR kVerifyRegBWide),
     V INT_TO_LONG ''int-to-long'' k12x kIndexNone (kContinue OR kCast) (kVerifyRegAWide OR kVerifyRegB),
     V INT_TO_FLOAT ''int-to-float'' k12x kIndexNone (kContinue OR kCast) (kVerifyRegA OR kVerifyRegB),
     V INT_TO_DOUBLE ''int-to-double'' k12x kIndexNone (kContinue OR kCast) (kVerifyRegAWide OR kVerifyRegB),
     V LONG_TO_INT ''long-to-int'' k12x kIndexNone (kContinue OR kCast) (kVerifyRegA OR kVerifyRegBWide),
     V LONG_TO_FLOAT ''long-to-float'' k12x kIndexNone (kContinue OR kCast) (kVerifyRegA OR kVerifyRegBWide),
     V LONG_TO_DOUBLE ''long-to-double'' k12x kIndexNone (kContinue OR kCast) (kVerifyRegAWide OR kVerifyRegBWide),
     V FLOAT_TO_INT ''float-to-int'' k12x kIndexNone (kContinue OR kCast) (kVerifyRegA OR kVerifyRegB),
     V FLOAT_TO_LONG ''float-to-long'' k12x kIndexNone (kContinue OR kCast) (kVerifyRegAWide OR kVerifyRegB),
     V FLOAT_TO_DOUBLE ''float-to-double'' k12x kIndexNone (kContinue OR kCast) (kVerifyRegAWide OR kVerifyRegB),
     V DOUBLE_TO_INT ''double-to-int'' k12x kIndexNone (kContinue OR kCast) (kVerifyRegA OR kVerifyRegBWide),
     V DOUBLE_TO_LONG ''double-to-long'' k12x kIndexNone (kContinue OR kCast) (kVerifyRegAWide OR kVerifyRegBWide),
     V DOUBLE_TO_FLOAT ''double-to-float'' k12x kIndexNone (kContinue OR kCast) (kVerifyRegA OR kVerifyRegBWide),
     V INT_TO_BYTE ''int-to-byte'' k12x kIndexNone (kContinue OR kCast) (kVerifyRegA OR kVerifyRegB),
     V INT_TO_CHAR ''int-to-char'' k12x kIndexNone (kContinue OR kCast) (kVerifyRegA OR kVerifyRegB),
     V INT_TO_SHORT ''int-to-short'' k12x kIndexNone (kContinue OR kCast) (kVerifyRegA OR kVerifyRegB),
     V ADD_INT ''add-int'' k23x kIndexNone (kContinue OR kAdd) (kVerifyRegA OR kVerifyRegB OR kVerifyRegC),
     V SUB_INT ''sub-int'' k23x kIndexNone (kContinue OR kSubtract) (kVerifyRegA OR kVerifyRegB OR kVerifyRegC),
     V MUL_INT ''mul-int'' k23x kIndexNone (kContinue OR kMultiply) (kVerifyRegA OR kVerifyRegB OR kVerifyRegC),
     V DIV_INT ''div-int'' k23x kIndexNone (kContinue OR kThrow OR kDivide) (kVerifyRegA OR kVerifyRegB OR kVerifyRegC),
     V REM_INT ''rem-int'' k23x kIndexNone (kContinue OR kThrow OR kRemainder) (kVerifyRegA OR kVerifyRegB OR kVerifyRegC),
     V AND_INT ''and-int'' k23x kIndexNone (kContinue OR kAnd) (kVerifyRegA OR kVerifyRegB OR kVerifyRegC),
     V OR_INT ''or-int'' k23x kIndexNone (kContinue OR kOr) (kVerifyRegA OR kVerifyRegB OR kVerifyRegC),
     V XOR_INT ''xor-int'' k23x kIndexNone (kContinue OR kXor) (kVerifyRegA OR kVerifyRegB OR kVerifyRegC),
     V SHL_INT ''shl-int'' k23x kIndexNone (kContinue OR kShl) (kVerifyRegA OR kVerifyRegB OR kVerifyRegC),
     V SHR_INT ''shr-int'' k23x kIndexNone (kContinue OR kShr) (kVerifyRegA OR kVerifyRegB OR kVerifyRegC),
     V USHR_INT ''ushr-int'' k23x kIndexNone (kContinue OR kUshr) (kVerifyRegA OR kVerifyRegB OR kVerifyRegC),
     V ADD_LONG ''add-long'' k23x kIndexNone (kContinue OR kAdd) (kVerifyRegAWide OR kVerifyRegBWide OR kVerifyRegCWide),
     V SUB_LONG ''sub-long'' k23x kIndexNone (kContinue OR kSubtract) (kVerifyRegAWide OR kVerifyRegBWide OR kVerifyRegCWide),
     V MUL_LONG ''mul-long'' k23x kIndexNone (kContinue OR kMultiply) (kVerifyRegAWide OR kVerifyRegBWide OR kVerifyRegCWide),
     V DIV_LONG ''div-long'' k23x kIndexNone (kContinue OR kThrow OR kDivide) (kVerifyRegAWide OR kVerifyRegBWide OR kVerifyRegCWide),
     V REM_LONG ''rem-long'' k23x kIndexNone (kContinue OR kThrow OR kRemainder) (kVerifyRegAWide OR kVerifyRegBWide OR kVerifyRegCWide),
     V AND_LONG ''and-long'' k23x kIndexNone (kContinue OR kAnd) (kVerifyRegAWide OR kVerifyRegBWide OR kVerifyRegCWide),
     V OR_LONG ''or-long'' k23x kIndexNone (kContinue OR kOr) (kVerifyRegAWide OR kVerifyRegBWide OR kVerifyRegCWide),
     V XOR_LONG ''xor-long'' k23x kIndexNone (kContinue OR kXor) (kVerifyRegAWide OR kVerifyRegBWide OR kVerifyRegCWide),
     V SHL_LONG ''shl-long'' k23x kIndexNone (kContinue OR kShl) (kVerifyRegAWide OR kVerifyRegBWide OR kVerifyRegC),
     V SHR_LONG ''shr-long'' k23x kIndexNone (kContinue OR kShr) (kVerifyRegAWide OR kVerifyRegBWide OR kVerifyRegC),
     V USHR_LONG ''ushr-long'' k23x kIndexNone (kContinue OR kUshr) (kVerifyRegAWide OR kVerifyRegBWide OR kVerifyRegC),
     V ADD_FLOAT ''add-float'' k23x kIndexNone (kContinue OR kAdd) (kVerifyRegA OR kVerifyRegB OR kVerifyRegC),
     V SUB_FLOAT ''sub-float'' k23x kIndexNone (kContinue OR kSubtract) (kVerifyRegA OR kVerifyRegB OR kVerifyRegC),
     V MUL_FLOAT ''mul-float'' k23x kIndexNone (kContinue OR kMultiply) (kVerifyRegA OR kVerifyRegB OR kVerifyRegC),
     V DIV_FLOAT ''div-float'' k23x kIndexNone (kContinue OR kDivide) (kVerifyRegA OR kVerifyRegB OR kVerifyRegC),
     V REM_FLOAT ''rem-float'' k23x kIndexNone (kContinue OR kRemainder) (kVerifyRegA OR kVerifyRegB OR kVerifyRegC),
     V ADD_DOUBLE ''add-double'' k23x kIndexNone (kContinue OR kAdd) (kVerifyRegAWide OR kVerifyRegBWide OR kVerifyRegCWide),
     V SUB_DOUBLE ''sub-double'' k23x kIndexNone (kContinue OR kSubtract) (kVerifyRegAWide OR kVerifyRegBWide OR kVerifyRegCWide),
     V MUL_DOUBLE ''mul-double'' k23x kIndexNone (kContinue OR kMultiply) (kVerifyRegAWide OR kVerifyRegBWide OR kVerifyRegCWide),
     V DIV_DOUBLE ''div-double'' k23x kIndexNone (kContinue OR kDivide) (kVerifyRegAWide OR kVerifyRegBWide OR kVerifyRegCWide),
     V REM_DOUBLE ''rem-double'' k23x kIndexNone (kContinue OR kRemainder) (kVerifyRegAWide OR kVerifyRegBWide OR kVerifyRegCWide),
     V ADD_INT_2ADDR ''add-int/2addr'' k12x kIndexNone (kContinue OR kAdd) (kVerifyRegA OR kVerifyRegB),
     V SUB_INT_2ADDR ''sub-int/2addr'' k12x kIndexNone (kContinue OR kSubtract) (kVerifyRegA OR kVerifyRegB),
     V MUL_INT_2ADDR ''mul-int/2addr'' k12x kIndexNone (kContinue OR kMultiply) (kVerifyRegA OR kVerifyRegB),
     V DIV_INT_2ADDR ''div-int/2addr'' k12x kIndexNone (kContinue OR kThrow OR kDivide) (kVerifyRegA OR kVerifyRegB),
     V REM_INT_2ADDR ''rem-int/2addr'' k12x kIndexNone (kContinue OR kThrow OR kRemainder) (kVerifyRegA OR kVerifyRegB),
     V AND_INT_2ADDR ''and-int/2addr'' k12x kIndexNone (kContinue OR kAnd) (kVerifyRegA OR kVerifyRegB),
     V OR_INT_2ADDR ''or-int/2addr'' k12x kIndexNone (kContinue OR kOr) (kVerifyRegA OR kVerifyRegB),
     V XOR_INT_2ADDR ''xor-int/2addr'' k12x kIndexNone (kContinue OR kXor) (kVerifyRegA OR kVerifyRegB),
     V SHL_INT_2ADDR ''shl-int/2addr'' k12x kIndexNone (kContinue OR kShl) (kVerifyRegA OR kVerifyRegB),
     V SHR_INT_2ADDR ''shr-int/2addr'' k12x kIndexNone (kContinue OR kShr) (kVerifyRegA OR kVerifyRegB),
     V USHR_INT_2ADDR ''ushr-int/2addr'' k12x kIndexNone (kContinue OR kUshr) (kVerifyRegA OR kVerifyRegB),
     V ADD_LONG_2ADDR ''add-long/2addr'' k12x kIndexNone (kContinue OR kAdd) (kVerifyRegAWide OR kVerifyRegBWide),
     V SUB_LONG_2ADDR ''sub-long/2addr'' k12x kIndexNone (kContinue OR kSubtract) (kVerifyRegAWide OR kVerifyRegBWide),
     V MUL_LONG_2ADDR ''mul-long/2addr'' k12x kIndexNone (kContinue OR kMultiply) (kVerifyRegAWide OR kVerifyRegBWide),
     V DIV_LONG_2ADDR ''div-long/2addr'' k12x kIndexNone (kContinue OR kThrow OR kDivide) (kVerifyRegAWide OR kVerifyRegBWide),
     V REM_LONG_2ADDR ''rem-long/2addr'' k12x kIndexNone (kContinue OR kThrow OR kRemainder) (kVerifyRegAWide OR kVerifyRegBWide),
     V AND_LONG_2ADDR ''and-long/2addr'' k12x kIndexNone (kContinue OR kAnd) (kVerifyRegAWide OR kVerifyRegBWide),
     V OR_LONG_2ADDR ''or-long/2addr'' k12x kIndexNone (kContinue OR kOr) (kVerifyRegAWide OR kVerifyRegBWide),
     V XOR_LONG_2ADDR ''xor-long/2addr'' k12x kIndexNone (kContinue OR kXor) (kVerifyRegAWide OR kVerifyRegBWide),
     V SHL_LONG_2ADDR ''shl-long/2addr'' k12x kIndexNone (kContinue OR kShl) (kVerifyRegAWide OR kVerifyRegB),
     V SHR_LONG_2ADDR ''shr-long/2addr'' k12x kIndexNone (kContinue OR kShr) (kVerifyRegAWide OR kVerifyRegB),
     V USHR_LONG_2ADDR ''ushr-long/2addr'' k12x kIndexNone (kContinue OR kUshr) (kVerifyRegAWide OR kVerifyRegB),
     V ADD_FLOAT_2ADDR ''add-float/2addr'' k12x kIndexNone (kContinue OR kAdd) (kVerifyRegA OR kVerifyRegB),
     V SUB_FLOAT_2ADDR ''sub-float/2addr'' k12x kIndexNone (kContinue OR kSubtract) (kVerifyRegA OR kVerifyRegB),
     V MUL_FLOAT_2ADDR ''mul-float/2addr'' k12x kIndexNone (kContinue OR kMultiply) (kVerifyRegA OR kVerifyRegB),
     V DIV_FLOAT_2ADDR ''div-float/2addr'' k12x kIndexNone (kContinue OR kDivide) (kVerifyRegA OR kVerifyRegB),
     V REM_FLOAT_2ADDR ''rem-float/2addr'' k12x kIndexNone (kContinue OR kRemainder) (kVerifyRegA OR kVerifyRegB),
     V ADD_DOUBLE_2ADDR ''add-double/2addr'' k12x kIndexNone (kContinue OR kAdd) (kVerifyRegAWide OR kVerifyRegBWide),
     V SUB_DOUBLE_2ADDR ''sub-double/2addr'' k12x kIndexNone (kContinue OR kSubtract) (kVerifyRegAWide OR kVerifyRegBWide),
     V MUL_DOUBLE_2ADDR ''mul-double/2addr'' k12x kIndexNone (kContinue OR kMultiply) (kVerifyRegAWide OR kVerifyRegBWide),
     V DIV_DOUBLE_2ADDR ''div-double/2addr'' k12x kIndexNone (kContinue OR kDivide) (kVerifyRegAWide OR kVerifyRegBWide),
     V REM_DOUBLE_2ADDR ''rem-double/2addr'' k12x kIndexNone (kContinue OR kRemainder) (kVerifyRegAWide OR kVerifyRegBWide),
     V ADD_INT_LIT16 ''add-int/lit16'' k22s kIndexNone (kContinue OR kAdd OR kRegCFieldOrConstant) (kVerifyRegA OR kVerifyRegB),
     V RSUB_INT ''rsub-int'' k22s kIndexNone (kContinue OR kSubtract OR kRegCFieldOrConstant) (kVerifyRegA OR kVerifyRegB),
     V MUL_INT_LIT16 ''mul-int/lit16'' k22s kIndexNone (kContinue OR kMultiply OR kRegCFieldOrConstant) (kVerifyRegA OR kVerifyRegB),
     V DIV_INT_LIT16 ''div-int/lit16'' k22s kIndexNone (kContinue OR kThrow OR kDivide OR kRegCFieldOrConstant) (kVerifyRegA OR kVerifyRegB),
     V REM_INT_LIT16 ''rem-int/lit16'' k22s kIndexNone (kContinue OR kThrow OR kRemainder OR kRegCFieldOrConstant) (kVerifyRegA OR kVerifyRegB),
     V AND_INT_LIT16 ''and-int/lit16'' k22s kIndexNone (kContinue OR kAnd OR kRegCFieldOrConstant) (kVerifyRegA OR kVerifyRegB),
     V OR_INT_LIT16 ''or-int/lit16'' k22s kIndexNone (kContinue OR kOr OR kRegCFieldOrConstant) (kVerifyRegA OR kVerifyRegB),
     V XOR_INT_LIT16 ''xor-int/lit16'' k22s kIndexNone (kContinue OR kXor OR kRegCFieldOrConstant) (kVerifyRegA OR kVerifyRegB),
     V ADD_INT_LIT8 ''add-int/lit8'' k22b kIndexNone (kContinue OR kAdd OR kRegCFieldOrConstant) (kVerifyRegA OR kVerifyRegB),
     V RSUB_INT_LIT8 ''rsub-int/lit8'' k22b kIndexNone (kContinue OR kSubtract OR kRegCFieldOrConstant) (kVerifyRegA OR kVerifyRegB),
     V MUL_INT_LIT8 ''mul-int/lit8'' k22b kIndexNone (kContinue OR kMultiply OR kRegCFieldOrConstant) (kVerifyRegA OR kVerifyRegB),
     V DIV_INT_LIT8 ''div-int/lit8'' k22b kIndexNone (kContinue OR kThrow OR kDivide OR kRegCFieldOrConstant) (kVerifyRegA OR kVerifyRegB),
     V REM_INT_LIT8 ''rem-int/lit8'' k22b kIndexNone (kContinue OR kThrow OR kRemainder OR kRegCFieldOrConstant) (kVerifyRegA OR kVerifyRegB),
     V AND_INT_LIT8 ''and-int/lit8'' k22b kIndexNone (kContinue OR kAnd OR kRegCFieldOrConstant) (kVerifyRegA OR kVerifyRegB),
     V OR_INT_LIT8 ''or-int/lit8'' k22b kIndexNone (kContinue OR kOr OR kRegCFieldOrConstant) (kVerifyRegA OR kVerifyRegB),
     V XOR_INT_LIT8 ''xor-int/lit8'' k22b kIndexNone (kContinue OR kXor OR kRegCFieldOrConstant) (kVerifyRegA OR kVerifyRegB),
     V SHL_INT_LIT8 ''shl-int/lit8'' k22b kIndexNone (kContinue OR kShl OR kRegCFieldOrConstant) (kVerifyRegA OR kVerifyRegB),
     V SHR_INT_LIT8 ''shr-int/lit8'' k22b kIndexNone (kContinue OR kShr OR kRegCFieldOrConstant) (kVerifyRegA OR kVerifyRegB),
     V USHR_INT_LIT8 ''ushr-int/lit8'' k22b kIndexNone (kContinue OR kUshr OR kRegCFieldOrConstant) (kVerifyRegA OR kVerifyRegB),
     V IGET_QUICK ''iget-quick'' k22c kIndexFieldOffset (kContinue OR kThrow OR kLoad OR kRegCFieldOrConstant) (kVerifyRegA OR kVerifyRegB OR kVerifyRuntimeOnly),
     V IGET_WIDE_QUICK ''iget-wide-quick'' k22c kIndexFieldOffset (kContinue OR kThrow OR kLoad OR kRegCFieldOrConstant) (kVerifyRegAWide OR kVerifyRegB OR kVerifyRuntimeOnly),
     V IGET_OBJECT_QUICK ''iget-object-quick'' k22c kIndexFieldOffset (kContinue OR kThrow OR kLoad OR kRegCFieldOrConstant) (kVerifyRegA OR kVerifyRegB OR kVerifyRuntimeOnly),
     V IPUT_QUICK ''iput-quick'' k22c kIndexFieldOffset (kContinue OR kThrow OR kStore OR kRegCFieldOrConstant) (kVerifyRegA OR kVerifyRegB OR kVerifyRuntimeOnly),
     V IPUT_WIDE_QUICK ''iput-wide-quick'' k22c kIndexFieldOffset (kContinue OR kThrow OR kStore OR kRegCFieldOrConstant) (kVerifyRegAWide OR kVerifyRegB OR kVerifyRuntimeOnly),
     V IPUT_OBJECT_QUICK ''iput-object-quick'' k22c kIndexFieldOffset (kContinue OR kThrow OR kStore OR kRegCFieldOrConstant) (kVerifyRegA OR kVerifyRegB OR kVerifyRuntimeOnly),
     V INVOKE_VIRTUAL_QUICK ''invoke-virtual-quick'' k35c kIndexVtableOffset (kContinue OR kThrow OR kInvoke) (kVerifyVarArgNonZero OR kVerifyRuntimeOnly),
     V INVOKE_VIRTUAL_RANGE_QUICK ''invoke-virtual/range-quick'' k3rc kIndexVtableOffset (kContinue OR kThrow OR kInvoke) (kVerifyVarArgRangeNonZero OR kVerifyRuntimeOnly),
     V IPUT_BOOLEAN_QUICK ''iput-boolean-quick'' k22c kIndexFieldOffset (kContinue OR kThrow OR kStore OR kRegCFieldOrConstant) (kVerifyRegA OR kVerifyRegB OR kVerifyRuntimeOnly),
     V IPUT_BYTE_QUICK ''iput-byte-quick'' k22c kIndexFieldOffset (kContinue OR kThrow OR kStore OR kRegCFieldOrConstant) (kVerifyRegA OR kVerifyRegB OR kVerifyRuntimeOnly),
     V IPUT_CHAR_QUICK ''iput-char-quick'' k22c kIndexFieldOffset (kContinue OR kThrow OR kStore OR kRegCFieldOrConstant) (kVerifyRegA OR kVerifyRegB OR kVerifyRuntimeOnly),
     V IPUT_SHORT_QUICK ''iput-short-quick'' k22c kIndexFieldOffset (kContinue OR kThrow OR kStore OR kRegCFieldOrConstant) (kVerifyRegA OR kVerifyRegB OR kVerifyRuntimeOnly),
     V IGET_BOOLEAN_QUICK ''iget-boolean-quick'' k22c kIndexFieldOffset (kContinue OR kThrow OR kLoad OR kRegCFieldOrConstant) (kVerifyRegA OR kVerifyRegB OR kVerifyRuntimeOnly),
     V IGET_BYTE_QUICK ''iget-byte-quick'' k22c kIndexFieldOffset (kContinue OR kThrow OR kLoad OR kRegCFieldOrConstant) (kVerifyRegA OR kVerifyRegB OR kVerifyRuntimeOnly),
     V IGET_CHAR_QUICK ''iget-char-quick'' k22c kIndexFieldOffset (kContinue OR kThrow OR kLoad OR kRegCFieldOrConstant) (kVerifyRegA OR kVerifyRegB OR kVerifyRuntimeOnly),
     V IGET_SHORT_QUICK ''iget-short-quick'' k22c kIndexFieldOffset (kContinue OR kThrow OR kLoad OR kRegCFieldOrConstant) (kVerifyRegA OR kVerifyRegB OR kVerifyRuntimeOnly),
     V INVOKE_LAMBDA ''invoke-lambda'' k25x kIndexNone (kContinue OR kThrow OR kInvoke OR kExperimental) kVerifyRegC,
     V UNUSED_F4 ''unused-f4'' k10x kIndexUnknown 0 kVerifyError,
     V CAPTURE_VARIABLE ''capture-variable'' k21c kIndexStringRef kExperimental (kVerifyRegA OR kVerifyRegBString),
     V CREATE_LAMBDA ''create-lambda'' k21c kIndexMethodRef (kContinue OR kThrow OR kExperimental) (kVerifyRegA OR kVerifyRegBMethod),
     V LIBERATE_VARIABLE ''liberate-variable'' k22c kIndexStringRef kExperimental (kVerifyRegA OR kVerifyRegB OR kVerifyRegCString),
     V BOX_LAMBDA ''box-lambda'' k22x kIndexNone (kContinue OR kExperimental) (kVerifyRegA OR kVerifyRegB),
     V UNBOX_LAMBDA ''unbox-lambda'' k22c kIndexTypeRef (kContinue OR kThrow OR kExperimental) (kVerifyRegA OR kVerifyRegB OR kVerifyRegCType),
     V UNUSED_FA ''unused-fa'' k10x kIndexUnknown 0 kVerifyError,
     V UNUSED_FB ''unused-fb'' k10x kIndexUnknown 0 kVerifyError,
     V UNUSED_FC ''unused-fc'' k10x kIndexUnknown 0 kVerifyError,
     V UNUSED_FD ''unused-fd'' k10x kIndexUnknown 0 kVerifyError,
     V UNUSED_FE ''unused-fe'' k10x kIndexUnknown 0 kVerifyError,
     V UNUSED_FF ''unused-ff'' k10x kIndexUnknown 0 kVerifyError]"

definition dex_instruction_list :: "insn_row list" where
  "dex_instruction_list = dex_instruction_list_lo @ dex_instruction_list_hi"

end
