(* ===== verification/Dex_Instruction.thy ===== *)
theory Dex_Instruction
  imports Dex_Instruction_List
begin

text \<open>
  The class \<open>Instruction\<close> of \<open>runtime/dex_instruction.h\<close>, \<open>runtime/dex_instruction-inl.h\<close> and
  \<open>runtime/dex_instruction.cc\<close>: the arrays generated from the instruction table, the operand
  decoders of every format, instruction sizes with the switch and array data payloads, branch
  targets and the flag predicates.  A pointer to an instruction is the array of code units
  together with an index, the dex pc; reading outside of the array is \<open>None\<close>, and so is the
  \<open>LOG(FATAL)\<close> of an accessor that the format does not have.
\<close>

section \<open>The generated arrays\<close>

definition kInstructionNames :: "string list" where
  "kInstructionNames = map row_name dex_instruction_list"

definition kInstructionFormats :: "Format list" where
  "kInstructionFormats = map row_format dex_instruction_list"

definition kInstructionIndexTypes :: "IndexType list" where
  "kInstructionIndexTypes = map row_index dex_instruction_list"

definition kInstructionFlags :: "uint32 list" where
  "kInstructionFlags = map row_flags dex_instruction_list"

definition kInstructionVerifyFlags :: "uint32 list" where
  "kInstructionVerifyFlags = map row_verify dex_instruction_list"

text \<open>The macro \<open>INSTRUCTION_SIZE\<close>.\<close>

definition INSTRUCTION_SIZE :: "Code \<Rightarrow> Format \<Rightarrow> int" where
  "INSTRUCTION_SIZE opcode format =
     (if opcode = NOP then -1
      else if k10x \<le> format \<and> format \<le> k10t then 1
      else if k20t \<le> format \<and> format \<le> k25x then 2
      else if k32x \<le> format \<and> format \<le> k3rc then 3
      else if format = k51l then 5 else -1)"

definition kInstructionSizeInCodeUnits :: "int list" where
  "kInstructionSizeInCodeUnits =
     map (\<lambda>r. INSTRUCTION_SIZE (row_opcode r) (row_format r)) dex_instruction_list"

definition Name :: "Code \<Rightarrow> string" where
  "Name opcode = kInstructionNames ! unat opcode"

definition FormatOf :: "Code \<Rightarrow> Format" where
  "FormatOf opcode = kInstructionFormats ! unat opcode"

definition IndexTypeOf :: "Code \<Rightarrow> IndexType" where
  "IndexTypeOf opcode = kInstructionIndexTypes ! unat opcode"

definition FlagsOf :: "Code \<Rightarrow> uint32" where
  "FlagsOf opcode = kInstructionFlags ! unat opcode"

definition VerifyFlagsOf :: "Code \<Rightarrow> uint32" where
  "VerifyFlagsOf opcode = kInstructionVerifyFlags ! unat opcode"

section \<open>Code units\<close>

type_synonym insns = "uint16 list"

definition Fetch16 :: "insns \<Rightarrow> nat \<Rightarrow> nat \<Rightarrow> uint16 option" where
  "Fetch16 insns dex_pc offset = array_get insns (dex_pc + offset)"

definition Fetch32 :: "insns \<Rightarrow> nat \<Rightarrow> nat \<Rightarrow> uint32 option" where
  "Fetch32 insns dex_pc offset = do {
     lo \<leftarrow> Fetch16 insns dex_pc offset;
     hi \<leftarrow> Fetch16 insns dex_pc (offset + 1);
     Some ((ucast lo :: uint32) OR push_bit 16 (ucast hi))
   }"

definition Opcode :: "uint16 \<Rightarrow> Code" where
  "Opcode inst_data = ucast (inst_data AND 0xFF)"

definition InstA :: "uint16 \<Rightarrow> uint8" where
  "InstA inst_data = ucast (drop_bit 8 inst_data AND 0xf)"

definition InstB :: "uint16 \<Rightarrow> uint8" where
  "InstB inst_data = ucast (drop_bit 12 inst_data)"

definition InstAA :: "uint16 \<Rightarrow> uint8" where
  "InstAA inst_data = ucast (drop_bit 8 inst_data)"

definition SetOpcode :: "insns \<Rightarrow> nat \<Rightarrow> Code \<Rightarrow> insns option" where
  "SetOpcode insns dex_pc opcode = do {
     w \<leftarrow> array_get insns dex_pc;
     array_set insns dex_pc ((w AND 0xff00) OR ucast opcode)
   }"

definition SetVRegA_10x :: "insns \<Rightarrow> nat \<Rightarrow> uint8 \<Rightarrow> insns option" where
  "SetVRegA_10x insns dex_pc val = do {
     w \<leftarrow> array_get insns dex_pc;
     array_set insns dex_pc (push_bit 8 (ucast val) OR (w AND 0xff))
   }"

definition SetVRegB_3rc :: "insns \<Rightarrow> nat \<Rightarrow> uint16 \<Rightarrow> insns option" where
  "SetVRegB_3rc insns dex_pc val = array_set insns (dex_pc + 1) val"

definition SetVRegB_35c :: "insns \<Rightarrow> nat \<Rightarrow> uint16 \<Rightarrow> insns option" where
  "SetVRegB_35c insns dex_pc val = array_set insns (dex_pc + 1) val"

definition SetVRegC_22c :: "insns \<Rightarrow> nat \<Rightarrow> uint16 \<Rightarrow> insns option" where
  "SetVRegC_22c insns dex_pc val = array_set insns (dex_pc + 1) val"

section \<open>VRegA\<close>

text \<open>Signed and unsigned results of one width have the same bits; the accessors over all formats
  extend them to \<open>int32_t\<close> according to the declared type.\<close>

definition VRegA_10t :: "uint16 \<Rightarrow> uint8" where
  "VRegA_10t inst_data = InstAA inst_data"

definition VRegA_10x :: "uint16 \<Rightarrow> uint8" where
  "VRegA_10x inst_data = InstAA inst_data"

definition VRegA_11n :: "uint16 \<Rightarrow> uint8" where
  "VRegA_11n inst_data = InstA inst_data"

definition VRegA_11x :: "uint16 \<Rightarrow> uint8" where
  "VRegA_11x inst_data = InstAA inst_data"

definition VRegA_12x :: "uint16 \<Rightarrow> uint8" where
  "VRegA_12x inst_data = InstA inst_data"

definition VRegA_20t :: "insns \<Rightarrow> nat \<Rightarrow> uint16 option" where
  "VRegA_20t insns dex_pc = Fetch16 insns dex_pc 1"

definition VRegA_21c :: "uint16 \<Rightarrow> uint8" where
  "VRegA_21c inst_data = InstAA inst_data"

definition VRegA_21h :: "uint16 \<Rightarrow> uint8" where
  "VRegA_21h inst_data = InstAA inst_data"

definition VRegA_21s :: "uint16 \<Rightarrow> uint8" where
  "VRegA_21s inst_data = InstAA inst_data"

definition VRegA_21t :: "uint16 \<Rightarrow> uint8" where
  "VRegA_21t inst_data = InstAA inst_data"

definition VRegA_22b :: "uint16 \<Rightarrow> uint8" where
  "VRegA_22b inst_data = InstAA inst_data"

definition VRegA_22c :: "uint16 \<Rightarrow> uint8" where
  "VRegA_22c inst_data = InstA inst_data"

definition VRegA_22s :: "uint16 \<Rightarrow> uint8" where
  "VRegA_22s inst_data = InstA inst_data"

definition VRegA_22t :: "uint16 \<Rightarrow> uint8" where
  "VRegA_22t inst_data = InstA inst_data"

definition VRegA_22x :: "uint16 \<Rightarrow> uint8" where
  "VRegA_22x inst_data = InstAA inst_data"

definition VRegA_23x :: "uint16 \<Rightarrow> uint8" where
  "VRegA_23x inst_data = InstAA inst_data"

definition VRegA_30t :: "insns \<Rightarrow> nat \<Rightarrow> uint32 option" where
  "VRegA_30t insns dex_pc = Fetch32 insns dex_pc 1"

definition VRegA_31c :: "uint16 \<Rightarrow> uint8" where
  "VRegA_31c inst_data = InstAA inst_data"

definition VRegA_31i :: "uint16 \<Rightarrow> uint8" where
  "VRegA_31i inst_data = InstAA inst_data"

definition VRegA_31t :: "uint16 \<Rightarrow> uint8" where
  "VRegA_31t inst_data = InstAA inst_data"

definition VRegA_32x :: "insns \<Rightarrow> nat \<Rightarrow> uint16 option" where
  "VRegA_32x insns dex_pc = Fetch16 insns dex_pc 1"

definition VRegA_35c :: "uint16 \<Rightarrow> uint8" where
  "VRegA_35c inst_data = InstB inst_data"

definition VRegA_3rc :: "uint16 \<Rightarrow> uint8" where
  "VRegA_3rc inst_data = InstAA inst_data"

definition VRegA_51l :: "uint16 \<Rightarrow> uint8" where
  "VRegA_51l inst_data = InstAA inst_data"

definition HasVRegA :: "Code \<Rightarrow> bool" where
  "HasVRegA opcode = (case FormatOf opcode of
     k10t \<Rightarrow> True | k10x \<Rightarrow> True | k11n \<Rightarrow> True | k11x \<Rightarrow> True
   | k12x \<Rightarrow> True | k20t \<Rightarrow> True | k21c \<Rightarrow> True | k21h \<Rightarrow> True
   | k21s \<Rightarrow> True | k21t \<Rightarrow> True | k22b \<Rightarrow> True | k22c \<Rightarrow> True
   | k22s \<Rightarrow> True | k22t \<Rightarrow> True | k22x \<Rightarrow> True | k23x \<Rightarrow> True
   | k30t \<Rightarrow> True | k31c \<Rightarrow> True | k31i \<Rightarrow> True | k31t \<Rightarrow> True
   | k32x \<Rightarrow> True | k35c \<Rightarrow> True | k3rc \<Rightarrow> True | k51l \<Rightarrow> True
   | _ \<Rightarrow> False)"

definition VRegA :: "insns \<Rightarrow> nat \<Rightarrow> int32 option" where
  "VRegA insns dex_pc = do {
     inst_data \<leftarrow> Fetch16 insns dex_pc 0;
     case FormatOf (Opcode inst_data) of
       k10t \<Rightarrow> Some (scast (VRegA_10t inst_data))
     | k10x \<Rightarrow> Some (ucast (VRegA_10x inst_data))
     | k11n \<Rightarrow> Some (ucast (VRegA_11n inst_data))
     | k11x \<Rightarrow> Some (ucast (VRegA_11x inst_data))
     | k12x \<Rightarrow> Some (ucast (VRegA_12x inst_data))
     | k20t \<Rightarrow> map_option scast (VRegA_20t insns dex_pc)
     | k21c \<Rightarrow> Some (ucast (VRegA_21c inst_data))
     | k21h \<Rightarrow> Some (ucast (VRegA_21h inst_data))
     | k21s \<Rightarrow> Some (ucast (VRegA_21s inst_data))
     | k21t \<Rightarrow> Some (ucast (VRegA_21t inst_data))
     | k22b \<Rightarrow> Some (ucast (VRegA_22b inst_data))
     | k22c \<Rightarrow> Some (ucast (VRegA_22c inst_data))
     | k22s \<Rightarrow> Some (ucast (VRegA_22s inst_data))
     | k22t \<Rightarrow> Some (ucast (VRegA_22t inst_data))
     | k22x \<Rightarrow> Some (ucast (VRegA_22x inst_data))
     | k23x \<Rightarrow> Some (ucast (VRegA_23x inst_data))
     | k30t \<Rightarrow> VRegA_30t insns dex_pc
     | k31c \<Rightarrow> Some (ucast (VRegA_31c inst_data))
     | k31i \<Rightarrow> Some (ucast (VRegA_31i inst_data))
     | k31t \<Rightarrow> Some (ucast (VRegA_31t inst_data))
     | k32x \<Rightarrow> map_option ucast (VRegA_32x insns dex_pc)
     | k35c \<Rightarrow> Some (ucast (VRegA_35c inst_data))
     | k3rc \<Rightarrow> Some (ucast (VRegA_3rc inst_data))
     | k51l \<Rightarrow> Some (ucast (VRegA_51l inst_data))
     | _ \<Rightarrow> None
   }"

section \<open>VRegB\<close>

definition VRegB_11n :: "uint16 \<Rightarrow> uint8" where
  "VRegB_11n inst_data = ucast (signed_drop_bit 28 (push_bit 28 (ucast (InstB inst_data) :: int32)))"

definition VRegB_12x :: "uint16 \<Rightarrow> uint8" where
  "VRegB_12x inst_data = InstB inst_data"

definition VRegB_21c :: "insns \<Rightarrow> nat \<Rightarrow> uint16 option" where
  "VRegB_21c insns dex_pc = Fetch16 insns dex_pc 1"

definition VRegB_21h :: "insns \<Rightarrow> nat \<Rightarrow> uint16 option" where
  "VRegB_21h insns dex_pc = Fetch16 insns dex_pc 1"

definition VRegB_21s :: "insns \<Rightarrow> nat \<Rightarrow> uint16 option" where
  "VRegB_21s insns dex_pc = Fetch16 insns dex_pc 1"

definition VRegB_21t :: "insns \<Rightarrow> nat \<Rightarrow> uint16 option" where
  "VRegB_21t insns dex_pc = Fetch16 insns dex_pc 1"

definition VRegB_22b :: "insns \<Rightarrow> nat \<Rightarrow> uint8 option" where
  "VRegB_22b insns dex_pc = do { w \<leftarrow> Fetch16 insns dex_pc 1; Some (ucast (w AND 0xff)) }"

definition VRegB_22c :: "uint16 \<Rightarrow> uint8" where
  "VRegB_22c inst_data = InstB inst_data"

definition VRegB_22s :: "uint16 \<Rightarrow> uint8" where
  "VRegB_22s inst_data = InstB inst_data"

definition VRegB_22t :: "uint16 \<Rightarrow> uint8" where
  "VRegB_22t inst_data = InstB inst_data"

definition VRegB_22x :: "insns \<Rightarrow> nat \<Rightarrow> uint16 option" where
  "VRegB_22x insns dex_pc = Fetch16 insns dex_pc 1"

definition VRegB_23x :: "insns \<Rightarrow> nat \<Rightarrow> uint8 option" where
  "VRegB_23x insns dex_pc = do { w \<leftarrow> Fetch16 insns dex_pc 1; Some (ucast (w AND 0xff)) }"

definition VRegB_25x :: "insns \<Rightarrow> nat \<Rightarrow> uint8 option" where
  "VRegB_25x insns dex_pc = do { w \<leftarrow> Fetch16 insns dex_pc 0; Some (InstB w) }"

definition VRegB_31c :: "insns \<Rightarrow> nat \<Rightarrow> uint32 option" where
  "VRegB_31c insns dex_pc = Fetch32 insns dex_pc 1"

definition VRegB_31i :: "insns \<Rightarrow> nat \<Rightarrow> uint32 option" where
  "VRegB_31i insns dex_pc = Fetch32 insns dex_pc 1"

definition VRegB_31t :: "insns \<Rightarrow> nat \<Rightarrow> uint32 option" where
  "VRegB_31t insns dex_pc = Fetch32 insns dex_pc 1"

definition VRegB_32x :: "insns \<Rightarrow> nat \<Rightarrow> uint16 option" where
  "VRegB_32x insns dex_pc = Fetch16 insns dex_pc 2"

definition VRegB_35c :: "insns \<Rightarrow> nat \<Rightarrow> uint16 option" where
  "VRegB_35c insns dex_pc = Fetch16 insns dex_pc 1"

definition VRegB_3rc :: "insns \<Rightarrow> nat \<Rightarrow> uint16 option" where
  "VRegB_3rc insns dex_pc = Fetch16 insns dex_pc 1"

definition VRegB_51l :: "insns \<Rightarrow> nat \<Rightarrow> uint64 option" where
  "VRegB_51l insns dex_pc = do {
     lo \<leftarrow> Fetch32 insns dex_pc 1;
     hi \<leftarrow> Fetch32 insns dex_pc 3;
     Some ((ucast lo :: uint64) OR push_bit 32 (ucast hi))
   }"

definition HasVRegB :: "Code \<Rightarrow> bool" where
  "HasVRegB opcode = (case FormatOf opcode of
     k11n \<Rightarrow> True | k12x \<Rightarrow> True | k21c \<Rightarrow> True | k21h \<Rightarrow> True
   | k21s \<Rightarrow> True | k21t \<Rightarrow> True | k22b \<Rightarrow> True | k22c \<Rightarrow> True
   | k22s \<Rightarrow> True | k22t \<Rightarrow> True | k22x \<Rightarrow> True | k23x \<Rightarrow> True
   | k25x \<Rightarrow> True | k31c \<Rightarrow> True | k31i \<Rightarrow> True | k31t \<Rightarrow> True
   | k32x \<Rightarrow> True | k35c \<Rightarrow> True | k3rc \<Rightarrow> True | k51l \<Rightarrow> True
   | _ \<Rightarrow> False)"

definition VRegB :: "insns \<Rightarrow> nat \<Rightarrow> int32 option" where
  "VRegB insns dex_pc = do {
     inst_data \<leftarrow> Fetch16 insns dex_pc 0;
     case FormatOf (Opcode inst_data) of
       k11n \<Rightarrow> Some (scast (VRegB_11n inst_data))
     | k12x \<Rightarrow> Some (ucast (VRegB_12x inst_data))
     | k21c \<Rightarrow> map_option ucast (VRegB_21c insns dex_pc)
     | k21h \<Rightarrow> map_option ucast (VRegB_21h insns dex_pc)
     | k21s \<Rightarrow> map_option scast (VRegB_21s insns dex_pc)
     | k21t \<Rightarrow> map_option scast (VRegB_21t insns dex_pc)
     | k22b \<Rightarrow> map_option ucast (VRegB_22b insns dex_pc)
     | k22c \<Rightarrow> Some (ucast (VRegB_22c inst_data))
     | k22s \<Rightarrow> Some (ucast (VRegB_22s inst_data))
     | k22t \<Rightarrow> Some (ucast (VRegB_22t inst_data))
     | k22x \<Rightarrow> map_option ucast (VRegB_22x insns dex_pc)
     | k23x \<Rightarrow> map_option ucast (VRegB_23x insns dex_pc)
     | k25x \<Rightarrow> map_option ucast (VRegB_25x insns dex_pc)
     | k31c \<Rightarrow> VRegB_31c insns dex_pc
     | k31i \<Rightarrow> VRegB_31i insns dex_pc
     | k31t \<Rightarrow> VRegB_31t insns dex_pc
     | k32x \<Rightarrow> map_option ucast (VRegB_32x insns dex_pc)
     | k35c \<Rightarrow> map_option ucast (VRegB_35c insns dex_pc)
     | k3rc \<Rightarrow> map_option ucast (VRegB_3rc insns dex_pc)
     | k51l \<Rightarrow> map_option ucast (VRegB_51l insns dex_pc)
     | _ \<Rightarrow> None
   }"

definition HasWideVRegB :: "Code \<Rightarrow> bool" where
  "HasWideVRegB opcode = (FormatOf opcode = k51l)"

definition WideVRegB :: "insns \<Rightarrow> nat \<Rightarrow> uint64 option" where
  "WideVRegB insns dex_pc = VRegB_51l insns dex_pc"

section \<open>VRegC\<close>

definition VRegC_22b :: "insns \<Rightarrow> nat \<Rightarrow> uint8 option" where
  "VRegC_22b insns dex_pc = do { w \<leftarrow> Fetch16 insns dex_pc 1; Some (ucast (drop_bit 8 w)) }"

definition VRegC_22c :: "insns \<Rightarrow> nat \<Rightarrow> uint16 option" where
  "VRegC_22c insns dex_pc = Fetch16 insns dex_pc 1"

definition VRegC_22s :: "insns \<Rightarrow> nat \<Rightarrow> uint16 option" where
  "VRegC_22s insns dex_pc = Fetch16 insns dex_pc 1"

definition VRegC_22t :: "insns \<Rightarrow> nat \<Rightarrow> uint16 option" where
  "VRegC_22t insns dex_pc = Fetch16 insns dex_pc 1"

definition VRegC_23x :: "insns \<Rightarrow> nat \<Rightarrow> uint8 option" where
  "VRegC_23x insns dex_pc = do { w \<leftarrow> Fetch16 insns dex_pc 1; Some (ucast (drop_bit 8 w)) }"

definition VRegC_25x :: "insns \<Rightarrow> nat \<Rightarrow> uint8 option" where
  "VRegC_25x insns dex_pc = do { w \<leftarrow> Fetch16 insns dex_pc 1; Some (ucast (w AND 0xf)) }"

definition VRegC_35c :: "insns \<Rightarrow> nat \<Rightarrow> uint8 option" where
  "VRegC_35c insns dex_pc = do { w \<leftarrow> Fetch16 insns dex_pc 2; Some (ucast (w AND 0xf)) }"

definition VRegC_3rc :: "insns \<Rightarrow> nat \<Rightarrow> uint16 option" where
  "VRegC_3rc insns dex_pc = Fetch16 insns dex_pc 2"

definition HasVRegC :: "Code \<Rightarrow> bool" where
  "HasVRegC opcode = (case FormatOf opcode of
     k22b \<Rightarrow> True | k22c \<Rightarrow> True | k22s \<Rightarrow> True | k22t \<Rightarrow> True
   | k23x \<Rightarrow> True | k25x \<Rightarrow> True | k35c \<Rightarrow> True | k3rc \<Rightarrow> True
   | _ \<Rightarrow> False)"

definition VRegC :: "insns \<Rightarrow> nat \<Rightarrow> int32 option" where
  "VRegC insns dex_pc = do {
     inst_data \<leftarrow> Fetch16 insns dex_pc 0;
     case FormatOf (Opcode inst_data) of
       k22b \<Rightarrow> map_option scast (VRegC_22b insns dex_pc)
     | k22c \<Rightarrow> map_option ucast (VRegC_22c insns dex_pc)
     | k22s \<Rightarrow> map_option scast (VRegC_22s insns dex_pc)
     | k22t \<Rightarrow> map_option scast (VRegC_22t insns dex_pc)
     | k23x \<Rightarrow> map_option ucast (VRegC_23x insns dex_pc)
     | k25x \<Rightarrow> map_option ucast (VRegC_25x insns dex_pc)
     | k35c \<Rightarrow> map_option ucast (VRegC_35c insns dex_pc)
     | k3rc \<Rightarrow> map_option ucast (VRegC_3rc insns dex_pc)
     | _ \<Rightarrow> None
   }"

section \<open>Argument lists\<close>

definition HasVarArgs35c :: "Code \<Rightarrow> bool" where
  "HasVarArgs35c opcode = (FormatOf opcode = k35c)"

definition HasVarArgs25x :: "Code \<Rightarrow> bool" where
  "HasVarArgs25x opcode = (FormatOf opcode = k25x)"

text \<open>The out parameter \<open>arg\<close> is passed and returned; a switch that falls through updates it once
  for every case label that the count reaches.\<close>

definition GetAllArgs25x :: "insns \<Rightarrow> nat \<Rightarrow> uint32 list \<Rightarrow> uint32 list option" where
  "GetAllArgs25x insns dex_pc arg = do {
     reg_list \<leftarrow> Fetch16 insns dex_pc 1;
     count \<leftarrow> VRegB_25x insns dex_pc;
     w \<leftarrow> Fetch16 insns dex_pc 0;
     let arg = (if count = 4 then arg[5 := ucast (drop_bit 8 w AND 0xf)] else arg);
     let arg = (if count \<in> {3, 4} then arg[4 := ucast (drop_bit 12 reg_list AND 0xf)] else arg);
     let arg = (if count \<in> {2, 3, 4} then arg[3 := ucast (drop_bit 8 reg_list AND 0xf)] else arg);
     let arg = (if count \<in> {1, 2, 3, 4} then arg[2 := ucast (drop_bit 4 reg_list AND 0xf)] else arg);
     vC \<leftarrow> VRegC_25x insns dex_pc;
     Some (arg[0 := ucast vC, 1 := ucast vC + 1])
   }"

definition GetVarArgs :: "insns \<Rightarrow> nat \<Rightarrow> uint32 list \<Rightarrow> uint16 \<Rightarrow> uint32 list option" where
  "GetVarArgs insns dex_pc arg inst_data = do {
     regList \<leftarrow> Fetch16 insns dex_pc 2;
     let count = InstB inst_data;
     let arg = (if count = 5 then arg[4 := ucast (InstA inst_data)] else arg);
     let arg = (if count \<in> {4, 5} then arg[3 := ucast (drop_bit 12 regList AND 0xf)] else arg);
     let arg = (if count \<in> {3, 4, 5} then arg[2 := ucast (drop_bit 8 regList AND 0xf)] else arg);
     let arg = (if count \<in> {2, 3, 4, 5} then arg[1 := ucast (drop_bit 4 regList AND 0xf)] else arg);
     Some (if count \<in> {1, 2, 3, 4, 5} then arg[0 := ucast (regList AND 0xf)] else arg)
   }"

section \<open>Sizes and branch targets\<close>

abbreviation (input) kPackedSwitchSignature :: uint16 where "kPackedSwitchSignature \<equiv> 0x0100"
abbreviation (input) kSparseSwitchSignature :: uint16 where "kSparseSwitchSignature \<equiv> 0x0200"
abbreviation (input) kArrayDataSignature :: uint16 where "kArrayDataSignature \<equiv> 0x0300"

definition SizeInCodeUnitsComplexOpcode :: "insns \<Rightarrow> nat \<Rightarrow> nat option" where
  "SizeInCodeUnitsComplexOpcode insns dex_pc = do {
     w \<leftarrow> Fetch16 insns dex_pc 0;
     if w = kPackedSwitchSignature then do {
       n \<leftarrow> Fetch16 insns dex_pc 1;
       Some (4 + unat n * 2)
     } else if w = kSparseSwitchSignature then do {
       n \<leftarrow> Fetch16 insns dex_pc 1;
       Some (2 + unat n * 4)
     } else if w = kArrayDataSignature then do {
       element_size \<leftarrow> Fetch16 insns dex_pc 1;
       length \<leftarrow> Fetch32 insns dex_pc 2;
       Some (unat (4 + (ucast element_size * length + 1) div 2 :: uint32))
     } else if w AND 0xFF = 0 then Some 1 else None
   }"

definition SizeInCodeUnits :: "insns \<Rightarrow> nat \<Rightarrow> nat option" where
  "SizeInCodeUnits insns dex_pc = do {
     inst_data \<leftarrow> Fetch16 insns dex_pc 0;
     let result = kInstructionSizeInCodeUnits ! unat (Opcode inst_data);
     if result < 0 then SizeInCodeUnitsComplexOpcode insns dex_pc else Some (nat result)
   }"

definition Next :: "insns \<Rightarrow> nat \<Rightarrow> nat option" where
  "Next insns dex_pc = do { size \<leftarrow> SizeInCodeUnits insns dex_pc; Some (dex_pc + size) }"

definition GetTargetOffset :: "insns \<Rightarrow> nat \<Rightarrow> int32 option" where
  "GetTargetOffset insns dex_pc = do {
     inst_data \<leftarrow> Fetch16 insns dex_pc 0;
     case FormatOf (Opcode inst_data) of
       k22t \<Rightarrow> map_option scast (VRegC_22t insns dex_pc)
     | k21t \<Rightarrow> map_option scast (VRegB_21t insns dex_pc)
     | k10t \<Rightarrow> Some (scast (VRegA_10t inst_data))
     | k20t \<Rightarrow> map_option scast (VRegA_20t insns dex_pc)
     | k30t \<Rightarrow> VRegA_30t insns dex_pc
     | _ \<Rightarrow> None
   }"

section \<open>Flag predicates\<close>

definition CanFlowThrough :: "Code \<Rightarrow> bool" where
  "CanFlowThrough opcode = (FlagsOf opcode AND kContinue \<noteq> 0)"

definition IsBranch :: "Code \<Rightarrow> bool" where
  "IsBranch opcode = (FlagsOf opcode AND kBranch \<noteq> 0)"

definition IsUnconditional :: "Code \<Rightarrow> bool" where
  "IsUnconditional opcode = (FlagsOf opcode AND kUnconditional \<noteq> 0)"

definition IsQuickened :: "Code \<Rightarrow> bool" where
  "IsQuickened opcode =
     (IndexTypeOf opcode = kIndexFieldOffset \<or> IndexTypeOf opcode = kIndexVtableOffset)"

definition IsSwitch :: "Code \<Rightarrow> bool" where
  "IsSwitch opcode = (FlagsOf opcode AND kSwitch \<noteq> 0)"

definition IsThrow :: "Code \<Rightarrow> bool" where
  "IsThrow opcode = (FlagsOf opcode AND kThrow \<noteq> 0)"

definition IsReturn :: "Code \<Rightarrow> bool" where
  "IsReturn opcode = (FlagsOf opcode AND kReturn \<noteq> 0)"

definition IsBasicBlockEnd :: "Code \<Rightarrow> bool" where
  "IsBasicBlockEnd opcode = (IsBranch opcode \<or> IsReturn opcode \<or> opcode = THROW)"

definition IsInvoke :: "Code \<Rightarrow> bool" where
  "IsInvoke opcode = (FlagsOf opcode AND kInvoke \<noteq> 0)"

definition IsExperimental :: "Code \<Rightarrow> bool" where
  "IsExperimental opcode = (FlagsOf opcode AND kExperimental \<noteq> 0)"

definition GetVerifyTypeArgumentA :: "Code \<Rightarrow> uint32" where
  "GetVerifyTypeArgumentA opcode = VerifyFlagsOf opcode AND (kVerifyRegA OR kVerifyRegAWide)"

definition GetVerifyTypeArgumentB :: "Code \<Rightarrow> uint32" where
  "GetVerifyTypeArgumentB opcode = VerifyFlagsOf opcode AND (kVerifyRegB OR kVerifyRegBField
     OR kVerifyRegBMethod OR kVerifyRegBNewInstance OR kVerifyRegBString OR kVerifyRegBType
     OR kVerifyRegBWide)"

definition GetVerifyTypeArgumentC :: "Code \<Rightarrow> uint32" where
  "GetVerifyTypeArgumentC opcode = VerifyFlagsOf opcode AND (kVerifyRegC OR kVerifyRegCField
     OR kVerifyRegCNewArray OR kVerifyRegCType OR kVerifyRegCWide OR kVerifyRegCString)"

definition GetVerifyExtraFlags :: "Code \<Rightarrow> uint32" where
  "GetVerifyExtraFlags opcode = VerifyFlagsOf opcode AND (kVerifyArrayData OR kVerifyBranchTarget
     OR kVerifySwitchTargets OR kVerifyVarArg OR kVerifyVarArgNonZero OR kVerifyVarArgRange
     OR kVerifyVarArgRangeNonZero OR kVerifyError)"

definition GetVerifyIsRuntimeOnly :: "Code \<Rightarrow> bool" where
  "GetVerifyIsRuntimeOnly opcode = (VerifyFlagsOf opcode AND kVerifyRuntimeOnly \<noteq> 0)"

section \<open>The table\<close>

lemmas table_defs = dex_instruction_list_def dex_instruction_list_lo_def dex_instruction_list_hi_def

lemmas array_defs = kInstructionNames_def kInstructionFormats_def kInstructionIndexTypes_def
  kInstructionFlags_def kInstructionVerifyFlags_def kInstructionSizeInCodeUnits_def

lemma length_table [simp]: "length dex_instruction_list = 256"
  by (simp add: table_defs)

lemma unat_Code_less [simp]: "unat (opcode :: Code) < 256"
  using unsigned_less [of opcode, where 'a = nat] by simp

lemma table_all:
  assumes "list_all P dex_instruction_list"
  shows "P (dex_instruction_list ! unat (opcode :: Code))"
  using assms by (simp add: list_all_length)

text \<open>The rows stand in the order of the opcodes, so an array is indexed by the opcode of its row.\<close>

lemma row_opcodes: "map (unat \<circ> row_opcode) dex_instruction_list = [0..<256]"
  by (simp add: table_defs upt_conv_Cons)

lemma row_opcode_nth [simp]: "row_opcode (dex_instruction_list ! unat (opcode :: Code)) = opcode"
proof -
  have "(map (unat \<circ> row_opcode) dex_instruction_list) ! unat opcode = unat opcode"
    unfolding row_opcodes by simp
  then show ?thesis by (simp add: word_unat_eq_iff)
qed

lemma FormatOf_row: "FormatOf opcode = row_format (dex_instruction_list ! unat opcode)"
  by (simp add: FormatOf_def array_defs)

lemma FlagsOf_row: "FlagsOf opcode = row_flags (dex_instruction_list ! unat opcode)"
  by (simp add: FlagsOf_def array_defs)

lemma VerifyFlagsOf_row: "VerifyFlagsOf opcode = row_verify (dex_instruction_list ! unat opcode)"
  by (simp add: VerifyFlagsOf_def array_defs)

lemma IndexTypeOf_row: "IndexTypeOf opcode = row_index (dex_instruction_list ! unat opcode)"
  by (simp add: IndexTypeOf_def array_defs)

lemma size_row:
  "kInstructionSizeInCodeUnits ! unat opcode = INSTRUCTION_SIZE opcode (FormatOf opcode)"
  by (simp add: array_defs FormatOf_row)

lemmas row_lookups = FormatOf_row FlagsOf_row VerifyFlagsOf_row IndexTypeOf_row

text \<open>Facts about every opcode are facts about every row.\<close>

lemma opcode_all:
  assumes "list_all (\<lambda>r. P (row_opcode r) (row_format r) (row_flags r) (row_verify r)) dex_instruction_list"
  shows "P opcode (FormatOf opcode) (FlagsOf opcode) (VerifyFlagsOf opcode)"
  using table_all [OF assms, of opcode] by (simp add: row_lookups)

lemma format_operands:
  "(VerifyFlagsOf opcode AND 0x3 \<noteq> 0 \<longrightarrow> FormatOf opcode \<noteq> k25x) \<and>
   (VerifyFlagsOf opcode AND 0x1FC \<noteq> 0 \<longrightarrow> FormatOf opcode \<notin> {k10x, k11x, k10t, k20t, k30t}) \<and>
   (VerifyFlagsOf opcode AND 0x803E00 \<noteq> 0 \<longrightarrow>
      FormatOf opcode \<in> {k22b, k22c, k22s, k22t, k23x, k25x, k35c, k3rc}) \<and>
   (VerifyFlagsOf opcode AND 0x60000 \<noteq> 0 \<longrightarrow> FormatOf opcode = k35c) \<and>
   (VerifyFlagsOf opcode AND 0x180000 \<noteq> 0 \<longrightarrow> FormatOf opcode = k3rc)"
  by (rule opcode_all [where P = "\<lambda>opcode format flags verify.
    (verify AND 0x3 \<noteq> 0 \<longrightarrow> format \<noteq> k25x) \<and>
    (verify AND 0x1FC \<noteq> 0 \<longrightarrow> format \<notin> {k10x, k11x, k10t, k20t, k30t}) \<and>
    (verify AND 0x803E00 \<noteq> 0 \<longrightarrow> format \<in> {k22b, k22c, k22s, k22t, k23x, k25x, k35c, k3rc}) \<and>
    (verify AND 0x60000 \<noteq> 0 \<longrightarrow> format = k35c) \<and> (verify AND 0x180000 \<noteq> 0 \<longrightarrow> format = k3rc)"])
    (simp add: table_defs)

lemma format_targets:
  "(IsBranch opcode \<longleftrightarrow> FormatOf opcode \<in> {k22t, k21t, k10t, k20t, k30t}) \<and>
   (VerifyFlagsOf opcode AND kVerifyBranchTarget \<noteq> 0 \<longleftrightarrow> IsBranch opcode) \<and>
   (VerifyFlagsOf opcode AND kVerifySwitchTargets \<noteq> 0 \<longleftrightarrow> IsSwitch opcode) \<and>
   (IsSwitch opcode \<or> VerifyFlagsOf opcode AND kVerifyArrayData \<noteq> 0 \<longleftrightarrow> FormatOf opcode = k31t)"
  unfolding IsBranch_def IsSwitch_def
  by (rule opcode_all [where P = "\<lambda>opcode format flags verify.
    (flags AND kBranch \<noteq> 0 \<longleftrightarrow> format \<in> {k22t, k21t, k10t, k20t, k30t}) \<and>
    (verify AND kVerifyBranchTarget \<noteq> 0 \<longleftrightarrow> flags AND kBranch \<noteq> 0) \<and>
    (verify AND kVerifySwitchTargets \<noteq> 0 \<longleftrightarrow> flags AND kSwitch \<noteq> 0) \<and>
    (flags AND kSwitch \<noteq> 0 \<or> verify AND kVerifyArrayData \<noteq> 0 \<longleftrightarrow> format = k31t)"])
    (simp add: table_defs)

section \<open>Sizes\<close>

text \<open>The number of code units of a format.\<close>

definition format_size :: "Format \<Rightarrow> nat" where
  "format_size f =
     (if f \<le> k10t then 1 else if f \<le> k25x then 2 else if f \<le> k3rc then 3 else 5)"

lemma INSTRUCTION_SIZE_format:
  "INSTRUCTION_SIZE opcode f = (if opcode = NOP then -1 else int (format_size f))"
  by (cases f) (auto simp: INSTRUCTION_SIZE_def format_size_def less_eq_Format_def)

lemma format_size_pos: "0 < format_size f"
  by (simp add: format_size_def)

lemma NOP_format: "FormatOf NOP = k10x"
  by (simp add: FormatOf_row table_defs)

lemma array_data_size_pos: "0 < unat (4 + x div 2 :: uint32)"
proof -
  have "unat (x div 2) < 2 ^ 31"
    using unsigned_less [of x, where 'a = nat] by (simp add: unat_div)
  then show ?thesis
    by (subst unat_add_lem [THEN iffD1]) (auto simp: unat_div)
qed

lemma SizeInCodeUnits_cases:
  assumes "SizeInCodeUnits insns dex_pc = Some n" "Fetch16 insns dex_pc 0 = Some w"
  shows "if Opcode w = NOP then 0 < n else n = format_size (FormatOf (Opcode w))"
  using assms array_data_size_pos
  by (auto simp: SizeInCodeUnits_def size_row INSTRUCTION_SIZE_format Let_def bind_Some_iff
      SizeInCodeUnitsComplexOpcode_def split: if_splits)

lemma SizeInCodeUnits_pos: "SizeInCodeUnits insns dex_pc = Some n \<Longrightarrow> 0 < n"
proof -
  assume a: "SizeInCodeUnits insns dex_pc = Some n"
  then obtain w where "Fetch16 insns dex_pc 0 = Some w"
    by (auto simp: SizeInCodeUnits_def bind_Some_iff)
  from SizeInCodeUnits_cases [OF a this] show ?thesis
    by (auto simp: format_size_pos split: if_splits)
qed

lemma SizeInCodeUnits_format:
  assumes "SizeInCodeUnits insns dex_pc = Some n" "Fetch16 insns dex_pc 0 = Some w"
  shows "format_size (FormatOf (Opcode w)) \<le> n"
proof (cases "Opcode w = NOP")
  case True
  then show ?thesis
    using SizeInCodeUnits_pos [OF assms(1)] NOP_format
    by (simp add: format_size_def less_eq_Format_def)
qed (use SizeInCodeUnits_cases [OF assms] in simp)

section \<open>Operands\<close>

lemma Fetch16_in: "dex_pc + k < length insns \<Longrightarrow> Fetch16 insns dex_pc k = Some (insns ! (dex_pc + k))"
  by (simp add: Fetch16_def array_get_in)

lemma Fetch32_in:
  "dex_pc + k + 1 < length insns \<Longrightarrow> \<exists>v. Fetch32 insns dex_pc k = Some v"
  by (simp add: Fetch32_def Fetch16_in)

lemmas VReg_defs = VRegA_20t_def VRegA_30t_def VRegA_32x_def VRegB_21c_def VRegB_21h_def
  VRegB_21s_def VRegB_21t_def VRegB_22b_def VRegB_22x_def VRegB_23x_def VRegB_25x_def
  VRegB_31c_def VRegB_31i_def VRegB_31t_def VRegB_32x_def VRegB_35c_def VRegB_3rc_def
  VRegB_51l_def VRegC_22b_def VRegC_22c_def VRegC_22s_def VRegC_22t_def VRegC_23x_def
  VRegC_25x_def VRegC_35c_def VRegC_3rc_def

lemma VRegA_decodable:
  assumes "Fetch16 insns dex_pc 0 = Some w" "HasVRegA (Opcode w)"
    and "dex_pc + format_size (FormatOf (Opcode w)) \<le> length insns"
  shows "VRegA insns dex_pc \<noteq> None"
  using assms Fetch32_in [of dex_pc 1 insns]
  by (cases "FormatOf (Opcode w)")
    (auto simp: VRegA_def HasVRegA_def VReg_defs Fetch16_in format_size_def less_eq_Format_def)

lemma VRegB_decodable:
  assumes "Fetch16 insns dex_pc 0 = Some w" "HasVRegB (Opcode w)"
    and "dex_pc + format_size (FormatOf (Opcode w)) \<le> length insns"
  shows "VRegB insns dex_pc \<noteq> None"
  using assms Fetch32_in [of dex_pc 1 insns] Fetch32_in [of dex_pc 3 insns]
  by (cases "FormatOf (Opcode w)")
    (auto simp: VRegB_def HasVRegB_def VReg_defs Fetch16_in format_size_def less_eq_Format_def)

lemma VRegC_decodable:
  assumes "Fetch16 insns dex_pc 0 = Some w" "HasVRegC (Opcode w)"
    and "dex_pc + format_size (FormatOf (Opcode w)) \<le> length insns"
  shows "VRegC insns dex_pc \<noteq> None"
  using assms
  by (cases "FormatOf (Opcode w)")
    (auto simp: VRegC_def HasVRegC_def VReg_defs Fetch16_in format_size_def less_eq_Format_def)

lemma GetTargetOffset_decodable:
  assumes "Fetch16 insns dex_pc 0 = Some w" "FormatOf (Opcode w) \<in> {k22t, k21t, k10t, k20t, k30t}"
    and "dex_pc + format_size (FormatOf (Opcode w)) \<le> length insns"
  shows "GetTargetOffset insns dex_pc \<noteq> None"
  using assms Fetch32_in [of dex_pc 1 insns]
  by (cases "FormatOf (Opcode w)")
    (auto simp: GetTargetOffset_def VReg_defs Fetch16_in format_size_def less_eq_Format_def)

lemma Has_formats:
  "HasVRegA opcode \<longleftrightarrow> FormatOf opcode \<noteq> k25x"
  "HasVRegB opcode \<longleftrightarrow> FormatOf opcode \<notin> {k10x, k11x, k10t, k20t, k30t}"
  "HasVRegC opcode \<longleftrightarrow> FormatOf opcode \<in> {k22b, k22c, k22s, k22t, k23x, k25x, k35c, k3rc}"
  by (simp_all add: HasVRegA_def HasVRegB_def HasVRegC_def split: Format.split)

text \<open>The argument registers of a 35c instruction: four nibbles of the third code unit, then A.\<close>

definition var_arg_nibbles :: "uint16 \<Rightarrow> uint16 \<Rightarrow> uint32 list" where
  "var_arg_nibbles regList inst_data =
     map (\<lambda>i. ucast (take_bit 4 (drop_bit (4 * i) regList))) [0..<4] @ [ucast (InstA inst_data)]"

lemma list5_cases: "length xs = 5 \<Longrightarrow> \<exists>a b c d e. xs = [a, b, c, d, e]"
  by (auto simp: length_Suc_conv eval_nat_numeral)

lemma unat_le_5_cases: "(n :: uint8) \<le> 5 \<Longrightarrow> n \<in> {0, 1, 2, 3, 4, 5}"
proof -
  assume "n \<le> 5"
  then have "unat n \<in> {0, 1, 2, 3, 4, 5}" by (auto simp: word_le_nat_alt)
  then show ?thesis by (auto simp: word_unat_eq_iff)
qed

lemma GetVarArgs_spec:
  assumes "Fetch16 insns dex_pc 2 = Some regList" "length arg = 5" "InstB w \<le> 5"
  shows "\<exists>arg'. GetVarArgs insns dex_pc arg w = Some arg' \<and>
    arg' = take (unat (InstB w)) (var_arg_nibbles regList w) @ drop (unat (InstB w)) arg"
proof -
  obtain a b c d e where "arg = [a, b, c, d, e]"
    using list5_cases [OF assms(2)] by blast
  moreover have "var_arg_nibbles regList w = [ucast (regList AND 0xf), ucast (drop_bit 4 regList AND 0xf),
     ucast (drop_bit 8 regList AND 0xf), ucast (drop_bit 12 regList AND 0xf), ucast (InstA w)]"
    by (simp add: var_arg_nibbles_def word_masks upt_conv_Cons)
  ultimately show ?thesis
    using unat_le_5_cases [OF assms(3)] assms(1)
    by (auto simp: GetVarArgs_def Let_def)
qed

section \<open>Setters\<close>

lemma Opcode_bits: "Opcode w = ucast w"
  by (simp add: Opcode_def word_masks) (rule bit_word_eqI, auto simp: bit_simps)

lemma SetOpcode_spec:
  assumes "dex_pc < length insns"
  shows "\<exists>w'. SetOpcode insns dex_pc opcode = Some (insns[dex_pc := w']) \<and> Opcode w' = opcode \<and>
           InstAA w' = InstAA (insns ! dex_pc)"
proof (intro exI conjI)
  let ?w = "(insns ! dex_pc AND 0xff00) OR ucast opcode"
  show "SetOpcode insns dex_pc opcode = Some (insns[dex_pc := ?w])"
    using assms by (simp add: SetOpcode_def array_get_in array_set_in)
  have m: "bit (0xff00 :: uint16) n \<longleftrightarrow> 8 \<le> n \<and> n < 16" for n
  proof -
    have e: "(0xff00 :: uint16) = push_bit 8 (mask 8)" by (simp add: mask_eq_exp_minus_1)
    show ?thesis unfolding e bit_push_bit_iff bit_mask_iff by auto
  qed
  have b: "bit opcode n \<Longrightarrow> n < 8" for n using bit_imp_le_length [of opcode n] by simp
  have "bit (Opcode ?w) n = bit opcode n" if "n < LENGTH(8)" for n
    using that b [of n] unfolding Opcode_bits bit_ucast_iff bit_or_iff bit_and_iff m by auto
  then show "Opcode ?w = opcode" by (rule bit_word_eqI)
  have "bit (InstAA ?w) n = bit (InstAA (insns ! dex_pc)) n" if "n < LENGTH(8)" for n
    using that b [of "8 + n"]
    unfolding InstAA_def bit_ucast_iff bit_drop_bit_eq o_apply bit_or_iff bit_and_iff m by auto
  then show "InstAA ?w = InstAA (insns ! dex_pc)" by (rule bit_word_eqI)
qed

section \<open>Properties\<close>

text \<open>
  C10: The instruction table and the operand decoders agree.  When an instruction lies completely
  within the code, every operand that its verify flags ask the verifier to check can be decoded
  (no accessor reaches its \<open>LOG(FATAL)\<close> branch or reads behind the code), an instruction is
  flagged as a branch exactly when its format has a branch target, and argument lists are only
  asked of the formats that have one.
\<close>
theorem verified_operands_decodable:
  assumes "SizeInCodeUnits insns dex_pc = Some n" "dex_pc + n \<le> length insns"
    and "Fetch16 insns dex_pc 0 = Some w"
  shows "(GetVerifyTypeArgumentA (Opcode w) \<noteq> 0 \<longrightarrow> VRegA insns dex_pc \<noteq> None) \<and>
    (GetVerifyTypeArgumentB (Opcode w) \<noteq> 0 \<longrightarrow> VRegB insns dex_pc \<noteq> None) \<and>
    (GetVerifyTypeArgumentC (Opcode w) \<noteq> 0 \<longrightarrow> VRegC insns dex_pc \<noteq> None) \<and>
    (VerifyFlagsOf (Opcode w) AND kVerifyBranchTarget \<noteq> 0 \<longleftrightarrow> IsBranch (Opcode w)) \<and>
    (IsBranch (Opcode w) \<longleftrightarrow> GetTargetOffset insns dex_pc \<noteq> None) \<and>
    (VerifyFlagsOf (Opcode w) AND (kVerifyVarArg OR kVerifyVarArgNonZero) \<noteq> 0 \<longrightarrow>
       HasVarArgs35c (Opcode w))"
proof -
  have sz: "dex_pc + format_size (FormatOf (Opcode w)) \<le> length insns"
    using SizeInCodeUnits_format [OF assms(1,3)] assms(2) by simp
  have t: "FormatOf (Opcode w) \<in> {k22t, k21t, k10t, k20t, k30t} \<longleftrightarrow>
      GetTargetOffset insns dex_pc \<noteq> None"
    using GetTargetOffset_decodable [OF assms(3) _ sz] assms(3)
    by (auto simp: GetTargetOffset_def split: Format.splits)
  show ?thesis
    using VRegA_decodable [OF assms(3) _ sz] VRegB_decodable [OF assms(3) _ sz]
      VRegC_decodable [OF assms(3) _ sz] format_operands [of "Opcode w"] format_targets [of "Opcode w"] t
    unfolding GetVerifyTypeArgumentA_def GetVerifyTypeArgumentB_def GetVerifyTypeArgumentC_def
      Has_formats HasVarArgs35c_def
    by simp
qed

theorem verified_operands_decodable_witness:
  "GetVerifyTypeArgumentA IF_EQ \<noteq> 0 \<and> VRegA [0x1032, 3] 0 \<noteq> None \<and>
   IsBranch IF_EQ \<and> GetTargetOffset [0x1032, 3] 0 \<noteq> None"
proof -
  have s: "SizeInCodeUnits [0x1032, 3] 0 = Some 2"
    by (simp add: SizeInCodeUnits_def Fetch16_def array_get_def Opcode_def size_row FormatOf_row
        INSTRUCTION_SIZE_def table_defs less_eq_Format_def)
  have f: "Fetch16 [0x1032, 3] 0 0 = Some 0x1032"
    by (simp add: Fetch16_def array_get_def)
  have v: "VerifyFlagsOf 0x32 AND kVerifyBranchTarget \<noteq> 0" "GetVerifyTypeArgumentA 0x32 \<noteq> 0"
    by (simp_all add: VerifyFlagsOf_row GetVerifyTypeArgumentA_def table_defs)
  have o: "Opcode 0x1032 = 0x32" by (simp add: Opcode_def)
  show ?thesis
    using verified_operands_decodable [OF s _ f] v unfolding o by auto
qed

text \<open>
  C11: \<open>GetVarArgs\<close> fills the first \<open>count\<close> entries of the argument array with the register
  nibbles C, D, E, F of the third code unit and then G of the first one, in this order, and keeps
  the other entries, for every argument count up to five.
\<close>
theorem get_var_args:
  assumes "Fetch16 insns dex_pc 2 = Some regList" "length arg = 5" "InstB w \<le> 5"
  shows "\<exists>arg'. GetVarArgs insns dex_pc arg w = Some arg' \<and>
    arg' = take (unat (InstB w)) (var_arg_nibbles regList w) @ drop (unat (InstB w)) arg"
  using GetVarArgs_spec [OF assms] .

theorem get_var_args_witness:
  "GetVarArgs [0x306e, 7, 0x4321] 0 [9, 9, 9, 9, 9] 0x306e = Some [1, 2, 3, 9, 9]"
  using get_var_args [of "[0x306e, 7, 0x4321]" 0 "0x4321" "[9, 9, 9, 9, 9]" "0x306e"]
  by (simp add: Fetch16_def array_get_def InstB_def InstA_def var_arg_nibbles_def upt_conv_Cons)

end
