(* ===== verification/Leb128.thy ===== *)
theory Leb128
  imports ART_Prelude
begin

text \<open>
  The LEB128 variable length encoding of \<open>runtime/leb128.h\<close>: decoders that advance a read
  pointer over a byte stream (here: return the rest of the stream), encoders that append to a
  byte vector or write through a pointer, the size predictors, the in-place update and the
  \<open>Leb128Encoder\<close> class.  The decoders are related to one recursion over 7-bit groups
  (\<open>uleb_groups\<close>, \<open>sleb_groups\<close>); the round trip, size and update theorems hold for every
  32-bit value.
\<close>

section \<open>Counting leading zeros (base/bit_utils.h)\<close>

definition CLZ :: "'a::len word \<Rightarrow> nat" where
  "CLZ x = length (takeWhile Not (rev (map (bit x) [0..<LENGTH('a)])))"

section \<open>Decoders\<close>

text \<open>Dereferencing and advancing the read pointer.\<close>

definition next_byte :: "uint8 list \<Rightarrow> (uint8 \<times> uint8 list) option" where
  "next_byte data = (case data of [] \<Rightarrow> None | b # rest \<Rightarrow> Some (b, rest))"

definition DecodeUnsignedLeb128 :: "uint8 list \<Rightarrow> (uint32 \<times> uint8 list) option" where
  "DecodeUnsignedLeb128 data = do {
     (b0, ptr) \<leftarrow> next_byte data;
     let result = (ucast b0 :: uint32);
     if result > 0x7f then do {
       (b1, ptr) \<leftarrow> next_byte ptr;
       let cur = (ucast b1 :: uint32);
       let result = (result AND 0x7f) OR push_bit 7 (cur AND 0x7f);
       if cur > 0x7f then do {
         (b2, ptr) \<leftarrow> next_byte ptr;
         let cur = (ucast b2 :: uint32);
         let result = result OR push_bit 14 (cur AND 0x7f);
         if cur > 0x7f then do {
           (b3, ptr) \<leftarrow> next_byte ptr;
           let cur = (ucast b3 :: uint32);
           let result = result OR push_bit 21 (cur AND 0x7f);
           if cur > 0x7f then do {
             (b4, ptr) \<leftarrow> next_byte ptr;
             let cur = (ucast b4 :: uint32);
             Some (result OR push_bit 28 cur, ptr)
           } else Some (result, ptr)
         } else Some (result, ptr)
       } else Some (result, ptr)
     } else Some (result, ptr)
   }"

definition DecodeUnsignedLeb128P1 :: "uint8 list \<Rightarrow> (int32 \<times> uint8 list) option" where
  "DecodeUnsignedLeb128P1 data = do {
     (v, ptr) \<leftarrow> DecodeUnsignedLeb128 data;
     Some (v - 1, ptr)
   }"

definition DecodeSignedLeb128 :: "uint8 list \<Rightarrow> (int32 \<times> uint8 list) option" where
  "DecodeSignedLeb128 data = do {
     (b0, ptr) \<leftarrow> next_byte data;
     let result = (ucast b0 :: int32);
     if result \<le> 0x7f then Some (signed_drop_bit 25 (push_bit 25 result), ptr)
     else do {
       (b1, ptr) \<leftarrow> next_byte ptr;
       let cur = (ucast b1 :: int32);
       let result = (result AND 0x7f) OR push_bit 7 (cur AND 0x7f);
       if cur \<le> 0x7f then Some (signed_drop_bit 18 (push_bit 18 result), ptr)
       else do {
         (b2, ptr) \<leftarrow> next_byte ptr;
         let cur = (ucast b2 :: int32);
         let result = result OR push_bit 14 (cur AND 0x7f);
         if cur \<le> 0x7f then Some (signed_drop_bit 11 (push_bit 11 result), ptr)
         else do {
           (b3, ptr) \<leftarrow> next_byte ptr;
           let cur = (ucast b3 :: int32);
           let result = result OR push_bit 21 (cur AND 0x7f);
           if cur \<le> 0x7f then Some (signed_drop_bit 4 (push_bit 4 result), ptr)
           else do {
             (b4, ptr) \<leftarrow> next_byte ptr;
             let cur = (ucast b4 :: int32);
             Some (result OR push_bit 28 cur, ptr)
           }
         }
       }
     }
   }"

section \<open>Size predictors\<close>

definition UnsignedLeb128Size :: "uint32 \<Rightarrow> nat" where
  "UnsignedLeb128Size data =
     (let x = 6 + 32 - CLZ (data OR 1) in (x * 37) div 2 ^ 8)"

definition SignedLeb128Size :: "int32 \<Rightarrow> nat" where
  "SignedLeb128Size data =
     (let data = data XOR signed_drop_bit 31 data;
          x = 1 + 6 + 32 - CLZ (data OR 1)
      in (x * 37) div 2 ^ 8)"

section \<open>Encoders\<close>

text \<open>The loop of \<open>EncodeUnsignedLeb128\<close>: the bytes it pushes from the pending byte \<open>out\<close> on.\<close>

function EncodeUnsignedLeb128_loop :: "uint8 \<Rightarrow> uint32 \<Rightarrow> uint8 list" where
  "EncodeUnsignedLeb128_loop out value =
     (if value \<noteq> 0
      then (out OR 0x80) # EncodeUnsignedLeb128_loop (ucast (value AND 0x7f)) (drop_bit 7 value)
      else [out])"
  by pat_completeness auto
termination
  by (relation "measure (\<lambda>(out, value). unat value)") (auto simp: unat_drop_bit unat_gt_0)

declare EncodeUnsignedLeb128_loop.simps [simp del]

definition EncodeUnsignedLeb128 :: "uint8 list \<Rightarrow> uint32 \<Rightarrow> uint8 list" where
  "EncodeUnsignedLeb128 dest value =
     dest @ EncodeUnsignedLeb128_loop (ucast (value AND 0x7f)) (drop_bit 7 value)"

text \<open>The overload that writes through a pointer, into the memory \<open>mem\<close> from \<open>dest\<close> on.\<close>

function EncodeUnsignedLeb128_ptr_loop ::
    "uint8 list \<Rightarrow> nat \<Rightarrow> uint8 \<Rightarrow> uint32 \<Rightarrow> (uint8 list \<times> nat) option" where
  "EncodeUnsignedLeb128_ptr_loop mem dest out value =
     (if value \<noteq> 0 then do {
        mem \<leftarrow> array_set mem dest (out OR 0x80);
        EncodeUnsignedLeb128_ptr_loop mem (dest + 1) (ucast (value AND 0x7f)) (drop_bit 7 value)
      } else do {
        mem \<leftarrow> array_set mem dest out;
        Some (mem, dest + 1)
      })"
  by pat_completeness auto
termination
  by (relation "measure (\<lambda>(mem, dest, out, value). unat value)")
    (auto simp: unat_drop_bit unat_gt_0)

declare EncodeUnsignedLeb128_ptr_loop.simps [simp del]

definition EncodeUnsignedLeb128_ptr ::
    "uint8 list \<Rightarrow> nat \<Rightarrow> uint32 \<Rightarrow> (uint8 list \<times> nat) option" where
  "EncodeUnsignedLeb128_ptr mem dest value =
     EncodeUnsignedLeb128_ptr_loop mem dest (ucast (value AND 0x7f)) (drop_bit 7 value)"

text \<open>The padding loop of \<open>UpdateUnsignedLeb128\<close>.\<close>

function pad_leb128 :: "uint8 list \<Rightarrow> nat \<Rightarrow> nat \<Rightarrow> uint8 list option" where
  "pad_leb128 mem endp old_end =
     (if endp < old_end then do {
        b \<leftarrow> array_get mem (endp - 1);
        mem \<leftarrow> array_set mem (endp - 1) (b OR 0x80);
        mem \<leftarrow> array_set mem endp 0;
        pad_leb128 mem (endp + 1) old_end
      } else Some mem)"
  by pat_completeness auto
termination
  by (relation "measure (\<lambda>(mem, endp, old_end). old_end - endp)") auto

declare pad_leb128.simps [simp del]

definition UpdateUnsignedLeb128 :: "uint8 list \<Rightarrow> nat \<Rightarrow> uint32 \<Rightarrow> uint8 list option" where
  "UpdateUnsignedLeb128 mem dest value = do {
     (old_value, rest) \<leftarrow> DecodeUnsignedLeb128 (drop dest mem);
     let old_end = length mem - length rest;
     (mem, endp) \<leftarrow> EncodeUnsignedLeb128_ptr mem dest value;
     pad_leb128 mem endp old_end
   }"

function EncodeSignedLeb128_loop :: "uint8 \<Rightarrow> int32 \<Rightarrow> uint32 \<Rightarrow> uint8 list" where
  "EncodeSignedLeb128_loop out value extra_bits =
     (if extra_bits \<noteq> 0
      then (out OR 0x80) #
           (let value = signed_drop_bit 7 value
            in EncodeSignedLeb128_loop (ucast (value AND 0x7f)) value (drop_bit 7 extra_bits))
      else [out])"
  by pat_completeness auto
termination
  by (relation "measure (\<lambda>(out, value, extra_bits). unat extra_bits)")
    (auto simp: unat_drop_bit unat_gt_0)

declare EncodeSignedLeb128_loop.simps [simp del]

definition EncodeSignedLeb128 :: "uint8 list \<Rightarrow> int32 \<Rightarrow> uint8 list" where
  "EncodeSignedLeb128 dest value =
     (let extra_bits = drop_bit 6 (value XOR signed_drop_bit 31 value)
      in dest @ EncodeSignedLeb128_loop (ucast (value AND 0x7f)) value extra_bits)"

section \<open>Leb128Encoder\<close>

definition PushBackUnsigned :: "uint8 list \<Rightarrow> uint32 \<Rightarrow> uint8 list" where
  "PushBackUnsigned data value = EncodeUnsignedLeb128 data value"

fun InsertBackUnsigned :: "uint8 list \<Rightarrow> uint32 list \<Rightarrow> uint8 list" where
  "InsertBackUnsigned data [] = data"
| "InsertBackUnsigned data (cur # rest) = InsertBackUnsigned (PushBackUnsigned data cur) rest"

definition PushBackSigned :: "uint8 list \<Rightarrow> int32 \<Rightarrow> uint8 list" where
  "PushBackSigned data value = EncodeSignedLeb128 data value"

fun InsertBackSigned :: "uint8 list \<Rightarrow> int32 list \<Rightarrow> uint8 list" where
  "InsertBackSigned data [] = data"
| "InsertBackSigned data (cur # rest) = InsertBackSigned (PushBackSigned data cur) rest"

section \<open>Reference recursions\<close>

text \<open>The decoders as one recursion over at most \<open>k\<close> groups, the next at bit \<open>s\<close>.\<close>

fun uleb_groups :: "nat \<Rightarrow> nat \<Rightarrow> uint32 \<Rightarrow> uint8 list \<Rightarrow> (uint32 \<times> uint8 list) option" where
  "uleb_groups 0 s acc data = None"
| "uleb_groups (Suc k) s acc data = do {
     (b, ptr) \<leftarrow> next_byte data;
     if k = 0 then Some (acc OR push_bit s (ucast b), ptr)
     else if bit b 7 then uleb_groups k (s + 7) (acc OR push_bit s (take_bit 7 (ucast b))) ptr
     else Some (acc OR push_bit s (take_bit 7 (ucast b)), ptr)
   }"

fun sleb_groups :: "nat \<Rightarrow> nat \<Rightarrow> int32 \<Rightarrow> uint8 list \<Rightarrow> (int32 \<times> uint8 list) option" where
  "sleb_groups 0 s acc data = None"
| "sleb_groups (Suc k) s acc data = do {
     (b, ptr) \<leftarrow> next_byte data;
     if k = 0 then Some (acc OR push_bit s (ucast b), ptr)
     else if \<not> bit b 7 then
       Some (signed_drop_bit (25 - s) (push_bit (25 - s)
               (acc OR push_bit s (take_bit 7 (ucast b)))), ptr)
     else sleb_groups k (s + 7) (acc OR push_bit s (take_bit 7 (ucast b))) ptr
   }"

definition uleb128 :: "uint32 \<Rightarrow> uint8 list" where
  "uleb128 v = EncodeUnsignedLeb128_loop (ucast (v AND 0x7f)) (drop_bit 7 v)"

definition sleb_extra :: "int32 \<Rightarrow> uint32" where
  "sleb_extra v = drop_bit 6 (v XOR signed_drop_bit 31 v)"

definition sleb128 :: "int32 \<Rightarrow> uint8 list" where
  "sleb128 v = EncodeSignedLeb128_loop (ucast (v AND 0x7f)) v (sleb_extra v)"

text \<open>The value is the sign extension of its low \<open>32 - s\<close> bits, the bits still to be written.\<close>

definition sleb_fits :: "nat \<Rightarrow> int32 \<Rightarrow> bool" where
  "sleb_fits s v \<longleftrightarrow> (\<forall>n. 31 - s \<le> n \<and> n < 32 \<longrightarrow> bit v n = bit v 31)"

text \<open>The bits of a signed value that differ from its sign.\<close>

definition sleb_diff :: "int32 \<Rightarrow> uint32" where
  "sleb_diff v = v XOR signed_drop_bit 31 v"

text \<open>\<open>m\<close> is the highest set bit of \<open>w\<close>.\<close>

definition top_bit :: "'a::len word \<Rightarrow> nat \<Rightarrow> bool" where
  "top_bit w m \<longleftrightarrow> bit w m \<and> (\<forall>n. m < n \<longrightarrow> \<not> bit w n)"

text \<open>The bytes that replace a last byte \<open>b\<close> when \<open>p\<close> more bytes are to be filled.\<close>

fun leb_padding :: "nat \<Rightarrow> uint8 \<Rightarrow> uint8 list" where
  "leb_padding 0 b = [b]"
| "leb_padding (Suc p) b = (b OR 0x80) # leb_padding p 0"

section \<open>Unsigned round trip\<close>

lemma byte_gt_0x7f: "(ucast (b :: uint8) :: uint32) > 0x7f \<longleftrightarrow> bit b 7"
proof -
  have *: "unat b < 256" using unsigned_less [of b, where 'a = nat] by simp
  have "unat b div 128 = (if 127 < unat b then 1 else 0)"
    using * by (auto intro: div_nat_eqI)
  then have "bit b 7 \<longleftrightarrow> 127 < unat b"
    unfolding bit_unat_div by simp
  moreover have "(ucast b :: uint32) > 0x7f \<longleftrightarrow> 127 < unat b"
    using * by (simp add: word_less_nat_alt unsigned_ucast_eq take_bit_nat_eq_self)
  ultimately show ?thesis by simp
qed

lemma ucast_take_bit_7: "\<not> bit (b::uint8) 7 \<Longrightarrow> take_bit 7 (ucast b :: uint32) = ucast b"
proof (rule bit_word_eqI)
  fix n assume b: "\<not> bit b 7"
  have "bit b n \<Longrightarrow> n < 7"
    using b bit_imp_le_length [of b n] by (cases "n = 7") auto
  then show "bit (take_bit 7 (ucast b :: uint32)) n = bit (ucast b :: uint32) n"
    by (auto simp: bit_simps)
qed

lemma uleb_groups_5:
  "uleb_groups 5 s acc data = uleb_groups (Suc (Suc (Suc (Suc (Suc 0))))) s acc data"
  by (simp add: eval_nat_numeral)

lemma DecodeUnsigned_groups: "DecodeUnsignedLeb128 data = uleb_groups 5 0 0 data"
  unfolding DecodeUnsignedLeb128_def uleb_groups_5 Let_def byte_gt_0x7f and_0x7f
  by (simp only: uleb_groups.simps nat.simps simp_thms if_False if_True add_0 arith_simps
     push_bit_0_id id_apply or.left_neutral not_not ucast_take_bit_7 cong: if_cong)

lemma unat_uint32_less: "unat (v :: uint32) < 2 ^ 32"
  using unsigned_less [of v, where 'a = nat] by simp

lemma uleb128_rec:
  "uleb128 v = (if drop_bit 7 v = 0 then [ucast (take_bit 7 v)]
                else (ucast (take_bit 7 v) OR 0x80) # uleb128 (drop_bit 7 v))"
  unfolding uleb128_def by (subst EncodeUnsignedLeb128_loop.simps) (simp add: and_0x7f)

lemma drop_bit_7_eq_0: "drop_bit 7 (v :: uint32) = 0 \<longleftrightarrow> unat v < 128"
  by (simp add: unat_eq_0 [symmetric] unat_drop_bit div_eq_0_iff)

lemma take_bit_drop_bit_0: "drop_bit n (v :: uint32) = 0 \<Longrightarrow> take_bit n v = v"
  by (metis bits_ident add.left_neutral push_bit_of_0)

lemma bit_0x80 [simp]: "bit (0x80 :: int) n \<longleftrightarrow> n = 7"
proof -
  have "(0x80 :: int) = 2 ^ 7" by simp
  then show ?thesis by (simp only: bit_exp_iff) auto
qed

lemma ucast_low_byte: "(ucast (ucast (take_bit 7 v) :: uint8) :: uint32) = take_bit 7 v"
  by (rule bit_word_eqI) (auto simp: bit_simps)

lemma take_bit_cont_byte:
  "take_bit 7 (ucast (ucast (take_bit 7 v) OR 0x80 :: uint8) :: uint32) = take_bit 7 v"
  by (rule bit_word_eqI) (auto simp: bit_simps)

lemma bit_cont_byte: "bit (ucast (take_bit 7 (v::uint32)) OR 0x80 :: uint8) 7"
  by (simp add: bit_simps)

lemma bit_last_byte: "\<not> bit (ucast (take_bit 7 (v::uint32)) :: uint8) 7"
  by (simp add: bit_simps)

lemma push_bit_split:
  "push_bit s (take_bit 7 v) OR push_bit (s + 7) (drop_bit 7 v) = push_bit s (v :: uint32)"
proof (rule bit_word_eqI)
  fix n
  show "bit (push_bit s (take_bit 7 v) OR push_bit (s + 7) (drop_bit 7 v)) n = bit (push_bit s v) n"
    by (cases "n < s + 7") (auto simp: bit_simps)
qed

lemma uleb_groups_uleb128:
  assumes "unat v < 2 ^ (7 * k)" "0 < k"
  shows "uleb_groups k s acc (uleb128 v @ rest) = Some (acc OR push_bit s v, rest)"
  using assms
proof (induction k arbitrary: s acc v)
  case 0
  then show ?case by simp
next
  case (Suc k)
  show ?case
  proof (cases "drop_bit 7 v = 0")
    case True
    then show ?thesis
      using ucast_low_byte [of v] bit_last_byte [of v]
      by (simp add: uleb128_rec [of v] next_byte_def take_bit_drop_bit_0)
  next
    case False
    then have "k \<noteq> 0"
      using Suc.prems by (cases k) (auto simp: drop_bit_7_eq_0)
    moreover have "unat (drop_bit 7 v) < 2 ^ (7 * k)"
      using Suc.prems by (simp add: unat_drop_bit power_add less_mult_imp_div_less mult.commute)
    ultimately show ?thesis
      using False Suc.IH [of "drop_bit 7 v" "s + 7"]
      by (simp add: uleb128_rec [of v] next_byte_def bit_cont_byte take_bit_cont_byte
          push_bit_split or.assoc)
  qed
qed

lemma DecodeUnsigned_uleb128: "DecodeUnsignedLeb128 (uleb128 v @ rest) = Some (v, rest)"
  using unat_uint32_less [of v] by (simp add: DecodeUnsigned_groups uleb_groups_uleb128)

section \<open>Signed round trip\<close>

lemma sleb_groups_5:
  "sleb_groups 5 s acc data = sleb_groups (Suc (Suc (Suc (Suc (Suc 0))))) s acc data"
  by (simp add: eval_nat_numeral)

lemma byte_le_0x7f: "(ucast (b :: uint8) :: uint32) \<le> 0x7f \<longleftrightarrow> \<not> bit b 7"
  using byte_gt_0x7f [of b] by (simp add: not_less [symmetric])

lemma sign_shifts: "25 - 7 = (18::nat)" "25 - 14 = (11::nat)" "25 - 21 = (4::nat)"
  by simp_all

lemma DecodeSigned_groups: "DecodeSignedLeb128 data = sleb_groups 5 0 0 data"
  unfolding DecodeSignedLeb128_def sleb_groups_5 Let_def byte_le_0x7f and_0x7f
  by (simp only: sleb_groups.simps nat.simps simp_thms if_False if_True add_0 arith_simps
     push_bit_0_id id_apply or.left_neutral ucast_take_bit_7
     sign_shifts diff_zero cong: if_cong)

lemma bit_sleb_extra:
  "bit (sleb_extra v) n \<longleftrightarrow> n + 6 < 32 \<and> bit v (n + 6) \<noteq> bit v 31"
  by (auto simp: sleb_extra_def bit32_simps dest: bit32_less)

lemma sleb_extra_step: "drop_bit 7 (sleb_extra v) = sleb_extra (signed_drop_bit 7 v)"
  by (rule bit_word_eqI)
    (auto simp: bit_sleb_extra bit32_simps dest: bit32_less)

lemma sleb_extra_0: "sleb_extra v = 0 \<longleftrightarrow> (\<forall>n. 6 \<le> n \<and> n < 32 \<longrightarrow> bit v n = bit v 31)"
proof -
  have "sleb_extra v = 0 \<longleftrightarrow> (\<forall>n. \<not> bit (sleb_extra v) n)"
    by (auto intro: bit_word_eqI)
  also have "\<dots> \<longleftrightarrow> (\<forall>n. n + 6 < 32 \<longrightarrow> bit v (n + 6) = bit v 31)"
    by (auto simp: bit_sleb_extra)
  also have "\<dots> \<longleftrightarrow> (\<forall>n. 6 \<le> n \<and> n < 32 \<longrightarrow> bit v n = bit v 31)"
    by (metis le_add2 le_add_diff_inverse2)
  finally show ?thesis .
qed

lemma sleb128_rec:
  "sleb128 v = (if sleb_extra v = 0 then [ucast (take_bit 7 v)]
                else (ucast (take_bit 7 v) OR 0x80) # sleb128 (signed_drop_bit 7 v))"
  unfolding sleb128_def
  by (subst EncodeSignedLeb128_loop.simps) (simp add: and_0x7f Let_def sleb_extra_step)

lemma bit_sign_extend:
  "t \<le> 31 \<Longrightarrow> bit (signed_drop_bit t (push_bit t (x :: int32))) n \<longleftrightarrow> n < 32 \<and> bit x (min n (31 - t))"
  by (auto simp: bit_signed_drop_bit_32 bit_push_bit_iff min_def)

lemma sleb_last:
  assumes ex: "sleb_extra v = 0" and s: "s < 25" and acc: "\<And>n. bit acc n \<Longrightarrow> n < s"
  shows "signed_drop_bit (25 - s) (push_bit (25 - s) (acc OR push_bit s (take_bit 7 v)))
           = acc OR push_bit s v"
proof -
  define X where "X = acc OR push_bit s (take_bit 7 v)"
  have X: "bit X m \<longleftrightarrow> bit acc m \<or> (s \<le> m \<and> m < s + 7 \<and> bit v (m - s))" if "m < 32" for m
    using that by (auto simp: X_def bit_or_iff bit_push_bit_iff bit_take_bit_iff)
  have sg: "bit v m = bit v 31" if "6 \<le> m" "m < 32" for m
    using ex that unfolding sleb_extra_0 by blast
  have v: "bit v m = bit v 6" if "6 \<le> m" "m < 32" for m
    using sg [of m] sg [of 6] that by simp
  have "signed_drop_bit (25 - s) (push_bit (25 - s) X) = acc OR push_bit s v"
  proof (rule bit_word_eqI)
    fix n assume "n < LENGTH(32)"
    then have n: "n < 32" by simp
    then have L: "bit (signed_drop_bit (25 - s) (push_bit (25 - s) X)) n \<longleftrightarrow> bit X (min n (s + 6))"
      using s by (simp add: bit_sign_extend add.commute)
    show "bit (signed_drop_bit (25 - s) (push_bit (25 - s) X)) n = bit (acc OR push_bit s v) n"
    proof (cases "n < s + 7")
      case True
      then show ?thesis unfolding L using n X [of n] by (auto simp: bit_or_iff bit_push_bit_iff)
    next
      case False
      then have "\<not> bit acc n" "\<not> bit acc (s + 6)" using acc by fastforce+
      with False show ?thesis unfolding L
        using n s X [of "s + 6"] v [of "n - s"] by (auto simp: bit_or_iff bit_push_bit_iff)
    qed
  qed
  then show ?thesis by (simp only: X_def)
qed

lemma sleb_fitsD: "sleb_fits s v \<Longrightarrow> 31 - s \<le> n \<Longrightarrow> n < 32 \<Longrightarrow> bit v n = bit v 31"
  unfolding sleb_fits_def by blast

lemma sleb_fits_step: "s + 7 \<le> 31 \<Longrightarrow> sleb_fits s v \<Longrightarrow> sleb_fits (s + 7) (signed_drop_bit 7 v)"
  unfolding sleb_fits_def [of "s + 7"]
  using sleb_fitsD [of s v "n + 7" for n] by (auto simp: bit_signed_drop_bit_32)

lemma push_bit_ssplit:
  "sleb_fits s v \<Longrightarrow> s + 7 \<le> 31 \<Longrightarrow>
   push_bit s (take_bit 7 v) OR push_bit (s + 7) (signed_drop_bit 7 v) = push_bit s v"
proof (rule bit_word_eqI)
  fix n assume "sleb_fits s v" "s + 7 \<le> 31" "n < LENGTH(32)"
  then show "bit (push_bit s (take_bit 7 v) OR push_bit (s + 7) (signed_drop_bit 7 v)) n
      = bit (push_bit s v) n"
    by (cases "n < s + 7") (auto simp: bit32_simps)
qed

lemma sleb_groups_sleb128:
  assumes "s + 7 * k = 35" "0 < k" "sleb_fits s v" "\<And>n. bit acc n \<Longrightarrow> n < s"
  shows "sleb_groups k s acc (sleb128 v @ rest) = Some (acc OR push_bit s v, rest)"
  using assms
proof (induction k arbitrary: s acc v)
  case 0
  then show ?case by simp
next
  case (Suc k)
  show ?case
  proof (cases "sleb_extra v = 0")
    case True
    show ?thesis
    proof (cases "k = 0")
      case last: True
      then have "s = 28" using Suc.prems(1) by simp
      then have "push_bit s (take_bit 7 v) = push_bit s v"
        by (intro bit_word_eqI) (auto simp: bit_push_bit_iff bit_take_bit_iff)
      with True last show ?thesis
        by (simp add: sleb128_rec [of v] next_byte_def ucast_low_byte)
    next
      case False
      then have "s < 25" using Suc.prems(1) by simp
      then have "signed_drop_bit (25 - s) (push_bit (25 - s) (acc OR push_bit s (take_bit 7 v)))
          = acc OR push_bit s v"
        by (rule sleb_last [OF True]) (rule Suc.prems(4))
      with False True show ?thesis
        using bit_last_byte [of v] ucast_low_byte [of v]
        by (simp add: sleb128_rec [of v] next_byte_def del: sleb_groups.simps(1))
    qed
  next
    case False
    have "k \<noteq> 0"
    proof
      assume "k = 0"
      then have "s = 28" using Suc.prems(1) by simp
      then have "bit v n = bit v 31" if "6 \<le> n" "n < 32" for n
        by (intro sleb_fitsD [OF Suc.prems(3)]) (use that in auto)
      with False show False unfolding sleb_extra_0 by blast
    qed
    then have k: "s + 7 + 7 * k = 35" "0 < k" "s + 7 \<le> 31" using Suc.prems(1) by auto
    have "n < s + 7" if "bit (acc OR push_bit s (take_bit 7 v)) n" for n
      using Suc.prems(4) [of n] that by (auto simp: bit_or_iff bit_push_bit_iff bit_take_bit_iff)
    note IH = Suc.IH [OF k(1,2) sleb_fits_step [OF k(3) Suc.prems(3)] this]
    from IH False \<open>k \<noteq> 0\<close> show ?thesis
      by (simp add: sleb128_rec [of v] next_byte_def bit_cont_byte take_bit_cont_byte or.assoc
          push_bit_ssplit [OF Suc.prems(3) k(3)] del: sleb_groups.simps(1))
  qed
qed

lemma DecodeSigned_sleb128: "DecodeSignedLeb128 (sleb128 v @ rest) = Some (v, rest)"
proof -
  have "n = 31" if "31 - 0 \<le> n \<and> n < 32" for n :: nat using that by arith
  then have "sleb_fits 0 v" unfolding sleb_fits_def by blast
  then show ?thesis
    using sleb_groups_sleb128 [of 0 5 v 0 rest] by (simp add: DecodeSigned_groups)
qed

section \<open>Sizes\<close>

lemma top_bit_less: "top_bit (w :: 'a::len word) m \<Longrightarrow> m < LENGTH('a)"
  by (auto simp: top_bit_def dest: bit_imp_le_length)

lemma top_bit_exists:
  assumes "(w :: 'a::len word) \<noteq> 0"
  shows "\<exists>m. top_bit w m"
proof -
  obtain k where "bit w k" using assms bit_word_eqI [of w 0] by auto
  moreover have "\<forall>n. bit w n \<longrightarrow> n \<le> LENGTH('a)"
    by (auto dest: bit_imp_le_length intro: less_imp_le)
  ultimately have "bit w (GREATEST n. bit w n)" "\<forall>n. bit w n \<longrightarrow> n \<le> (GREATEST n. bit w n)"
    by (auto intro: GreatestI_nat Greatest_le_nat)
  then show ?thesis unfolding top_bit_def by (meson not_le)
qed

lemma CLZ_top_bit:
  assumes t: "top_bit (w :: 'a::len word) m"
  shows "CLZ w = LENGTH('a) - 1 - m"
proof -
  let ?hi = "rev (map (bit w) [Suc m..<LENGTH('a)])"
  have "[0..<LENGTH('a)] = [0..<m] @ m # [Suc m..<LENGTH('a)]"
    using top_bit_less [OF t] upt_add_eq_append [of 0 m "LENGTH('a) - m"]
    by (simp add: upt_conv_Cons)
  then have "rev (map (bit w) [0..<LENGTH('a)]) = ?hi @ bit w m # rev (map (bit w) [0..<m])"
    by simp
  moreover have "takeWhile Not (?hi @ bit w m # xs) = ?hi" for xs
    using t by (subst takeWhile_append2) (auto simp: top_bit_def)
  ultimately show ?thesis by (simp add: CLZ_def)
qed

lemma top_bit_or_1: "top_bit (w :: uint32) m \<Longrightarrow> top_bit (w OR 1) m"
  by (auto simp: top_bit_def bit_or_iff bit_1_iff)

lemma top_bit_0_or_1: "top_bit ((0 :: uint32) OR 1) 0"
  by (simp add: top_bit_def bit_1_iff)

lemma top_bit_drop_bit: "top_bit (w :: uint32) m \<Longrightarrow> n \<le> m \<Longrightarrow> top_bit (drop_bit n w) (m - n)"
  by (auto simp: top_bit_def bit_drop_bit_eq)

lemma top_bit_drop_bit_0: "top_bit (w :: uint32) m \<Longrightarrow> drop_bit n w = 0 \<longleftrightarrow> m < n"
proof
  assume t: "top_bit w m" and "drop_bit n w = 0"
  then have "\<not> bit (drop_bit n w) (m - n)" by simp
  with t show "m < n" by (cases "n \<le> m") (auto simp: top_bit_def bit_drop_bit_eq)
next
  assume "top_bit w m" "m < n"
  then show "drop_bit n w = 0"
    by (intro bit_word_eqI) (auto simp: top_bit_def bit_drop_bit_eq)
qed

lemma size_div_7:
  assumes "m < 32"
  shows "(m + 7) * 37 div 256 = m div 7 + (1::nat)"
proof -
  obtain q r where m: "m = 7 * q + r" and qr: "r < 7" "q \<le> 4" and q: "m div 7 = q"
    using assms by (intro that [of "m div 7" "m mod 7"]) auto
  have "256 * (q + 1) \<le> (m + 7) * 37" "(m + 7) * 37 < 256 * Suc (q + 1)"
    unfolding m using qr by simp_all
  then show ?thesis unfolding q by (rule div_nat_eqI)
qed

lemma length_uleb128: "top_bit v m \<Longrightarrow> length (uleb128 v) = m div 7 + 1"
proof (induction m arbitrary: v rule: less_induct)
  case (less m)
  show ?case
  proof (cases "m < 7")
    case True
    with less.prems show ?thesis
      by (simp add: uleb128_rec [of v] top_bit_drop_bit_0)
  next
    case False
    then have "length (uleb128 (drop_bit 7 v)) = (m - 7) div 7 + 1"
      using less.prems by (intro less.IH) (auto intro: top_bit_drop_bit)
    with False less.prems show ?thesis
      by (simp add: uleb128_rec [of v] top_bit_drop_bit_0 le_div_geq)
  qed
qed

lemma UnsignedLeb128Size_uleb128: "UnsignedLeb128Size v = length (uleb128 v)"
proof (cases "v = 0")
  case True
  then show ?thesis
    by (simp add: UnsignedLeb128Size_def CLZ_top_bit [OF top_bit_0_or_1, simplified] uleb128_rec)
next
  case False
  then obtain m where m: "top_bit v m" using top_bit_exists by blast
  then have "m < 32" using top_bit_less by fastforce
  then show ?thesis
    using size_div_7 [of m]
    by (simp add: UnsignedLeb128Size_def CLZ_top_bit [OF top_bit_or_1 [OF m]] length_uleb128 [OF m])
qed

lemma bit_sleb_diff: "bit (sleb_diff v) n \<longleftrightarrow> n < 32 \<and> bit v n \<noteq> bit v 31"
  by (auto simp: sleb_diff_def bit_xor_iff bit_signed_drop_bit_32 dest: bit32_less)

lemma sleb_diff_step: "sleb_diff (signed_drop_bit 7 v) = drop_bit 7 (sleb_diff v)"
  by (rule bit_word_eqI)
    (auto simp: bit_sleb_diff bit_drop_bit_eq bit_signed_drop_bit_32 add.commute)

lemma sleb_extra_diff: "sleb_extra v = drop_bit 6 (sleb_diff v)"
  by (simp only: sleb_extra_def sleb_diff_def)

lemma length_sleb128: "top_bit (sleb_diff v) m \<Longrightarrow> length (sleb128 v) = (m + 1) div 7 + 1"
proof (induction m arbitrary: v rule: less_induct)
  case (less m)
  show ?case
  proof (cases "m < 6")
    case True
    with less.prems show ?thesis
      by (simp add: sleb128_rec [of v] sleb_extra_diff top_bit_drop_bit_0)
  next
    case False
    note long = sleb128_rec [of v] sleb_extra_diff top_bit_drop_bit_0 [OF less.prems]
    show ?thesis
    proof (cases "m = 6")
      case True
      then have "drop_bit 7 (sleb_diff v) = 0"
        using top_bit_drop_bit_0 [OF less.prems, of 7] by simp
      then have "sleb_extra (signed_drop_bit 7 v) = 0"
        by (simp add: sleb_extra_diff sleb_diff_step del: drop_bit_drop_bit)
      with True show ?thesis
        by (simp add: long sleb128_rec [of "signed_drop_bit 7 v"])
    next
      case m7: False
      then have "top_bit (sleb_diff (signed_drop_bit 7 v)) (m - 7)"
        using False less.prems unfolding sleb_diff_step by (intro top_bit_drop_bit) auto
      then have "length (sleb128 (signed_drop_bit 7 v)) = (m - 7 + 1) div 7 + 1"
        using False m7 by (intro less.IH) auto
      moreover have "(m + 1) div 7 = (m - 7 + 1) div 7 + 1"
        using False m7 le_div_geq [of 7 "m + 1"] by simp
      ultimately show ?thesis using False by (simp add: long)
    qed
  qed
qed

lemma SignedLeb128Size_sleb128: "SignedLeb128Size v = length (sleb128 v)"
proof (cases "sleb_diff v = 0")
  case True
  then have "sleb_extra v = 0" by (simp add: sleb_extra_diff)
  with True show ?thesis
    unfolding sleb_diff_def
    by (simp add: SignedLeb128Size_def CLZ_top_bit [OF top_bit_0_or_1, simplified] sleb128_rec [of v])
next
  case False
  then obtain m where m: "top_bit (sleb_diff v) m" using top_bit_exists by blast
  have "bit (sleb_diff v) m" using m by (simp add: top_bit_def)
  then have "m < 31" unfolding bit_sleb_diff by (cases "m = 31") auto
  then show ?thesis
    using size_div_7 [of "m + 1"]
    by (simp add: SignedLeb128Size_def flip: sleb_diff_def)
     (simp add: CLZ_top_bit [OF top_bit_or_1 [OF m]] length_sleb128 [OF m])
qed

section \<open>In-place update\<close>

lemma encode_ptr_loop:
  "dest + length (EncodeUnsignedLeb128_loop out v) \<le> length mem \<Longrightarrow>
   EncodeUnsignedLeb128_ptr_loop mem dest out v =
     Some (take dest mem @ EncodeUnsignedLeb128_loop out v
             @ drop (dest + length (EncodeUnsignedLeb128_loop out v)) mem,
           dest + length (EncodeUnsignedLeb128_loop out v))"
proof (induction out v arbitrary: mem dest rule: EncodeUnsignedLeb128_loop.induct)
  case (1 out v)
  show ?case
  proof (cases "v = 0")
    case True
    with "1.prems" show ?thesis
      by (simp add: EncodeUnsignedLeb128_loop.simps EncodeUnsignedLeb128_ptr_loop.simps
          array_access upd_conv_take_nth_drop)
  next
    case False
    then have d: "dest < length mem"
      using "1.prems" by (simp add: EncodeUnsignedLeb128_loop.simps [of out])
    show ?thesis
      using "1.IH" [OF False, of "dest + 1" "mem[dest := out OR 128]"] "1.prems" False d
      by (simp add: EncodeUnsignedLeb128_loop.simps [of out] array_access
          EncodeUnsignedLeb128_ptr_loop.simps [of mem] take_Suc_conv_app_nth)
  qed
qed

lemma encode_ptr:
  "dest + length (uleb128 v) \<le> length mem \<Longrightarrow>
   EncodeUnsignedLeb128_ptr mem dest v =
     Some (take dest mem @ uleb128 v @ drop (dest + length (uleb128 v)) mem,
           dest + length (uleb128 v))"
  unfolding EncodeUnsignedLeb128_ptr_def uleb128_def by (rule encode_ptr_loop)

lemma pad_leb128_eq:
  "pad_leb128 (pre @ [b] @ old @ post) (length pre + 1) (length pre + 1 + length old)
     = Some (pre @ leb_padding (length old) b @ post)"
proof (induction old arbitrary: pre b)
  case Nil
  then show ?case by (simp add: pad_leb128.simps)
next
  case (Cons x old)
  have "pad_leb128 (pre @ [b] @ (x # old) @ post) (length pre + 1) (length pre + 1 + length (x # old))
     = pad_leb128 ((pre @ [b OR 128]) @ [0] @ old @ post) (length (pre @ [b OR 128]) + 1)
         (length (pre @ [b OR 128]) + 1 + length old)"
    by (subst pad_leb128.simps) (simp add: array_access nth_append list_update_append)
  also have "\<dots> = Some ((pre @ [b OR 128]) @ leb_padding (length old) 0 @ post)"
    by (rule Cons.IH)
  finally show ?case by simp
qed

lemma uleb_groups_padding: "p < k \<Longrightarrow> uleb_groups k s acc (leb_padding p 0 @ rest) = Some (acc, rest)"
proof (induction k arbitrary: p s)
  case 0
  then show ?case by simp
next
  case (Suc k)
  then show ?case
    by (cases p) (auto simp: next_byte_def)
qed

lemma uleb_groups_padded:
  assumes "length (uleb128 v) + p \<le> k"
  shows "uleb_groups k s acc (butlast (uleb128 v) @ leb_padding p (last (uleb128 v)) @ rest)
           = Some (acc OR push_bit s v, rest)"
  using assms
proof (induction k arbitrary: s acc v)
  case 0
  then show ?case by (simp add: uleb128_rec [of v] split: if_splits)
next
  case (Suc k)
  show ?case
  proof (cases "drop_bit 7 v = 0")
    case True
    then have v: "uleb128 v = [ucast (take_bit 7 v)]" "take_bit 7 v = v"
      by (simp_all add: uleb128_rec [of v] take_bit_drop_bit_0)
    show ?thesis
    proof (cases p)
      case 0
      with v show ?thesis
        using ucast_low_byte [of v] bit_last_byte [of v] by (simp add: next_byte_def)
    next
      case (Suc q)
      then have "q < k" using Suc.prems v by simp
      with Suc v show ?thesis
        using bit_cont_byte [of v] take_bit_cont_byte [of v]
        by (auto simp: next_byte_def uleb_groups_padding)
    qed
  next
    case False
    then have v: "uleb128 v = (ucast (take_bit 7 v) OR 0x80) # uleb128 (drop_bit 7 v)"
      by (simp add: uleb128_rec [of v])
    moreover have "uleb128 (drop_bit 7 v) \<noteq> []" by (subst uleb128_rec) simp
    moreover have "k \<noteq> 0" using v Suc.prems calculation(2) by (cases "uleb128 (drop_bit 7 v)") auto
    moreover have "length (uleb128 (drop_bit 7 v)) + p \<le> k" using v Suc.prems by simp
    ultimately show ?thesis
      using Suc.IH [of "drop_bit 7 v" "s + 7" "acc OR push_bit s (take_bit 7 v)"]
      by (simp add: next_byte_def bit_cont_byte take_bit_cont_byte push_bit_split or.assoc)
  qed
qed

lemma uleb_groups_consumed:
  assumes "uleb_groups k s acc data = Some (v, rest)"
  shows "\<exists>n. 0 < n \<and> n \<le> k \<and> n \<le> length data \<and> rest = drop n data
           \<and> (n < k \<longrightarrow> (\<forall>i. s + 7 * n \<le> i \<longrightarrow> bit v i \<longrightarrow> bit acc i))"
  using assms
proof (induction k arbitrary: s acc data)
  case 0
  then show ?case by simp
next
  case (Suc k)
  then obtain b ptr where d: "data = b # ptr" by (cases data) (auto simp: next_byte_def)
  show ?case
  proof (cases "k \<noteq> 0 \<and> bit b 7")
    case True
    with Suc.prems d have
      "uleb_groups k (s + 7) (acc OR push_bit s (take_bit 7 (ucast b))) ptr = Some (v, rest)"
      by (simp add: next_byte_def)
    from Suc.IH [OF this] obtain n where n: "0 < n" "n \<le> k" "n \<le> length ptr" "rest = drop n ptr"
      and b: "n < k \<Longrightarrow> s + 7 + 7 * n \<le> i \<Longrightarrow> bit v i \<Longrightarrow> bit (acc OR push_bit s (take_bit 7 (ucast b))) i" for i
      by blast
    have "bit acc i" if "n < k" "s + 7 * Suc n \<le> i" "bit v i" for i
      using b [of i] that by (auto simp: bit_or_iff bit_push_bit_iff bit_take_bit_iff)
    with n d show ?thesis by (intro exI [of _ "Suc n"]) auto
  next
    case False
    with Suc.prems d show ?thesis
      by (intro exI [of _ 1])
        (auto simp: next_byte_def bit_or_iff bit_push_bit_iff bit_take_bit_iff split: if_splits)
  qed
qed

lemma bit_imp_le_unat: "bit (w :: 'a::len word) m \<Longrightarrow> 2 ^ m \<le> unat w"
  by (metis bit_unat_div div_less even_zero not_less)

lemma no_high_bits_less: "(\<And>i. m \<le> i \<Longrightarrow> \<not> bit (v :: uint32) i) \<Longrightarrow> unat v < 2 ^ m"
proof -
  assume a: "\<And>i. m \<le> i \<Longrightarrow> \<not> bit v i"
  have "drop_bit m v = 0" by (rule bit_word_eqI) (simp add: bit_drop_bit_eq a)
  then have "unat v div 2 ^ m = 0" by (simp flip: unat_drop_bit)
  then show ?thesis by (simp add: div_eq_0_iff)
qed

lemma length_uleb128_le: "unat v < 2 ^ (7 * n) \<Longrightarrow> 0 < n \<Longrightarrow> length (uleb128 v) \<le> n"
proof (cases "v = 0")
  case True
  then show "0 < n \<Longrightarrow> ?thesis" by (simp add: uleb128_rec)
next
  case False
  then obtain m where m: "top_bit v m" using top_bit_exists by blast
  assume "unat v < 2 ^ (7 * n)"
  moreover have "2 ^ m \<le> unat v" using m by (simp add: top_bit_def bit_imp_le_unat)
  ultimately have "2 ^ m < (2::nat) ^ (7 * n)" by (metis le_less_trans)
  then have "m < 7 * n" by (simp only: power_strict_increasing_iff)
  then show ?thesis by (simp add: length_uleb128 [OF m] less_mult_imp_div_less mult.commute Suc_le_eq)
qed

lemma UpdateUnsigned_correct:
  assumes dec: "DecodeUnsignedLeb128 (drop dest mem) = Some (old, rest)" and "value \<le> old"
  shows "\<exists>enc. UpdateUnsignedLeb128 mem dest value = Some (take dest mem @ enc @ rest)
           \<and> length (take dest mem @ enc @ rest) = length mem
           \<and> DecodeUnsignedLeb128 (enc @ rest) = Some (value, rest)"
proof -
  obtain n where n: "0 < n" "n \<le> 5" "n \<le> length (drop dest mem)" "rest = drop n (drop dest mem)"
    and b: "n < 5 \<Longrightarrow> 7 * n \<le> i \<Longrightarrow> \<not> bit old i" for i
    using uleb_groups_consumed [OF dec [unfolded DecodeUnsigned_groups]] by auto
  let ?u = "uleb128 value"
  have "unat value < 2 ^ (7 * n)"
  proof (cases "n < 5")
    case True
    then have "unat old < 2 ^ (7 * n)" using b no_high_bits_less by blast
    with \<open>value \<le> old\<close> show ?thesis by (simp add: word_le_nat_alt)
  next
    case False
    with n have "n = 5" by simp
    with unat_uint32_less [of "value"] show ?thesis by simp
  qed
  then have u: "length ?u \<le> n" using n(1) by (rule length_uleb128_le)
  have ne: "?u \<noteq> []" by (subst uleb128_rec) simp
  define pre where "pre = take dest mem @ butlast ?u"
  define old_bytes where "old_bytes = take (n - length ?u) (drop (dest + length ?u) mem)"
  have len: "dest + n \<le> length mem" using n by auto
  have "rest = drop (n - length ?u) (drop (dest + length ?u) mem)"
    using u by (simp add: n(4) add.commute)
  then have "drop (dest + length ?u) mem = old_bytes @ rest"
    by (simp only: old_bytes_def append_take_drop_id)
  then have mem1: "take dest mem @ ?u @ drop (dest + length ?u) mem = pre @ [last ?u] @ old_bytes @ rest"
    using ne by (simp add: pre_def)
  have ends: "dest + length ?u = length pre + 1" "length mem - length rest = length pre + 1 + length old_bytes"
    "length old_bytes = n - length ?u"
    using ne u len by (auto simp: pre_def old_bytes_def n(4) Suc_leI)
  let ?enc = "butlast ?u @ leb_padding (length old_bytes) (last ?u)"
  have "EncodeUnsignedLeb128_ptr mem dest value = Some (pre @ [last ?u] @ old_bytes @ rest, length pre + 1)"
    using encode_ptr [of dest "value" mem] len u unfolding mem1 ends(1) [symmetric] by simp
  then have "UpdateUnsignedLeb128 mem dest value = Some (pre @ leb_padding (length old_bytes) (last ?u) @ rest)"
    using pad_leb128_eq [of pre "last ?u" old_bytes rest]
    by (simp add: UpdateUnsignedLeb128_def dec Let_def ends(2))
  moreover have "DecodeUnsignedLeb128 (?enc @ rest) = Some (value, rest)"
    using uleb_groups_padded [of "value" "length old_bytes" 5 0 0 rest] u n(2) ends(3)
    by (simp add: DecodeUnsigned_groups)
  moreover have "length (leb_padding p b) = p + 1" for p b
    by (induction p arbitrary: b) auto
  ultimately show ?thesis
    using len u ends ne by (intro exI [of _ ?enc]) (auto simp: pre_def n(4) old_bytes_def)
qed

section \<open>Both encodings are prefix codes\<close>

interpretation uleb: codec uleb128 DecodeUnsignedLeb128
  by unfold_locales (rule DecodeUnsigned_uleb128)

interpretation sleb: codec sleb128 DecodeSignedLeb128
  by unfold_locales (rule DecodeSigned_sleb128)

lemma EncodeUnsigned_uleb128: "EncodeUnsignedLeb128 dest v = dest @ uleb128 v"
  by (simp add: EncodeUnsignedLeb128_def uleb128_def)

lemma EncodeSigned_sleb128: "EncodeSignedLeb128 dest v = dest @ sleb128 v"
  by (simp add: EncodeSignedLeb128_def sleb128_def sleb_extra_def)

lemma InsertBackUnsigned_concat: "InsertBackUnsigned data vs = data @ concat (map uleb128 vs)"
  by (induction vs arbitrary: data) (auto simp: PushBackUnsigned_def EncodeUnsigned_uleb128)

lemma InsertBackSigned_concat: "InsertBackSigned data vs = data @ concat (map sleb128 vs)"
  by (induction vs arbitrary: data) (auto simp: PushBackSigned_def EncodeSigned_sleb128)

lemma InsertBackUnsigned_stream:
  "decode_many DecodeUnsignedLeb128 (length us) (drop (length data) (InsertBackUnsigned data us) @ rest)
     = Some (us, rest)"
  by (simp add: InsertBackUnsigned_concat uleb.decode_many_encode)

lemma InsertBackSigned_stream:
  "decode_many DecodeSignedLeb128 (length ss) (drop (length data) (InsertBackSigned data ss) @ rest)
     = Some (ss, rest)"
  by (simp add: InsertBackSigned_concat sleb.decode_many_encode)

section \<open>Properties\<close>

text \<open>
  C7: Every sequence of 32-bit values that \<open>Leb128Encoder\<close> appends to a vector, unsigned or signed,
  is read back by as many calls of \<open>DecodeUnsignedLeb128\<close> or \<open>DecodeSignedLeb128\<close>, which leave the
  read pointer exactly behind the last encoding.
\<close>
theorem leb128_stream_roundtrip:
  "decode_many DecodeUnsignedLeb128 (length us) (drop (length data) (InsertBackUnsigned data us) @ rest)
     = Some (us, rest) \<and>
   decode_many DecodeSignedLeb128 (length ss) (drop (length data) (InsertBackSigned data ss) @ rest)
     = Some (ss, rest)"
  using InsertBackUnsigned_stream InsertBackSigned_stream by blast

text \<open>
  C8: The size predictors are exact: encoding a value appends precisely \<open>UnsignedLeb128Size\<close> bytes,
  or \<open>SignedLeb128Size\<close> bytes for the signed encoding, which is at most five.
\<close>
theorem leb128_size_exact:
  "length (EncodeUnsignedLeb128 dest v) = length dest + UnsignedLeb128Size v \<and>
   length (EncodeSignedLeb128 dest w) = length dest + SignedLeb128Size w \<and>
   UnsignedLeb128Size v \<le> 5 \<and> SignedLeb128Size w \<le> 5"
proof -
  have "UnsignedLeb128Size v \<le> 5" "SignedLeb128Size w \<le> 5"
    by (auto simp: UnsignedLeb128Size_def SignedLeb128Size_def)
  then show ?thesis
    by (simp add: EncodeUnsigned_uleb128 EncodeSigned_sleb128 UnsignedLeb128Size_uleb128
        SignedLeb128Size_sleb128)
qed

text \<open>
  C9: \<open>UpdateUnsignedLeb128\<close> replaces an encoded value by one that is not greater without moving
  any other byte: the memory keeps its size, the bytes before and behind the encoding are kept, and
  decoding at the same place yields the new value and ends at the same place as before.
\<close>
theorem update_unsigned_leb128:
  assumes "DecodeUnsignedLeb128 (drop dest mem) = Some (old, rest)"
    and "value \<le> old"
  shows "\<exists>enc. UpdateUnsignedLeb128 mem dest value = Some (take dest mem @ enc @ rest) \<and>
           length (take dest mem @ enc @ rest) = length mem \<and>
           DecodeUnsignedLeb128 (enc @ rest) = Some (value, rest)"
  using UpdateUnsigned_correct [OF assms] .

theorem update_unsigned_leb128_witness:
  "\<exists>enc. UpdateUnsignedLeb128 [9, 0x80, 0x81, 1, 7] 1 5 = Some ([9] @ enc @ [7]) \<and>
     length ([9] @ enc @ [7]) = length [9 :: uint8, 0x80, 0x81, 1, 7] \<and>
     DecodeUnsignedLeb128 (enc @ [7]) = Some (5, [7])"
proof -
  have d: "DecodeUnsignedLeb128 (drop 1 [9, 0x80, 0x81, 1, 7]) = Some (0x4080, [7])"
    by (simp add: DecodeUnsignedLeb128_def next_byte_def)
  show ?thesis
    using update_unsigned_leb128 [OF d, of 5] by simp
qed

end
