(* ===== verification/Dex_Code_Item.thy ===== *)
theory Dex_Code_Item
  imports Dex_Instruction Leb128
begin

text \<open>
  Code items of a dex file (\<open>runtime/dex_file.h\<close>, \<open>runtime/dex_file.cc\<close>): the try table and its
  binary search, the iterator over the LEB128 encoded catch handlers, and
  \<open>ArtMethod::FindCatchBlock\<close> (\<open>runtime/art_method.cc\<close>), which selects the handler of an
  exception.  The code units, the try items and the encoded catch handler list, which follow each
  other in the file, are three lists; their lengths are \<open>insns_size_in_code_units_\<close>,
  \<open>tries_size_\<close> and the bytes that may be read.
\<close>

section \<open>Data\<close>

record TryItem =
  start_addr :: uint32
  insn_count :: uint16
  handler_off :: uint16

record CodeItem =
  registers_size :: uint16
  ins_size :: uint16
  outs_size :: uint16
  tries :: "TryItem list"
  insns :: insns
  handler_data :: "uint8 list"

abbreviation (input) kDexNoIndex :: uint32 where "kDexNoIndex \<equiv> 0xFFFFFFFF"
abbreviation (input) kDexNoIndex16 :: uint16 where "kDexNoIndex16 \<equiv> 0xFFFF"

definition tries_size :: "CodeItem \<Rightarrow> int" where
  "tries_size code_item = int (length (tries code_item))"

definition GetTryItems :: "CodeItem \<Rightarrow> nat \<Rightarrow> TryItem option" where
  "GetTryItems code_item offset = array_get (tries code_item) offset"

definition GetCatchHandlerData :: "CodeItem \<Rightarrow> nat \<Rightarrow> uint8 list option" where
  "GetCatchHandlerData code_item offset =
     (if offset \<le> length (handler_data code_item) then Some (drop offset (handler_data code_item))
      else None)"

section \<open>Try items\<close>

function FindTryItem_loop :: "CodeItem \<Rightarrow> uint32 \<Rightarrow> int \<Rightarrow> int \<Rightarrow> int option" where
  "FindTryItem_loop code_item address mn mx =
     (if mn \<le> mx then do {
        let mid = mn + (mx - mn) div 2;
        ti \<leftarrow> GetTryItems code_item (nat mid);
        let start = start_addr ti;
        let end_addr = start + ucast (insn_count ti);
        if address < start then FindTryItem_loop code_item address mn (mid - 1)
        else if end_addr \<le> address then FindTryItem_loop code_item address (mid + 1) mx
        else Some mid
      } else Some (-1))"
  by pat_completeness auto
termination
  by (relation "measure (\<lambda>(ci, a, mn, mx). nat (mx - mn + 1))") auto

declare FindTryItem_loop.simps [simp del]

definition FindTryItem :: "CodeItem \<Rightarrow> uint32 \<Rightarrow> int option" where
  "FindTryItem code_item address = FindTryItem_loop code_item address 0 (tries_size code_item - 1)"

definition FindCatchHandlerOffset :: "CodeItem \<Rightarrow> uint32 \<Rightarrow> int option" where
  "FindCatchHandlerOffset code_item address = do {
     try_item \<leftarrow> FindTryItem code_item address;
     if try_item = -1 then Some (-1)
     else do {
       ti \<leftarrow> GetTryItems code_item (nat try_item);
       Some (int (unat (handler_off ti)))
     }
   }"

section \<open>Catch handlers\<close>

text \<open>A null \<open>current_data_\<close> is the empty stream, from which nothing is read.\<close>

record CatchHandlerIterator =
  type_idx :: uint16
  address :: uint32
  current_data :: "uint8 list"
  remaining_count :: int32
  catch_all :: bool

definition HasNext :: "CatchHandlerIterator \<Rightarrow> bool" where
  "HasNext it = (remaining_count it \<noteq> -1 \<or> catch_all it)"

definition Next_handler :: "CatchHandlerIterator \<Rightarrow> CatchHandlerIterator option" where
  "Next_handler it =
     (if sint (remaining_count it) > 0 then do {
        (t, data) \<leftarrow> DecodeUnsignedLeb128 (current_data it);
        (a, data) \<leftarrow> DecodeUnsignedLeb128 data;
        Some (it\<lparr>type_idx := ucast t, address := a, current_data := data,
                 remaining_count := remaining_count it - 1\<rparr>)
      } else if catch_all it then do {
        (a, data) \<leftarrow> DecodeUnsignedLeb128 (current_data it);
        Some (it\<lparr>type_idx := kDexNoIndex16, address := a, current_data := data,
                 catch_all := False\<rparr>)
      } else Some (it\<lparr>remaining_count := -1\<rparr>))"

text \<open>\<open>Init\<close> on handler data: the count is negative or zero when a catch-all handler follows.\<close>

definition Init_data :: "uint8 list \<Rightarrow> CatchHandlerIterator option" where
  "Init_data data = do {
     (count, data) \<leftarrow> DecodeSignedLeb128 data;
     let it = \<lparr>type_idx = 0, address = -1, current_data = data,
               remaining_count = (if sint count \<le> 0 then - count else count),
               catch_all = (sint count \<le> 0)\<rparr>;
     Next_handler it
   }"

definition Init_offset :: "CodeItem \<Rightarrow> int \<Rightarrow> CatchHandlerIterator option" where
  "Init_offset code_item offset =
     (if offset \<ge> 0 then do {
        data \<leftarrow> GetCatchHandlerData code_item (nat offset);
        Init_data data
      } else Some \<lparr>type_idx = 0, address = -1, current_data = [], remaining_count = -1,
                   catch_all = False\<rparr>)"

text \<open>The constructor for an address, with its short cuts for no and for one try item.\<close>

definition CatchHandlerIterator_at :: "CodeItem \<Rightarrow> uint32 \<Rightarrow> CatchHandlerIterator option" where
  "CatchHandlerIterator_at code_item addr = do {
     offset \<leftarrow>
       (if tries_size code_item = 0 then Some (-1)
        else if tries_size code_item = 1 then do {
          ti \<leftarrow> GetTryItems code_item 0;
          let start = start_addr ti;
          if addr \<ge> start then do {
            let end_addr = start + ucast (insn_count ti);
            Some (if addr < end_addr then int (unat (handler_off ti)) else -1)
          } else Some (-1)
        } else FindCatchHandlerOffset code_item addr);
     Init_offset code_item offset
   }"

text \<open>The iteration \<open>for (; it.HasNext(); it.Next())\<close>: all handlers, and the iterator at the end.\<close>

definition iterator_measure :: "CatchHandlerIterator \<Rightarrow> nat" where
  "iterator_measure it =
     (if sint (remaining_count it) > 0 then 2 * nat (sint (remaining_count it)) + 2 else 0)
     + (if catch_all it then 2 else 0) + (if remaining_count it \<noteq> -1 then 1 else 0)"

lemma Next_handler_measure:
  "HasNext it \<Longrightarrow> Next_handler it = Some it' \<Longrightarrow> iterator_measure it' < iterator_measure it"
  by (auto simp: HasNext_def Next_handler_def iterator_measure_def bind_Some_iff sint_minus_1
      split: if_splits)

function handlers_of ::
    "CatchHandlerIterator \<Rightarrow> ((uint16 \<times> uint32) list \<times> CatchHandlerIterator) option" where
  "handlers_of it =
     (if HasNext it then
        (case Next_handler it of
           None \<Rightarrow> None
         | Some it' \<Rightarrow> do {
             (hs, end_it) \<leftarrow> handlers_of it';
             Some ((type_idx it, address it) # hs, end_it)
           })
      else Some ([], it))"
  by pat_completeness auto
termination
  by (relation "measure iterator_measure") (auto simp: Next_handler_measure)

declare handlers_of.simps [simp del]

section \<open>Selecting a handler\<close>

text \<open>
  \<open>FindCatchBlock\<close>: class resolution (\<open>GetClassFromTypeIndex\<close>) and \<open>IsAssignableFrom\<close> are
  parameters.  The pending exception is set aside and put back, so the thread is unchanged.  The
  result is \<open>found_dex_pc\<close> with \<open>has_no_move_exception\<close>, whose value the caller keeps when no
  handler is found.
\<close>

function FindCatchBlock_loop ::
    "(uint16 \<Rightarrow> 'class option) \<Rightarrow> ('class \<Rightarrow> 'class \<Rightarrow> bool) \<Rightarrow> 'class \<Rightarrow> CatchHandlerIterator
      \<Rightarrow> uint32 option" where
  "FindCatchBlock_loop resolve assignable exception_type it =
     (if HasNext it then
        if type_idx it = kDexNoIndex16 then Some (address it)
        else if (case resolve (type_idx it) of
                   None \<Rightarrow> False
                 | Some iter_exception_type \<Rightarrow> assignable iter_exception_type exception_type)
        then Some (address it)
        else (case Next_handler it of
                None \<Rightarrow> None
              | Some it' \<Rightarrow> FindCatchBlock_loop resolve assignable exception_type it')
      else Some kDexNoIndex)"
  by pat_completeness auto
termination
  by (relation "measure (\<lambda>(r, a, e, it). iterator_measure it)") (auto simp: Next_handler_measure)

declare FindCatchBlock_loop.simps [simp del]

definition FindCatchBlock ::
    "(uint16 \<Rightarrow> 'class option) \<Rightarrow> ('class \<Rightarrow> 'class \<Rightarrow> bool) \<Rightarrow> CodeItem \<Rightarrow> 'class \<Rightarrow> uint32
      \<Rightarrow> bool \<Rightarrow> (uint32 \<times> bool) option" where
  "FindCatchBlock resolve assignable code_item exception_type dex_pc has_no_move_exception = do {
     it \<leftarrow> CatchHandlerIterator_at code_item dex_pc;
     found_dex_pc \<leftarrow> FindCatchBlock_loop resolve assignable exception_type it;
     if found_dex_pc \<noteq> kDexNoIndex then do {
       w \<leftarrow> Fetch16 (insns code_item) (unat found_dex_pc) 0;
       Some (found_dex_pc, Opcode w \<noteq> MOVE_EXCEPTION)
     } else Some (found_dex_pc, has_no_move_exception)
   }"

section \<open>The try table\<close>

text \<open>A try item covers the addresses from its start up to its end.\<close>

definition covers :: "TryItem \<Rightarrow> uint32 \<Rightarrow> bool" where
  "covers ti a \<longleftrightarrow> unat (start_addr ti) \<le> unat a \<and>
     unat a < unat (start_addr ti) + unat (insn_count ti)"

text \<open>The format of the table: sorted, disjoint, within the 32-bit address space.\<close>

definition tries_ok :: "TryItem list \<Rightarrow> bool" where
  "tries_ok ts \<longleftrightarrow>
     (\<forall>ti \<in> set ts. unat (start_addr ti) + unat (insn_count ti) < 2 ^ 32) \<and>
     sorted_wrt (\<lambda>t u. unat (start_addr t) + unat (insn_count t) \<le> unat (start_addr u)) ts"

lemma try_end:
  assumes "unat (start_addr ti) + unat (insn_count ti) < 2 ^ 32"
  shows "start_addr ti + ucast (insn_count ti) \<le> a \<longleftrightarrow>
    unat (start_addr ti) + unat (insn_count ti) \<le> unat a"
proof -
  have "unat (start_addr ti + ucast (insn_count ti)) = unat (start_addr ti) + unat (insn_count ti)"
    using assms by (subst unat_add_lem [THEN iffD1]) auto
  then show ?thesis by (simp add: word_le_nat_alt)
qed

lemma tries_before:
  assumes "tries_ok ts" "i < j" "j < length ts"
  shows "unat (start_addr (ts ! i)) + unat (insn_count (ts ! i)) \<le> unat (start_addr (ts ! j))"
  using assms by (auto simp: tries_ok_def sorted_wrt_iff_nth_less)

lemma covers_before:
  assumes "tries_ok ts" "i < length ts" "covers (ts ! i) a" "a < start_addr (ts ! m)"
  shows "i < m"
proof (rule ccontr)
  assume "\<not> i < m"
  then have "unat (start_addr (ts ! m)) \<le> unat (start_addr (ts ! i))"
    using tries_before [OF assms(1), of m i] assms(2) by (cases "i = m") auto
  then show False using assms(3,4) by (auto simp: covers_def word_less_nat_alt)
qed

lemma covers_after:
  assumes "tries_ok ts" "m < length ts" "covers (ts ! i) a"
    and "start_addr (ts ! m) + ucast (insn_count (ts ! m)) \<le> a"
  shows "m < i"
proof (rule ccontr)
  have wf: "unat (start_addr (ts ! m)) + unat (insn_count (ts ! m)) < 2 ^ 32"
    using assms(1,2) by (auto simp: tries_ok_def)
  assume "\<not> m < i"
  then have "unat (start_addr (ts ! i)) + unat (insn_count (ts ! i))
      \<le> unat (start_addr (ts ! m)) + unat (insn_count (ts ! m))"
    using tries_before [OF assms(1), of i m] assms(2) by (cases "i = m") force+
  then show False using assms(3,4) try_end [OF wf, of a] by (auto simp: covers_def)
qed

lemma covers_hit:
  assumes "tries_ok ts" "m < length ts" "\<not> a < start_addr (ts ! m)"
    and "\<not> start_addr (ts ! m) + ucast (insn_count (ts ! m)) \<le> a"
  shows "covers (ts ! m) a"
proof -
  have "unat (start_addr (ts ! m)) + unat (insn_count (ts ! m)) < 2 ^ 32"
    using assms(1,2) by (auto simp: tries_ok_def)
  then show ?thesis
    using assms(3,4) try_end [of "ts ! m" a]
    by (auto simp: covers_def word_less_nat_alt not_le not_less)
qed

text \<open>What a search result means.\<close>

definition try_found :: "TryItem list \<Rightarrow> uint32 \<Rightarrow> int \<Rightarrow> bool" where
  "try_found ts a r =
     (if r = -1 then \<forall>i < length ts. \<not> covers (ts ! i) a
      else 0 \<le> r \<and> nat r < length ts \<and> covers (ts ! nat r) a)"

lemma FindTryItem_loop_correct:
  assumes "tries_ok (tries ci)" "0 \<le> mn" "mx < int (length (tries ci))"
    and "\<And>i. i < length (tries ci) \<Longrightarrow> covers (tries ci ! i) a \<Longrightarrow> mn \<le> int i \<and> int i \<le> mx"
  shows "\<exists>r. FindTryItem_loop ci a mn mx = Some r \<and> try_found (tries ci) a r"
  using assms
proof (induction ci a mn mx rule: FindTryItem_loop.induct)
  case (1 ci a mn mx)
  let ?ts = "tries ci" and ?mid = "mn + (mx - mn) div 2"
  let ?ti = "?ts ! nat ?mid"
  show ?case
  proof (cases "mn \<le> mx")
    case False
    then show ?thesis using 1(6) by (force simp: FindTryItem_loop.simps try_found_def)
  next
    case True
    have mid: "mn \<le> ?mid" "?mid \<le> mx" "0 \<le> ?mid" "nat ?mid < length ?ts"
      using True 1(4,5) by auto
    have get: "GetTryItems ci (nat ?mid) = Some ?ti"
      using mid(4) by (simp add: GetTryItems_def array_get_in)
    have "\<exists>r. FindTryItem_loop ci a mn (?mid - 1) = Some r \<and> try_found ?ts a r" if "a < start_addr ?ti"
      using True that get mid 1(3-6) covers_before [OF 1(3) _ _ that]
      by (intro 1(1)) (auto simp: zless_nat_eq_int_zless)
    moreover have "\<exists>r. FindTryItem_loop ci a (?mid + 1) mx = Some r \<and> try_found ?ts a r"
      if "\<not> a < start_addr ?ti" "start_addr ?ti + ucast (insn_count ?ti) \<le> a"
      using True that get mid 1(3-6) covers_after [OF 1(3) mid(4) _ that(2)]
      by (intro 1(2)) (auto simp: nat_less_iff add1_zle_eq)
    moreover have "try_found ?ts a ?mid"
      if "\<not> a < start_addr ?ti" "\<not> start_addr ?ti + ucast (insn_count ?ti) \<le> a"
      using covers_hit [OF 1(3) mid(4) that] mid by (simp add: try_found_def)
    ultimately show ?thesis
      using True get by (simp add: FindTryItem_loop.simps [of ci a mn mx] Let_def)
  qed
qed

lemma FindTryItem_correct:
  assumes "tries_ok (tries ci)"
  shows "\<exists>r. FindTryItem ci a = Some r \<and> try_found (tries ci) a r"
  unfolding FindTryItem_def tries_size_def
  by (rule FindTryItem_loop_correct) (use assms in auto)

text \<open>The short cuts of the constructor agree with the search.\<close>

lemma CatchHandlerIterator_at_search:
  "CatchHandlerIterator_at ci a = do { offset \<leftarrow> FindCatchHandlerOffset ci a; Init_offset ci offset }"
proof -
  have "FindCatchHandlerOffset ci a = Some (-1)" if "tries_size ci = 0"
    using that by (simp add: FindCatchHandlerOffset_def FindTryItem_def FindTryItem_loop.simps)
  moreover have "FindCatchHandlerOffset ci a = Some (if start_addr t \<le> a \<and> a < start_addr t + ucast (insn_count t)
      then int (unat (handler_off t)) else -1)" if "tries ci = [t]" for t
    using that by (auto simp: FindCatchHandlerOffset_def FindTryItem_def FindTryItem_loop.simps Let_def
        tries_size_def GetTryItems_def array_get_def)
  moreover have "\<exists>t. tries ci = [t]" if "tries_size ci = 1"
    using that by (auto simp: tries_size_def length_Suc_conv)
  ultimately show ?thesis
    by (auto simp: CatchHandlerIterator_at_def Let_def GetTryItems_def array_get_def)
qed

section \<open>Encoded catch handlers\<close>

text \<open>The encoded form: a signed count, the typed handlers, and the catch-all handler if any.\<close>

definition encode_handlers :: "(uint32 \<times> uint32) list \<Rightarrow> uint32 option \<Rightarrow> uint8 list" where
  "encode_handlers typed ca =
     sleb128 (case ca of None \<Rightarrow> of_nat (length typed) | Some _ \<Rightarrow> - of_nat (length typed)) @
     concat (map (\<lambda>(t, a). uleb128 t @ uleb128 a) typed) @
     (case ca of None \<Rightarrow> [] | Some a \<Rightarrow> uleb128 a)"

definition handler_list :: "(uint32 \<times> uint32) list \<Rightarrow> uint32 option \<Rightarrow> (uint16 \<times> uint32) list" where
  "handler_list typed ca =
     map (\<lambda>(t, a). (ucast t, a)) typed @ (case ca of None \<Rightarrow> [] | Some a \<Rightarrow> [(kDexNoIndex16, a)])"

lemma sint_of_nat32: "n < 2 ^ 31 \<Longrightarrow> sint (of_nat n :: int32) = int n"
  using sint_of_int32 [of "int n"] by simp

lemma Next_handler_encoded:
  assumes "length typed < 2 ^ 31" "remaining_count it = of_nat (length typed)"
    and "catch_all it = (ca \<noteq> None)"
    and "current_data it = concat (map (\<lambda>(t, a). uleb128 t @ uleb128 a) typed) @
           (case ca of None \<Rightarrow> [] | Some a \<Rightarrow> uleb128 a) @ rest"
  shows "\<exists>it' e. Next_handler it = Some it' \<and> handlers_of it' = Some (handler_list typed ca, e) \<and>
    current_data e = rest \<and> \<not> HasNext e"
  using assms
proof (induction typed arbitrary: it)
  case Nil
  show ?case
  proof (cases ca)
    case None
    with Nil show ?thesis
      by (auto simp: Next_handler_def handlers_of.simps HasNext_def handler_list_def)
  next
    case (Some a)
    with Nil show ?thesis
      by (auto simp: Next_handler_def handlers_of.simps HasNext_def handler_list_def
          DecodeUnsigned_uleb128)
  qed
next
  case (Cons h typed)
  obtain t a where h: "h = (t, a)" by (cases h)
  let ?data = "concat (map (\<lambda>(t, a). uleb128 t @ uleb128 a) typed) @
           (case ca of None \<Rightarrow> [] | Some a \<Rightarrow> uleb128 a) @ rest"
  let ?it = "it\<lparr>type_idx := ucast t, address := a, current_data := ?data,
               remaining_count := of_nat (length typed)\<rparr>"
  have n: "sint (remaining_count it) = int (Suc (length typed))"
    using Cons.prems(1,2) sint_of_nat32 [of "Suc (length typed)"] by simp
  have next1: "Next_handler it = Some ?it"
    using Cons.prems n by (simp add: Next_handler_def h DecodeUnsigned_uleb128)
  obtain it2 e where it2: "Next_handler ?it = Some it2"
      "handlers_of it2 = Some (handler_list typed ca, e)" "current_data e = rest" "\<not> HasNext e"
    using Cons.IH [of ?it] Cons.prems by auto
  have "sint (of_nat (length typed) :: int32) \<noteq> sint (-1 :: int32)"
    using Cons.prems(1) by (simp add: sint_of_nat32)
  then have "HasNext ?it" by (auto simp: HasNext_def)
  then have "handlers_of ?it = Some (handler_list (h # typed) ca, e)"
    by (simp add: handlers_of.simps [of ?it] it2 handler_list_def h)
  with next1 it2 show ?case by blast
qed

lemma Init_data_encoded:
  assumes "length typed < 2 ^ 31" "typed \<noteq> [] \<or> ca \<noteq> None"
  shows "\<exists>it e. Init_data (encode_handlers typed ca @ rest) = Some it \<and>
    handlers_of it = Some (handler_list typed ca, e) \<and> current_data e = rest \<and> \<not> HasNext e"
proof -
  let ?data = "concat (map (\<lambda>(t, a). uleb128 t @ uleb128 a) typed) @
           (case ca of None \<Rightarrow> [] | Some a \<Rightarrow> uleb128 a) @ rest"
  let ?it = "\<lparr>type_idx = 0, address = -1, current_data = ?data,
    remaining_count = of_nat (length typed), catch_all = (ca \<noteq> None)\<rparr>"
  have n: "sint (of_nat (length typed) :: int32) = int (length typed)"
    using assms(1) by (rule sint_of_nat32)
  have m: "sint (- (of_nat (length typed) :: int32)) = - int (length typed)"
    using assms(1) sint_of_int32 [of "- int (length typed)"] by simp
  have "Init_data (encode_handlers typed ca @ rest) = Next_handler ?it"
    using assms n m
    by (cases ca) (auto simp: Init_data_def encode_handlers_def DecodeSigned_sleb128 Let_def)
  with Next_handler_encoded [of typed ?it ca rest] assms(1) show ?thesis by auto
qed

section \<open>Handler selection\<close>

definition catches ::
    "(uint16 \<Rightarrow> 'class option) \<Rightarrow> ('class \<Rightarrow> 'class \<Rightarrow> bool) \<Rightarrow> 'class \<Rightarrow> uint16 \<times> uint32 \<Rightarrow> bool" where
  "catches resolve assignable exception_type h \<longleftrightarrow>
     fst h = kDexNoIndex16 \<or>
     (case resolve (fst h) of None \<Rightarrow> False | Some c \<Rightarrow> assignable c exception_type)"

lemma FindCatchBlock_loop_find:
  "handlers_of it = Some (hs, e) \<Longrightarrow>
   FindCatchBlock_loop resolve assignable exc it =
     Some (case find (catches resolve assignable exc) hs of None \<Rightarrow> kDexNoIndex | Some h \<Rightarrow> snd h)"
proof (induction it arbitrary: hs rule: handlers_of.induct)
  case (1 it)
  show ?case
  proof (cases "HasNext it")
    case False
    with 1(2) show ?thesis by (auto simp: handlers_of.simps FindCatchBlock_loop.simps)
  next
    case True
    with 1(2) obtain it' hs' where it': "Next_handler it = Some it'"
        "handlers_of it' = Some (hs', e)" "hs = (type_idx it, address it) # hs'"
      by (auto simp: handlers_of.simps [of it] bind_Some_iff split: option.splits)
    show ?thesis
      using True it'(1,3) 1(1) [OF True it'(1,2)]
      by (auto simp: FindCatchBlock_loop.simps [of _ _ _ it] catches_def split: option.splits)
  qed
qed

lemma covers_unique:
  assumes "tries_ok ts" "i < length ts" "j < length ts" "covers (ts ! i) a" "covers (ts ! j) a"
  shows "i = j"
proof (rule ccontr)
  assume "i \<noteq> j"
  then consider "i < j" | "j < i" by linarith
  then show False
    using tries_before [OF assms(1), of i j] tries_before [OF assms(1), of j i] assms
    by cases (auto simp: covers_def)
qed

lemma FindCatchHandlerOffset_covered:
  assumes "tries_ok (tries ci)" "i < length (tries ci)" "covers (tries ci ! i) a"
  shows "FindCatchHandlerOffset ci a = Some (int (unat (handler_off (tries ci ! i))))"
proof -
  obtain r where r: "FindTryItem ci a = Some r" "try_found (tries ci) a r"
    using FindTryItem_correct [OF assms(1)] by blast
  then have "r \<noteq> -1" using assms(2,3) by (auto simp: try_found_def)
  then have "nat r = i" "0 \<le> r"
    using r(2) covers_unique [OF assms(1) _ assms(2) _ assms(3)] by (auto simp: try_found_def)
  then show ?thesis
    using r(1) assms(2) \<open>r \<noteq> -1\<close>
    by (simp add: FindCatchHandlerOffset_def GetTryItems_def array_get_in)
qed

section \<open>Properties\<close>

text \<open>
  C12: On a sorted table of disjoint try items \<open>FindTryItem\<close> terminates without reading outside of
  the table; it returns the index of a try item that covers the address, and -1 only if none does.
\<close>
theorem find_try_item:
  assumes "tries_ok (tries ci)"
  shows "\<exists>r. FindTryItem ci a = Some r \<and> try_found (tries ci) a r"
  using FindTryItem_correct [OF assms] .

abbreviation (input) example_tries :: "TryItem list" where
  "example_tries \<equiv> [\<lparr>start_addr = 2, insn_count = 3, handler_off = 1\<rparr>,
     \<lparr>start_addr = 7, insn_count = 1, handler_off = 1\<rparr>]"

abbreviation (input) example_code :: CodeItem where
  "example_code \<equiv> \<lparr>registers_size = 2, ins_size = 0, outs_size = 0, tries = example_tries,
     insns = [0, 0, 0, 0, 0, 0, 0, 0, 0x010d, 0x000e],
     handler_data = [1, 0x7f, 5, 8, 9]\<rparr>"

theorem find_try_item_witness:
  "\<exists>r. FindTryItem example_code 7 = Some r \<and> try_found (tries example_code) 7 r"
  by (rule find_try_item) (simp add: tries_ok_def)

text \<open>
  C13: \<open>CatchHandlerIterator\<close> reads back an encoded catch handler list: iterating over it visits
  the typed handlers in order and then the catch-all handler, if there is one, terminates, and
  leaves the data pointer behind the list, where the next list starts.
\<close>
theorem catch_handlers_roundtrip:
  assumes "length typed < 2 ^ 31" "typed \<noteq> [] \<or> ca \<noteq> None"
  shows "\<exists>it e. Init_data (encode_handlers typed ca @ rest) = Some it \<and>
    handlers_of it = Some (handler_list typed ca, e) \<and> current_data e = rest \<and> \<not> HasNext e"
  using Init_data_encoded [OF assms] .

theorem catch_handlers_roundtrip_witness:
  "\<exists>it e. Init_data (encode_handlers [(5, 8)] (Some 9) @ [1]) = Some it \<and>
    handlers_of it = Some ([(5, 8), (kDexNoIndex16, 9)], e) \<and> current_data e = [1] \<and> \<not> HasNext e"
  using catch_handlers_roundtrip [of "[(5, 8)]" "Some 9" "[1]"] by (simp add: handler_list_def)

text \<open>
  C14: \<open>FindCatchBlock\<close> finds the handler that the dex format prescribes: within a try item it
  answers the address of the first handler whose type is resolved and assignable from the
  exception's class, or of the catch-all handler, and \<open>kDexNoIndex\<close> if there is none; the flag
  tells whether the handler starts with an instruction other than \<open>move-exception\<close>.
\<close>
theorem find_catch_block:
  assumes "tries_ok (tries ci)" "i < length (tries ci)" "covers (tries ci ! i) pc"
    and "length typed < 2 ^ 31" "typed \<noteq> [] \<or> ca \<noteq> None"
    and "handler_data ci = pre @ encode_handlers typed ca @ rest"
    and "unat (handler_off (tries ci ! i)) = length pre"
  shows "FindCatchBlock resolve assignable ci exc pc b =
    (case find (catches resolve assignable exc) (handler_list typed ca) of
       None \<Rightarrow> Some (kDexNoIndex, b)
     | Some h \<Rightarrow>
         if snd h = kDexNoIndex then Some (kDexNoIndex, b)
         else map_option (\<lambda>w. (snd h, Opcode w \<noteq> MOVE_EXCEPTION))
                (Fetch16 (insns ci) (unat (snd h)) 0))"
proof -
  obtain it e where it: "Init_data (encode_handlers typed ca @ rest) = Some it"
      "handlers_of it = Some (handler_list typed ca, e)"
    using Init_data_encoded [OF assms(4,5)] by blast
  have "CatchHandlerIterator_at ci pc = Some it"
    using FindCatchHandlerOffset_covered [OF assms(1-3)] assms(6,7) it(1)
    by (simp add: CatchHandlerIterator_at_search Init_offset_def GetCatchHandlerData_def)
  then show ?thesis
    using FindCatchBlock_loop_find [OF it(2), of resolve assignable exc]
    by (auto simp: FindCatchBlock_def map_option_case split: option.split)
qed

theorem find_catch_block_witness:
  "FindCatchBlock (\<lambda>t. None :: unit option) (\<lambda>_ _. True) example_code () 3 True = Some (9, True)"
proof -
  have e: "encode_handlers [(5, 8)] (Some 9) = [0x7f, 5, 8, 9]"
    by (simp add: encode_handlers_def sleb128_def sleb_extra_def uleb128_def
        EncodeSignedLeb128_loop.simps EncodeUnsignedLeb128_loop.simps)
  have "FindCatchBlock (\<lambda>t. None :: unit option) (\<lambda>_ _. True) example_code () 3 True =
    (case find (catches (\<lambda>t. None) (\<lambda>_ _. True) ()) (handler_list [(5, 8)] (Some 9)) of
       None \<Rightarrow> Some (kDexNoIndex, True)
     | Some h \<Rightarrow>
         if snd h = kDexNoIndex then Some (kDexNoIndex, True)
         else map_option (\<lambda>w. (snd h, Opcode w \<noteq> MOVE_EXCEPTION))
                (Fetch16 (insns example_code) (unat (snd h)) 0))"
    by (rule find_catch_block [where i = 0 and pre = "[1]" and rest = "[]"])
      (simp_all add: tries_ok_def covers_def e)
  then show ?thesis
    by (simp add: handler_list_def catches_def Fetch16_def array_get_def Opcode_def)
qed
end
