(* ===== verification/Method_Verifier.thy ===== *)
theory Method_Verifier
  imports Dex_Code_Item
begin

text \<open>
  The static part of the bytecode verifier (\<open>runtime/verifier/method_verifier.cc\<close> up to
  \<open>VerifyCodeFlow\<close>, and \<open>instruction_flags.h\<close>): instruction widths, try blocks and handlers, and
  the per-instruction checks of registers, pool indices, branch and switch targets and array data.
  The verifier object is a record; an operation returns its boolean result with the updated
  record, or \<open>None\<close> when it reads outside of the code, the instruction flags or the handler data.
  Failure messages are not kept, and neither is the register line that \<open>Fail\<close> saves only
  during code flow analysis.
\<close>

section \<open>Instruction flags\<close>

type_synonym InstructionFlags = uint8

abbreviation (input) kVisited :: nat where "kVisited \<equiv> 0"
abbreviation (input) kChanged :: nat where "kChanged \<equiv> 1"
abbreviation (input) kOpcode :: nat where "kOpcode \<equiv> 2"
abbreviation (input) kInTry :: nat where "kInTry \<equiv> 3"
abbreviation (input) kBranchTarget :: nat where "kBranchTarget \<equiv> 4"
abbreviation (input) kCompileTimeInfoPoint :: nat where "kCompileTimeInfoPoint \<equiv> 5"
abbreviation (input) kReturnFlag :: nat where "kReturnFlag \<equiv> 6"

definition SetIsOpcode :: "InstructionFlags \<Rightarrow> InstructionFlags" where
  "SetIsOpcode flags = flags OR push_bit kOpcode 1"

definition ClearIsOpcode :: "InstructionFlags \<Rightarrow> InstructionFlags" where
  "ClearIsOpcode flags = flags AND NOT (push_bit kOpcode 1)"

definition IsOpcode :: "InstructionFlags \<Rightarrow> bool" where
  "IsOpcode flags = (flags AND push_bit kOpcode 1 \<noteq> 0)"

definition SetInTry :: "InstructionFlags \<Rightarrow> InstructionFlags" where
  "SetInTry flags = flags OR push_bit kInTry 1"

definition ClearInTry :: "InstructionFlags \<Rightarrow> InstructionFlags" where
  "ClearInTry flags = flags AND NOT (push_bit kInTry 1)"

definition IsInTry :: "InstructionFlags \<Rightarrow> bool" where
  "IsInTry flags = (flags AND push_bit kInTry 1 \<noteq> 0)"

definition SetBranchTarget :: "InstructionFlags \<Rightarrow> InstructionFlags" where
  "SetBranchTarget flags = flags OR push_bit kBranchTarget 1"

definition ClearBranchTarget :: "InstructionFlags \<Rightarrow> InstructionFlags" where
  "ClearBranchTarget flags = flags AND NOT (push_bit kBranchTarget 1)"

definition IsBranchTarget :: "InstructionFlags \<Rightarrow> bool" where
  "IsBranchTarget flags = (flags AND push_bit kBranchTarget 1 \<noteq> 0)"

definition SetCompileTimeInfoPoint :: "InstructionFlags \<Rightarrow> InstructionFlags" where
  "SetCompileTimeInfoPoint flags = flags OR push_bit kCompileTimeInfoPoint 1"

definition ClearCompileTimeInfoPoint :: "InstructionFlags \<Rightarrow> InstructionFlags" where
  "ClearCompileTimeInfoPoint flags = flags AND NOT (push_bit kCompileTimeInfoPoint 1)"

definition IsCompileTimeInfoPoint :: "InstructionFlags \<Rightarrow> bool" where
  "IsCompileTimeInfoPoint flags = (flags AND push_bit kCompileTimeInfoPoint 1 \<noteq> 0)"

definition SetVisited :: "InstructionFlags \<Rightarrow> InstructionFlags" where
  "SetVisited flags = flags OR push_bit kVisited 1"

definition ClearVisited :: "InstructionFlags \<Rightarrow> InstructionFlags" where
  "ClearVisited flags = flags AND NOT (push_bit kVisited 1)"

definition IsVisited :: "InstructionFlags \<Rightarrow> bool" where
  "IsVisited flags = (flags AND push_bit kVisited 1 \<noteq> 0)"

definition SetChanged :: "InstructionFlags \<Rightarrow> InstructionFlags" where
  "SetChanged flags = flags OR push_bit kChanged 1"

definition ClearChanged :: "InstructionFlags \<Rightarrow> InstructionFlags" where
  "ClearChanged flags = flags AND NOT (push_bit kChanged 1)"

definition IsChanged :: "InstructionFlags \<Rightarrow> bool" where
  "IsChanged flags = (flags AND push_bit kChanged 1 \<noteq> 0)"

definition IsVisitedOrChanged :: "InstructionFlags \<Rightarrow> bool" where
  "IsVisitedOrChanged flags = (IsVisited flags \<or> IsChanged flags)"

definition SetReturn :: "InstructionFlags \<Rightarrow> InstructionFlags" where
  "SetReturn flags = flags OR push_bit kReturnFlag 1"

definition ClearReturn :: "InstructionFlags \<Rightarrow> InstructionFlags" where
  "ClearReturn flags = flags AND NOT (push_bit kReturnFlag 1)"

definition IsReturn_flag :: "InstructionFlags \<Rightarrow> bool" where
  "IsReturn_flag flags = (flags AND push_bit kReturnFlag 1 \<noteq> 0)"

definition SetCompileTimeInfoPointAndReturn :: "InstructionFlags \<Rightarrow> InstructionFlags" where
  "SetCompileTimeInfoPointAndReturn flags = SetReturn (SetCompileTimeInfoPoint flags)"

section \<open>The verifier\<close>

datatype VerifyError =
    VERIFY_ERROR_BAD_CLASS_HARD | VERIFY_ERROR_BAD_CLASS_SOFT | VERIFY_ERROR_NO_CLASS
  | VERIFY_ERROR_NO_FIELD | VERIFY_ERROR_NO_METHOD | VERIFY_ERROR_ACCESS_CLASS
  | VERIFY_ERROR_ACCESS_FIELD | VERIFY_ERROR_ACCESS_METHOD | VERIFY_ERROR_CLASS_CHANGE
  | VERIFY_ERROR_INSTANTIATION | VERIFY_ERROR_FORCE_INTERPRETER | VERIFY_ERROR_LOCKING

primrec verify_error_value :: "VerifyError \<Rightarrow> uint32" where
  "verify_error_value VERIFY_ERROR_BAD_CLASS_HARD = 1"
| "verify_error_value VERIFY_ERROR_BAD_CLASS_SOFT = 2"
| "verify_error_value VERIFY_ERROR_NO_CLASS = 4"
| "verify_error_value VERIFY_ERROR_NO_FIELD = 8"
| "verify_error_value VERIFY_ERROR_NO_METHOD = 16"
| "verify_error_value VERIFY_ERROR_ACCESS_CLASS = 32"
| "verify_error_value VERIFY_ERROR_ACCESS_FIELD = 64"
| "verify_error_value VERIFY_ERROR_ACCESS_METHOD = 128"
| "verify_error_value VERIFY_ERROR_CLASS_CHANGE = 256"
| "verify_error_value VERIFY_ERROR_INSTANTIATION = 512"
| "verify_error_value VERIFY_ERROR_FORCE_INTERPRETER = 1024"
| "verify_error_value VERIFY_ERROR_LOCKING = 2048"

text \<open>Access flags (\<open>runtime/modifiers.h\<close>).\<close>

abbreviation (input) kAccPublic :: uint32 where "kAccPublic \<equiv> 0x0001"
abbreviation (input) kAccPrivate :: uint32 where "kAccPrivate \<equiv> 0x0002"
abbreviation (input) kAccProtected :: uint32 where "kAccProtected \<equiv> 0x0004"
abbreviation (input) kAccStatic :: uint32 where "kAccStatic \<equiv> 0x0008"
abbreviation (input) kAccFinal :: uint32 where "kAccFinal \<equiv> 0x0010"
abbreviation (input) kAccSynchronized :: uint32 where "kAccSynchronized \<equiv> 0x0020"
abbreviation (input) kAccNative :: uint32 where "kAccNative \<equiv> 0x0100"
abbreviation (input) kAccInterface :: uint32 where "kAccInterface \<equiv> 0x0200"
abbreviation (input) kAccAbstract :: uint32 where "kAccAbstract \<equiv> 0x0400"
abbreviation (input) kAccStrict :: uint32 where "kAccStrict \<equiv> 0x0800"
abbreviation (input) kAccConstructor :: uint32 where "kAccConstructor \<equiv> 0x00010000"

text \<open>The parts of the dex file that the checks read: the sizes in its header and the type
  descriptors.\<close>

record DexFile =
  string_ids_size :: uint32
  type_ids_size :: uint32
  field_ids_size :: uint32
  method_ids_size :: uint32
  StringByTypeIdx :: "uint32 \<Rightarrow> string"

text \<open>What the verifier is created with, and the members it updates.\<close>

record VerifierInput =
  method_name :: string
  method_access_flags :: uint32
  class_access_flags :: uint32
  dex_version :: uint32
  is_debug_build :: bool
  has_code :: bool
  code_item :: CodeItem
  dex_file :: DexFile
  allow_soft_failures :: bool
  can_load_classes :: bool
  verify_to_dump :: bool
  is_aot_compiler :: bool

record MethodVerifier = VerifierInput +
  is_constructor :: bool
  insn_flags :: "InstructionFlags list"
  failures :: "VerifyError list"
  encountered_failure_types :: uint32
  have_pending_hard_failure :: bool
  have_pending_runtime_throw_failure :: bool
  have_pending_experimental_failure :: bool
  has_check_casts :: bool
  has_virtual_or_interface_invokes :: bool
  new_instance_count :: nat
  monitor_enter_count :: nat

definition insns_size :: "MethodVerifier \<Rightarrow> nat" where
  "insns_size v = length (insns (code_item v))"

definition Fail :: "VerifyError \<Rightarrow> MethodVerifier \<Rightarrow> MethodVerifier" where
  "Fail error v =
     (let v = v\<lparr>encountered_failure_types :=
                  encountered_failure_types v OR verify_error_value error\<rparr>;
          (error, v) =
            (case error of
               VERIFY_ERROR_BAD_CLASS_SOFT \<Rightarrow>
                 (error, if allow_soft_failures v then v else v\<lparr>have_pending_hard_failure := True\<rparr>)
             | VERIFY_ERROR_BAD_CLASS_HARD \<Rightarrow> (error, v\<lparr>have_pending_hard_failure := True\<rparr>)
             | _ \<Rightarrow>
                 (if is_aot_compiler v \<or> \<not> can_load_classes v then (VERIFY_ERROR_BAD_CLASS_SOFT, v)
                  else (error, v\<lparr>have_pending_runtime_throw_failure := True\<rparr>)))
      in v\<lparr>failures := failures v @ [error]\<rparr>)"

type_synonym check = "MethodVerifier \<Rightarrow> (bool \<times> MethodVerifier) option"

definition hard_failure :: check where
  "hard_failure v = Some (False, Fail VERIFY_ERROR_BAD_CLASS_HARD v)"

text \<open>\<open>result = result && check\<close>.\<close>

definition result_and :: "bool \<Rightarrow> check \<Rightarrow> check" where
  "result_and result c v = (if result then c v else Some (False, v))"

definition GetInstructionFlags :: "MethodVerifier \<Rightarrow> nat \<Rightarrow> InstructionFlags option" where
  "GetInstructionFlags v index = array_get (insn_flags v) index"

definition UpdateInstructionFlags ::
    "(InstructionFlags \<Rightarrow> InstructionFlags) \<Rightarrow> nat \<Rightarrow> MethodVerifier \<Rightarrow> MethodVerifier option" where
  "UpdateInstructionFlags f index v = do {
     flags \<leftarrow> array_get (insn_flags v) index;
     all_flags \<leftarrow> array_set (insn_flags v) index (f flags);
     Some (v\<lparr>insn_flags := all_flags\<rparr>)
   }"

section \<open>Widths\<close>

definition note_opcode :: "Code \<Rightarrow> MethodVerifier \<Rightarrow> MethodVerifier" where
  "note_opcode opcode v =
     (if opcode \<in> {APUT_OBJECT, CHECK_CAST} then v\<lparr>has_check_casts := True\<rparr>
      else if opcode \<in> {INVOKE_VIRTUAL, INVOKE_VIRTUAL_RANGE, INVOKE_INTERFACE, INVOKE_INTERFACE_RANGE}
      then v\<lparr>has_virtual_or_interface_invokes := True\<rparr>
      else v)"

function ComputeWidths_loop ::
    "insns \<Rightarrow> nat \<Rightarrow> nat \<Rightarrow> nat \<Rightarrow> MethodVerifier \<Rightarrow> (nat \<times> nat \<times> nat \<times> MethodVerifier) option" where
  "ComputeWidths_loop code dex_pc new_instances monitor_enters v =
     (if dex_pc < length code then do {
        inst_data \<leftarrow> Fetch16 code dex_pc 0;
        let opcode = Opcode inst_data;
        let v = note_opcode opcode v;
        let monitor_enters = (if opcode = MONITOR_ENTER then monitor_enters + 1 else monitor_enters);
        let new_instances = (if opcode = NEW_INSTANCE then new_instances + 1 else new_instances);
        inst_size \<leftarrow> SizeInCodeUnits code dex_pc;
        v \<leftarrow> UpdateInstructionFlags SetIsOpcode dex_pc v;
        ComputeWidths_loop code (dex_pc + inst_size) new_instances monitor_enters v
      } else Some (dex_pc, new_instances, monitor_enters, v))"
  by pat_completeness auto
termination
  by (relation "measure (\<lambda>(code, dex_pc, n, m, v). length code - dex_pc)")
    (auto dest: SizeInCodeUnits_pos)

declare ComputeWidths_loop.simps [simp del]

definition ComputeWidthsAndCountOps :: check where
  "ComputeWidthsAndCountOps v = do {
     (dex_pc, new_instances, monitor_enters, v) \<leftarrow> ComputeWidths_loop (insns (code_item v)) 0 0 0 v;
     if dex_pc \<noteq> insns_size v then hard_failure v
     else Some (True, v\<lparr>new_instance_count := new_instances, monitor_enter_count := monitor_enters\<rparr>)
   }"

section \<open>Try blocks and handlers\<close>

definition CheckNotMoveException :: "insns \<Rightarrow> nat \<Rightarrow> check" where
  "CheckNotMoveException code insn_idx v = do {
     w \<leftarrow> array_get code insn_idx;
     if w AND 0xff = ucast MOVE_EXCEPTION then hard_failure v else Some (True, v)
   }"

definition CheckNotMoveResult :: "insns \<Rightarrow> nat \<Rightarrow> check" where
  "CheckNotMoveResult code insn_idx v = do {
     w \<leftarrow> array_get code insn_idx;
     if w AND 0xff \<ge> ucast MOVE_RESULT \<and> w AND 0xff \<le> ucast MOVE_RESULT_OBJECT
     then hard_failure v else Some (True, v)
   }"

definition CheckNotMoveExceptionOrMoveResult :: "insns \<Rightarrow> nat \<Rightarrow> check" where
  "CheckNotMoveExceptionOrMoveResult code insn_idx v = do {
     (result, v) \<leftarrow> CheckNotMoveException code insn_idx v;
     result_and result (CheckNotMoveResult code insn_idx) v
   }"

text \<open>Flagging the instructions of one try block.\<close>

function mark_try :: "insns \<Rightarrow> nat \<Rightarrow> nat \<Rightarrow> MethodVerifier \<Rightarrow> MethodVerifier option" where
  "mark_try code dex_pc end_addr v =
     (if dex_pc < end_addr then do {
        v \<leftarrow> UpdateInstructionFlags SetInTry dex_pc v;
        insn_size \<leftarrow> SizeInCodeUnits code dex_pc;
        mark_try code (dex_pc + insn_size) end_addr v
      } else Some v)"
  by pat_completeness auto
termination
  by (relation "measure (\<lambda>(code, dex_pc, e, v). e - dex_pc)") (auto dest: SizeInCodeUnits_pos)

declare mark_try.simps [simp del]

fun scan_tries :: "TryItem list \<Rightarrow> check" where
  "scan_tries [] v = Some (True, v)"
| "scan_tries (try_item # ts) v = do {
     let start = start_addr try_item;
     let end_addr = start + ucast (insn_count try_item);
     if start \<ge> end_addr \<or> unat start \<ge> insns_size v \<or> unat end_addr > insns_size v
     then hard_failure v
     else do {
       flags \<leftarrow> GetInstructionFlags v (unat start);
       if \<not> IsOpcode flags then hard_failure v
       else do {
         v \<leftarrow> mark_try (insns (code_item v)) (unat start) (unat end_addr) v;
         scan_tries ts v
       }
     }
   }"

text \<open>The handlers of one list; the result carries the iterator at its end.  Resolving the
  exception types loads classes and leaves the verifier unchanged.\<close>

function scan_handlers ::
    "CatchHandlerIterator \<Rightarrow> MethodVerifier \<Rightarrow> (bool \<times> CatchHandlerIterator \<times> MethodVerifier) option" where
  "scan_handlers it v =
     (if HasNext it then do {
        let dex_pc = unat (address it);
        flags \<leftarrow> GetInstructionFlags v dex_pc;
        if \<not> IsOpcode flags then Some (False, it, Fail VERIFY_ERROR_BAD_CLASS_HARD v)
        else do {
          (not_move_result, v) \<leftarrow> CheckNotMoveResult (insns (code_item v)) dex_pc v;
          if \<not> not_move_result then Some (False, it, Fail VERIFY_ERROR_BAD_CLASS_HARD v)
          else do {
            v \<leftarrow> UpdateInstructionFlags SetBranchTarget dex_pc v;
            case Next_handler it of
              None \<Rightarrow> None
            | Some it' \<Rightarrow> scan_handlers it' v
          }
        }
      } else Some (True, it, v))"
  by pat_completeness auto
termination
  by (relation "measure (\<lambda>(it, v). iterator_measure it)") (auto simp: Next_handler_measure)

declare scan_handlers.simps [simp del]

primrec scan_handler_lists :: "nat \<Rightarrow> uint8 list \<Rightarrow> check" where
  "scan_handler_lists 0 handlers_ptr v = Some (True, v)"
| "scan_handler_lists (Suc n) handlers_ptr v = do {
     it \<leftarrow> Init_data handlers_ptr;
     (result, it, v) \<leftarrow> scan_handlers it v;
     if result then scan_handler_lists n (current_data it) v else Some (False, v)
   }"

definition ScanTryCatchBlocks :: check where
  "ScanTryCatchBlocks v =
     (if tries_size (code_item v) = 0 then Some (True, v)
      else do {
        (result, v) \<leftarrow> scan_tries (tries (code_item v)) v;
        if \<not> result then Some (False, v)
        else do {
          handlers_ptr \<leftarrow> GetCatchHandlerData (code_item v) 0;
          (handlers_size, handlers_ptr) \<leftarrow> DecodeUnsignedLeb128 handlers_ptr;
          scan_handler_lists (unat handlers_size) handlers_ptr v
        }
      })"

section \<open>Register and pool indices\<close>

definition CheckRegisterIndex :: "uint32 \<Rightarrow> check" where
  "CheckRegisterIndex idx v =
     (if idx \<ge> ucast (registers_size (code_item v)) then hard_failure v else Some (True, v))"

definition CheckWideRegisterIndex :: "uint32 \<Rightarrow> check" where
  "CheckWideRegisterIndex idx v =
     (if idx + 1 \<ge> ucast (registers_size (code_item v)) then hard_failure v else Some (True, v))"

definition CheckFieldIndex :: "uint32 \<Rightarrow> check" where
  "CheckFieldIndex idx v =
     (if idx \<ge> field_ids_size (dex_file v) then hard_failure v else Some (True, v))"

definition CheckMethodIndex :: "uint32 \<Rightarrow> check" where
  "CheckMethodIndex idx v =
     (if idx \<ge> method_ids_size (dex_file v) then hard_failure v else Some (True, v))"

definition CheckNewInstance :: "uint32 \<Rightarrow> check" where
  "CheckNewInstance idx v =
     (if idx \<ge> type_ids_size (dex_file v) then hard_failure v
      else if take 1 (StringByTypeIdx (dex_file v) idx) \<noteq> ''L'' then hard_failure v
      else Some (True, v))"

definition CheckStringIndex :: "uint32 \<Rightarrow> check" where
  "CheckStringIndex idx v =
     (if idx \<ge> string_ids_size (dex_file v) then hard_failure v else Some (True, v))"

definition CheckTypeIndex :: "uint32 \<Rightarrow> check" where
  "CheckTypeIndex idx v =
     (if idx \<ge> type_ids_size (dex_file v) then hard_failure v else Some (True, v))"

definition CheckNewArray :: "uint32 \<Rightarrow> check" where
  "CheckNewArray idx v =
     (if idx \<ge> type_ids_size (dex_file v) then hard_failure v
      else
        let bracket_count = length (takeWhile (\<lambda>c. c = CHR ''['') (StringByTypeIdx (dex_file v) idx))
        in if bracket_count = 0 then hard_failure v
           else if bracket_count > 255 then hard_failure v
           else Some (True, v))"

fun check_arg_regs :: "uint32 list \<Rightarrow> check" where
  "check_arg_regs [] v = Some (True, v)"
| "check_arg_regs (arg # rest) v =
     (if arg \<ge> ucast (registers_size (code_item v)) then hard_failure v else check_arg_regs rest v)"

definition CheckVarArgRegs :: "uint32 \<Rightarrow> uint32 list \<Rightarrow> check" where
  "CheckVarArgRegs vA arg v =
     (if unat vA \<le> length arg then check_arg_regs (take (unat vA) arg) v else None)"

definition CheckVarArgRangeRegs :: "uint32 \<Rightarrow> uint32 \<Rightarrow> check" where
  "CheckVarArgRangeRegs vA vC v =
     (if vA + vC > ucast (registers_size (code_item v)) then hard_failure v else Some (True, v))"

section \<open>Array data\<close>

text \<open>The code array is 32-bit aligned in the dex file, so a table is aligned at an even dex pc.\<close>

definition CheckArrayData :: "uint32 \<Rightarrow> check" where
  "CheckArrayData cur_offset v = do {
     let code = insns (code_item v);
     let insn_count = insns_size v;
     array_data_offset \<leftarrow> Fetch32 code (unat cur_offset) 1;
     if sint (cur_offset + array_data_offset) < 0 \<or>
        unat (cur_offset + array_data_offset + 2) \<ge> insn_count
     then hard_failure v
     else do {
       let array_data = unat (cur_offset + array_data_offset);
       if odd array_data then hard_failure v
       else do {
         flags \<leftarrow> GetInstructionFlags v array_data;
         if \<not> IsOpcode flags then hard_failure v
         else do {
           value_width \<leftarrow> Fetch16 code array_data 1;
           value_count \<leftarrow> Fetch32 code array_data 2;
           let table_size = 4 + (ucast value_width * value_count + 1) div 2;
           if unat (cur_offset + array_data_offset + table_size) > insn_count
           then hard_failure v else Some (True, v)
         }
       }
     }
   }"

section \<open>Branch targets\<close>

text \<open>The outer \<open>option\<close> is a read outside of the code, the inner one the result \<open>false\<close>; the
  values are the offset, whether the branch is conditional, and whether it may target itself.\<close>

definition GetBranchOffset :: "insns \<Rightarrow> uint32 \<Rightarrow> (int32 \<times> bool \<times> bool) option option" where
  "GetBranchOffset code cur_offset = do {
     w \<leftarrow> Fetch16 code (unat cur_offset) 0;
     let opcode = Opcode w;
     if opcode = GOTO then Some (Some (scast (signed_drop_bit 8 w), False, False))
     else if opcode = GOTO_32 then do {
       offset \<leftarrow> Fetch32 code (unat cur_offset) 1;
       Some (Some (offset, False, True))
     } else if opcode = GOTO_16 then do {
       offset \<leftarrow> Fetch16 code (unat cur_offset) 1;
       Some (Some (scast offset, False, False))
     } else if opcode \<in> {IF_EQ, IF_NE, IF_LT, IF_GE, IF_GT, IF_LE,
                          IF_EQZ, IF_NEZ, IF_LTZ, IF_GEZ, IF_GTZ, IF_LEZ} then do {
       offset \<leftarrow> Fetch16 code (unat cur_offset) 1;
       Some (Some (scast offset, True, False))
     } else Some None
   }"

definition CheckBranchTarget :: "uint32 \<Rightarrow> check" where
  "CheckBranchTarget cur_offset v = do {
     branch \<leftarrow> GetBranchOffset (insns (code_item v)) cur_offset;
     case branch of
       None \<Rightarrow> Some (False, v)
     | Some (offset, isConditional, selfOkay) \<Rightarrow>
         if \<not> selfOkay \<and> offset = 0 then hard_failure v
         else if int (unat cur_offset) + sint offset \<noteq> int (unat (cur_offset + offset))
         then hard_failure v
         else do {
           let abs_offset = cur_offset + offset;
           if sint abs_offset < 0 \<or> unat abs_offset \<ge> insns_size v then hard_failure v
           else do {
             flags \<leftarrow> GetInstructionFlags v (unat abs_offset);
             if \<not> IsOpcode flags then hard_failure v
             else do {
               v \<leftarrow> UpdateInstructionFlags SetBranchTarget (unat abs_offset) v;
               Some (True, v)
             }
           }
         }
   }"

section \<open>Switch tables\<close>

text \<open>The loop over the keys of a sparse switch from \<open>targ\<close> on, with \<open>n\<close> keys left.\<close>

fun check_sparse_keys :: "insns \<Rightarrow> nat \<Rightarrow> nat \<Rightarrow> nat \<Rightarrow> int32 \<Rightarrow> check" where
  "check_sparse_keys code switch_insns targ 0 last_key v = Some (True, v)"
| "check_sparse_keys code switch_insns targ (Suc n) last_key v = do {
     key \<leftarrow> Fetch32 code switch_insns (2 + targ * 2);
     if sint key \<le> sint last_key then hard_failure v
     else check_sparse_keys code switch_insns (targ + 1) n key v
   }"

text \<open>The loop over the targets from \<open>targ\<close> on, with \<open>n\<close> targets left.\<close>

fun check_switch_targets :: "insns \<Rightarrow> uint32 \<Rightarrow> nat \<Rightarrow> nat \<Rightarrow> nat \<Rightarrow> nat \<Rightarrow> check" where
  "check_switch_targets code cur_offset switch_insns targets_offset targ 0 v = Some (True, v)"
| "check_switch_targets code cur_offset switch_insns targets_offset targ (Suc n) v = do {
     offset \<leftarrow> Fetch32 code switch_insns (targets_offset + targ * 2);
     let abs_offset = cur_offset + offset;
     if sint abs_offset < 0 \<or> sint abs_offset \<ge> sint (of_nat (insns_size v) :: int32)
     then hard_failure v
     else do {
       flags \<leftarrow> GetInstructionFlags v (unat abs_offset);
       if \<not> IsOpcode flags then hard_failure v
       else do {
         v \<leftarrow> UpdateInstructionFlags SetBranchTarget (unat abs_offset) v;
         check_switch_targets code cur_offset switch_insns targets_offset (targ + 1) n v
       }
     }
   }"

definition check_switch_keys :: "bool \<Rightarrow> nat \<Rightarrow> uint32 \<Rightarrow> check" where
  "check_switch_keys is_packed_switch switch_insns switch_count v =
     (let code = insns (code_item v) in
      if switch_count > 1 then
        if is_packed_switch then do {
          first_key \<leftarrow> Fetch32 code switch_insns 2;
          let max_first_key = 2 ^ 31 - 1 - (sint switch_count - 1);
          if sint first_key > max_first_key then hard_failure v else Some (True, v)
        } else do {
          last_key \<leftarrow> Fetch32 code switch_insns 2;
          check_sparse_keys code switch_insns 1 (unat switch_count - 1) last_key v
        }
      else Some (True, v))"

definition CheckSwitchTargets :: "uint32 \<Rightarrow> check" where
  "CheckSwitchTargets cur_offset v = do {
     let code = insns (code_item v);
     let insn_count = insns_size v;
     w \<leftarrow> Fetch16 code (unat cur_offset) 0;
     switch_offset \<leftarrow> Fetch32 code (unat cur_offset) 1;
     if sint (cur_offset + switch_offset) < 0 \<or> unat (cur_offset + switch_offset + 2) > insn_count
     then hard_failure v
     else do {
       let switch_insns = unat (cur_offset + switch_offset);
       if odd switch_insns then hard_failure v
       else do {
         flags \<leftarrow> GetInstructionFlags v switch_insns;
         if \<not> IsOpcode flags then hard_failure v
         else do {
           let is_packed_switch = (Opcode w = PACKED_SWITCH);
           signature \<leftarrow> Fetch16 code switch_insns 0;
           count \<leftarrow> Fetch16 code switch_insns 1;
           let switch_count = (ucast count :: uint32);
           let targets_offset = (if is_packed_switch then 4 else 2 + 2 * switch_count);
           let expected_signature =
             (if is_packed_switch then kPackedSwitchSignature else kSparseSwitchSignature);
           let table_size = targets_offset + switch_count * 2;
           if signature \<noteq> expected_signature then hard_failure v
           else if unat (cur_offset + switch_offset + table_size) > insn_count then hard_failure v
           else do {
             (result, v) \<leftarrow> check_switch_keys is_packed_switch switch_insns switch_count v;
             if \<not> result then Some (False, v)
             else check_switch_targets code cur_offset switch_insns (unat targets_offset) 0
                    (unat switch_count) v
           }
         }
       }
     }
   }"

section \<open>One instruction\<close>

abbreviation (input) kMaxVarArgRegs :: nat where "kMaxVarArgRegs \<equiv> 5"

text \<open>The four switch statements of \<open>VerifyInstruction\<close>; each takes the result so far.\<close>

definition verify_argument_A :: "nat \<Rightarrow> Code \<Rightarrow> bool \<Rightarrow> check" where
  "verify_argument_A dex_pc opcode result v =
     (let code = insns (code_item v); k = GetVerifyTypeArgumentA opcode in
      if k = kVerifyRegA then
        result_and result (\<lambda>v. do { a \<leftarrow> VRegA code dex_pc; CheckRegisterIndex a v }) v
      else if k = kVerifyRegAWide then
        result_and result (\<lambda>v. do { a \<leftarrow> VRegA code dex_pc; CheckWideRegisterIndex a v }) v
      else Some (result, v))"

definition verify_argument_B :: "nat \<Rightarrow> Code \<Rightarrow> bool \<Rightarrow> check" where
  "verify_argument_B dex_pc opcode result v =
     (let code = insns (code_item v); k = GetVerifyTypeArgumentB opcode;
          check_b = (\<lambda>c. result_and result (\<lambda>v. do { b \<leftarrow> VRegB code dex_pc; c b v }) v)
      in if k = kVerifyRegB then check_b CheckRegisterIndex
      else if k = kVerifyRegBField then check_b CheckFieldIndex
      else if k = kVerifyRegBMethod then check_b CheckMethodIndex
      else if k = kVerifyRegBNewInstance then check_b CheckNewInstance
      else if k = kVerifyRegBString then check_b CheckStringIndex
      else if k = kVerifyRegBType then check_b CheckTypeIndex
      else if k = kVerifyRegBWide then check_b CheckWideRegisterIndex
      else Some (result, v))"

definition verify_argument_C :: "nat \<Rightarrow> Code \<Rightarrow> bool \<Rightarrow> check" where
  "verify_argument_C dex_pc opcode result v =
     (let code = insns (code_item v); k = GetVerifyTypeArgumentC opcode;
          check_c = (\<lambda>c. result_and result (\<lambda>v. do { b \<leftarrow> VRegC code dex_pc; c b v }) v)
      in if k = kVerifyRegC then check_c CheckRegisterIndex
      else if k = kVerifyRegCField then check_c CheckFieldIndex
      else if k = kVerifyRegCNewArray then check_c CheckNewArray
      else if k = kVerifyRegCType then check_c CheckTypeIndex
      else if k = kVerifyRegCWide then check_c CheckWideRegisterIndex
      else if k = kVerifyRegCString then check_c CheckStringIndex
      else Some (result, v))"

text \<open>The last one may return from \<open>VerifyInstruction\<close>: then the flag of its result is set.\<close>

definition verify_extra :: "nat \<Rightarrow> Code \<Rightarrow> bool \<Rightarrow> MethodVerifier \<Rightarrow> (bool \<times> bool \<times> MethodVerifier) option" where
  "verify_extra dex_pc opcode result v =
     (let code = insns (code_item v); k = GetVerifyExtraFlags opcode;
          proceed = map_option (\<lambda>(r, v). (False, r, v))
      in if k = kVerifyArrayData then proceed (result_and result (CheckArrayData (of_nat dex_pc)) v)
      else if k = kVerifyBranchTarget then
        proceed (result_and result (CheckBranchTarget (of_nat dex_pc)) v)
      else if k = kVerifySwitchTargets then
        proceed (result_and result (CheckSwitchTargets (of_nat dex_pc)) v)
      else if k = kVerifyVarArgNonZero \<or> k = kVerifyVarArg then do {
        v_a \<leftarrow> VRegA code dex_pc;
        if (k = kVerifyVarArgNonZero \<and> v_a = 0) \<or> unat v_a > kMaxVarArgRegs
        then Some (True, False, Fail VERIFY_ERROR_BAD_CLASS_HARD v)
        else do {
          inst_data \<leftarrow> Fetch16 code dex_pc 0;
          args \<leftarrow> GetVarArgs code dex_pc (replicate kMaxVarArgRegs 0) inst_data;
          proceed (result_and result (CheckVarArgRegs v_a args) v)
        }
      } else if k = kVerifyVarArgRangeNonZero \<or> k = kVerifyVarArgRange then do {
        v_a \<leftarrow> VRegA code dex_pc;
        if k = kVerifyVarArgRangeNonZero \<and> sint v_a \<le> 0
        then Some (True, False, Fail VERIFY_ERROR_BAD_CLASS_HARD v)
        else proceed (result_and result
          (\<lambda>v. do { v_c \<leftarrow> VRegC code dex_pc; CheckVarArgRangeRegs v_a v_c v }) v)
      } else if k = kVerifyError then Some (False, False, Fail VERIFY_ERROR_BAD_CLASS_HARD v)
      else Some (False, result, v))"

definition VerifyInstruction :: "nat \<Rightarrow> check" where
  "VerifyInstruction dex_pc v = do {
     inst_data \<leftarrow> Fetch16 (insns (code_item v)) dex_pc 0;
     let opcode = Opcode inst_data;
     if IsExperimental opcode then
       Some (False, (Fail VERIFY_ERROR_FORCE_INTERPRETER v)\<lparr>have_pending_experimental_failure := True\<rparr>)
     else do {
       (result, v) \<leftarrow> verify_argument_A dex_pc opcode True v;
       (result, v) \<leftarrow> verify_argument_B dex_pc opcode result v;
       (result, v) \<leftarrow> verify_argument_C dex_pc opcode result v;
       (return, result, v) \<leftarrow> verify_extra dex_pc opcode result v;
       if return then Some (result, v)
       else if GetVerifyIsRuntimeOnly opcode \<and> is_aot_compiler v \<and> \<not> verify_to_dump v
       then Some (False, Fail VERIFY_ERROR_BAD_CLASS_HARD v)
       else Some (result, v)
     }
   }"

section \<open>All instructions\<close>

text \<open>The flags of one verified instruction.\<close>

definition flag_instruction :: "nat \<Rightarrow> Code \<Rightarrow> MethodVerifier \<Rightarrow> MethodVerifier option" where
  "flag_instruction dex_pc opcode v =
     (if IsBranch opcode then do {
        v \<leftarrow> UpdateInstructionFlags SetCompileTimeInfoPoint dex_pc v;
        branch \<leftarrow> GetBranchOffset (insns (code_item v)) (of_nat dex_pc);
        let offset = (case branch of None \<Rightarrow> 0 | Some (offset, _) \<Rightarrow> offset);
        UpdateInstructionFlags SetCompileTimeInfoPoint (unat (of_nat dex_pc + offset :: uint32)) v
      } else if IsSwitch opcode \<or> IsThrow opcode then
        UpdateInstructionFlags SetCompileTimeInfoPoint dex_pc v
      else if IsReturn opcode then
        UpdateInstructionFlags SetCompileTimeInfoPointAndReturn dex_pc v
      else Some v)"

function VerifyInstructions_loop :: "insns \<Rightarrow> nat \<Rightarrow> check" where
  "VerifyInstructions_loop code dex_pc v =
     (if dex_pc < length code then do {
        (result, v) \<leftarrow> VerifyInstruction dex_pc v;
        if \<not> result then Some (False, v)
        else do {
          inst_data \<leftarrow> Fetch16 code dex_pc 0;
          v \<leftarrow> flag_instruction dex_pc (Opcode inst_data) v;
          size \<leftarrow> SizeInCodeUnits code dex_pc;
          VerifyInstructions_loop code (dex_pc + size) v
        }
      } else Some (True, v))"
  by pat_completeness auto
termination
  by (relation "measure (\<lambda>(code, dex_pc, v). length code - dex_pc)")
    (auto dest: SizeInCodeUnits_pos)

declare VerifyInstructions_loop.simps [simp del]

definition VerifyInstructions :: check where
  "VerifyInstructions v = do {
     v \<leftarrow> UpdateInstructionFlags SetBranchTarget 0 v;
     v \<leftarrow> UpdateInstructionFlags SetCompileTimeInfoPoint 0 v;
     VerifyInstructions_loop (insns (code_item v)) 0 v
   }"

section \<open>A method\<close>

definition has_flag :: "uint32 \<Rightarrow> uint32 \<Rightarrow> bool" where
  "has_flag flags k = (flags AND k \<noteq> 0)"

definition IsStatic :: "MethodVerifier \<Rightarrow> bool" where
  "IsStatic v = has_flag (method_access_flags v) kAccStatic"

definition IsInstanceConstructor :: "MethodVerifier \<Rightarrow> bool" where
  "IsInstanceConstructor v = (is_constructor v \<and> \<not> IsStatic v)"

text \<open>The checks of a method without code.\<close>

definition verify_no_code :: check where
  "verify_no_code v =
     (let flags = method_access_flags v in
      if flags AND (kAccNative OR kAccAbstract) = 0 then hard_failure v
      else if is_debug_build v then
        if has_flag flags kAccAbstract \<and> flags AND (kAccPrivate OR kAccStatic OR kAccFinal OR
             kAccNative OR kAccStrict OR kAccSynchronized) \<noteq> 0 then hard_failure v
        else if has_flag (class_access_flags v) kAccInterface \<and> flags AND kAccPublic \<noteq> kAccPublic
        then hard_failure v
        else if has_flag (class_access_flags v) kAccInterface \<and> has_flag flags kAccProtected
        then hard_failure v
        else if is_constructor v then hard_failure v
        else Some (True, v)
      else Some (True, v))"

text \<open>The checks that a debug build makes of a method with code.\<close>

definition verify_code_debug :: check where
  "verify_code_debug v =
     (let flags = method_access_flags v in
      if flags AND (kAccNative OR kAccAbstract) \<noteq> 0 then hard_failure v
      else if has_flag (class_access_flags v) kAccInterface \<and> \<not> (is_constructor v \<and> IsStatic v) \<and>
           (IsInstanceConstructor v \<or> has_flag flags kAccFinal \<or>
            \<not> has_flag flags (if dex_version v \<ge> 37 then kAccPublic OR kAccPrivate else kAccPublic))
      then hard_failure v
      else if IsInstanceConstructor v \<and> has_flag flags kAccSynchronized then hard_failure v
      else Some (True, v))"

text \<open>The static passes over the code, in their order.\<close>

definition VerifyStatic :: check where
  "VerifyStatic v =
     (if ins_size (code_item v) > registers_size (code_item v) then hard_failure v
      else do {
        let v = v\<lparr>insn_flags := replicate (insns_size v) 0\<rparr>;
        (result, v) \<leftarrow> ComputeWidthsAndCountOps v;
        (result, v) \<leftarrow> result_and result ScanTryCatchBlocks v;
        result_and result VerifyInstructions v
      })"

text \<open>\<open>Verify\<close>, with the code flow analysis as a parameter.\<close>

definition Verify :: "check \<Rightarrow> check" where
  "Verify VerifyCodeFlow v = do {
     let flags = method_access_flags v;
     let instance_constructor_by_name = (method_name v = ''<init>'');
     let static_constructor_by_name = (method_name v = ''<clinit>'');
     let constructor_by_name = (instance_constructor_by_name \<or> static_constructor_by_name);
     if has_flag flags kAccConstructor \<and> \<not> constructor_by_name then hard_failure v
     else do {
       let v = (if has_flag flags kAccConstructor \<or> constructor_by_name
                then v\<lparr>is_constructor := True\<rparr> else v);
       if is_debug_build v \<and> is_constructor v \<and> IsStatic v \<noteq> static_constructor_by_name
       then hard_failure v
       else if is_debug_build v \<and>
         1 < (if has_flag flags kAccPublic then 1 else 0) + (if has_flag flags kAccProtected then 1 else 0)
             + (if has_flag flags kAccPrivate then 1 else (0 :: nat))
       then hard_failure v
       else if \<not> has_code v then verify_no_code v
       else do {
         (result, v) \<leftarrow> (if is_debug_build v then verify_code_debug v else Some (True, v));
         if \<not> result then Some (False, v)
         else do {
           (result, v) \<leftarrow> VerifyStatic v;
           result_and result VerifyCodeFlow v
         }
       }
     }
   }"

section \<open>What a check may change\<close>

text \<open>Checks keep the code, the dex file and the opcode flags, and never retract a failure.\<close>

definition same_code :: "MethodVerifier \<Rightarrow> MethodVerifier \<Rightarrow> bool" where
  "same_code v v' \<longleftrightarrow> code_item v' = code_item v \<and> dex_file v' = dex_file v \<and>
     length (insn_flags v') = length (insn_flags v) \<and>
     (\<forall>i < length (insn_flags v). IsOpcode (insn_flags v' ! i) = IsOpcode (insn_flags v ! i)) \<and>
     (have_pending_hard_failure v \<longrightarrow> have_pending_hard_failure v')"

lemma same_code_refl [simp]: "same_code v v"
  by (simp add: same_code_def)

lemma same_code_trans: "same_code u v \<Longrightarrow> same_code v w \<Longrightarrow> same_code u w"
  by (simp add: same_code_def)

lemma same_code_item: "same_code v v' \<Longrightarrow> code_item v' = code_item v"
  by (simp add: same_code_def)

lemma same_code_dex: "same_code v v' \<Longrightarrow> dex_file v' = dex_file v"
  by (simp add: same_code_def)

lemma same_code_size: "same_code v v' \<Longrightarrow> insns_size v' = insns_size v"
  by (simp add: same_code_def insns_size_def)

lemma same_code_Fail [simp]: "same_code v (Fail e v)"
  by (cases e) (auto simp: same_code_def Fail_def Let_def)

lemma same_code_experimental [simp]:
  "same_code u (v\<lparr>have_pending_experimental_failure := b\<rparr>) = same_code u v"
  by (simp add: same_code_def)

lemma hard_Fail [simp]: "have_pending_hard_failure (Fail VERIFY_ERROR_BAD_CLASS_HARD v)"
  by (simp add: Fail_def)

lemma Fail_keeps_hard: "have_pending_hard_failure v \<Longrightarrow> have_pending_hard_failure (Fail e v)"
  using same_code_Fail [of v e] by (simp add: same_code_def)

lemma hard_failure_result:
  "hard_failure v = Some (r, v') \<longleftrightarrow> r = False \<and> v' = Fail VERIFY_ERROR_BAD_CLASS_HARD v"
  by (auto simp: hard_failure_def)

text \<open>Flag updates other than of the opcode flag.\<close>

lemma IsOpcode_bit: "IsOpcode f \<longleftrightarrow> bit f 2"
  unfolding IsOpcode_def push_bit_eq_mult mult_1 and_exp_eq_0_iff_not_bit by simp

lemma set_flags_keep_opcode [simp]:
  "IsOpcode (SetInTry f) = IsOpcode f" "IsOpcode (SetBranchTarget f) = IsOpcode f"
  "IsOpcode (SetCompileTimeInfoPoint f) = IsOpcode f" "IsOpcode (SetReturn f) = IsOpcode f"
  "IsOpcode (SetCompileTimeInfoPointAndReturn f) = IsOpcode f" "IsOpcode (SetIsOpcode f)"
  unfolding IsOpcode_bit SetInTry_def SetBranchTarget_def SetCompileTimeInfoPoint_def
    SetReturn_def SetCompileTimeInfoPointAndReturn_def SetIsOpcode_def bit_or_iff bit_push_bit_iff
  by simp_all

lemma UpdateInstructionFlags_Some:
  "UpdateInstructionFlags f i v = Some v' \<longleftrightarrow>
     i < length (insn_flags v) \<and> v' = v\<lparr>insn_flags := (insn_flags v)[i := f (insn_flags v ! i)]\<rparr>"
  by (cases "i < length (insn_flags v)")
    (auto simp: UpdateInstructionFlags_def array_get_def array_set_def)

lemma UpdateInstructionFlags_keeps:
  assumes "UpdateInstructionFlags f i v = Some v'" "\<And>x. IsOpcode (f x) = IsOpcode x"
  shows "same_code v v'"
proof -
  have "IsOpcode ((insn_flags v)[i := f (insn_flags v ! i)] ! j) = IsOpcode (insn_flags v ! j)"
    if "j < length (insn_flags v)" for j
    using that assms(2) by (cases "j = i") simp_all
  then show ?thesis
    using assms(1) by (simp add: UpdateInstructionFlags_Some same_code_def)
qed

lemmas update_keeps = UpdateInstructionFlags_keeps [OF _ set_flags_keep_opcode(1)]
  UpdateInstructionFlags_keeps [OF _ set_flags_keep_opcode(2)]
  UpdateInstructionFlags_keeps [OF _ set_flags_keep_opcode(3)]
  UpdateInstructionFlags_keeps [OF _ set_flags_keep_opcode(5)]

section \<open>The contract of a check\<close>

locale framed_check =
  fixes check :: check
  assumes keeps: "check v = Some (r, v') \<Longrightarrow> same_code v v'"
begin

lemma result_and_keeps: "result_and b check v = Some (r, v') \<Longrightarrow> same_code v v'"
  by (auto simp: result_and_def dest: keeps split: if_splits)

end

text \<open>A check that fails has recorded a hard failure.\<close>

locale reporting_check = framed_check +
  assumes reports: "check v = Some (False, v') \<Longrightarrow> have_pending_hard_failure v'"
begin

lemma result_and_reports:
  "result_and b check v = Some (False, v') \<Longrightarrow> (\<not> b \<Longrightarrow> have_pending_hard_failure v) \<Longrightarrow>
   have_pending_hard_failure v'"
  by (auto simp: result_and_def dest: reports split: if_splits)

end

lemma result_and_True:
  "result_and b c v = Some (True, v') \<longleftrightarrow> b \<and> c v = Some (True, v')"
  by (auto simp: result_and_def)

text \<open>A check of a decoded operand.\<close>

lemma reporting_operand:
  assumes "\<And>a. reporting_check (c a)"
  shows "reporting_check (\<lambda>v. do { a \<leftarrow> x; c a v })"
proof
  show "same_code v v'" if "do { a \<leftarrow> x; c a v } = Some (r, v')" for v r v'
    using that framed_check.keeps [OF reporting_check.axioms(1) [OF assms]]
    by (auto simp: bind_Some_iff)
  show "have_pending_hard_failure v'" if "do { a \<leftarrow> x; c a v } = Some (False, v')" for v v'
    using that reporting_check.reports [OF assms] by (auto simp: bind_Some_iff)
qed

interpretation register_index: reporting_check "CheckRegisterIndex idx" for idx
  by unfold_locales (auto simp: CheckRegisterIndex_def hard_failure_result split: if_splits)

interpretation wide_register_index: reporting_check "CheckWideRegisterIndex idx" for idx
  by unfold_locales (auto simp: CheckWideRegisterIndex_def hard_failure_result split: if_splits)

interpretation field_index: reporting_check "CheckFieldIndex idx" for idx
  by unfold_locales (auto simp: CheckFieldIndex_def hard_failure_result split: if_splits)

interpretation method_index: reporting_check "CheckMethodIndex idx" for idx
  by unfold_locales (auto simp: CheckMethodIndex_def hard_failure_result split: if_splits)

interpretation new_instance: reporting_check "CheckNewInstance idx" for idx
  by unfold_locales (auto simp: CheckNewInstance_def hard_failure_result split: if_splits)

interpretation string_index: reporting_check "CheckStringIndex idx" for idx
  by unfold_locales (auto simp: CheckStringIndex_def hard_failure_result split: if_splits)

interpretation type_index: reporting_check "CheckTypeIndex idx" for idx
  by unfold_locales (auto simp: CheckTypeIndex_def hard_failure_result split: if_splits)

interpretation new_array: reporting_check "CheckNewArray idx" for idx
  by unfold_locales (auto simp: CheckNewArray_def hard_failure_result Let_def split: if_splits)

interpretation range_regs: reporting_check "CheckVarArgRangeRegs a c" for a c
  by unfold_locales (auto simp: CheckVarArgRangeRegs_def hard_failure_result split: if_splits)

lemma check_arg_regs_state:
  "check_arg_regs args v = Some (r, v') \<Longrightarrow>
   same_code v v' \<and> (\<not> r \<longrightarrow> have_pending_hard_failure v')"
  by (induction args) (auto simp: hard_failure_result split: if_splits)

interpretation arg_regs: reporting_check "CheckVarArgRegs a args" for a args
  by unfold_locales (auto simp: CheckVarArgRegs_def dest: check_arg_regs_state split: if_splits)

interpretation array_data: reporting_check "CheckArrayData off" for off
  by unfold_locales
    (auto simp: CheckArrayData_def hard_failure_result Let_def bind_Some_iff split: if_splits)

lemma check_sparse_keys_state:
  "check_sparse_keys code p t n k v = Some (r, v') \<Longrightarrow>
   same_code v v' \<and> (\<not> r \<longrightarrow> have_pending_hard_failure v')"
  by (induction code p t n k v rule: check_sparse_keys.induct)
    (auto simp: hard_failure_result bind_Some_iff split: if_splits)

interpretation switch_keys: reporting_check "check_switch_keys b p n" for b p n
  by unfold_locales
    (auto simp: check_switch_keys_def hard_failure_result Let_def bind_Some_iff
      dest: check_sparse_keys_state split: if_splits)

lemma check_switch_targets_state:
  "check_switch_targets code c p off t n v = Some (r, v') \<Longrightarrow>
   same_code v v' \<and> (\<not> r \<longrightarrow> have_pending_hard_failure v')"
proof (induction n arbitrary: t v)
  case (Suc n)
  consider (fail) "r = False" "v' = Fail VERIFY_ERROR_BAD_CLASS_HARD v"
    | (step) i u where "UpdateInstructionFlags SetBranchTarget i v = Some u"
        "check_switch_targets code c p off (t + 1) n u = Some (r, v')"
    using Suc.prems by (auto simp: hard_failure_result Let_def bind_Some_iff split: if_splits)
  then show ?case
    by cases (use Suc.IH in \<open>auto dest!: update_keeps intro: same_code_trans\<close>)
qed auto

interpretation switch_targets: reporting_check "CheckSwitchTargets off" for off
proof
  show "same_code v v'" if "CheckSwitchTargets off v = Some (r, v')" for v r v'
    using that
    by (auto simp: CheckSwitchTargets_def hard_failure_result Let_def bind_Some_iff
        dest!: switch_keys.keeps check_switch_targets_state intro: same_code_trans split: if_splits)
  show "have_pending_hard_failure v'" if "CheckSwitchTargets off v = Some (False, v')" for v v'
    using that
    by (auto simp: CheckSwitchTargets_def hard_failure_result Let_def bind_Some_iff
        dest: switch_keys.reports check_switch_targets_state split: if_splits)
qed

text \<open>The outcomes of a branch check.\<close>

lemma CheckBranchTarget_cases:
  assumes "CheckBranchTarget off v = Some (r, v')"
  obtains (none) "GetBranchOffset (insns (code_item v)) off = Some None" "r = False" "v' = v"
  | (fail) "r = False" "v' = Fail VERIFY_ERROR_BAD_CLASS_HARD v"
  | (target) d c s f where "GetBranchOffset (insns (code_item v)) off = Some (Some (d, c, s))"
      "s \<or> d \<noteq> 0" "int (unat off) + sint d = int (unat (off + d))" "unat (off + d) < insns_size v"
      "GetInstructionFlags v (unat (off + d)) = Some f" "IsOpcode f"
      "UpdateInstructionFlags SetBranchTarget (unat (off + d)) v = Some v'" "r = True"
proof -
  obtain b where b: "GetBranchOffset (insns (code_item v)) off = Some b"
    using assms by (auto simp: CheckBranchTarget_def bind_Some_iff)
  show thesis
  proof (cases b)
    case None
    with b assms show thesis by (intro none) (auto simp: CheckBranchTarget_def)
  next
    case (Some x)
    obtain d c s where x: "x = (d, c, s)" by (cases x)
    show thesis
    proof (cases r)
      case False
      then show thesis
        using assms b Some x
        by (intro fail) (auto simp: CheckBranchTarget_def hard_failure_result Let_def bind_Some_iff
            split: if_splits)
    next
      case True
      then show thesis
        using assms b Some x target
        by (auto simp: CheckBranchTarget_def hard_failure_result Let_def bind_Some_iff
            split: if_splits)
    qed
  qed
qed

interpretation branch_target: framed_check "CheckBranchTarget off" for off
  by unfold_locales (auto elim!: CheckBranchTarget_cases dest: update_keeps)

section \<open>Branch offsets\<close>

abbreviation (input) if_opcodes :: "Code set" where
  "if_opcodes \<equiv> {IF_EQ, IF_NE, IF_LT, IF_GE, IF_GT, IF_LE}"

abbreviation (input) ifz_opcodes :: "Code set" where
  "ifz_opcodes \<equiv> {IF_EQZ, IF_NEZ, IF_LTZ, IF_GEZ, IF_GTZ, IF_LEZ}"

lemma branch_formats:
  "(FormatOf opcode = k10t \<longleftrightarrow> opcode = GOTO) \<and> (FormatOf opcode = k20t \<longleftrightarrow> opcode = GOTO_16) \<and>
   (FormatOf opcode = k30t \<longleftrightarrow> opcode = GOTO_32) \<and> (FormatOf opcode = k22t \<longleftrightarrow> opcode \<in> if_opcodes) \<and>
   (FormatOf opcode = k21t \<longleftrightarrow> opcode \<in> ifz_opcodes)"
  by (rule opcode_all [where P = "\<lambda>opcode format flags verify.
     (format = k10t \<longleftrightarrow> opcode = GOTO) \<and> (format = k20t \<longleftrightarrow> opcode = GOTO_16) \<and>
     (format = k30t \<longleftrightarrow> opcode = GOTO_32) \<and> (format = k22t \<longleftrightarrow> opcode \<in> if_opcodes) \<and>
     (format = k21t \<longleftrightarrow> opcode \<in> ifz_opcodes)"])
    (simp add: table_defs)

lemma scast_high_byte: "scast (signed_drop_bit 8 (w :: uint16)) = (scast (InstAA w) :: int32)"
proof (rule bit_word_eqI)
  fix n assume n: "n < LENGTH(32)"
  have L: "LENGTH(16) = 16" "LENGTH(8) = 8" "LENGTH(32) = 32" by simp_all
  show "bit (scast (signed_drop_bit 8 w) :: int32) n = bit (scast (InstAA w) :: int32) n"
    using n bit_imp_le_length [of w "8 + n"]
    unfolding InstAA_def bit_signed_iff bit_signed_drop_bit_iff bit_ucast_iff bit_drop_bit_eq L o_apply
    by (cases "n = 7") (auto simp: min_def)
qed

lemma GetBranchOffset_target:
  assumes "GetBranchOffset code off = Some (Some (d, c, s))"
  shows "GetTargetOffset code (unat off) = Some d"
  using assms branch_formats [of "Opcode (code ! unat off)"]
  by (auto simp: GetBranchOffset_def GetTargetOffset_def Let_def bind_Some_iff Fetch16_def
      VRegC_22t_def VRegB_21t_def VRegA_20t_def VRegA_30t_def VRegA_10t_def scast_high_byte
      split: if_splits)

lemma GetBranchOffset_is_branch:
  assumes "GetBranchOffset code off = Some None" "Fetch16 code (unat off) 0 = Some w"
  shows "\<not> IsBranch (Opcode w)"
  using assms format_targets [of "Opcode w"] branch_formats [of "Opcode w"]
  by (auto simp: GetBranchOffset_def Let_def bind_Some_iff split: if_splits)

section \<open>One instruction\<close>

lemmas operand_checks =
  reporting_operand [OF register_index.reporting_check_axioms]
  reporting_operand [OF wide_register_index.reporting_check_axioms]
  reporting_operand [OF field_index.reporting_check_axioms]
  reporting_operand [OF method_index.reporting_check_axioms]
  reporting_operand [OF new_instance.reporting_check_axioms]
  reporting_operand [OF string_index.reporting_check_axioms]
  reporting_operand [OF type_index.reporting_check_axioms]
  reporting_operand [OF new_array.reporting_check_axioms]

lemmas operand_keeps = operand_checks [THEN reporting_check.axioms(1), THEN framed_check.result_and_keeps]
lemmas operand_reports = operand_checks [THEN reporting_check.result_and_reports]

text \<open>What a step of \<open>VerifyInstruction\<close> does to the verifier.\<close>

definition step_ok :: "bool \<Rightarrow> MethodVerifier \<Rightarrow> bool \<Rightarrow> MethodVerifier \<Rightarrow> bool" where
  "step_ok b v r v' \<longleftrightarrow> same_code v v' \<and> (\<not> r \<longrightarrow> (\<not> b \<longrightarrow> have_pending_hard_failure v) \<longrightarrow>
     have_pending_hard_failure v')"

lemma step_ok_same [simp]: "step_ok b v b v"
  by (simp add: step_ok_def)

lemma step_ok_fail [simp]: "step_ok b v r (Fail VERIFY_ERROR_BAD_CLASS_HARD v)"
  by (simp add: step_ok_def)

lemma step_okI:
  assumes "reporting_check c" "result_and b c v = Some (r, v')"
  shows "step_ok b v r v'"
  using reporting_check.result_and_reports [OF assms(1), of b v v']
    framed_check.result_and_keeps [OF reporting_check.axioms(1) [OF assms(1)], of b v r v'] assms(2)
  by (cases r) (auto simp: step_ok_def)

lemma step_ok_trans: "step_ok b u r v \<Longrightarrow> step_ok r v r' w \<Longrightarrow> step_ok b u r' w"
  by (auto simp: step_ok_def intro: same_code_trans)

lemma verify_argument_A_ok:
  "verify_argument_A pc opcode b v = Some (r, v') \<Longrightarrow> step_ok b v r v'"
  by (auto simp: verify_argument_A_def Let_def split: if_splits dest: step_okI [OF operand_checks(1)]
      step_okI [OF operand_checks(2)])

lemma verify_argument_B_ok:
  "verify_argument_B pc opcode b v = Some (r, v') \<Longrightarrow> step_ok b v r v'"
  by (auto simp: verify_argument_B_def Let_def split: if_splits intro: operand_checks [THEN step_okI])

lemma verify_argument_C_ok:
  "verify_argument_C pc opcode b v = Some (r, v') \<Longrightarrow> step_ok b v r v'"
  by (auto simp: verify_argument_C_def Let_def split: if_splits intro: operand_checks [THEN step_okI])

lemma range_operand:
  "reporting_check (\<lambda>v. do { c \<leftarrow> x; CheckVarArgRangeRegs a c v })"
  by (rule reporting_operand) (rule range_regs.reporting_check_axioms)

lemma branch_result_ok:
  assumes "result_and b (CheckBranchTarget off) v = Some (r, v')"
    and "Fetch16 (insns (code_item v)) (unat off) 0 = Some w" "IsBranch (Opcode w)"
  shows "step_ok b v r v'"
proof (cases b)
  case True
  then have "CheckBranchTarget off v = Some (r, v')" using assms(1) by (simp add: result_and_def)
  then show ?thesis
  proof (cases rule: CheckBranchTarget_cases)
    case none
    then show ?thesis using GetBranchOffset_is_branch assms(2,3) by blast
  next
    case (target d c s f)
    then show ?thesis by (auto simp: step_ok_def dest: update_keeps)
  qed (simp add: step_ok_def)
qed (use assms in \<open>simp add: result_and_def\<close>)

lemma verify_extra_ok:
  assumes "verify_extra pc opcode b v = Some (ret, r, v')" "pc < 2 ^ 32"
    and "Fetch16 (insns (code_item v)) pc 0 = Some w" "opcode = Opcode w"
  shows "step_ok b v r v' \<and> (ret \<longrightarrow> \<not> r)"
proof -
  have pc: "unat (of_nat pc :: uint32) = pc" using assms(2) by (simp add: unat_of_nat)
  have br: "GetVerifyExtraFlags opcode = kVerifyBranchTarget \<Longrightarrow> IsBranch opcode"
  proof -
    assume "GetVerifyExtraFlags opcode = kVerifyBranchTarget"
    then have "GetVerifyExtraFlags opcode AND kVerifyBranchTarget \<noteq> 0" by simp
    then have "VerifyFlagsOf opcode AND kVerifyBranchTarget \<noteq> 0"
      by (simp add: GetVerifyExtraFlags_def and.assoc)
    then show ?thesis using format_targets [of opcode] by simp
  qed
  show ?thesis
    using assms(1,3,4) br
    by (auto simp: verify_extra_def Let_def bind_Some_iff pc split: if_splits
        intro: step_okI [OF array_data.reporting_check_axioms]
          step_okI [OF switch_targets.reporting_check_axioms]
          step_okI [OF arg_regs.reporting_check_axioms]
          step_okI [OF range_operand] branch_result_ok [where w = w])
qed

lemma VerifyInstruction_state:
  assumes "VerifyInstruction pc v = Some (r, v')" "pc < 2 ^ 32"
  shows "same_code v v' \<and>
    (\<not> r \<longrightarrow> have_pending_hard_failure v' \<or> have_pending_experimental_failure v')"
proof -
  obtain w where w: "Fetch16 (insns (code_item v)) pc 0 = Some w"
    using assms(1) by (auto simp: VerifyInstruction_def bind_Some_iff)
  show ?thesis
  proof (cases "IsExperimental (Opcode w)")
    case True
    then show ?thesis using assms(1) w by (auto simp: VerifyInstruction_def)
  next
    case False
    then obtain r1 v1 r2 v2 r3 v3 ret r4 v4 where
      steps: "verify_argument_A pc (Opcode w) True v = Some (r1, v1)"
        "verify_argument_B pc (Opcode w) r1 v1 = Some (r2, v2)"
        "verify_argument_C pc (Opcode w) r2 v2 = Some (r3, v3)"
        "verify_extra pc (Opcode w) r3 v3 = Some (ret, r4, v4)"
      and last: "(r, v') = (r4, v4) \<or> (r, v') = (False, Fail VERIFY_ERROR_BAD_CLASS_HARD v4)"
      using assms(1) w by (auto simp: VerifyInstruction_def Let_def bind_Some_iff split: if_splits)
    have s3: "step_ok True v r3 v3"
      using steps(1-3) by (blast intro: step_ok_trans verify_argument_A_ok verify_argument_B_ok
          verify_argument_C_ok)
    then have "code_item v3 = code_item v" by (auto simp: step_ok_def same_code_def)
    then have "step_ok True v r4 v4"
      using s3 verify_extra_ok [OF steps(4) assms(2), of w] w by (auto intro: step_ok_trans)
    then show ?thesis
      using last by (auto simp: step_ok_def intro: same_code_trans)
  qed
qed

lemma flag_instruction_keeps: "flag_instruction pc opcode v = Some v' \<Longrightarrow> same_code v v'"
  by (auto simp: flag_instruction_def Let_def bind_Some_iff split: if_splits
      dest!: update_keeps intro: same_code_trans)

lemma VerifyInstructions_loop_state:
  assumes "VerifyInstructions_loop code pc v = Some (r, v')" "length code \<le> 2 ^ 32"
  shows "same_code v v' \<and>
    (\<not> r \<longrightarrow> have_pending_hard_failure v' \<or> have_pending_experimental_failure v')"
  using assms
proof (induction code pc v rule: VerifyInstructions_loop.induct)
  case (1 code pc v)
  show ?case
  proof (cases "pc < length code")
    case True
    then obtain r1 v1 where v1: "VerifyInstruction pc v = Some (r1, v1)"
      using 1(2) by (auto simp: VerifyInstructions_loop.simps [of code pc] bind_Some_iff)
    note st = VerifyInstruction_state [OF v1]
    show ?thesis
    proof (cases r1)
      case False
      then show ?thesis
        using st True 1(2,3) v1 by (auto simp: VerifyInstructions_loop.simps [of code pc])
    next
      case r1: True
      then obtain w v2 n where rest: "Fetch16 code pc 0 = Some w"
          "flag_instruction pc (Opcode w) v1 = Some v2" "SizeInCodeUnits code pc = Some n"
          "VerifyInstructions_loop code (pc + n) v2 = Some (r, v')"
        using 1(2) v1 True
        by (auto simp: VerifyInstructions_loop.simps [of code pc] bind_Some_iff)
      have "same_code v2 v' \<and>
          (\<not> r \<longrightarrow> have_pending_hard_failure v' \<or> have_pending_experimental_failure v')"
        using 1(1) [OF True v1 refl] r1 rest 1(3) by simp
      then show ?thesis
        using st True 1(3) flag_instruction_keeps [OF rest(2)] by (auto intro: same_code_trans)
    qed
  qed (use 1(2) in \<open>auto simp: VerifyInstructions_loop.simps\<close>)
qed

section \<open>Try blocks\<close>

lemma CheckNotMoveResult_state:
  "CheckNotMoveResult code i v = Some (r, v') \<Longrightarrow>
   same_code v v' \<and> (\<not> r \<longrightarrow> have_pending_hard_failure v')"
  by (auto simp: CheckNotMoveResult_def bind_Some_iff hard_failure_result split: if_splits)

lemma mark_try_keeps: "mark_try code pc e v = Some v' \<Longrightarrow> same_code v v'"
proof (induction code pc e v rule: mark_try.induct)
  case (1 code pc e v)
  show ?case
  proof (cases "pc < e")
    case True
    then obtain v1 n where "UpdateInstructionFlags SetInTry pc v = Some v1"
        "SizeInCodeUnits code pc = Some n" "mark_try code (pc + n) e v1 = Some v'"
      using 1(2) by (auto simp: mark_try.simps [of code pc] bind_Some_iff)
    then show ?thesis using 1(1) [OF True] by (auto dest!: update_keeps intro: same_code_trans)
  qed (use 1(2) in \<open>auto simp: mark_try.simps\<close>)
qed

lemma scan_tries_state:
  "scan_tries ts v = Some (r, v') \<Longrightarrow> same_code v v' \<and> (\<not> r \<longrightarrow> have_pending_hard_failure v')"
proof (induction ts arbitrary: v)
  case (Cons t ts)
  consider (fail) "r = False" "v' = Fail VERIFY_ERROR_BAD_CLASS_HARD v"
    | (step) s e v1 where "mark_try (insns (code_item v)) s e v = Some v1" "scan_tries ts v1 = Some (r, v')"
    using Cons.prems by (auto simp: Let_def bind_Some_iff hard_failure_result split: if_splits)
  then show ?case
    by cases (use Cons.IH in \<open>auto dest!: mark_try_keeps intro: same_code_trans\<close>)
qed auto

lemma scan_handlers_state:
  "scan_handlers it v = Some (r, e, v') \<Longrightarrow>
   same_code v v' \<and> (\<not> r \<longrightarrow> have_pending_hard_failure v')"
proof (induction it v rule: scan_handlers.induct)
  case (1 it v)
  show ?case
  proof (cases "HasNext it")
    case True
    consider (fail) "r = False" "v' = Fail VERIFY_ERROR_BAD_CLASS_HARD v"
      | (move) v1 where "CheckNotMoveResult (insns (code_item v)) (unat (address it)) v = Some (False, v1)"
          "r = False" "v' = Fail VERIFY_ERROR_BAD_CLASS_HARD v1"
      | (step) f v1 v2 it' where "GetInstructionFlags v (unat (address it)) = Some f" "IsOpcode f"
          "CheckNotMoveResult (insns (code_item v)) (unat (address it)) v = Some (True, v1)"
          "UpdateInstructionFlags SetBranchTarget (unat (address it)) v1 = Some v2"
          "Next_handler it = Some it'" "scan_handlers it' v2 = Some (r, e, v')"
      using 1(2) True
      by (auto simp: scan_handlers.simps [of it] Let_def bind_Some_iff split: if_splits option.splits)
    then show ?thesis
    proof cases
      case move
      then show ?thesis by (auto dest: CheckNotMoveResult_state intro: same_code_trans)
    next
      case step
      then show ?thesis
        using 1(1) [OF True refl step(1) _ step(3) refl] step(2-6)
        by (auto dest!: CheckNotMoveResult_state update_keeps intro: same_code_trans)
    qed simp
  qed (use 1(2) in \<open>auto simp: scan_handlers.simps\<close>)
qed

lemma scan_handler_lists_state:
  "scan_handler_lists n data v = Some (r, v') \<Longrightarrow>
   same_code v v' \<and> (\<not> r \<longrightarrow> have_pending_hard_failure v')"
proof (induction n arbitrary: data v)
  case (Suc n)
  then show ?case
    by (auto simp: bind_Some_iff split: if_splits dest!: scan_handlers_state intro: same_code_trans)
qed auto

interpretation try_catch: reporting_check ScanTryCatchBlocks
proof
  show "same_code v v'" if "ScanTryCatchBlocks v = Some (r, v')" for v r v'
    using that by (auto simp: ScanTryCatchBlocks_def bind_Some_iff split: if_splits
        dest!: scan_tries_state scan_handler_lists_state intro: same_code_trans)
  show "have_pending_hard_failure v'" if "ScanTryCatchBlocks v = Some (False, v')" for v v'
    using that by (auto simp: ScanTryCatchBlocks_def bind_Some_iff split: if_splits
        dest: scan_tries_state scan_handler_lists_state)
qed

section \<open>Instruction starts\<close>

text \<open>The addresses that a linear walk over the code from \<open>p\<close> reaches.\<close>

inductive walk :: "insns \<Rightarrow> nat \<Rightarrow> nat \<Rightarrow> bool" for code p where
  here: "walk code p p"
| step: "walk code p q \<Longrightarrow> q < length code \<Longrightarrow> SizeInCodeUnits code q = Some n \<Longrightarrow> walk code p (q + n)"

lemma walk_le: "walk code p q \<Longrightarrow> p \<le> q"
  by (induction rule: walk.induct) auto

lemma walk_head:
  "walk code p q \<longleftrightarrow>
     q = p \<or> (p < length code \<and> (\<exists>n. SizeInCodeUnits code p = Some n \<and> walk code (p + n) q))"
proof
  assume "walk code p q"
  then show "q = p \<or> (p < length code \<and> (\<exists>n. SizeInCodeUnits code p = Some n \<and> walk code (p + n) q))"
    by (induction rule: walk.induct) (auto intro: walk.intros)
next
  assume *: "q = p \<or> (p < length code \<and> (\<exists>n. SizeInCodeUnits code p = Some n \<and> walk code (p + n) q))"
  have "walk code (p + n) q \<Longrightarrow> p < length code \<Longrightarrow> SizeInCodeUnits code p = Some n \<Longrightarrow> walk code p q"
    for n by (induction rule: walk.induct) (auto intro: walk.intros)
  with * show "walk code p q" by (auto intro: walk.here)
qed

abbreviation insn_start :: "insns \<Rightarrow> nat \<Rightarrow> bool" where
  "insn_start code \<equiv> walk code 0"

lemma note_opcode_simps [simp]:
  "code_item (note_opcode opcode v) = code_item v" "dex_file (note_opcode opcode v) = dex_file v"
  "insn_flags (note_opcode opcode v) = insn_flags v"
  "have_pending_hard_failure (note_opcode opcode v) = have_pending_hard_failure v"
  "have_pending_experimental_failure (note_opcode opcode v) = have_pending_experimental_failure v"
  by (simp_all add: note_opcode_def)

lemma ComputeWidths_loop_spec:
  assumes "ComputeWidths_loop code pc n m v = Some (pc', n', m', v')"
    and "length (insn_flags v) = length code"
  shows "walk code pc pc' \<and> length code \<le> pc' \<and> code_item v' = code_item v \<and>
    dex_file v' = dex_file v \<and> length (insn_flags v') = length code \<and>
    (\<forall>i < length code. IsOpcode (insn_flags v' ! i) \<longleftrightarrow> IsOpcode (insn_flags v ! i) \<or> walk code pc i)"
  using assms
proof (induction code pc n m v rule: ComputeWidths_loop.induct)
  case (1 code pc n m v)
  show ?case
  proof (cases "pc < length code")
    case False
    then show ?thesis
      using 1(2,3) by (auto simp: ComputeWidths_loop.simps intro: walk.here dest: walk_le)
  next
    case True
    obtain w k v1 n1 m1 where st: "Fetch16 code pc 0 = Some w" "SizeInCodeUnits code pc = Some k"
        "UpdateInstructionFlags SetIsOpcode pc (note_opcode (Opcode w) v) = Some v1"
        "ComputeWidths_loop code (pc + k) n1 m1 v1 = Some (pc', n', m', v')"
        "n1 = (if Opcode w = NEW_INSTANCE then n + 1 else n)"
        "m1 = (if Opcode w = MONITOR_ENTER then m + 1 else m)"
      using 1(2) True by (auto simp: ComputeWidths_loop.simps [of code pc] Let_def bind_Some_iff)
    have v1: "v1 = (note_opcode (Opcode w) v)\<lparr>insn_flags := (insn_flags v)[pc := SetIsOpcode (insn_flags v ! pc)]\<rparr>"
      using st(3) by (simp add: UpdateInstructionFlags_Some)
    have f: "IsOpcode (insn_flags v1 ! i) \<longleftrightarrow> IsOpcode (insn_flags v ! i) \<or> i = pc" if "i < length code" for i
      using that 1(3) by (cases "i = pc") (auto simp: v1)
    have ih: "walk code (pc + k) pc' \<and> length code \<le> pc' \<and> code_item v' = code_item v1 \<and>
      dex_file v' = dex_file v1 \<and> length (insn_flags v') = length code \<and>
      (\<forall>i < length code. IsOpcode (insn_flags v' ! i) \<longleftrightarrow>
         IsOpcode (insn_flags v1 ! i) \<or> walk code (pc + k) i)"
      using 1(1) [OF True st(1) refl refl] st 1(3) by (simp add: v1)
    have "walk code pc i \<longleftrightarrow> i = pc \<or> walk code (pc + k) i" for i
      using True st(2) by (subst walk_head) auto
    then show ?thesis using ih f by (auto simp: v1)
  qed
qed

lemma ComputeWidths_state:
  assumes "ComputeWidthsAndCountOps v = Some (r, v')" "insn_flags v = replicate (insns_size v) 0"
  shows "code_item v' = code_item v \<and> dex_file v' = dex_file v \<and> (\<not> r \<longrightarrow> have_pending_hard_failure v') \<and>
    (r \<longrightarrow> insn_start (insns (code_item v)) (insns_size v) \<and> length (insn_flags v') = insns_size v \<and>
      (\<forall>i < insns_size v. IsOpcode (insn_flags v' ! i) \<longleftrightarrow> insn_start (insns (code_item v)) i))"
proof -
  obtain pc n m v1 where l: "ComputeWidths_loop (insns (code_item v)) 0 0 0 v = Some (pc, n, m, v1)"
    using assms(1) by (auto simp: ComputeWidthsAndCountOps_def bind_Some_iff)
  have "\<not> IsOpcode 0" by (simp add: IsOpcode_def)
  with ComputeWidths_loop_spec [OF l] assms l show ?thesis
    by (auto simp: ComputeWidthsAndCountOps_def insns_size_def hard_failure_def same_code_item [OF same_code_Fail]
        same_code_dex [OF same_code_Fail] split: if_splits)
qed

lemma VerifyInstructions_loop_sound:
  assumes "VerifyInstructions_loop code pc v = Some (True, v')" "walk code pc i" "i < length code"
    and "length code \<le> 2 ^ 32"
  shows "\<exists>u u'. same_code v u \<and> VerifyInstruction i u = Some (True, u')"
  using assms
proof (induction code pc v rule: VerifyInstructions_loop.induct)
  case (1 code pc v)
  have pc: "pc < length code" using walk_le [OF 1(3)] 1(4) by simp
  obtain v1 w v2 n where st: "VerifyInstruction pc v = Some (True, v1)" "Fetch16 code pc 0 = Some w"
      "flag_instruction pc (Opcode w) v1 = Some v2" "SizeInCodeUnits code pc = Some n"
      "VerifyInstructions_loop code (pc + n) v2 = Some (True, v')"
    using 1(2) pc by (auto simp: VerifyInstructions_loop.simps [of code pc] bind_Some_iff split: if_splits)
  show ?case
  proof (cases "i = pc")
    case True
    then show ?thesis using st(1) by (auto intro: exI [of _ v])
  next
    case False
    then have "walk code (pc + n) i" using 1(3) st(4) by (simp add: walk_head [of code pc])
    then obtain u u' where "same_code v2 u" "VerifyInstruction i u = Some (True, u')"
      using 1(1) [OF pc st(1) refl _ st(2,3,4) st(5)] 1(4,5) by auto
    moreover have "same_code v v2"
      using VerifyInstruction_state [OF st(1)] flag_instruction_keeps [OF st(3)] pc 1(5)
      by (auto intro: same_code_trans)
    ultimately show ?thesis by (auto intro: same_code_trans)
  qed
qed

section \<open>Verified instructions\<close>

abbreviation reg_ok :: "CodeItem \<Rightarrow> uint32 \<Rightarrow> bool" where
  "reg_ok ci a \<equiv> unat a < unat (registers_size ci)"

abbreviation wide_reg_ok :: "CodeItem \<Rightarrow> uint32 \<Rightarrow> bool" where
  "wide_reg_ok ci a \<equiv> unat a + 1 < unat (registers_size ci)"

text \<open>The register operands of the instruction at \<open>pc\<close> are registers of the method.\<close>

definition registers_ok :: "CodeItem \<Rightarrow> nat \<Rightarrow> Code \<Rightarrow> bool" where
  "registers_ok ci pc opcode \<longleftrightarrow>
     (GetVerifyTypeArgumentA opcode = kVerifyRegA \<longrightarrow> (\<exists>a. VRegA (insns ci) pc = Some a \<and> reg_ok ci a)) \<and>
     (GetVerifyTypeArgumentA opcode = kVerifyRegAWide \<longrightarrow> (\<exists>a. VRegA (insns ci) pc = Some a \<and> wide_reg_ok ci a)) \<and>
     (GetVerifyTypeArgumentB opcode = kVerifyRegB \<longrightarrow> (\<exists>b. VRegB (insns ci) pc = Some b \<and> reg_ok ci b)) \<and>
     (GetVerifyTypeArgumentB opcode = kVerifyRegBWide \<longrightarrow> (\<exists>b. VRegB (insns ci) pc = Some b \<and> wide_reg_ok ci b)) \<and>
     (GetVerifyTypeArgumentC opcode = kVerifyRegC \<longrightarrow> (\<exists>c. VRegC (insns ci) pc = Some c \<and> reg_ok ci c)) \<and>
     (GetVerifyTypeArgumentC opcode = kVerifyRegCWide \<longrightarrow> (\<exists>c. VRegC (insns ci) pc = Some c \<and> wide_reg_ok ci c))"

text \<open>Its pool indices are within the tables of the dex file.\<close>

definition indices_ok :: "DexFile \<Rightarrow> insns \<Rightarrow> nat \<Rightarrow> Code \<Rightarrow> bool" where
  "indices_ok df code pc opcode \<longleftrightarrow>
     (GetVerifyTypeArgumentB opcode = kVerifyRegBField \<longrightarrow> (\<exists>b. VRegB code pc = Some b \<and> b < field_ids_size df)) \<and>
     (GetVerifyTypeArgumentB opcode = kVerifyRegBMethod \<longrightarrow> (\<exists>b. VRegB code pc = Some b \<and> b < method_ids_size df)) \<and>
     (GetVerifyTypeArgumentB opcode = kVerifyRegBString \<longrightarrow> (\<exists>b. VRegB code pc = Some b \<and> b < string_ids_size df)) \<and>
     (GetVerifyTypeArgumentB opcode \<in> {kVerifyRegBType, kVerifyRegBNewInstance} \<longrightarrow>
        (\<exists>b. VRegB code pc = Some b \<and> b < type_ids_size df)) \<and>
     (GetVerifyTypeArgumentC opcode = kVerifyRegCField \<longrightarrow> (\<exists>c. VRegC code pc = Some c \<and> c < field_ids_size df)) \<and>
     (GetVerifyTypeArgumentC opcode \<in> {kVerifyRegCType, kVerifyRegCNewArray} \<longrightarrow>
        (\<exists>c. VRegC code pc = Some c \<and> c < type_ids_size df))"

text \<open>A branch goes to the start of an instruction.\<close>

definition branch_ok :: "(nat \<Rightarrow> bool) \<Rightarrow> insns \<Rightarrow> nat \<Rightarrow> Code \<Rightarrow> bool" where
  "branch_ok starts code pc opcode \<longleftrightarrow>
     (IsBranch opcode \<longrightarrow>
        (\<exists>d t. GetTargetOffset code pc = Some d \<and> int t = int pc + sint d \<and> t < length code \<and> starts t))"

text \<open>The table of a switch: its address, its kind and number of cases, the keys, which ascend,
  and the targets, which are starts of instructions.\<close>

definition case_targets_ok :: "(nat \<Rightarrow> bool) \<Rightarrow> insns \<Rightarrow> nat \<Rightarrow> nat \<Rightarrow> nat \<Rightarrow> nat \<Rightarrow> bool" where
  "case_targets_ok starts code pc p off n \<longleftrightarrow>
     (\<forall>i < n. \<exists>e t. Fetch32 code p (off + i * 2) = Some e \<and> int t = int pc + sint e \<and>
        t < length code \<and> starts t)"

definition switch_ok :: "(nat \<Rightarrow> bool) \<Rightarrow> insns \<Rightarrow> nat \<Rightarrow> Code \<Rightarrow> bool" where
  "switch_ok starts code pc opcode \<longleftrightarrow>
     (IsSwitch opcode \<longrightarrow>
        (\<exists>d p n. Fetch32 code pc 1 = Some d \<and> int p = int pc + sint d \<and>
           Fetch16 code p 1 = Some n \<and>
           Fetch16 code p 0 = Some (if opcode = PACKED_SWITCH then kPackedSwitchSignature else kSparseSwitchSignature) \<and>
           p + (if opcode = PACKED_SWITCH then 4 + 2 * unat n else 2 + 4 * unat n) \<le> length code \<and>
           case_targets_ok starts code pc p (if opcode = PACKED_SWITCH then 4 else 2 + 2 * unat n) (unat n) \<and>
           (opcode = PACKED_SWITCH \<longrightarrow> 1 < unat n \<longrightarrow>
              (\<exists>k. Fetch32 code p 2 = Some k \<and> sint k + int (unat n) - 1 < 2 ^ 31)) \<and>
           (opcode \<noteq> PACKED_SWITCH \<longrightarrow>
              (\<forall>i. Suc i < unat n \<longrightarrow> (\<exists>k l. Fetch32 code p (2 + i * 2) = Some k \<and>
                 Fetch32 code p (2 + Suc i * 2) = Some l \<and> sint k < sint l)))))"

text \<open>Register arguments of invocations and filled arrays.\<close>

definition arguments_ok :: "CodeItem \<Rightarrow> nat \<Rightarrow> Code \<Rightarrow> bool" where
  "arguments_ok ci pc opcode \<longleftrightarrow>
     (GetVerifyExtraFlags opcode \<in> {kVerifyVarArg, kVerifyVarArgNonZero} \<longrightarrow>
        (\<exists>w a args. Fetch16 (insns ci) pc 0 = Some w \<and> VRegA (insns ci) pc = Some a \<and> unat a \<le> 5 \<and>
           GetVarArgs (insns ci) pc (replicate 5 0) w = Some args \<and>
           (\<forall>x \<in> set (take (unat a) args). reg_ok ci x))) \<and>
     (GetVerifyExtraFlags opcode \<in> {kVerifyVarArgRange, kVerifyVarArgRangeNonZero} \<longrightarrow>
        (\<exists>a c. VRegA (insns ci) pc = Some a \<and> VRegC (insns ci) pc = Some c \<and>
           unat a + unat c \<le> unat (registers_size ci)))"

text \<open>The operands whose pairs must not wrap around are at most 16 bits wide.\<close>

lemma wide_formats:
  "(VerifyFlagsOf opcode AND 0x2 \<noteq> 0 \<longrightarrow> FormatOf opcode \<notin> {k10t, k20t, k30t}) \<and>
   (VerifyFlagsOf opcode AND 0x100 \<noteq> 0 \<longrightarrow> FormatOf opcode \<in> {k12x, k22x, k32x, k23x}) \<and>
   (VerifyFlagsOf opcode AND 0x2000 \<noteq> 0 \<longrightarrow> FormatOf opcode = k23x) \<and>
   (VerifyFlagsOf opcode AND 0x180000 \<noteq> 0 \<longrightarrow> FormatOf opcode = k3rc)"
  by (rule opcode_all [where P = "\<lambda>opcode format flags verify.
     (verify AND 0x2 \<noteq> 0 \<longrightarrow> format \<notin> {k10t, k20t, k30t}) \<and>
     (verify AND 0x100 \<noteq> 0 \<longrightarrow> format \<in> {k12x, k22x, k32x, k23x}) \<and>
     (verify AND 0x2000 \<noteq> 0 \<longrightarrow> format = k23x) \<and>
     (verify AND 0x180000 \<noteq> 0 \<longrightarrow> format = k3rc)"])
    (simp add: table_defs)

lemma unat_uint8_less: "unat (b :: uint8) < 2 ^ 16"
  by (rule order.strict_trans [OF unat_Code_less]) simp

lemma unat_uint16_less: "unat (h :: uint16) < 2 ^ 16"
  using unsigned_less [of h, where 'a = nat] by simp

lemma VRegA_small:
  assumes "VRegA code pc = Some a" "Fetch16 code pc 0 = Some w" "FormatOf (Opcode w) \<notin> {k10t, k20t, k30t}"
  shows "unat a < 2 ^ 16"
  using assms unat_uint8_less unat_uint16_less
  by (cases "FormatOf (Opcode w)") (auto simp: VRegA_def)

lemma VRegB_small:
  assumes "VRegB code pc = Some a" "Fetch16 code pc 0 = Some w" "FormatOf (Opcode w) \<in> {k12x, k22x, k32x, k23x}"
  shows "unat a < 2 ^ 16"
  using assms unat_uint8_less unat_uint16_less by (auto simp: VRegB_def)

lemma VRegC_small:
  assumes "VRegC code pc = Some a" "Fetch16 code pc 0 = Some w" "FormatOf (Opcode w) \<in> {k23x, k3rc}"
  shows "unat a < 2 ^ 16"
  using assms unat_uint8_less unat_uint16_less by (auto simp: VRegC_def)

lemma CheckRegisterIndex_True:
  "CheckRegisterIndex a v = Some (True, v') \<longleftrightarrow> reg_ok (code_item v) a \<and> v' = v"
  by (auto simp: CheckRegisterIndex_def hard_failure_def word_le_nat_alt)

lemma CheckWideRegisterIndex_True:
  assumes "unat a < 2 ^ 16"
  shows "CheckWideRegisterIndex a v = Some (True, v') \<longleftrightarrow> wide_reg_ok (code_item v) a \<and> v' = v"
proof -
  have "unat (a + 1) = unat a + 1" using assms by (subst unat_add_lem [THEN iffD1]) auto
  then show ?thesis by (auto simp: CheckWideRegisterIndex_def hard_failure_def word_le_nat_alt)
qed

subsection \<open>Offsets\<close>

lemma offset_target:
  assumes "0 \<le> sint (of_nat pc + d :: int32)" "pc < 2 ^ 31"
  shows "int (unat (of_nat pc + d :: int32)) = int pc + sint d"
proof -
  have pc: "int pc < 2 ^ 31" using assms(2) by simp
  have w: "of_nat pc + d = (word_of_int (int pc + sint d) :: int32)"
    "of_nat pc + d = (word_of_int (int pc + sint d - 2 ^ 32) :: int32)" by simp_all
  have "int pc + sint d < 2 ^ 31"
  proof (rule ccontr)
    assume "\<not> int pc + sint d < 2 ^ 31"
    then have "sint (of_nat pc + d) = int pc + sint d - 2 ^ 32"
      unfolding w(2) using pc sint_range32 [of d] by (intro sint_of_int32) auto
    then show False using assms(1) pc sint_range32 [of d] by simp
  qed
  then have "sint (of_nat pc + d) = int pc + sint d"
    unfolding w(1) using sint_range32 [of d] by (intro sint_of_int32) auto
  then show ?thesis using int_unat_sint assms(1) by simp
qed

subsection \<open>Switch tables\<close>

definition target_ok :: "MethodVerifier \<Rightarrow> nat \<Rightarrow> int32 \<Rightarrow> bool" where
  "target_ok v pc d \<longleftrightarrow>
     (\<exists>t. int t = int pc + sint d \<and> t < insns_size v \<and> t < length (insn_flags v) \<and>
        IsOpcode (insn_flags v ! t))"

lemma target_ok_same: "same_code v u \<Longrightarrow> target_ok u pc d = target_ok v pc d"
  by (auto simp: target_ok_def same_code_def insns_size_def)

lemma check_switch_targets_sound:
  assumes "check_switch_targets code (of_nat pc) p off t n v = Some (True, v')"
    and "pc < 2 ^ 31" "insns_size v < 2 ^ 31" "i < n"
  shows "\<exists>e. Fetch32 code p (off + (t + i) * 2) = Some e \<and> target_ok v pc e"
  using assms
proof (induction n arbitrary: t v i)
  case (Suc n)
  obtain e u where e: "Fetch32 code p (off + t * 2) = Some e"
      "0 \<le> sint (of_nat pc + e)" "sint (of_nat pc + e) < sint (of_nat (insns_size v) :: int32)"
      "unat (of_nat pc + e) < length (insn_flags v)" "IsOpcode (insn_flags v ! unat (of_nat pc + e))"
      "UpdateInstructionFlags SetBranchTarget (unat (of_nat pc + e)) v = Some u"
      "check_switch_targets code (of_nat pc) p off (t + 1) n u = Some (True, v')"
    using Suc.prems(1)
    by (auto simp: hard_failure_result Let_def bind_Some_iff GetInstructionFlags_def split: if_splits)
  show ?case
  proof (cases i)
    case 0
    have "sint (of_nat (insns_size v) :: int32) = int (insns_size v)"
      using Suc.prems(3) by (rule sint_of_nat32)
    then have "int (unat (of_nat pc + e :: int32)) < int (insns_size v)"
      using e(3) int_unat_sint [OF e(2)] by linarith
    then have "target_ok v pc e"
      using e(4,5) offset_target [OF e(2) Suc.prems(2)] unfolding target_ok_def of_nat_less_iff
      by (intro exI [of _ "unat (of_nat pc + e)"]) auto
    then show ?thesis using 0 e(1) by simp
  next
    case (Suc j)
    have k: "same_code v u" using e(6) by (rule update_keeps(2))
    show ?thesis
      using Suc.IH [OF e(7) Suc.prems(2), of j] Suc.prems(3,4) \<open>i = Suc j\<close> same_code_size [OF k]
      by (simp add: target_ok_same [OF k])
  qed
qed simp
end
