(* ===== verification/Verifier_Soundness.thy ===== *)
theory Verifier_Soundness
  imports Method_Verifier
begin

text \<open>
  What the static passes of the verifier guarantee: the code of an accepted method is a sequence
  of whole instructions with valid operands, branch and switch targets, arguments, try blocks and
  handlers (\<open>VerifyStatic_sound\<close>, \<open>VerifyStatic_tries\<close>), and a rejection is always recorded
  (\<open>VerifyStatic_reports\<close>).
\<close>

section \<open>Keys and targets of switch tables\<close>

lemma check_sparse_keys_sound:
  assumes "check_sparse_keys code p t n k v = Some (True, v')" "Fetch32 code p (2 + (t - 1) * 2) = Some k"
    and "0 < t" "t - 1 \<le> i" "i < t - 1 + n"
  shows "\<exists>a b. Fetch32 code p (2 + i * 2) = Some a \<and> Fetch32 code p (2 + Suc i * 2) = Some b \<and>
    sint a < sint b"
  using assms
proof (induction n arbitrary: t k)
  case (Suc n)
  obtain b where b: "Fetch32 code p (2 + t * 2) = Some b" "sint k < sint b"
      "check_sparse_keys code p (t + 1) n b v = Some (True, v')"
    using Suc.prems(1) by (auto simp: bind_Some_iff hard_failure_result split: if_splits)
  show ?case
  proof (cases "i = t - 1")
    case True
    then show ?thesis using b(1,2) Suc.prems(2,3) by simp
  next
    case False
    then show ?thesis using Suc.IH [OF b(3)] b(1) Suc.prems(3-5) by simp
  qed
qed simp

lemma unat_nonneg_less: "0 \<le> sint (w :: int32) \<Longrightarrow> unat w < 2 ^ 31"
proof -
  assume "0 \<le> sint w"
  then have "int (unat w) < int (2 ^ 31)"
    using int_unat_sint [of w] sint_range32 [of w] by (simp only: of_nat_power of_nat_numeral)
  then show ?thesis by (simp only: of_nat_less_iff)
qed

lemma sint_ucast_16: "sint (ucast (n :: uint16) :: int32) = int (unat n)"
proof -
  have "(ucast n :: int32) = of_nat (unat n)" by simp
  moreover have "sint (of_nat (unat n) :: int32) = int (unat n)"
    by (rule sint_of_nat32) (rule order.strict_trans [OF unat_uint16_less], simp)
  ultimately show ?thesis by (simp only:)
qed

lemma check_switch_keys_sound:
  assumes "check_switch_keys packed p (ucast (n :: uint16)) v = Some (True, v')"
  shows "(packed \<longrightarrow> 1 < unat n \<longrightarrow>
      (\<exists>k. Fetch32 (insns (code_item v)) p 2 = Some k \<and> sint k + int (unat n) - 1 < 2 ^ 31)) \<and>
    (\<not> packed \<longrightarrow> (\<forall>i. Suc i < unat n \<longrightarrow> (\<exists>a b. Fetch32 (insns (code_item v)) p (2 + i * 2) = Some a \<and>
       Fetch32 (insns (code_item v)) p (2 + Suc i * 2) = Some b \<and> sint a < sint b)))"
proof -
  have one: "(ucast n :: uint32) > 1 \<longleftrightarrow> 1 < unat n" by (simp add: word_less_nat_alt)
  show ?thesis
  proof (cases packed)
    case True
    then show ?thesis
      using assms by (auto simp: check_switch_keys_def one Let_def bind_Some_iff hard_failure_result
          sint_ucast_16 split: if_splits)
  next
    case False
    have "\<exists>a b. Fetch32 (insns (code_item v)) p (2 + i * 2) = Some a \<and>
       Fetch32 (insns (code_item v)) p (2 + Suc i * 2) = Some b \<and> sint a < sint b" if i: "Suc i < unat n" for i
    proof -
      obtain k where "Fetch32 (insns (code_item v)) p 2 = Some k"
          "check_sparse_keys (insns (code_item v)) p 1 (unat n - 1) k v = Some (True, v')"
        using assms False i by (auto simp: check_switch_keys_def one Let_def bind_Some_iff split: if_splits)
      then show ?thesis
        using check_sparse_keys_sound [of "insns (code_item v)" p 1 "unat n - 1" k v v' i] i by simp
    qed
    with False show ?thesis by blast
  qed
qed

definition switch_size :: "Code \<Rightarrow> uint16 \<Rightarrow> nat" where
  "switch_size opcode n = (if opcode = PACKED_SWITCH then 4 + 2 * unat n else 2 + 4 * unat n)"

lemma CheckSwitchTargets_sound:
  assumes "CheckSwitchTargets (of_nat pc) v = Some (True, v')"
    and "Fetch16 (insns (code_item v)) pc 0 = Some w" "IsSwitch (Opcode w)"
    and "pc < insns_size v" "insns_size v < 2 ^ 31" "length (insn_flags v) = insns_size v"
  shows "switch_ok (\<lambda>t. IsOpcode (insn_flags v ! t)) (insns (code_item v)) pc (Opcode w)"
proof -
  let ?code = "insns (code_item v)" and ?packed = "Opcode w = PACKED_SWITCH"
  have pc: "unat (of_nat pc :: uint32) = pc" "pc < 2 ^ 31"
    using assms(4,5) by (simp_all add: unat_of_nat)
  obtain d n v1 where d: "Fetch32 ?code pc 1 = Some d" "0 \<le> sint (of_nat pc + d)"
      and n: "Fetch16 ?code (unat (of_nat pc + d)) 1 = Some n"
        "Fetch16 ?code (unat (of_nat pc + d)) 0 =
           Some (if ?packed then kPackedSwitchSignature else kSparseSwitchSignature)"
      and size: "unat (of_nat pc + d + ((if ?packed then 4 else 2 + 2 * ucast n) + ucast n * 2)) \<le> insns_size v"
      and keys: "check_switch_keys ?packed (unat (of_nat pc + d)) (ucast n) v = Some (True, v1)"
      and targets: "check_switch_targets ?code (of_nat pc) (unat (of_nat pc + d))
          (unat (if ?packed then 4 else 2 + 2 * ucast n :: uint32)) 0 (unat (ucast n :: uint32)) v1 = Some (True, v')"
    using assms(1,2)
    by (auto simp: CheckSwitchTargets_def pc hard_failure_result Let_def bind_Some_iff split: if_splits)
  let ?p = "unat (of_nat pc + d :: int32)"
  have p: "int ?p = int pc + sint d" using offset_target [OF d(2) pc(2)] .
  have sz: "?p + switch_size (Opcode w) n \<le> length ?code"
  proof -
    have "?p < 2 ^ 31" using d(2) by (rule unat_nonneg_less)
    moreover have "unat n < 2 ^ 16" by (rule unat_uint16_less)
    moreover have "unat (((if ?packed then 4 else 2 + 2 * ucast n) + ucast n * 2) :: uint32) = switch_size (Opcode w) n"
      using \<open>unat n < 2 ^ 16\<close> by (auto simp: switch_size_def unat_word_ariths)
    ultimately have "unat (of_nat pc + d + ((if ?packed then 4 else 2 + 2 * ucast n) + ucast n * 2)) = ?p + switch_size (Opcode w) n"
      by (subst unat_add_lem [THEN iffD1]) (auto simp: switch_size_def)
    then show ?thesis using size by (simp add: insns_size_def)
  qed
  have tgt: "case_targets_ok (\<lambda>t. IsOpcode (insn_flags v ! t)) ?code pc ?p
      (if ?packed then 4 else 2 + 2 * unat n) (unat n)"
    unfolding case_targets_ok_def
  proof (intro allI impI)
    fix i assume that: "i < unat n"
    have k: "same_code v v1" using keys by (rule switch_keys.keeps)
    have "unat (2 + 2 * ucast n :: uint32) = 2 + 2 * unat n"
      using unat_uint16_less [of n] by (simp add: unat_word_ariths)
    then have "\<exists>e. Fetch32 ?code ?p ((if ?packed then 4 else 2 + 2 * unat n) + i * 2) = Some e \<and> target_ok v pc e"
      using check_switch_targets_sound [OF targets pc(2), of i] that assms(5) same_code_size [OF k]
      unfolding target_ok_same [OF k] by auto
    then show "\<exists>e t. Fetch32 ?code ?p ((if ?packed then 4 else 2 + 2 * unat n) + i * 2) = Some e \<and>
        int t = int pc + sint e \<and> t < length ?code \<and> IsOpcode (insn_flags v ! t)"
      unfolding target_ok_def insns_size_def by blast
  qed
  show ?thesis
    unfolding switch_ok_def
    using d(1) p n sz tgt check_switch_keys_sound [OF keys]
    by (intro impI exI [of _ d] exI [of _ ?p] exI [of _ n]) (auto simp: switch_size_def)
qed

section \<open>Array data\<close>

text \<open>
  The table of a \<open>fill-array-data\<close> instruction: an instruction starts there, its header can be read,
  and its end, as the verifier computes it in 32 bits, is within the code.
\<close>

definition array_data_ok :: "(nat \<Rightarrow> bool) \<Rightarrow> insns \<Rightarrow> nat \<Rightarrow> Code \<Rightarrow> bool" where
  "array_data_ok starts code pc opcode \<longleftrightarrow>
     (GetVerifyExtraFlags opcode = kVerifyArrayData \<longrightarrow>
        (\<exists>d p n c. Fetch32 code pc 1 = Some d \<and> int p = int pc + sint d \<and> p < length code \<and> starts p \<and>
           even p \<and> Fetch16 code p 1 = Some n \<and> Fetch32 code p 2 = Some c \<and>
           unat (of_nat p + (4 + (ucast n * c + 1) div 2) :: uint32) \<le> length code))"

lemma CheckArrayData_sound:
  assumes "CheckArrayData (of_nat pc) v = Some (True, v')"
    and "pc < insns_size v" "insns_size v < 2 ^ 31" "length (insn_flags v) = insns_size v"
  shows "array_data_ok (\<lambda>t. IsOpcode (insn_flags v ! t)) (insns (code_item v)) pc opcode"
proof -
  let ?code = "insns (code_item v)"
  have pc: "unat (of_nat pc :: uint32) = pc" "pc < 2 ^ 31" using assms(2,3) by (simp_all add: unat_of_nat)
  obtain d f n c where d: "Fetch32 ?code pc 1 = Some d" "0 \<le> sint (of_nat pc + d)"
      and f: "even (unat (of_nat pc + d))" "GetInstructionFlags v (unat (of_nat pc + d)) = Some f" "IsOpcode f"
      and n: "Fetch16 ?code (unat (of_nat pc + d)) 1 = Some n" "Fetch32 ?code (unat (of_nat pc + d)) 2 = Some c"
      and size: "unat (of_nat pc + d + (4 + (ucast n * c + 1) div 2)) \<le> insns_size v"
    using assms(1) by (auto simp: CheckArrayData_def pc hard_failure_result Let_def bind_Some_iff split: if_splits)
  let ?p = "unat (of_nat pc + d :: int32)"
  have "int ?p = int pc + sint d" using offset_target [OF d(2) pc(2)] .
  moreover have "?p < length ?code" "IsOpcode (insn_flags v ! ?p)"
    using f(2,3) assms(4) by (auto simp: GetInstructionFlags_def insns_size_def)
  ultimately show ?thesis
    unfolding array_data_ok_def using d(1) f(1) n size
    by (intro impI exI [of _ d] exI [of _ ?p] exI [of _ n] exI [of _ c]) (simp add: insns_size_def)
qed

section \<open>Soundness of the static passes\<close>

definition instruction_ok :: "CodeItem \<Rightarrow> DexFile \<Rightarrow> (nat \<Rightarrow> bool) \<Rightarrow> nat \<Rightarrow> bool" where
  "instruction_ok ci df starts pc \<longleftrightarrow>
     (\<exists>w. Fetch16 (insns ci) pc 0 = Some w \<and> \<not> IsExperimental (Opcode w) \<and>
        GetVerifyExtraFlags (Opcode w) \<noteq> kVerifyError \<and>
        registers_ok ci pc (Opcode w) \<and> indices_ok df (insns ci) pc (Opcode w) \<and>
        branch_ok starts (insns ci) pc (Opcode w) \<and> switch_ok starts (insns ci) pc (Opcode w) \<and>
        array_data_ok starts (insns ci) pc (Opcode w) \<and> arguments_ok ci pc (Opcode w))"

lemma extra_flags_exact:
  "(IsBranch opcode \<longrightarrow> GetVerifyExtraFlags opcode = kVerifyBranchTarget) \<and>
   (IsSwitch opcode \<longrightarrow> GetVerifyExtraFlags opcode = kVerifySwitchTargets)"
  unfolding IsBranch_def IsSwitch_def GetVerifyExtraFlags_def
  by (rule opcode_all [where P = "\<lambda>opcode format flags verify.
     (flags AND kBranch \<noteq> 0 \<longrightarrow> verify AND (kVerifyArrayData OR kVerifyBranchTarget
     OR kVerifySwitchTargets OR kVerifyVarArg OR kVerifyVarArgNonZero OR kVerifyVarArgRange
     OR kVerifyVarArgRangeNonZero OR kVerifyError) = kVerifyBranchTarget) \<and>
     (flags AND kSwitch \<noteq> 0 \<longrightarrow> verify AND (kVerifyArrayData OR kVerifyBranchTarget
     OR kVerifySwitchTargets OR kVerifyVarArg OR kVerifyVarArgNonZero OR kVerifyVarArgRange
     OR kVerifyVarArgRangeNonZero OR kVerifyError) = kVerifySwitchTargets)"])
    (simp add: table_defs)

lemma wide_operand_formats:
  "GetVerifyTypeArgumentA opcode = kVerifyRegAWide \<Longrightarrow> FormatOf opcode \<notin> {k10t, k20t, k30t}"
  "GetVerifyTypeArgumentB opcode = kVerifyRegBWide \<Longrightarrow> FormatOf opcode \<in> {k12x, k22x, k32x, k23x}"
  "GetVerifyTypeArgumentC opcode = kVerifyRegCWide \<Longrightarrow> FormatOf opcode \<in> {k23x, k3rc}"
proof -
  show "FormatOf opcode \<notin> {k10t, k20t, k30t}" if a: "GetVerifyTypeArgumentA opcode = kVerifyRegAWide"
  proof -
    have "(VerifyFlagsOf opcode AND 0x3) AND 0x2 \<noteq> 0"
      using a by (simp add: GetVerifyTypeArgumentA_def)
    then show ?thesis using wide_formats [of opcode] by (simp add: and.assoc)
  qed
  show "FormatOf opcode \<in> {k12x, k22x, k32x, k23x}" if b: "GetVerifyTypeArgumentB opcode = kVerifyRegBWide"
  proof -
    have "(VerifyFlagsOf opcode AND 0x1FC) AND 0x100 \<noteq> 0"
      using b by (simp add: GetVerifyTypeArgumentB_def)
    then show ?thesis using wide_formats [of opcode] by (simp add: and.assoc)
  qed
  show "FormatOf opcode \<in> {k23x, k3rc}" if c: "GetVerifyTypeArgumentC opcode = kVerifyRegCWide"
  proof -
    have "(VerifyFlagsOf opcode AND 0x803E00) AND 0x2000 \<noteq> 0"
      using c by (simp add: GetVerifyTypeArgumentC_def)
    then show ?thesis using wide_formats [of opcode] by (simp add: and.assoc)
  qed
qed

lemma verify_argument_A_sound:
  assumes "verify_argument_A pc (Opcode w) b v = Some (True, v')"
    and "Fetch16 (insns (code_item v)) pc 0 = Some w"
  shows "b \<and> v' = v \<and>
    (GetVerifyTypeArgumentA (Opcode w) = kVerifyRegA \<longrightarrow>
       (\<exists>a. VRegA (insns (code_item v)) pc = Some a \<and> reg_ok (code_item v) a)) \<and>
    (GetVerifyTypeArgumentA (Opcode w) = kVerifyRegAWide \<longrightarrow>
       (\<exists>a. VRegA (insns (code_item v)) pc = Some a \<and> wide_reg_ok (code_item v) a))"
  using assms VRegA_small [OF _ assms(2) wide_operand_formats(1)]
  by (auto simp: verify_argument_A_def Let_def result_and_True bind_Some_iff CheckRegisterIndex_True
      CheckWideRegisterIndex_True split: if_splits)

lemma pool_checks_True:
  "CheckFieldIndex i v = Some (True, v') \<longleftrightarrow> i < field_ids_size (dex_file v) \<and> v' = v"
  "CheckMethodIndex i v = Some (True, v') \<longleftrightarrow> i < method_ids_size (dex_file v) \<and> v' = v"
  "CheckStringIndex i v = Some (True, v') \<longleftrightarrow> i < string_ids_size (dex_file v) \<and> v' = v"
  "CheckTypeIndex i v = Some (True, v') \<longleftrightarrow> i < type_ids_size (dex_file v) \<and> v' = v"
  by (auto simp: CheckFieldIndex_def CheckMethodIndex_def CheckStringIndex_def CheckTypeIndex_def
      hard_failure_def)

lemma type_checks_True:
  "CheckNewInstance i v = Some (True, v') \<Longrightarrow> i < type_ids_size (dex_file v) \<and> v' = v"
  "CheckNewArray i v = Some (True, v') \<Longrightarrow> i < type_ids_size (dex_file v) \<and> v' = v"
  by (auto simp: CheckNewInstance_def CheckNewArray_def hard_failure_def Let_def split: if_splits)

lemma verify_argument_B_sound:
  assumes "verify_argument_B pc (Opcode w) b v = Some (True, v')"
    and "Fetch16 (insns (code_item v)) pc 0 = Some w"
  defines "k \<equiv> GetVerifyTypeArgumentB (Opcode w)" and "code \<equiv> insns (code_item v)"
  shows "b \<and> v' = v \<and>
    (k = kVerifyRegB \<longrightarrow> (\<exists>a. VRegB code pc = Some a \<and> reg_ok (code_item v) a)) \<and>
    (k = kVerifyRegBWide \<longrightarrow> (\<exists>a. VRegB code pc = Some a \<and> wide_reg_ok (code_item v) a)) \<and>
    (k = kVerifyRegBField \<longrightarrow> (\<exists>a. VRegB code pc = Some a \<and> a < field_ids_size (dex_file v))) \<and>
    (k = kVerifyRegBMethod \<longrightarrow> (\<exists>a. VRegB code pc = Some a \<and> a < method_ids_size (dex_file v))) \<and>
    (k = kVerifyRegBString \<longrightarrow> (\<exists>a. VRegB code pc = Some a \<and> a < string_ids_size (dex_file v))) \<and>
    (k \<in> {kVerifyRegBType, kVerifyRegBNewInstance} \<longrightarrow>
       (\<exists>a. VRegB code pc = Some a \<and> a < type_ids_size (dex_file v)))"
  using assms(1) VRegB_small [OF _ assms(2) wide_operand_formats(2)]
  unfolding k_def code_def verify_argument_B_def Let_def
  by (auto simp: result_and_True bind_Some_iff CheckRegisterIndex_True CheckWideRegisterIndex_True
      pool_checks_True split: if_splits dest: type_checks_True)

lemma verify_argument_C_sound:
  assumes "verify_argument_C pc (Opcode w) b v = Some (True, v')"
    and "Fetch16 (insns (code_item v)) pc 0 = Some w"
  defines "k \<equiv> GetVerifyTypeArgumentC (Opcode w)" and "code \<equiv> insns (code_item v)"
  shows "b \<and> v' = v \<and>
    (k = kVerifyRegC \<longrightarrow> (\<exists>a. VRegC code pc = Some a \<and> reg_ok (code_item v) a)) \<and>
    (k = kVerifyRegCWide \<longrightarrow> (\<exists>a. VRegC code pc = Some a \<and> wide_reg_ok (code_item v) a)) \<and>
    (k = kVerifyRegCField \<longrightarrow> (\<exists>a. VRegC code pc = Some a \<and> a < field_ids_size (dex_file v))) \<and>
    (k \<in> {kVerifyRegCType, kVerifyRegCNewArray} \<longrightarrow>
       (\<exists>a. VRegC code pc = Some a \<and> a < type_ids_size (dex_file v)))"
  using assms(1) VRegC_small [OF _ assms(2) wide_operand_formats(3)]
  unfolding k_def code_def verify_argument_C_def Let_def
  by (auto simp: result_and_True bind_Some_iff CheckRegisterIndex_True CheckWideRegisterIndex_True
      pool_checks_True split: if_splits dest: type_checks_True)

lemma check_arg_regs_True:
  "check_arg_regs args v = Some (True, v') \<Longrightarrow> \<forall>x \<in> set args. reg_ok (code_item v) x"
  by (induction args) (auto simp: hard_failure_result word_le_nat_alt split: if_splits)

lemma CheckVarArgRangeRegs_True:
  assumes "CheckVarArgRangeRegs a c v = Some (True, v')" "unat a < 2 ^ 16" "unat c < 2 ^ 16"
  shows "unat a + unat c \<le> unat (registers_size (code_item v))"
proof -
  have "unat (a + c) = unat a + unat c"
    using assms(2,3) by (subst unat_add_lem [THEN iffD1]) auto
  then show ?thesis
    using assms(1) by (auto simp: CheckVarArgRangeRegs_def hard_failure_def word_less_nat_alt split: if_splits)
qed

lemma range_formats:
  "GetVerifyExtraFlags opcode \<in> {kVerifyVarArgRange, kVerifyVarArgRangeNonZero} \<Longrightarrow> FormatOf opcode = k3rc"
proof -
  assume "GetVerifyExtraFlags opcode \<in> {kVerifyVarArgRange, kVerifyVarArgRangeNonZero}"
  then have "(VerifyFlagsOf opcode AND 0x5FC000) AND 0x180000 \<noteq> 0"
    by (auto simp: GetVerifyExtraFlags_def)
  then show ?thesis using wide_formats [of opcode] by (simp add: and.assoc)
qed

lemma CheckBranchTarget_sound:
  assumes "CheckBranchTarget (of_nat pc) v = Some (True, v')" "pc < 2 ^ 32"
  shows "\<exists>d t. GetTargetOffset (insns (code_item v)) pc = Some d \<and> int t = int pc + sint d \<and>
    t < insns_size v \<and> IsOpcode (insn_flags v ! t)"
proof -
  have pc: "unat (of_nat pc :: uint32) = pc" using assms(2) by (simp add: unat_of_nat)
  show ?thesis
    using assms(1)
  proof (cases rule: CheckBranchTarget_cases)
    case (target d c s f)
    then show ?thesis
      using GetBranchOffset_target [OF target(1)] unfolding pc
      by (intro exI [of _ d] exI [of _ "unat (of_nat pc + d :: int32)"])
        (auto simp: GetInstructionFlags_def)
  qed simp_all
qed

text \<open>The extra checks, one kind at a time.\<close>

lemma verify_extra_checks:
  assumes "verify_extra pc (Opcode w) b v = Some (ret, True, v')"
  defines "k \<equiv> GetVerifyExtraFlags (Opcode w)" and "code \<equiv> insns (code_item v)"
  shows "b \<and> k \<noteq> kVerifyError \<and>
    (k = kVerifyBranchTarget \<longrightarrow> (\<exists>u. CheckBranchTarget (of_nat pc) v = Some (True, u))) \<and>
    (k = kVerifySwitchTargets \<longrightarrow> (\<exists>u. CheckSwitchTargets (of_nat pc) v = Some (True, u))) \<and>
    (k = kVerifyArrayData \<longrightarrow> (\<exists>u. CheckArrayData (of_nat pc) v = Some (True, u))) \<and>
    (k \<in> {kVerifyVarArg, kVerifyVarArgNonZero} \<longrightarrow>
       (\<exists>a x args u. VRegA code pc = Some a \<and> unat a \<le> kMaxVarArgRegs \<and> Fetch16 code pc 0 = Some x \<and>
          GetVarArgs code pc (replicate kMaxVarArgRegs 0) x = Some args \<and>
          CheckVarArgRegs a args v = Some (True, u))) \<and>
    (k \<in> {kVerifyVarArgRange, kVerifyVarArgRangeNonZero} \<longrightarrow>
       (\<exists>a c u. VRegA code pc = Some a \<and> VRegC code pc = Some c \<and>
          CheckVarArgRangeRegs a c v = Some (True, u)))"
  using assms(1) unfolding k_def code_def verify_extra_def Let_def
  by (auto simp: result_and_True bind_Some_iff split: if_splits)

lemma verify_extra_arguments:
  assumes x: "verify_extra pc (Opcode w) b v = Some (ret, True, v')"
    and w: "Fetch16 (insns (code_item v)) pc 0 = Some w"
  defines "ci \<equiv> code_item v"
  shows "arguments_ok ci pc (Opcode w)"
proof -
  note c = verify_extra_checks [OF x]
  let ?k = "GetVerifyExtraFlags (Opcode w)"
  have "\<exists>a args. VRegA (insns ci) pc = Some a \<and> unat a \<le> 5 \<and>
      GetVarArgs (insns ci) pc (replicate 5 0) w = Some args \<and> (\<forall>x \<in> set (take (unat a) args). reg_ok ci x)"
    if k: "?k \<in> {kVerifyVarArg, kVerifyVarArgNonZero}"
  proof -
    obtain a args u where "VRegA (insns ci) pc = Some a" "unat a \<le> kMaxVarArgRegs"
        "GetVarArgs (insns ci) pc (replicate kMaxVarArgRegs 0) w = Some args"
        "CheckVarArgRegs a args v = Some (True, u)"
      using c k w unfolding ci_def by force
    then show ?thesis
      using check_arg_regs_True [of "take (unat a) args" v u]
      by (auto simp: CheckVarArgRegs_def ci_def split: if_splits)
  qed
  moreover have "\<exists>a r. VRegA (insns ci) pc = Some a \<and> VRegC (insns ci) pc = Some r \<and>
      unat a + unat r \<le> unat (registers_size ci)"
    if k: "?k \<in> {kVerifyVarArgRange, kVerifyVarArgRangeNonZero}"
  proof -
    obtain a r u where ar: "VRegA (insns ci) pc = Some a" "VRegC (insns ci) pc = Some r"
        "CheckVarArgRangeRegs a r v = Some (True, u)"
      using c k unfolding ci_def by force
    have "unat a < 2 ^ 16" "unat r < 2 ^ 16"
      using VRegA_small [OF ar(1)] VRegC_small [OF ar(2)] w range_formats [OF k] unfolding ci_def by auto
    then show ?thesis using CheckVarArgRangeRegs_True [OF ar(3)] ar(1,2) unfolding ci_def by blast
  qed
  ultimately show ?thesis using w unfolding arguments_ok_def ci_def by blast
qed

lemma verify_extra_sound:
  assumes x: "verify_extra pc (Opcode w) b v = Some (ret, True, v')"
    and w: "Fetch16 (insns (code_item v)) pc 0 = Some w"
    and size: "pc < insns_size v" "insns_size v < 2 ^ 31" "length (insn_flags v) = insns_size v"
  defines "starts \<equiv> \<lambda>t. IsOpcode (insn_flags v ! t)" and "ci \<equiv> code_item v"
  shows "b \<and> GetVerifyExtraFlags (Opcode w) \<noteq> kVerifyError \<and> branch_ok starts (insns ci) pc (Opcode w) \<and>
    switch_ok starts (insns ci) pc (Opcode w) \<and> array_data_ok starts (insns ci) pc (Opcode w) \<and>
    arguments_ok ci pc (Opcode w)"
proof -
  note c = verify_extra_checks [OF x]
  have "branch_ok starts (insns ci) pc (Opcode w)"
    using c extra_flags_exact [of "Opcode w"] CheckBranchTarget_sound [of pc v] size
    unfolding branch_ok_def starts_def ci_def insns_size_def by fastforce
  moreover have "switch_ok starts (insns ci) pc (Opcode w)"
  proof (cases "IsSwitch (Opcode w)")
    case True
    then show ?thesis
      using c extra_flags_exact [of "Opcode w"] CheckSwitchTargets_sound [OF _ w True size]
      unfolding starts_def ci_def by auto
  qed (simp add: switch_ok_def)
  moreover have "array_data_ok starts (insns ci) pc (Opcode w)"
    using c CheckArrayData_sound [OF _ size] unfolding starts_def ci_def
    by (cases "GetVerifyExtraFlags (Opcode w) = kVerifyArrayData") (blast, simp add: array_data_ok_def)
  moreover have "arguments_ok ci pc (Opcode w)"
    using verify_extra_arguments [OF x w] unfolding ci_def .
  ultimately show ?thesis using c by simp
qed

lemma VerifyInstruction_sound:
  assumes "VerifyInstruction pc v = Some (True, v')"
    and size: "pc < insns_size v" "insns_size v < 2 ^ 31" "length (insn_flags v) = insns_size v"
  shows "instruction_ok (code_item v) (dex_file v) (\<lambda>t. IsOpcode (insn_flags v ! t)) pc"
proof -
  obtain w r1 v1 r2 v2 r3 v3 ret v4 where w: "Fetch16 (insns (code_item v)) pc 0 = Some w"
      and x: "\<not> IsExperimental (Opcode w)"
      and a: "verify_argument_A pc (Opcode w) True v = Some (r1, v1)"
      and b: "verify_argument_B pc (Opcode w) r1 v1 = Some (r2, v2)"
      and c: "verify_argument_C pc (Opcode w) r2 v2 = Some (r3, v3)"
      and e: "verify_extra pc (Opcode w) r3 v3 = Some (ret, True, v4)"
    using assms(1) by (auto simp: VerifyInstruction_def Let_def bind_Some_iff split: if_splits)
  have r3: "r3" using verify_extra_checks [OF e] by simp
  have c3: "step_ok True v r3 v3" "step_ok True v r1 v1" "step_ok True v r2 v2"
    using a b c by (blast intro: step_ok_trans verify_argument_A_ok verify_argument_B_ok verify_argument_C_ok)+
  then have code: "code_item v3 = code_item v" "code_item v1 = code_item v" "code_item v2 = code_item v"
    by (auto simp: step_ok_def same_code_def)
  have cs: "r2 \<and> v3 = v2" using verify_argument_C_sound [of pc w r2 v2 v3] c r3 w code by simp
  then have bs: "r1 \<and> v2 = v1" using verify_argument_B_sound [of pc w r1 v1 v2] b w code by simp
  then have "v1 = v" using verify_argument_A_sound [of pc w True v v1] a w by simp
  with cs bs show ?thesis
    using w x r3 verify_argument_A_sound [of pc w True v v] verify_argument_B_sound [of pc w True v v]
      verify_argument_C_sound [of pc w True v v] verify_extra_sound [of pc w r3 v ret v4] a b c e size
    unfolding instruction_ok_def registers_ok_def indices_ok_def by simp
qed

lemma instruction_ok_mono:
  assumes "instruction_ok ci df s pc" "\<And>t. t < length (insns ci) \<Longrightarrow> s t \<Longrightarrow> s' t"
  shows "instruction_ok ci df s' pc"
proof -
  have "branch_ok s (insns ci) pc opcode \<Longrightarrow> branch_ok s' (insns ci) pc opcode" for opcode
    using assms(2) by (auto simp: branch_ok_def)
  moreover have "case_targets_ok s (insns ci) pc p off n \<Longrightarrow> case_targets_ok s' (insns ci) pc p off n"
    for p off n using assms(2) unfolding case_targets_ok_def by meson
  then have "switch_ok s (insns ci) pc opcode \<Longrightarrow> switch_ok s' (insns ci) pc opcode" for opcode
    unfolding switch_ok_def by blast
  moreover have "array_data_ok s (insns ci) pc opcode \<Longrightarrow> array_data_ok s' (insns ci) pc opcode" for opcode
    using assms(2) unfolding array_data_ok_def by blast
  ultimately show ?thesis using assms(1) by (auto simp: instruction_ok_def)
qed

text \<open>The passes of a successful static verification.\<close>

lemma VerifyStatic_True:
  assumes "VerifyStatic v = Some (True, v')"
  obtains v1 v2 v3 v4 where
    "ComputeWidthsAndCountOps (v\<lparr>insn_flags := replicate (insns_size v) 0\<rparr>) = Some (True, v1)"
    "ScanTryCatchBlocks v1 = Some (True, v2)"
    "UpdateInstructionFlags SetBranchTarget 0 v2 = Some v3"
    "UpdateInstructionFlags SetCompileTimeInfoPoint 0 v3 = Some v4"
    "VerifyInstructions_loop (insns (code_item v4)) 0 v4 = Some (True, v')"
    "ins_size (code_item v) \<le> registers_size (code_item v)"
  using assms
  by (auto simp: VerifyStatic_def hard_failure_result Let_def bind_Some_iff result_and_True
      VerifyInstructions_def not_less split: if_splits)

lemma VerifyStatic_sound:
  assumes "VerifyStatic v = Some (True, v')" "insns_size v < 2 ^ 31"
  shows "insns (code_item v) \<noteq> [] \<and> insn_start (insns (code_item v)) (insns_size v) \<and>
    (\<forall>pc < insns_size v. insn_start (insns (code_item v)) pc \<longrightarrow>
       instruction_ok (code_item v) (dex_file v) (insn_start (insns (code_item v))) pc)"
  using assms(1)
proof (cases rule: VerifyStatic_True)
  case (1 v1 v2 v3 v4)
  let ?v0 = "v\<lparr>insn_flags := replicate (insns_size v) 0\<rparr>" and ?code = "insns (code_item v)"
  have w: "code_item v1 = code_item v" "dex_file v1 = dex_file v" "insn_start ?code (insns_size v)"
      "length (insn_flags v1) = insns_size v"
      "\<And>i. i < insns_size v \<Longrightarrow> IsOpcode (insn_flags v1 ! i) \<longleftrightarrow> insn_start ?code i"
    using ComputeWidths_state [OF 1(1)] by (simp_all add: insns_size_def)
  have s4: "same_code v1 v4"
    using try_catch.keeps [OF 1(2)] update_keeps(2) [OF 1(3)] update_keeps(3) [OF 1(4)]
    by (blast intro: same_code_trans)
  have ne: "?code \<noteq> []"
    using 1(3) try_catch.keeps [OF 1(2)] w(4)
    by (auto simp: UpdateInstructionFlags_Some same_code_def insns_size_def)
  have "instruction_ok (code_item v) (dex_file v) (insn_start ?code) pc"
    if pc: "pc < insns_size v" "insn_start ?code pc" for pc
  proof -
    have code: "insns (code_item v4) = ?code" using same_code_item [OF s4] w(1) by simp
    obtain u u' where u: "same_code v4 u" "VerifyInstruction pc u = Some (True, u')"
      using VerifyInstructions_loop_sound [OF 1(5), of pc] pc assms(2) code
      by (auto simp: insns_size_def)
    have su: "same_code v1 u" using s4 u(1) by (rule same_code_trans)
    then have "code_item u = code_item v" "dex_file u = dex_file v" "length (insn_flags u) = insns_size v"
        "insns_size u = insns_size v"
      using w by (auto simp: same_code_def insns_size_def)
    then have "instruction_ok (code_item v) (dex_file v) (\<lambda>t. IsOpcode (insn_flags u ! t)) pc"
      using VerifyInstruction_sound [OF u(2)] pc(1) assms(2) by simp
    then show ?thesis
      by (rule instruction_ok_mono) (use su w in \<open>auto simp: same_code_def insns_size_def\<close>)
  qed
  with ne w(3) show ?thesis by blast
qed

lemma VerifyStatic_reports:
  assumes "VerifyStatic v = Some (False, v')" "insns_size v \<le> 2 ^ 32"
  shows "have_pending_hard_failure v' \<or> have_pending_experimental_failure v'"
proof (cases "ins_size (code_item v) > registers_size (code_item v)")
  case False
  let ?v0 = "v\<lparr>insn_flags := replicate (insns_size v) 0\<rparr>"
  obtain r1 v1 r2 v2 where st: "ComputeWidthsAndCountOps ?v0 = Some (r1, v1)"
      "result_and r1 ScanTryCatchBlocks v1 = Some (r2, v2)"
      "result_and r2 VerifyInstructions v2 = Some (False, v')"
    using assms(1) False by (auto simp: VerifyStatic_def Let_def bind_Some_iff)
  have w: "code_item v1 = code_item v" "\<not> r1 \<longrightarrow> have_pending_hard_failure v1"
    using ComputeWidths_state [OF st(1)] by (simp_all add: insns_size_def)
  have h2: "\<not> r2 \<Longrightarrow> have_pending_hard_failure v2" "same_code v1 v2"
    using st(2) w(2) try_catch.result_and_reports [of r1 v1 v2] try_catch.result_and_keeps by auto
  show ?thesis
  proof (cases r2)
    case True
    then obtain v3 v4 where v4: "UpdateInstructionFlags SetBranchTarget 0 v2 = Some v3"
        "UpdateInstructionFlags SetCompileTimeInfoPoint 0 v3 = Some v4"
        "VerifyInstructions_loop (insns (code_item v4)) 0 v4 = Some (False, v')"
      using st(3) by (auto simp: result_and_def VerifyInstructions_def bind_Some_iff)
    have "same_code v1 v4"
      using h2(2) update_keeps(2) [OF v4(1)] update_keeps(3) [OF v4(2)] by (blast intro: same_code_trans)
    then have "insns (code_item v4) = insns (code_item v)" using w(1) by (simp add: same_code_def)
    then show ?thesis
      using VerifyInstructions_loop_state [OF v4(3)] assms(2) by (simp add: insns_size_def)
  qed (use st(3) h2(1) in \<open>auto simp: result_and_def\<close>)
qed (use assms(1) in \<open>auto simp: VerifyStatic_def hard_failure_result\<close>)

section \<open>Verified try blocks\<close>

text \<open>The handler lists of a code item, one after the other.\<close>

primrec handler_lists :: "nat \<Rightarrow> uint8 list \<Rightarrow> (uint16 \<times> uint32) list list option" where
  "handler_lists 0 data = Some []"
| "handler_lists (Suc n) data = do {
     it \<leftarrow> Init_data data;
     (hs, e) \<leftarrow> handlers_of it;
     rest \<leftarrow> handler_lists n (current_data e);
     Some (hs # rest)
   }"

definition address_ok :: "MethodVerifier \<Rightarrow> uint32 \<Rightarrow> bool" where
  "address_ok v a \<longleftrightarrow> unat a < length (insn_flags v) \<and> IsOpcode (insn_flags v ! unat a)"

lemma address_ok_same: "same_code v u \<Longrightarrow> address_ok u a = address_ok v a"
  by (auto simp: address_ok_def same_code_def)

lemma scan_handlers_sound:
  "scan_handlers it v = Some (True, e, v') \<Longrightarrow>
   \<exists>hs. handlers_of it = Some (hs, e) \<and> (\<forall>h \<in> set hs. address_ok v (snd h))"
proof (induction it v rule: scan_handlers.induct)
  case (1 it v)
  show ?case
  proof (cases "HasNext it")
    case False
    then show ?thesis using 1(2) by (auto simp: scan_handlers.simps handlers_of.simps)
  next
    case True
    then obtain f v1 v2 it' where st: "GetInstructionFlags v (unat (address it)) = Some f" "IsOpcode f"
        "CheckNotMoveResult (insns (code_item v)) (unat (address it)) v = Some (True, v1)"
        "UpdateInstructionFlags SetBranchTarget (unat (address it)) v1 = Some v2"
        "Next_handler it = Some it'" "scan_handlers it' v2 = Some (True, e, v')"
      using 1(2)
      by (auto simp: scan_handlers.simps [of it] Let_def bind_Some_iff split: if_splits option.splits)
    have k: "same_code v v2"
      using CheckNotMoveResult_state [OF st(3)] update_keeps(2) [OF st(4)] by (auto intro: same_code_trans)
    have "\<exists>hs. handlers_of it' = Some (hs, e) \<and> (\<forall>h \<in> set hs. address_ok v2 (snd h))"
      using 1(1) [OF True refl st(1) _ st(3) refl] st(2-6) by simp
    then obtain hs where "handlers_of it' = Some (hs, e)" "\<forall>h \<in> set hs. address_ok v2 (snd h)"
      by blast
    moreover have "address_ok v (address it)"
      using st(1,2) by (auto simp: address_ok_def GetInstructionFlags_def)
    ultimately show ?thesis
      using True st(5) by (auto simp: handlers_of.simps [of it] address_ok_same [OF k])
  qed
qed

lemma scan_handler_lists_sound:
  "scan_handler_lists n data v = Some (True, v') \<Longrightarrow>
   \<exists>ls. handler_lists n data = Some ls \<and> (\<forall>hs \<in> set ls. \<forall>h \<in> set hs. address_ok v (snd h))"
proof (induction n arbitrary: data v)
  case (Suc n)
  then obtain it e v1 where st: "Init_data data = Some it" "scan_handlers it v = Some (True, e, v1)"
      "scan_handler_lists n (current_data e) v1 = Some (True, v')"
    by (auto simp: bind_Some_iff split: if_splits)
  have k: "same_code v v1" using scan_handlers_state [OF st(2)] by simp
  obtain hs where "handlers_of it = Some (hs, e)" "\<forall>h \<in> set hs. address_ok v (snd h)"
    using scan_handlers_sound [OF st(2)] by blast
  moreover obtain ls where "handler_lists n (current_data e) = Some ls"
      "\<forall>hs \<in> set ls. \<forall>h \<in> set hs. address_ok v (snd h)"
    using Suc.IH [OF st(3)] unfolding address_ok_same [OF k] by blast
  ultimately show ?case using st(1) by auto
qed simp

definition try_ok :: "MethodVerifier \<Rightarrow> TryItem \<Rightarrow> bool" where
  "try_ok v ti \<longleftrightarrow> 0 < insn_count ti \<and> address_ok v (start_addr ti) \<and>
     unat (start_addr ti) + unat (insn_count ti) \<le> insns_size v"

lemma try_range:
  assumes "\<not> start \<ge> start + ucast (n :: uint16)" "unat (start + ucast n :: uint32) \<le> k"
  shows "0 < n \<and> unat start + unat n \<le> k"
proof -
  have "unat (start + ucast n) = unat start + unat n"
  proof (cases "unat start + unat n < 2 ^ 32")
    case True
    then show ?thesis by (subst unat_add_lem [THEN iffD1]) auto
  next
    case False
    have "unat (start + ucast n) = (unat start + unat n) mod 2 ^ 32" by (simp add: unat_word_ariths)
    also have "\<dots> = unat start + unat n - 2 ^ 32"
      using False unsigned_less [of start, where 'a = nat] unat_uint16_less [of n]
      by (simp add: mod_if)
    also have "\<dots> \<le> unat start" using unat_uint16_less [of n] by simp
    finally show ?thesis using assms(1) by (simp add: word_le_nat_alt)
  qed
  then show ?thesis
    using assms by (auto simp: word_le_nat_alt word_less_nat_alt)
qed

lemma scan_tries_sound:
  "scan_tries ts v = Some (True, v') \<Longrightarrow> \<forall>ti \<in> set ts. try_ok v ti"
proof (induction ts arbitrary: v)
  case (Cons t ts)
  then obtain f v1 where st: "\<not> start_addr t \<ge> start_addr t + ucast (insn_count t)"
      "unat (start_addr t + ucast (insn_count t)) \<le> insns_size v"
      "GetInstructionFlags v (unat (start_addr t)) = Some f" "IsOpcode f"
      "mark_try (insns (code_item v)) (unat (start_addr t)) (unat (start_addr t + ucast (insn_count t))) v = Some v1"
      "scan_tries ts v1 = Some (True, v')"
    by (auto simp: Let_def bind_Some_iff hard_failure_result not_less split: if_splits)
  have k: "same_code v v1" using st(5) by (rule mark_try_keeps)
  have "try_ok v t"
    using try_range [OF st(1,2)] st(3,4) by (auto simp: try_ok_def address_ok_def GetInstructionFlags_def)
  then show ?case
    using Cons.IH [OF st(6)] by (auto simp: try_ok_def address_ok_same [OF k] same_code_size [OF k])
qed simp

lemma VerifyStatic_tries:
  assumes "VerifyStatic v = Some (True, v')" "tries (code_item v) \<noteq> []"
  shows "(\<forall>ti \<in> set (tries (code_item v)). 0 < insn_count ti \<and>
       insn_start (insns (code_item v)) (unat (start_addr ti)) \<and>
       unat (start_addr ti) + unat (insn_count ti) \<le> insns_size v) \<and>
    (\<exists>n data ls. DecodeUnsignedLeb128 (handler_data (code_item v)) = Some (n, data) \<and>
       handler_lists (unat n) data = Some ls \<and>
       (\<forall>hs \<in> set ls. \<forall>h \<in> set hs. unat (snd h) < insns_size v \<and>
          insn_start (insns (code_item v)) (unat (snd h))))"
  using assms(1)
proof (cases rule: VerifyStatic_True)
  case (1 v1 v2 v3 v4)
  have w: "code_item v1 = code_item v" "length (insn_flags v1) = insns_size v"
      "\<And>i. i < insns_size v \<Longrightarrow> IsOpcode (insn_flags v1 ! i) \<longleftrightarrow> insn_start (insns (code_item v)) i"
    using ComputeWidths_state [OF 1(1)] by (simp_all add: insns_size_def)
  have a: "address_ok v1 x \<longleftrightarrow> unat x < insns_size v \<and> insn_start (insns (code_item v)) (unat x)" for x
    using w(2,3) by (auto simp: address_ok_def)
  obtain u n data where st: "scan_tries (tries (code_item v1)) v1 = Some (True, u)"
      "DecodeUnsignedLeb128 (handler_data (code_item u)) = Some (n, data)"
      "scan_handler_lists (unat n) data u = Some (True, v2)"
    using 1(2) assms(2) w(1)
    by (auto simp: ScanTryCatchBlocks_def tries_size_def GetCatchHandlerData_def bind_Some_iff
        split: if_splits)
  have k: "same_code v1 u" using scan_tries_state [OF st(1)] by simp
  have "\<forall>ti \<in> set (tries (code_item v)). 0 < insn_count ti \<and>
       insn_start (insns (code_item v)) (unat (start_addr ti)) \<and>
       unat (start_addr ti) + unat (insn_count ti) \<le> insns_size v"
    using scan_tries_sound [OF st(1)] w(1) by (auto simp: try_ok_def a insns_size_def)
  moreover obtain ls where "handler_lists (unat n) data = Some ls"
      "\<forall>hs \<in> set ls. \<forall>h \<in> set hs. address_ok u (snd h)"
    using scan_handler_lists_sound [OF st(3)] by blast
  ultimately show ?thesis
    using st(2) same_code_item [OF k] w(1) by (auto simp: address_ok_same [OF k] a)
qed

section \<open>An accepted and a rejected method\<close>

text \<open>A method with one register: \<open>const/4 v0, #0\<close>, then a branch back to it.\<close>

definition example_verifier :: "insns \<Rightarrow> MethodVerifier" where
  "example_verifier code = \<lparr>method_name = ''f'', method_access_flags = 1, class_access_flags = 1,
     dex_version = 35, is_debug_build = False, has_code = True,
     code_item = \<lparr>registers_size = 1, ins_size = 0, outs_size = 0,
       tries = [\<lparr>start_addr = 0, insn_count = 1, handler_off = 1\<rparr>], insns = code,
       handler_data = [1, 0, 1]\<rparr>,
     dex_file = \<lparr>string_ids_size = 0, type_ids_size = 0, field_ids_size = 0, method_ids_size = 0,
       StringByTypeIdx = (\<lambda>_. [])\<rparr>,
     allow_soft_failures = False, can_load_classes = True, verify_to_dump = False,
     is_aot_compiler = False, is_constructor = False, insn_flags = [], failures = [],
     encountered_failure_types = 0, have_pending_hard_failure = False,
     have_pending_runtime_throw_failure = False, have_pending_experimental_failure = False,
     has_check_casts = False, has_virtual_or_interface_invokes = False, new_instance_count = 0,
     monitor_enter_count = 0\<rparr>"

lemma example_rows:
  "FormatOf 0x12 = k11n" "FlagsOf 0x12 = 0x800002" "VerifyFlagsOf 0x12 = 1"
  "FormatOf 0x28 = k10t" "FlagsOf 0x28 = 0x41" "VerifyFlagsOf 0x28 = 0x8000"
  by (simp_all add: row_lookups table_defs)

lemma example_sizes:
  "SizeInCodeUnits [0x0012, 0xff28] 0 = Some 1" "SizeInCodeUnits [0x0012, 0xff28] (Suc 0) = Some 1"
  by (simp_all add: SizeInCodeUnits_def Fetch16_def array_get_def Opcode_def size_row example_rows
      INSTRUCTION_SIZE_def less_eq_Format_def)

lemmas example_eval = VerifyStatic_def example_verifier_def insns_size_def ComputeWidthsAndCountOps_def
  ComputeWidths_loop.simps Fetch16_def array_get_def array_set_def Opcode_def note_opcode_def
  example_sizes example_rows UpdateInstructionFlags_def result_and_def ScanTryCatchBlocks_def
  tries_size_def mark_try.simps GetCatchHandlerData_def DecodeUnsignedLeb128_def
  DecodeSignedLeb128_def next_byte_def scan_handlers.simps Init_data_def Next_handler_def HasNext_def
  CheckNotMoveResult_def GetInstructionFlags_def IsOpcode_def SetIsOpcode_def SetInTry_def
  SetBranchTarget_def SetCompileTimeInfoPoint_def VerifyInstructions_def
  VerifyInstructions_loop.simps VerifyInstruction_def IsExperimental_def verify_argument_A_def
  verify_argument_B_def verify_argument_C_def verify_extra_def GetVerifyTypeArgumentA_def
  GetVerifyTypeArgumentB_def GetVerifyTypeArgumentC_def GetVerifyExtraFlags_def
  GetVerifyIsRuntimeOnly_def VRegA_def VRegA_11n_def InstA_def CheckRegisterIndex_def
  CheckBranchTarget_def GetBranchOffset_def flag_instruction_def IsBranch_def IsSwitch_def
  IsThrow_def IsReturn_def

lemma example_verified:
  "\<exists>v'. VerifyStatic (example_verifier [0x0012, 0xff28]) = Some (True, v')"
  by (simp add: example_eval)
text \<open>The branch goes to itself, which only \<open>goto/32\<close> may do.\<close>

lemma example_bad_sizes: "SizeInCodeUnits [0x0028] 0 = Some 1"
  by (simp add: SizeInCodeUnits_def Fetch16_def array_get_def Opcode_def size_row example_rows
      INSTRUCTION_SIZE_def less_eq_Format_def)

lemma example_rejected:
  "\<exists>v'. VerifyStatic ((example_verifier [0x0028])\<lparr>code_item := (code_item (example_verifier [0x0028]))\<lparr>tries := []\<rparr>\<rparr>)
     = Some (False, v')"
  by (simp add: example_eval example_bad_sizes hard_failure_def)

section \<open>Properties\<close>

text \<open>
  C2: Soundness of the static verification.  When \<open>VerifyStatic\<close> accepts a method, the code is
  not empty, is a sequence of whole instructions that ends exactly at its end, and every
  instruction on it names only registers of the method (pairs included) and pool entries of the
  dex file, branches only to starts of instructions within the code, has a complete switch table
  with ascending keys whose targets are such starts, has an array data table that ends within the
  code, and passes only argument registers of the method.
\<close>
theorem verify_static_sound:
  assumes "VerifyStatic v = Some (True, v')" "insns_size v < 2 ^ 31"
  shows "insns (code_item v) \<noteq> [] \<and> insn_start (insns (code_item v)) (insns_size v) \<and>
    (\<forall>pc < insns_size v. insn_start (insns (code_item v)) pc \<longrightarrow>
       instruction_ok (code_item v) (dex_file v) (insn_start (insns (code_item v))) pc)"
  using VerifyStatic_sound [OF assms] .

theorem verify_static_sound_witness:
  "instruction_ok (code_item (example_verifier [0x0012, 0xff28]))
     (dex_file (example_verifier [0x0012, 0xff28])) (insn_start [0x0012, 0xff28]) 1"
proof -
  have s: "insn_start [0x0012, 0xff28] 1"
    using walk.step [OF walk.here, of 0 "[0x0012, 0xff28]" 1] example_sizes(1) by simp
  obtain v' where "VerifyStatic (example_verifier [0x0012, 0xff28]) = Some (True, v')"
    using example_verified by blast
  from verify_static_sound [OF this] s show ?thesis
    by (simp add: insns_size_def example_verifier_def)
qed

text \<open>
  C3: Try blocks and handlers of an accepted method.  Every try item is a non-empty range within
  the code that starts at an instruction, the catch handler lists can be decoded completely, and
  every handler address in them is the start of an instruction within the code.
\<close>
theorem verify_static_tries:
  assumes "VerifyStatic v = Some (True, v')" "tries (code_item v) \<noteq> []"
  shows "(\<forall>ti \<in> set (tries (code_item v)). 0 < insn_count ti \<and>
       insn_start (insns (code_item v)) (unat (start_addr ti)) \<and>
       unat (start_addr ti) + unat (insn_count ti) \<le> insns_size v) \<and>
    (\<exists>n data ls. DecodeUnsignedLeb128 (handler_data (code_item v)) = Some (n, data) \<and>
       handler_lists (unat n) data = Some ls \<and>
       (\<forall>hs \<in> set ls. \<forall>h \<in> set hs. unat (snd h) < insns_size v \<and>
          insn_start (insns (code_item v)) (unat (snd h))))"
  using VerifyStatic_tries [OF assms] .

theorem verify_static_tries_witness:
  "\<exists>n data ls. DecodeUnsignedLeb128 [1, 0, 1] = Some (n, data) \<and> handler_lists (unat n) data = Some ls \<and>
     (\<forall>hs \<in> set ls. \<forall>h \<in> set hs. unat (snd h) < 2 \<and> insn_start [0x0012, 0xff28] (unat (snd h)))"
proof -
  obtain v' where "VerifyStatic (example_verifier [0x0012, 0xff28]) = Some (True, v')"
    using example_verified by blast
  from verify_static_tries [OF this] show ?thesis
    by (simp add: insns_size_def example_verifier_def numeral_2_eq_2)
qed

text \<open>
  C4: A rejection is always recorded: when \<open>VerifyStatic\<close> answers false, a hard failure or an
  experimental failure is pending, as the caller \<open>VerifyMethod\<close> checks with a fatal assertion.
\<close>
theorem verify_static_reports:
  assumes "VerifyStatic v = Some (False, v')" "insns_size v \<le> 2 ^ 32"
  shows "have_pending_hard_failure v' \<or> have_pending_experimental_failure v'"
  using VerifyStatic_reports [OF assms] .

theorem verify_static_reports_witness:
  "\<exists>v'. VerifyStatic ((example_verifier [0x0028])\<lparr>code_item := (code_item (example_verifier [0x0028]))\<lparr>tries := []\<rparr>\<rparr>)
     = Some (False, v') \<and> (have_pending_hard_failure v' \<or> have_pending_experimental_failure v')"
proof -
  obtain v' where v': "VerifyStatic ((example_verifier [0x0028])\<lparr>code_item := (code_item (example_verifier [0x0028]))\<lparr>tries := []\<rparr>\<rparr>)
     = Some (False, v')"
    using example_rejected by blast
  from verify_static_reports [OF this] v' show ?thesis
    by (auto simp: insns_size_def example_verifier_def)
qed

lemma GetBranchOffset_decodable:
  assumes "Fetch16 code (unat off) 0 = Some w" "unat off + format_size (FormatOf (Opcode w)) \<le> length code"
  shows "\<exists>b. GetBranchOffset code off = Some b"
proof -
  let ?op = "Opcode w"
  have "unat off + 1 < length code" if "?op = GOTO_16 \<or> ?op \<in> if_opcodes \<or> ?op \<in> ifz_opcodes"
  proof -
    have "FormatOf ?op = k20t \<or> FormatOf ?op = k22t \<or> FormatOf ?op = k21t"
      using that branch_formats [of ?op] by blast
    then show ?thesis using assms(2) by (auto simp: format_size_def less_eq_Format_def)
  qed
  moreover have "\<exists>d. Fetch32 code (unat off) 1 = Some d" if "?op = GOTO_32"
  proof -
    have "FormatOf ?op = k30t" using that branch_formats [of ?op] by blast
    then show ?thesis using assms(2) by (intro Fetch32_in) (auto simp: format_size_def less_eq_Format_def)
  qed
  ultimately show ?thesis
    using assms(1) unfolding GetBranchOffset_def Let_def
    by (cases "?op = GOTO_32") (auto simp: Fetch16_in)
qed

text \<open>
  C6: The branch decoder of the verifier agrees with \<open>Instruction::GetTargetOffset\<close>: it accepts
  exactly the branch instructions, and yields the same offset.
\<close>
theorem branch_offset_agrees:
  assumes "Fetch16 code (unat off) 0 = Some w" "unat off + format_size (FormatOf (Opcode w)) \<le> length code"
  shows "\<exists>b. GetBranchOffset code off = Some b \<and> (b = None \<longleftrightarrow> \<not> IsBranch (Opcode w)) \<and>
    (\<forall>d c s. b = Some (d, c, s) \<longrightarrow> GetTargetOffset code (unat off) = Some d)"
proof -
  obtain b where b: "GetBranchOffset code off = Some b"
    using GetBranchOffset_decodable [OF assms] by blast
  have "\<not> IsBranch (Opcode w)" if "b = None"
    using GetBranchOffset_is_branch [OF _ assms(1)] b that by simp
  moreover have "IsBranch (Opcode w)" if "b = Some (d, c, s)" for d c s
    using b that assms(1) format_targets [of "Opcode w"] branch_formats [of "Opcode w"]
    by (auto simp: GetBranchOffset_def Let_def bind_Some_iff split: if_splits)
  ultimately show ?thesis
    using b GetBranchOffset_target by (cases b) auto
qed

theorem branch_offset_agrees_witness:
  "\<exists>b. GetBranchOffset [0xff28] 0 = Some b \<and> (b = None \<longleftrightarrow> \<not> IsBranch GOTO) \<and>
    (\<forall>d c s. b = Some (d, c, s) \<longrightarrow> GetTargetOffset [0xff28] 0 = Some d)"
  using branch_offset_agrees [of "[0xff28]" 0 "0xff28"]
  by (simp add: Fetch16_def array_get_def Opcode_def example_rows format_size_def less_eq_Format_def)
end
