(* ===== verification/Shadow_Frame.thy ===== *)
theory Shadow_Frame
  imports ART_Prelude
begin

text \<open>
  The interpreter's frames (\<open>ShadowFrame\<close>, \<open>runtime/stack.h\<close>): one array of 32-bit slots whose
  first half holds the raw virtual registers and whose second half holds a copy of every register
  that contains a reference.  Reading and writing the three kinds of registers (32-bit values,
  64-bit values in a pair, references) share one contract, the locale \<open>register_kind\<close>.
\<close>

section \<open>Frames\<close>

record ShadowFrame =
  dex_pc_ptr :: "nat option"
  monitors :: "uint32 list option"
  number_of_vregs :: uint32
  frame_dex_pc :: uint32
  vregs :: "uint32 list"

definition kMovingCollector :: bool where "kMovingCollector = True"

definition HasReferenceArray :: "ShadowFrame \<Rightarrow> bool" where "HasReferenceArray f = True"

definition NumberOfVRegs :: "ShadowFrame \<Rightarrow> nat" where
  "NumberOfVRegs f = unat (number_of_vregs f)"

text \<open>A new frame: the constructor clears both halves of the array.\<close>

definition CreateShadowFrameImpl :: "uint32 \<Rightarrow> uint32 \<Rightarrow> ShadowFrame" where
  "CreateShadowFrameImpl num_vregs dex_pc =
     \<lparr>dex_pc_ptr = None, monitors = None, number_of_vregs = num_vregs, frame_dex_pc = dex_pc,
      vregs = replicate (2 * unat num_vregs) 0\<rparr>"

text \<open>\<open>dex_pc_ptr_\<close>, when it is set, is the index of an instruction in the code.\<close>

definition GetDexPC :: "ShadowFrame \<Rightarrow> uint32" where
  "GetDexPC f = (case dex_pc_ptr f of None \<Rightarrow> frame_dex_pc f | Some p \<Rightarrow> of_nat p)"

definition SetDexPC :: "uint32 \<Rightarrow> ShadowFrame \<Rightarrow> ShadowFrame" where
  "SetDexPC pc f = f\<lparr>frame_dex_pc := pc, dex_pc_ptr := None\<rparr>"

text \<open>\<open>References()[i]\<close> lies behind the raw registers.\<close>

definition References_get :: "ShadowFrame \<Rightarrow> nat \<Rightarrow> uint32 option" where
  "References_get f i = array_get (vregs f) (NumberOfVRegs f + i)"

definition References_set :: "ShadowFrame \<Rightarrow> nat \<Rightarrow> uint32 \<Rightarrow> ShadowFrame option" where
  "References_set f i v = do {
     xs \<leftarrow> array_set (vregs f) (NumberOfVRegs f + i) v;
     Some (f\<lparr>vregs := xs\<rparr>)
   }"

definition vregs_set :: "ShadowFrame \<Rightarrow> nat \<Rightarrow> uint32 \<Rightarrow> ShadowFrame option" where
  "vregs_set f i v = do { xs \<leftarrow> array_set (vregs f) i v; Some (f\<lparr>vregs := xs\<rparr>) }"

section \<open>Registers\<close>

text \<open>The checks \<open>DCHECK_LT(i, NumberOfVRegs())\<close> are part of the model: failing them is \<open>None\<close>.\<close>

definition GetVReg :: "ShadowFrame \<Rightarrow> nat \<Rightarrow> int32 option" where
  "GetVReg f i = (if i < NumberOfVRegs f then array_get (vregs f) i else None)"

text \<open>A \<open>float\<close> is the word with its bits, a \<open>double\<close> the 64-bit word with its bits.\<close>

definition GetVRegFloat :: "ShadowFrame \<Rightarrow> nat \<Rightarrow> uint32 option" where
  "GetVRegFloat f i = (if i < NumberOfVRegs f then array_get (vregs f) i else None)"

definition GetVRegLong :: "ShadowFrame \<Rightarrow> nat \<Rightarrow> int64 option" where
  "GetVRegLong f i =
     (if i < NumberOfVRegs f then do {
        lo \<leftarrow> array_get (vregs f) i;
        hi \<leftarrow> array_get (vregs f) (i + 1);
        Some (ucast lo OR push_bit 32 (ucast hi))
      } else None)"

definition GetVRegDouble :: "ShadowFrame \<Rightarrow> nat \<Rightarrow> uint64 option" where
  "GetVRegDouble f i =
     (if i < NumberOfVRegs f then do {
        lo \<leftarrow> array_get (vregs f) i;
        hi \<leftarrow> array_get (vregs f) (i + 1);
        Some (ucast lo OR push_bit 32 (ucast hi))
      } else None)"

definition GetVRegReference :: "ShadowFrame \<Rightarrow> nat \<Rightarrow> uint32 option" where
  "GetVRegReference f i =
     (if i < NumberOfVRegs f then
        if HasReferenceArray f then References_get f i else array_get (vregs f) i
      else None)"

definition SetVReg :: "ShadowFrame \<Rightarrow> nat \<Rightarrow> int32 \<Rightarrow> ShadowFrame option" where
  "SetVReg f i val =
     (if i < NumberOfVRegs f then do {
        f \<leftarrow> vregs_set f i val;
        if kMovingCollector \<and> HasReferenceArray f then References_set f i 0 else Some f
      } else None)"

definition SetVRegFloat :: "ShadowFrame \<Rightarrow> nat \<Rightarrow> uint32 \<Rightarrow> ShadowFrame option" where
  "SetVRegFloat f i val =
     (if i < NumberOfVRegs f then do {
        f \<leftarrow> vregs_set f i val;
        if kMovingCollector \<and> HasReferenceArray f then References_set f i 0 else Some f
      } else None)"

definition SetVRegLong :: "ShadowFrame \<Rightarrow> nat \<Rightarrow> int64 \<Rightarrow> ShadowFrame option" where
  "SetVRegLong f i val =
     (if i < NumberOfVRegs f then do {
        f \<leftarrow> vregs_set f i (ucast val);
        f \<leftarrow> vregs_set f (i + 1) (ucast (drop_bit 32 val));
        if kMovingCollector \<and> HasReferenceArray f then do {
          f \<leftarrow> References_set f i 0;
          References_set f (i + 1) 0
        } else Some f
      } else None)"

definition SetVRegDouble :: "ShadowFrame \<Rightarrow> nat \<Rightarrow> uint64 \<Rightarrow> ShadowFrame option" where
  "SetVRegDouble f i val =
     (if i < NumberOfVRegs f then do {
        f \<leftarrow> vregs_set f i (ucast val);
        f \<leftarrow> vregs_set f (i + 1) (ucast (drop_bit 32 val));
        if kMovingCollector \<and> HasReferenceArray f then do {
          f \<leftarrow> References_set f i 0;
          References_set f (i + 1) 0
        } else Some f
      } else None)"

definition SetVRegReference :: "ShadowFrame \<Rightarrow> nat \<Rightarrow> uint32 \<Rightarrow> ShadowFrame option" where
  "SetVRegReference f i val =
     (if i < NumberOfVRegs f then do {
        f \<leftarrow> vregs_set f i val;
        if HasReferenceArray f then References_set f i val else Some f
      } else None)"

lemmas frame_defs = kMovingCollector_def HasReferenceArray_def NumberOfVRegs_def References_get_def
  References_set_def vregs_set_def GetVReg_def GetVRegFloat_def GetVRegLong_def GetVRegDouble_def
  GetVRegReference_def SetVReg_def SetVRegFloat_def SetVRegLong_def SetVRegDouble_def
  SetVRegReference_def

section \<open>The frame invariant\<close>

text \<open>
  Both halves of the array are there, and a non-null entry of the reference half is a copy of its
  register: the collector may update both.
\<close>

definition frame_ok :: "ShadowFrame \<Rightarrow> bool" where
  "frame_ok f \<longleftrightarrow> length (vregs f) = 2 * NumberOfVRegs f \<and>
     (\<forall>i < NumberOfVRegs f. vregs f ! (NumberOfVRegs f + i) \<noteq> 0 \<longrightarrow>
        vregs f ! (NumberOfVRegs f + i) = vregs f ! i)"

text \<open>What a register write leaves alone.\<close>

definition same_frame :: "ShadowFrame \<Rightarrow> ShadowFrame \<Rightarrow> bool" where
  "same_frame f g \<longleftrightarrow> number_of_vregs g = number_of_vregs f \<and> frame_dex_pc g = frame_dex_pc f \<and>
     dex_pc_ptr g = dex_pc_ptr f \<and> monitors g = monitors f"

lemma same_frame_refl [simp]: "same_frame f f"
  by (simp add: same_frame_def)

lemma same_frame_trans: "same_frame f g \<Longrightarrow> same_frame g h \<Longrightarrow> same_frame f h"
  by (simp add: same_frame_def)

lemma same_frame_size: "same_frame f g \<Longrightarrow> NumberOfVRegs g = NumberOfVRegs f"
  by (simp add: same_frame_def NumberOfVRegs_def)

text \<open>
  The contract of one kind of registers: the registers that can be written are those that fit into
  the frame; they can also be read, a write keeps the invariant, is read back, and leaves every
  register outside the written ones alone.
\<close>

locale register_kind =
  fixes width :: nat
    and rd :: "ShadowFrame \<Rightarrow> nat \<Rightarrow> 'v option"
    and wr :: "ShadowFrame \<Rightarrow> nat \<Rightarrow> 'v \<Rightarrow> ShadowFrame option"
  assumes load: "frame_ok f \<Longrightarrow> i + width \<le> NumberOfVRegs f \<Longrightarrow> \<exists>v. rd f i = Some v"
    and store: "frame_ok f \<Longrightarrow> i + width \<le> NumberOfVRegs f \<Longrightarrow>
      \<exists>g. wr f i v = Some g \<and> frame_ok g \<and> same_frame f g \<and> rd g i = Some v \<and>
        (\<forall>j < NumberOfVRegs f. j < i \<or> i + width \<le> j \<longrightarrow>
           GetVReg g j = GetVReg f j \<and> GetVRegReference g j = GetVRegReference f j)"
    and store_in_range: "frame_ok f \<Longrightarrow> wr f i v = Some g \<Longrightarrow> i + width \<le> NumberOfVRegs f"
begin

lemma write_frame:
  assumes "frame_ok f" "wr f i v = Some g"
  shows "frame_ok g" "same_frame f g"
  using store [OF assms(1) store_in_range [OF assms], of v] assms(2) by auto

lemma read_write:
  assumes "frame_ok f" "wr f i v = Some g"
  shows "rd g i = Some v"
  using store [OF assms(1) store_in_range [OF assms], of v] assms(2) by auto

lemma write_other:
  assumes "frame_ok f" "wr f i v = Some g"
    and "j < NumberOfVRegs f" "j < i \<or> i + width \<le> j"
  shows "GetVReg g j = GetVReg f j" "GetVRegReference g j = GetVRegReference f j"
  using store [OF assms(1) store_in_range [OF assms(1,2)], of v] assms(2-4) by auto

lemma copy:
  assumes "frame_ok f" "i + width \<le> NumberOfVRegs f" "j + width \<le> NumberOfVRegs f"
  shows "\<exists>g. Option.bind (rd f i) (wr f j) = Some g \<and> frame_ok g \<and> same_frame f g \<and> rd g j = rd f i"
proof -
  obtain v where "rd f i = Some v" using load assms by blast
  then show ?thesis using store [OF assms(1,3), of v] by auto
qed

end

lemma long_parts: "ucast (ucast (x :: uint64) :: uint32) OR push_bit 32 (ucast (ucast (drop_bit 32 x) :: uint32)) = x"
  by (rule bit_word_eqI) (auto simp: bit_simps)

interpretation vreg: register_kind 1 GetVReg SetVReg
  by unfold_locales (auto simp: frame_defs frame_ok_def same_frame_def array_get_def array_set_def
      nth_list_update bind_Some_iff split: if_splits)

interpretation vreg_float: register_kind 1 GetVRegFloat SetVRegFloat
  by unfold_locales (auto simp: frame_defs frame_ok_def same_frame_def array_get_def array_set_def
      nth_list_update bind_Some_iff split: if_splits)

interpretation vreg_ref: register_kind 1 GetVRegReference SetVRegReference
  by unfold_locales (auto simp: frame_defs frame_ok_def same_frame_def array_get_def array_set_def
      nth_list_update bind_Some_iff split: if_splits)

interpretation vreg_long: register_kind 2 GetVRegLong SetVRegLong
  by unfold_locales (auto simp: frame_defs frame_ok_def same_frame_def array_get_def array_set_def
      nth_list_update long_parts bind_Some_iff split: if_splits)

interpretation vreg_double: register_kind 2 GetVRegDouble SetVRegDouble
  by unfold_locales (auto simp: frame_defs frame_ok_def same_frame_def array_get_def array_set_def
      nth_list_update long_parts bind_Some_iff split: if_splits)

lemma new_frame_ok: "frame_ok (CreateShadowFrameImpl n pc)"
  by (simp add: frame_ok_def CreateShadowFrameImpl_def NumberOfVRegs_def)

lemma SetDexPC_frame [simp]:
  "frame_ok (SetDexPC pc f) = frame_ok f" "NumberOfVRegs (SetDexPC pc f) = NumberOfVRegs f"
  "GetDexPC (SetDexPC pc f) = pc"
  by (simp_all add: frame_ok_def SetDexPC_def NumberOfVRegs_def GetDexPC_def)

end
