(* ===== verification/Primitive_Types.thy ===== *)
theory Primitive_Types
  imports ART_Prelude
begin

text \<open>
  The primitive types of Java (\<open>runtime/primitive.h\<close>): descriptor characters, component sizes and
  value ranges.  A fatal log entry is the value \<open>None\<close>.
\<close>

datatype PrimType =
  kPrimNot | kPrimBoolean | kPrimByte | kPrimChar | kPrimShort | kPrimInt | kPrimLong | kPrimFloat
  | kPrimDouble | kPrimVoid

definition kObjectReferenceSize :: nat where "kObjectReferenceSize = 4"

definition ComponentSizeShiftWidth :: "nat \<Rightarrow> nat" where
  "ComponentSizeShiftWidth component_size =
     (if component_size = 1 then 0 else if component_size = 2 then 1
      else if component_size = 4 then 2 else if component_size = 8 then 3 else 0)"

definition GetType :: "char \<Rightarrow> PrimType" where
  "GetType c =
     (if c = CHR ''B'' then kPrimByte else if c = CHR ''C'' then kPrimChar
      else if c = CHR ''D'' then kPrimDouble else if c = CHR ''F'' then kPrimFloat
      else if c = CHR ''I'' then kPrimInt else if c = CHR ''J'' then kPrimLong
      else if c = CHR ''S'' then kPrimShort else if c = CHR ''Z'' then kPrimBoolean
      else if c = CHR ''V'' then kPrimVoid else kPrimNot)"

fun ComponentSizeShift :: "PrimType \<Rightarrow> nat" where
  "ComponentSizeShift kPrimVoid = 0"
| "ComponentSizeShift kPrimBoolean = 0"
| "ComponentSizeShift kPrimByte = 0"
| "ComponentSizeShift kPrimChar = 1"
| "ComponentSizeShift kPrimShort = 1"
| "ComponentSizeShift kPrimInt = 2"
| "ComponentSizeShift kPrimFloat = 2"
| "ComponentSizeShift kPrimLong = 3"
| "ComponentSizeShift kPrimDouble = 3"
| "ComponentSizeShift kPrimNot = ComponentSizeShiftWidth kObjectReferenceSize"

fun ComponentSize :: "PrimType \<Rightarrow> nat" where
  "ComponentSize kPrimVoid = 0"
| "ComponentSize kPrimBoolean = 1"
| "ComponentSize kPrimByte = 1"
| "ComponentSize kPrimChar = 2"
| "ComponentSize kPrimShort = 2"
| "ComponentSize kPrimInt = 4"
| "ComponentSize kPrimFloat = 4"
| "ComponentSize kPrimLong = 8"
| "ComponentSize kPrimDouble = 8"
| "ComponentSize kPrimNot = kObjectReferenceSize"

fun Descriptor :: "PrimType \<Rightarrow> string option" where
  "Descriptor kPrimBoolean = Some ''Z''"
| "Descriptor kPrimByte = Some ''B''"
| "Descriptor kPrimChar = Some ''C''"
| "Descriptor kPrimShort = Some ''S''"
| "Descriptor kPrimInt = Some ''I''"
| "Descriptor kPrimFloat = Some ''F''"
| "Descriptor kPrimLong = Some ''J''"
| "Descriptor kPrimDouble = Some ''D''"
| "Descriptor kPrimVoid = Some ''V''"
| "Descriptor kPrimNot = None"

definition IsFloatingPointType :: "PrimType \<Rightarrow> bool" where
  "IsFloatingPointType type = (type = kPrimFloat \<or> type = kPrimDouble)"

definition IsIntegralType :: "PrimType \<Rightarrow> bool" where
  "IsIntegralType type =
     (type = kPrimBoolean \<or> type = kPrimByte \<or> type = kPrimChar \<or> type = kPrimShort \<or>
      type = kPrimInt \<or> type = kPrimLong)"

definition IsIntOrLongType :: "PrimType \<Rightarrow> bool" where
  "IsIntOrLongType type = (type = kPrimInt \<or> type = kPrimLong)"

definition Is64BitType :: "PrimType \<Rightarrow> bool" where
  "Is64BitType type = (type = kPrimLong \<or> type = kPrimDouble)"

definition PrimitiveKind :: "PrimType \<Rightarrow> PrimType" where
  "PrimitiveKind type =
     (if type = kPrimBoolean \<or> type = kPrimByte \<or> type = kPrimShort \<or> type = kPrimChar \<or>
         type = kPrimInt
      then kPrimInt else type)"

fun MinValueOfIntegralType :: "PrimType \<Rightarrow> int option" where
  "MinValueOfIntegralType kPrimBoolean = Some 0"
| "MinValueOfIntegralType kPrimByte = Some (- 128)"
| "MinValueOfIntegralType kPrimChar = Some 0"
| "MinValueOfIntegralType kPrimShort = Some (- 32768)"
| "MinValueOfIntegralType kPrimInt = Some (- (2 ^ 31))"
| "MinValueOfIntegralType kPrimLong = Some (- (2 ^ 63))"
| "MinValueOfIntegralType _ = None"

fun MaxValueOfIntegralType :: "PrimType \<Rightarrow> int option" where
  "MaxValueOfIntegralType kPrimBoolean = Some 1"
| "MaxValueOfIntegralType kPrimByte = Some 127"
| "MaxValueOfIntegralType kPrimChar = Some 65535"
| "MaxValueOfIntegralType kPrimShort = Some 32767"
| "MaxValueOfIntegralType kPrimInt = Some (2 ^ 31 - 1)"
| "MaxValueOfIntegralType kPrimLong = Some (2 ^ 63 - 1)"
| "MaxValueOfIntegralType _ = None"

definition kTypeNames :: "string list" where
  "kTypeNames = [''PrimNot'', ''PrimBoolean'', ''PrimByte'', ''PrimChar'', ''PrimShort'', ''PrimInt'',
     ''PrimLong'', ''PrimFloat'', ''PrimDouble'', ''PrimVoid'']"


end
