(* ===== verification/Interpreter_Common.thy ===== *)
theory Interpreter_Common
  imports Shadow_Frame Dex_Code_Item Primitive_Types
begin

text \<open>
  What the interpreters share (\<open>runtime/interpreter/interpreter_common.h\<close> and \<open>.cc\<close>,
  \<open>safe_math.h\<close>, \<open>art_float_to_integral\<close> and \<open>FillArrayData\<close> of \<open>runtime/entrypoints\<close>, the lock
  counting of \<open>runtime/stack.cc\<close>): wrapping arithmetic, division, switches, array and field access,
  exception dispatch.

  The object model behind them (allocation, class and string resolution, fields, monitors, calls),
  the floating point unit and on-stack replacement are parameters, the fields of \<open>Env\<close>.  A
  reference is the 32-bit value the heap stores; moving collections, instrumentation and the
  profiling counters do not show in the model.  Debug checks on the signature of a payload, compiled
  out of a release build, are left out; an access outside of the code, a frame or an array is \<open>None\<close>.
\<close>

section \<open>The thread and the arrays it can reach\<close>

text \<open>
  \<open>AGET\<close> and \<open>APUT\<close> treat \<open>float\<close> arrays as \<open>int\<close> arrays and \<open>double\<close> arrays as \<open>long\<close> arrays; a
  component is the word with its bits.
\<close>

datatype ArrayObject =
  BooleanArray "uint8 list" | ByteArray "uint8 list" | CharArray "uint16 list"
  | ShortArray "uint16 list" | IntArray "uint32 list" | LongArray "uint64 list"
  | ObjectArray "uint32 list"

record 'w Thread =
  heap :: "uint32 \<Rightarrow> ArrayObject option"
  exception :: uint32
  world :: 'w

definition IsExceptionPending :: "'w Thread \<Rightarrow> bool" where
  "IsExceptionPending self = (exception self \<noteq> 0)"

definition ClearException :: "'w Thread \<Rightarrow> 'w Thread" where
  "ClearException self = self\<lparr>exception := 0\<rparr>"

definition SetException :: "uint32 \<Rightarrow> 'w Thread \<Rightarrow> 'w Thread" where
  "SetException e self = self\<lparr>exception := e\<rparr>"

text \<open>The exceptions the interpreter raises itself.\<close>

datatype ExceptionKind =
  NullPointer | NullPointerForFieldAccess uint64 bool | ArithmeticDivideByZero
  | ArrayIndexOutOfBounds int32 | FillArrayDataOutOfBounds int32 uint32 | ClassCast uint32 uint32
  | NegativeArraySize int32 | DidNotLock uint32 | DidNotUnlock uint32 | ThrowingNonThrowable uint32
  | ReturningWrongType uint32 uint32 | PuttingWrongType uint32 uint32
  | BadFilledArrayRequest uint32 | FilledArrayNotInt uint32

section \<open>The parameters of the model\<close>

datatype FloatOp = FAdd | FSub | FMul | FDiv | FMod

record FloatUnit =
  lt_float :: "uint32 \<Rightarrow> uint32 \<Rightarrow> bool"
  eq_float :: "uint32 \<Rightarrow> uint32 \<Rightarrow> bool"
  lt_double :: "uint64 \<Rightarrow> uint64 \<Rightarrow> bool"
  eq_double :: "uint64 \<Rightarrow> uint64 \<Rightarrow> bool"
  op_float :: "FloatOp \<Rightarrow> uint32 \<Rightarrow> uint32 \<Rightarrow> uint32"
  op_double :: "FloatOp \<Rightarrow> uint64 \<Rightarrow> uint64 \<Rightarrow> uint64"
  neg_float :: "uint32 \<Rightarrow> uint32"
  neg_double :: "uint64 \<Rightarrow> uint64"
  int_to_float :: "int32 \<Rightarrow> uint32"
  int_to_double :: "int32 \<Rightarrow> uint64"
  long_to_float :: "int64 \<Rightarrow> uint32"
  long_to_double :: "int64 \<Rightarrow> uint64"
  float_to_double :: "uint32 \<Rightarrow> uint64"
  double_to_float :: "uint64 \<Rightarrow> uint32"
  cast_float_int :: "uint32 \<Rightarrow> int32"
  cast_float_long :: "uint32 \<Rightarrow> int64"
  cast_double_int :: "uint64 \<Rightarrow> int32"
  cast_double_long :: "uint64 \<Rightarrow> int64"
  cast_float_ulong :: "uint32 \<Rightarrow> uint64"
  cast_double_ulong :: "uint64 \<Rightarrow> uint64"

record 'w ObjectModel =
  ThrowNewException :: "ExceptionKind \<Rightarrow> 'w Thread \<Rightarrow> 'w Thread"
  GetClass :: "'w Thread \<Rightarrow> uint32 \<Rightarrow> uint32"
  GetClassFromTypeIndex :: "'w Thread \<Rightarrow> uint16 \<Rightarrow> uint32 option"
  IsAssignableFrom :: "'w Thread \<Rightarrow> uint32 \<Rightarrow> uint32 \<Rightarrow> bool"
  InstanceOf :: "'w Thread \<Rightarrow> uint32 \<Rightarrow> uint32 \<Rightarrow> bool"
  VerifierInstanceOf :: "'w Thread \<Rightarrow> uint32 \<Rightarrow> uint32 \<Rightarrow> bool"
  IsThrowableClass :: "'w Thread \<Rightarrow> uint32 \<Rightarrow> bool"
  IsStringClass :: "'w Thread \<Rightarrow> uint32 \<Rightarrow> bool"
  IsFinalizable :: "'w Thread \<Rightarrow> uint32 \<Rightarrow> bool"
  ComponentPrimitiveType :: "'w Thread \<Rightarrow> uint32 \<Rightarrow> PrimType option"
  CheckAssignable :: "uint32 \<Rightarrow> uint32 \<Rightarrow> 'w Thread \<Rightarrow> bool \<times> 'w Thread"
  ResolveString :: "uint32 \<Rightarrow> 'w Thread \<Rightarrow> uint32 \<times> 'w Thread"
  ResolveVerifyAndClinit :: "uint32 \<Rightarrow> 'w Thread \<Rightarrow> uint32 \<times> 'w Thread"
  GetReturnType :: "'w Thread \<Rightarrow> uint32 \<times> 'w Thread"
  MonitorEnter :: "uint32 \<Rightarrow> 'w Thread \<Rightarrow> 'w Thread"
  MonitorExit :: "uint32 \<Rightarrow> 'w Thread \<Rightarrow> 'w Thread"

record 'w Allocator =
  AllocString :: "'w Thread \<Rightarrow> uint32 \<times> 'w Thread"
  AllocObjectFromCode :: "uint32 \<Rightarrow> 'w Thread \<Rightarrow> uint32 \<times> 'w Thread"
  AllocArrayFromCode :: "uint32 \<Rightarrow> int32 \<Rightarrow> 'w Thread \<Rightarrow> uint32 \<times> 'w Thread"
  AllocArray :: "uint32 \<Rightarrow> int32 \<Rightarrow> 'w Thread \<Rightarrow> uint32 \<times> 'w Thread"
  AbortFinalizable :: "uint32 \<Rightarrow> 'w Thread \<Rightarrow> 'w Thread"

datatype FindFieldType =
  InstanceObjectRead | InstanceObjectWrite | InstancePrimitiveRead | InstancePrimitiveWrite
  | StaticObjectRead | StaticObjectWrite | StaticPrimitiveRead | StaticPrimitiveWrite

text \<open>A field is the address of its \<open>ArtField\<close>; its value is a 64-bit word with the bits in front.\<close>

record 'w FieldModel =
  FindFieldFromCode :: "FindFieldType \<Rightarrow> uint32 \<Rightarrow> nat \<Rightarrow> 'w Thread \<Rightarrow> uint64 \<times> 'w Thread"
  GetDeclaringClass :: "'w Thread \<Rightarrow> uint64 \<Rightarrow> uint32"
  GetFieldType :: "uint64 \<Rightarrow> 'w Thread \<Rightarrow> uint32 \<times> 'w Thread"
  ArtField_Get :: "PrimType \<Rightarrow> 'w Thread \<Rightarrow> uint64 \<Rightarrow> uint32 \<Rightarrow> uint64"
  ArtField_Set :: "PrimType \<Rightarrow> uint64 \<Rightarrow> uint32 \<Rightarrow> uint64 \<Rightarrow> 'w Thread \<Rightarrow> 'w Thread"
  Object_GetField :: "PrimType \<Rightarrow> 'w Thread \<Rightarrow> uint32 \<Rightarrow> uint32 \<Rightarrow> uint64"
  Object_SetField :: "PrimType \<Rightarrow> uint32 \<Rightarrow> uint32 \<Rightarrow> uint64 \<Rightarrow> 'w Thread \<Rightarrow> 'w Thread"

datatype InvokeType = kStatic | kDirect | kVirtual | kSuper | kInterface

text \<open>
  A call gets the address of its instruction, the frame, the result register and the thread; it
  tells whether it succeeded.  On-stack replacement returns a value if compiled code has finished
  the method.
\<close>

type_synonym 'w call = "nat \<Rightarrow> ShadowFrame \<Rightarrow> uint64 \<Rightarrow> 'w Thread \<Rightarrow> bool \<times> uint64 \<times> ShadowFrame \<times> 'w Thread"

text \<open>
  \<open>Runtime::RecordWriteArray\<close> and \<open>Runtime::RecordWriteFieldReference\<close>, which log the value that a
  transactional write is about to replace.
\<close>

record 'w TransactionLog =
  log_write_array :: "uint32 \<Rightarrow> nat \<Rightarrow> uint64 \<Rightarrow> 'w \<Rightarrow> 'w"
  log_write_reference :: "uint32 \<Rightarrow> uint32 \<Rightarrow> uint32 \<Rightarrow> bool \<Rightarrow> 'w \<Rightarrow> 'w"

record 'w Env =
  do_access_check :: bool
  transaction_active :: bool
  interpret_one_instruction :: bool
  MustCountLocks :: bool
  ExperimentalLambdas :: bool
  fpu :: FloatUnit
  objects :: "'w ObjectModel"
  allocator :: "'w Allocator"
  field_model :: "'w FieldModel"
  transaction_log :: "'w TransactionLog"
  DoInvoke :: "InvokeType \<Rightarrow> bool \<Rightarrow> 'w call"
  DoInvokeVirtualQuick :: "bool \<Rightarrow> 'w call"
  DoLambda :: "Code \<Rightarrow> nat \<Rightarrow> 'w call"
  MaybeDoOnStackReplacement :: "uint32 \<Rightarrow> int32 \<Rightarrow> ShadowFrame \<Rightarrow> 'w Thread \<Rightarrow> (uint64 \<times> 'w Thread) option"

abbreviation throw :: "'w Env \<Rightarrow> ExceptionKind \<Rightarrow> 'w Thread \<Rightarrow> 'w Thread" where
  "throw env k self \<equiv> ThrowNewException (objects env) k self"

section \<open>Arithmetic\<close>

text \<open>\<open>SafeMath\<close>: both operands are sign-extended to the larger type, which wraps around.\<close>

definition SafeMath :: "('c::len word \<Rightarrow> 'c word \<Rightarrow> 'c word) \<Rightarrow> 'a::len word \<Rightarrow> 'b::len word \<Rightarrow> 'c word" where
  "SafeMath op a b = op (scast a) (scast b)"

definition SafeAdd :: "'a::len word \<Rightarrow> 'b::len word \<Rightarrow> 'c::len word" where
  "SafeAdd a b = SafeMath (+) a b"

definition SafeSub :: "'a::len word \<Rightarrow> 'b::len word \<Rightarrow> 'c::len word" where
  "SafeSub a b = SafeMath (-) a b"

definition SafeMul :: "'a::len word \<Rightarrow> 'b::len word \<Rightarrow> 'c::len word" where
  "SafeMul a b = SafeMath (*) a b"

definition kMinInt :: int32 where "kMinInt = 0x80000000"
definition kMinLong :: int64 where "kMinLong = 0x8000000000000000"
definition kMaxInt :: int32 where "kMaxInt = 0x7FFFFFFF"
definition kMaxLong :: int64 where "kMaxLong = 0x7FFFFFFFFFFFFFFF"

definition DoIntDivide ::
    "'w Env \<Rightarrow> ShadowFrame \<Rightarrow> 'w Thread \<Rightarrow> nat \<Rightarrow> int32 \<Rightarrow> int32 \<Rightarrow> (bool \<times> ShadowFrame \<times> 'w Thread) option" where
  "DoIntDivide env frame self result_reg dividend divisor =
     (if divisor = 0 then Some (False, frame, throw env ArithmeticDivideByZero self)
      else do {
        frame \<leftarrow> (if dividend = kMinInt \<and> divisor = -1 then SetVReg frame result_reg kMinInt
                  else SetVReg frame result_reg (c_div dividend divisor));
        Some (True, frame, self)
      })"

definition DoIntRemainder ::
    "'w Env \<Rightarrow> ShadowFrame \<Rightarrow> 'w Thread \<Rightarrow> nat \<Rightarrow> int32 \<Rightarrow> int32 \<Rightarrow> (bool \<times> ShadowFrame \<times> 'w Thread) option" where
  "DoIntRemainder env frame self result_reg dividend divisor =
     (if divisor = 0 then Some (False, frame, throw env ArithmeticDivideByZero self)
      else do {
        frame \<leftarrow> (if dividend = kMinInt \<and> divisor = -1 then SetVReg frame result_reg 0
                  else SetVReg frame result_reg (c_rem dividend divisor));
        Some (True, frame, self)
      })"

definition DoLongDivide ::
    "'w Env \<Rightarrow> ShadowFrame \<Rightarrow> 'w Thread \<Rightarrow> nat \<Rightarrow> int64 \<Rightarrow> int64 \<Rightarrow> (bool \<times> ShadowFrame \<times> 'w Thread) option" where
  "DoLongDivide env frame self result_reg dividend divisor =
     (if divisor = 0 then Some (False, frame, throw env ArithmeticDivideByZero self)
      else do {
        frame \<leftarrow> (if dividend = kMinLong \<and> divisor = -1 then SetVRegLong frame result_reg kMinLong
                  else SetVRegLong frame result_reg (c_div dividend divisor));
        Some (True, frame, self)
      })"

definition DoLongRemainder ::
    "'w Env \<Rightarrow> ShadowFrame \<Rightarrow> 'w Thread \<Rightarrow> nat \<Rightarrow> int64 \<Rightarrow> int64 \<Rightarrow> (bool \<times> ShadowFrame \<times> 'w Thread) option" where
  "DoLongRemainder env frame self result_reg dividend divisor =
     (if divisor = 0 then Some (False, frame, throw env ArithmeticDivideByZero self)
      else do {
        frame \<leftarrow> (if dividend = kMinLong \<and> divisor = -1 then SetVRegLong frame result_reg 0
                  else SetVRegLong frame result_reg (c_rem dividend divisor));
        Some (True, frame, self)
      })"

text \<open>
  \<open>art_float_to_integral\<close>, with the comparison and the conversions of its two types as arguments;
  \<open>f != f\<close> is the failure of equality.
\<close>

definition art_float_to_integral ::
    "('f \<Rightarrow> 'f \<Rightarrow> bool) \<Rightarrow> ('f \<Rightarrow> 'f \<Rightarrow> bool) \<Rightarrow> ('i::len word \<Rightarrow> 'f) \<Rightarrow> ('f \<Rightarrow> 'i word)
      \<Rightarrow> 'i word \<Rightarrow> 'i word \<Rightarrow> 'f \<Rightarrow> 'i word" where
  "art_float_to_integral lt eq to_float cast mx mn f =
     (if lt (to_float mn) f then
        if lt f (to_float mx) then cast f else mx
      else if \<not> eq f f then 0 else mn)"

section \<open>Switches\<close>

text \<open>Pointer arithmetic on the code: a pointer before its start is \<open>None\<close>.\<close>

definition RelativeAt :: "nat \<Rightarrow> int32 \<Rightarrow> nat option" where
  "RelativeAt pc offset = (if 0 \<le> int pc + sint offset then Some (nat (int pc + sint offset)) else None)"

definition DoPackedSwitch :: "insns \<Rightarrow> nat \<Rightarrow> ShadowFrame \<Rightarrow> uint16 \<Rightarrow> int32 option" where
  "DoPackedSwitch code pc frame inst_data = do {
     d \<leftarrow> VRegB_31t code pc;
     switch_data \<leftarrow> RelativeAt pc d;
     test_val \<leftarrow> GetVReg frame (unat (VRegA_31t inst_data));
     sz \<leftarrow> Fetch16 code switch_data 1;
     if sz = 0 then Some 3
     else do {
       first_key \<leftarrow> Fetch32 code switch_data 2;
       let index = test_val - first_key;
       if 0 \<le> sint index \<and> sint index < int (unat sz)
       then Fetch32 code switch_data (4 + unat index * 2)
       else Some 3
     }
   }"

function sparse_switch_loop :: "insns \<Rightarrow> nat \<Rightarrow> nat \<Rightarrow> int32 \<Rightarrow> int \<Rightarrow> int \<Rightarrow> int32 option" where
  "sparse_switch_loop code switch_data sz test_val lo hi =
     (if lo \<le> hi then do {
        let mid = (lo + hi) div 2;
        foundVal \<leftarrow> Fetch32 code switch_data (2 + nat mid * 2);
        if sint test_val < sint foundVal then
          sparse_switch_loop code switch_data sz test_val lo (mid - 1)
        else if sint test_val > sint foundVal then
          sparse_switch_loop code switch_data sz test_val (mid + 1) hi
        else Fetch32 code switch_data (2 + sz * 2 + nat mid * 2)
      } else Some 3)"
  by pat_completeness auto
termination
  by (relation "measure (\<lambda>(c, s, n, t, lo, hi). nat (hi - lo + 1))") auto

declare sparse_switch_loop.simps [simp del]

definition DoSparseSwitch :: "insns \<Rightarrow> nat \<Rightarrow> ShadowFrame \<Rightarrow> uint16 \<Rightarrow> int32 option" where
  "DoSparseSwitch code pc frame inst_data = do {
     d \<leftarrow> VRegB_31t code pc;
     switch_data \<leftarrow> RelativeAt pc d;
     test_val \<leftarrow> GetVReg frame (unat (VRegA_31t inst_data));
     sz \<leftarrow> Fetch16 code switch_data 1;
     if sz = 0 then Some 3
     else sparse_switch_loop code switch_data (unat sz) test_val 0 (int (unat sz) - 1)
   }"

section \<open>Arrays\<close>

fun GetLength :: "ArrayObject \<Rightarrow> nat" where
  "GetLength (BooleanArray xs) = length xs"
| "GetLength (ByteArray xs) = length xs"
| "GetLength (CharArray xs) = length xs"
| "GetLength (ShortArray xs) = length xs"
| "GetLength (IntArray xs) = length xs"
| "GetLength (LongArray xs) = length xs"
| "GetLength (ObjectArray xs) = length xs"

definition CheckIsValidIndex :: "'w Env \<Rightarrow> nat \<Rightarrow> int32 \<Rightarrow> 'w Thread \<Rightarrow> bool \<times> 'w Thread" where
  "CheckIsValidIndex env len index self =
     (if index \<ge> of_nat len then (False, throw env (ArrayIndexOutOfBounds index) self)
      else (True, self))"

text \<open>
  \<open>FillArrayData\<close> copies the bytes of a payload, little endian, over the first components.  Copying
  components of a width other than the array's is not modelled (\<open>None\<close>).
\<close>

definition payload_byte :: "insns \<Rightarrow> nat \<Rightarrow> nat \<Rightarrow> uint8 option" where
  "payload_byte code payload k = do {
     w \<leftarrow> Fetch16 code payload (4 + k div 2);
     Some (if even k then ucast w else ucast (drop_bit 8 w))
   }"

definition le_value :: "uint8 list \<Rightarrow> 'a::len word" where
  "le_value bytes = foldr (\<lambda>b v. ucast b OR push_bit 8 v) bytes 0"

primrec copy_payload :: "insns \<Rightarrow> nat \<Rightarrow> nat \<Rightarrow> nat \<Rightarrow> 'a::len word list \<Rightarrow> 'a word list option" where
  "copy_payload code payload width 0 xs = Some xs"
| "copy_payload code payload width (Suc n) xs = do {
     xs \<leftarrow> copy_payload code payload width n xs;
     bytes \<leftarrow> those (map (payload_byte code payload) [n * width ..< Suc n * width]);
     array_set xs n (le_value bytes)
   }"

definition memcpy_payload :: "insns \<Rightarrow> nat \<Rightarrow> nat \<Rightarrow> nat \<Rightarrow> ArrayObject \<Rightarrow> ArrayObject option" where
  "memcpy_payload code payload width size_in_bytes array =
     (case array of
        BooleanArray xs \<Rightarrow> if width = 1 then map_option BooleanArray (copy_payload code payload 1 size_in_bytes xs) else None
      | ByteArray xs \<Rightarrow> if width = 1 then map_option ByteArray (copy_payload code payload 1 size_in_bytes xs) else None
      | CharArray xs \<Rightarrow> if width = 2 then map_option CharArray (copy_payload code payload 2 (size_in_bytes div 2) xs) else None
      | ShortArray xs \<Rightarrow> if width = 2 then map_option ShortArray (copy_payload code payload 2 (size_in_bytes div 2) xs) else None
      | IntArray xs \<Rightarrow> if width = 4 then map_option IntArray (copy_payload code payload 4 (size_in_bytes div 4) xs) else None
      | LongArray xs \<Rightarrow> if width = 8 then map_option LongArray (copy_payload code payload 8 (size_in_bytes div 8) xs) else None
      | ObjectArray xs \<Rightarrow> None)"

definition FillArrayData :: "'w Env \<Rightarrow> insns \<Rightarrow> uint32 \<Rightarrow> nat \<Rightarrow> 'w Thread \<Rightarrow> (bool \<times> 'w Thread) option" where
  "FillArrayData env code obj payload self =
     (if obj = 0 then Some (False, throw env NullPointer self)
      else do {
        array \<leftarrow> heap self obj;
        element_count \<leftarrow> Fetch32 code payload 2;
        if sint element_count > int (GetLength array) then
          Some (False, throw env (FillArrayDataOutOfBounds (of_nat (GetLength array)) element_count) self)
        else do {
          element_width \<leftarrow> Fetch16 code payload 1;
          let size_in_bytes = element_count * ucast element_width;
          array \<leftarrow> memcpy_payload code payload (unat element_width) (unat size_in_bytes) array;
          Some (True, self\<lparr>heap := (heap self)(obj \<mapsto> array)\<rparr>)
        }
      })"

text \<open>
  In a transaction \<open>SetWithoutChecks\<close> logs the old component of a primitive array under its index, and
  that of an object array under the offset of the component, behind the header and the length.
\<close>

definition record_component :: "'w Env \<Rightarrow> uint32 \<Rightarrow> nat \<Rightarrow> uint64 \<Rightarrow> 'w Thread \<Rightarrow> 'w Thread" where
  "record_component env array i old self =
     (if transaction_active env
      then self\<lparr>world := log_write_array (transaction_log env) array i old (world self)\<rparr> else self)"

definition OffsetOfElement :: "nat \<Rightarrow> uint32" where
  "OffsetOfElement i = 12 + of_nat i * 4"

definition record_reference :: "'w Env \<Rightarrow> uint32 \<Rightarrow> nat \<Rightarrow> uint32 \<Rightarrow> 'w Thread \<Rightarrow> 'w Thread" where
  "record_reference env array i old self =
     (if transaction_active env
      then self\<lparr>world := log_write_reference (transaction_log env) array (OffsetOfElement i) old True (world self)\<rparr>
      else self)"

primrec record_elements ::
    "'w Env \<Rightarrow> uint32 \<Rightarrow> ('e \<Rightarrow> uint64) \<Rightarrow> 'e list \<Rightarrow> nat \<Rightarrow> 'w Thread \<Rightarrow> 'w Thread option" where
  "record_elements env array widen xs 0 self = Some self"
| "record_elements env array widen xs (Suc n) self = do {
     self \<leftarrow> record_elements env array widen xs n self;
     v \<leftarrow> array_get xs n;
     Some (record_component env array n (widen v) self)
   }"

definition RecordArrayElementsInTransaction :: "'w Env \<Rightarrow> uint32 \<Rightarrow> int32 \<Rightarrow> 'w Thread \<Rightarrow> 'w Thread option" where
  "RecordArrayElementsInTransaction env array count self = do {
     obj \<leftarrow> heap self array;
     let n = nat (sint count);
     primitive_component_type \<leftarrow> ComponentPrimitiveType (objects env) self (GetClass (objects env) self array);
     (case (primitive_component_type, obj) of
        (kPrimBoolean, BooleanArray xs) \<Rightarrow> record_elements env array ucast xs n self
      | (kPrimByte, ByteArray xs) \<Rightarrow> record_elements env array scast xs n self
      | (kPrimChar, CharArray xs) \<Rightarrow> record_elements env array ucast xs n self
      | (kPrimShort, ShortArray xs) \<Rightarrow> record_elements env array scast xs n self
      | (kPrimInt, IntArray xs) \<Rightarrow> record_elements env array scast xs n self
      | (kPrimFloat, IntArray xs) \<Rightarrow> record_elements env array (cast_float_ulong (fpu env)) xs n self
      | (kPrimLong, LongArray xs) \<Rightarrow> record_elements env array id xs n self
      | (kPrimDouble, LongArray xs) \<Rightarrow> record_elements env array (cast_double_ulong (fpu env)) xs n self
      | _ \<Rightarrow> None)
   }"

primrec fill_new_array ::
    "'w Env \<Rightarrow> bool \<Rightarrow> ShadowFrame \<Rightarrow> uint32 \<Rightarrow> nat \<Rightarrow> nat list \<Rightarrow> 'w Thread \<Rightarrow> 'w Thread option" where
  "fill_new_array env is_primitive_int_component frame new_array i [] self = Some self"
| "fill_new_array env is_primitive_int_component frame new_array i (src_reg # regs) self = do {
     array \<leftarrow> heap self new_array;
     self \<leftarrow>
       (case array of
          IntArray xs \<Rightarrow>
            if is_primitive_int_component then do {
              v \<leftarrow> GetVReg frame src_reg;
              old \<leftarrow> array_get xs i;
              let self = record_component env new_array i (scast old) self;
              xs \<leftarrow> array_set xs i v;
              Some (self\<lparr>heap := (heap self)(new_array \<mapsto> IntArray xs)\<rparr>)
            } else None
        | ObjectArray xs \<Rightarrow>
            if \<not> is_primitive_int_component then do {
              v \<leftarrow> GetVRegReference frame src_reg;
              old \<leftarrow> array_get xs i;
              let self = record_reference env new_array i old self;
              xs \<leftarrow> array_set xs i v;
              Some (self\<lparr>heap := (heap self)(new_array \<mapsto> ObjectArray xs)\<rparr>)
            } else None
        | _ \<Rightarrow> None);
     fill_new_array env is_primitive_int_component frame new_array (i + 1) regs self
   }"

text \<open>A failed \<open>CHECK\<close> (more than five arguments, a class that is no array class) is \<open>None\<close>.\<close>

definition DoFilledNewArray ::
    "'w Env \<Rightarrow> bool \<Rightarrow> insns \<Rightarrow> nat \<Rightarrow> uint16 \<Rightarrow> ShadowFrame \<Rightarrow> uint64 \<Rightarrow> 'w Thread
      \<Rightarrow> (bool \<times> uint64 \<times> 'w Thread) option" where
  "DoFilledNewArray env is_range code pc inst_data frame result self = do {
     let len = (if is_range then ucast (VRegA_3rc inst_data) else ucast (VRegA_35c inst_data) :: int32);
     if \<not> is_range \<and> sint len > 5 then None
     else if sint len < 0 then Some (False, result, throw env (NegativeArraySize len) self)
     else do {
       type_idx \<leftarrow> (if is_range then VRegB_3rc code pc else VRegB_35c code pc);
       let (array_class, self) = ResolveVerifyAndClinit (objects env) (ucast type_idx) self;
       if array_class = 0 then Some (False, result, self)
       else do {
         component \<leftarrow> ComponentPrimitiveType (objects env) self array_class;
         let is_primitive_int_component = (component = kPrimInt);
         if component \<noteq> kPrimNot \<and> \<not> is_primitive_int_component then
           Some (False, result,
             (if component = kPrimLong \<or> component = kPrimDouble
              then throw env (BadFilledArrayRequest array_class) self
              else throw env (FilledArrayNotInt array_class) self))
         else do {
           let (new_array, self) = AllocArray (allocator env) array_class len self;
           if new_array = 0 then Some (False, result, self)
           else do {
             regs \<leftarrow>
               (if is_range then do {
                  vregC \<leftarrow> VRegC_3rc code pc;
                  Some (map (\<lambda>i. unat vregC + i) [0..<unat len])
                } else do {
                  arg \<leftarrow> GetVarArgs code pc (replicate 5 0) inst_data;
                  Some (map unat (take (unat len) arg))
                });
             self \<leftarrow> fill_new_array env is_primitive_int_component frame new_array 0 regs self;
             Some (True, ucast new_array, self)
           }
         }
       }
     }
   }"

section \<open>Fields\<close>

text \<open>The \<open>switch\<close> over the field type that \<open>DoFieldGet\<close> and \<open>DoIGetQuick\<close> share.\<close>

fun set_typed :: "ShadowFrame \<Rightarrow> nat \<Rightarrow> PrimType \<Rightarrow> uint64 \<Rightarrow> ShadowFrame option" where
  "set_typed frame vregA kPrimBoolean v = SetVReg frame vregA (ucast (ucast v :: uint8))"
| "set_typed frame vregA kPrimByte v = SetVReg frame vregA (scast (ucast v :: uint8))"
| "set_typed frame vregA kPrimChar v = SetVReg frame vregA (ucast (ucast v :: uint16))"
| "set_typed frame vregA kPrimShort v = SetVReg frame vregA (scast (ucast v :: uint16))"
| "set_typed frame vregA kPrimInt v = SetVReg frame vregA (ucast v)"
| "set_typed frame vregA kPrimLong v = SetVRegLong frame vregA v"
| "set_typed frame vregA kPrimNot v = SetVRegReference frame vregA (ucast v)"
| "set_typed frame vregA _ v = None"

text \<open>The value a store takes from the register, truncated to the type of the setter's argument.\<close>

fun get_typed :: "ShadowFrame \<Rightarrow> nat \<Rightarrow> PrimType \<Rightarrow> uint64 option" where
  "get_typed frame vregA kPrimBoolean = do { v \<leftarrow> GetVReg frame vregA; Some (ucast (ucast v :: uint8)) }"
| "get_typed frame vregA kPrimByte = do { v \<leftarrow> GetVReg frame vregA; Some (ucast (ucast v :: uint8)) }"
| "get_typed frame vregA kPrimChar = do { v \<leftarrow> GetVReg frame vregA; Some (ucast (ucast v :: uint16)) }"
| "get_typed frame vregA kPrimShort = do { v \<leftarrow> GetVReg frame vregA; Some (ucast (ucast v :: uint16)) }"
| "get_typed frame vregA kPrimInt = do { v \<leftarrow> GetVReg frame vregA; Some (ucast v) }"
| "get_typed frame vregA kPrimLong = GetVRegLong frame vregA"
| "get_typed frame vregA kPrimNot = do { v \<leftarrow> GetVRegReference frame vregA; Some (ucast v) }"
| "get_typed frame vregA _ = None"

definition DoFieldGet ::
    "'w Env \<Rightarrow> FindFieldType \<Rightarrow> PrimType \<Rightarrow> insns \<Rightarrow> nat \<Rightarrow> uint16 \<Rightarrow> ShadowFrame \<Rightarrow> 'w Thread
      \<Rightarrow> (bool \<times> ShadowFrame \<times> 'w Thread) option" where
  "DoFieldGet env find_type field_type code pc inst_data frame self = do {
     let is_static = (find_type = StaticObjectRead \<or> find_type = StaticPrimitiveRead);
     field_idx \<leftarrow> (if is_static then VRegB_21c code pc else VRegC_22c code pc);
     let (f, self) = FindFieldFromCode (field_model env) find_type (ucast field_idx) (ComponentSize field_type) self;
     if f = 0 then Some (False, frame, self)
     else do {
       obj \<leftarrow> (if is_static then Some (GetDeclaringClass (field_model env) self f)
               else GetVRegReference frame (unat (VRegB_22c inst_data)));
       if \<not> is_static \<and> obj = 0 then Some (False, frame, throw env (NullPointerForFieldAccess f True) self)
       else do {
         let vregA = (if is_static then unat (VRegA_21c inst_data) else unat (VRegA_22c inst_data));
         frame \<leftarrow> set_typed frame vregA field_type (ArtField_Get (field_model env) field_type self f obj);
         Some (True, frame, self)
       }
     }
   }"

definition DoIGetQuick ::
    "'w Env \<Rightarrow> PrimType \<Rightarrow> insns \<Rightarrow> nat \<Rightarrow> uint16 \<Rightarrow> ShadowFrame \<Rightarrow> 'w Thread
      \<Rightarrow> (bool \<times> ShadowFrame \<times> 'w Thread) option" where
  "DoIGetQuick env field_type code pc inst_data frame self = do {
     obj \<leftarrow> GetVRegReference frame (unat (VRegB_22c inst_data));
     if obj = 0 then Some (False, frame, throw env NullPointer self)
     else do {
       field_offset \<leftarrow> VRegC_22c code pc;
       let vregA = unat (VRegA_22c inst_data);
       frame \<leftarrow> set_typed frame vregA field_type
         (Object_GetField (field_model env) field_type self obj (ucast field_offset));
       Some (True, frame, self)
     }
   }"

text \<open>
  A field of a class type whose class cannot be resolved has no class object to compare with
  (\<open>VerifierInstanceOf\<close> of a null class): \<open>None\<close>.
\<close>

definition DoFieldPut ::
    "'w Env \<Rightarrow> FindFieldType \<Rightarrow> PrimType \<Rightarrow> insns \<Rightarrow> nat \<Rightarrow> uint16 \<Rightarrow> ShadowFrame \<Rightarrow> 'w Thread
      \<Rightarrow> (bool \<times> 'w Thread) option" where
  "DoFieldPut env find_type field_type code pc inst_data frame self = do {
     let do_assignability_check = do_access_check env;
     let is_static = (find_type = StaticObjectWrite \<or> find_type = StaticPrimitiveWrite);
     field_idx \<leftarrow> (if is_static then VRegB_21c code pc else VRegC_22c code pc);
     let (f, self) = FindFieldFromCode (field_model env) find_type (ucast field_idx) (ComponentSize field_type) self;
     if f = 0 then Some (False, self)
     else do {
       obj \<leftarrow> (if is_static then Some (GetDeclaringClass (field_model env) self f)
               else GetVRegReference frame (unat (VRegB_22c inst_data)));
       if \<not> is_static \<and> obj = 0 then Some (False, throw env (NullPointerForFieldAccess f False) self)
       else do {
         let vregA = (if is_static then unat (VRegA_21c inst_data) else unat (VRegA_22c inst_data));
         v \<leftarrow> get_typed frame vregA field_type;
         if field_type = kPrimNot \<and> do_assignability_check \<and> v \<noteq> 0 then do {
           let reg = (ucast v :: uint32);
           let (field_class, self) = GetFieldType (field_model env) f self;
           if field_class = 0 then None
           else if \<not> VerifierInstanceOf (objects env) self reg field_class then
             Some (False, throw env (PuttingWrongType reg field_class) self)
           else Some (True, ArtField_Set (field_model env) field_type f obj v self)
         } else Some (True, ArtField_Set (field_model env) field_type f obj v self)
       }
     }
   }"

definition DoIPutQuick ::
    "'w Env \<Rightarrow> PrimType \<Rightarrow> insns \<Rightarrow> nat \<Rightarrow> uint16 \<Rightarrow> ShadowFrame \<Rightarrow> 'w Thread \<Rightarrow> (bool \<times> 'w Thread) option" where
  "DoIPutQuick env field_type code pc inst_data frame self = do {
     obj \<leftarrow> GetVRegReference frame (unat (VRegB_22c inst_data));
     if obj = 0 then Some (False, throw env NullPointer self)
     else do {
       field_offset \<leftarrow> VRegC_22c code pc;
       let vregA = unat (VRegA_22c inst_data);
       v \<leftarrow> get_typed frame vregA field_type;
       Some (True, Object_SetField (field_model env) field_type obj (ucast field_offset) v self)
     }
   }"

section \<open>Monitors\<close>

definition AddMonitor :: "'w Thread \<Rightarrow> uint32 \<Rightarrow> ShadowFrame \<Rightarrow> ShadowFrame" where
  "AddMonitor self obj frame =
     (if obj = 0 then frame
      else if IsExceptionPending self then frame
      else frame\<lparr>monitors := Some ((case monitors frame of None \<Rightarrow> [] | Some ms \<Rightarrow> ms) @ [obj])\<rparr>)"

definition RemoveMonitorOrThrow ::
    "'w Env \<Rightarrow> uint32 \<Rightarrow> ShadowFrame \<Rightarrow> 'w Thread \<Rightarrow> ShadowFrame \<times> 'w Thread" where
  "RemoveMonitorOrThrow env obj frame self =
     (if obj = 0 then (frame, self)
      else case monitors frame of
        Some ms \<Rightarrow>
          if obj \<in> set ms then (frame\<lparr>monitors := Some (remove1 obj ms)\<rparr>, self)
          else (frame, throw env (DidNotLock obj) (ClearException self))
      | None \<Rightarrow> (frame, throw env (DidNotLock obj) (ClearException self)))"

definition MonitorExitHelper :: "'w Env \<Rightarrow> uint32 \<Rightarrow> 'w Thread \<Rightarrow> 'w Thread" where
  "MonitorExitHelper env obj self = MonitorExit (objects env) obj self"

definition CheckAllMonitorsReleasedOrThrow ::
    "'w Env \<Rightarrow> ShadowFrame \<Rightarrow> 'w Thread \<Rightarrow> bool \<times> ShadowFrame \<times> 'w Thread" where
  "CheckAllMonitorsReleasedOrThrow env frame self =
     (case monitors frame of
        Some ms \<Rightarrow>
          if ms \<noteq> [] then
            let self = ClearException self;
                self = fold (\<lambda>obj self.
                  let self = MonitorExitHelper env obj self in
                  if IsExceptionPending self then ClearException self else self) ms self;
                first = hd ms
            in (False, frame\<lparr>monitors := Some []\<rparr>, throw env (DidNotUnlock first) self)
          else (True, frame, self)
      | None \<Rightarrow> (True, frame, self))"

definition DoMonitorEnter :: "'w Env \<Rightarrow> uint32 \<Rightarrow> ShadowFrame \<Rightarrow> 'w Thread \<Rightarrow> ShadowFrame \<times> 'w Thread" where
  "DoMonitorEnter env ref frame self =
     (let self = MonitorEnter (objects env) ref self in
      if do_access_check env \<and> MustCountLocks env then (AddMonitor self ref frame, self)
      else (frame, self))"

definition DoMonitorExit :: "'w Env \<Rightarrow> uint32 \<Rightarrow> ShadowFrame \<Rightarrow> 'w Thread \<Rightarrow> ShadowFrame \<times> 'w Thread" where
  "DoMonitorExit env ref frame self =
     (let self = MonitorExit (objects env) ref self in
      if do_access_check env \<and> MustCountLocks env then RemoveMonitorOrThrow env ref frame self
      else (frame, self))"

definition DoMonitorCheckOnExit :: "'w Env \<Rightarrow> ShadowFrame \<Rightarrow> 'w Thread \<Rightarrow> bool \<times> ShadowFrame \<times> 'w Thread" where
  "DoMonitorCheckOnExit env frame self =
     (if do_access_check env \<and> MustCountLocks env then CheckAllMonitorsReleasedOrThrow env frame self
      else (True, frame, self))"

section \<open>Exceptions\<close>

definition FindNextInstructionFollowingException ::
    "'w Env \<Rightarrow> CodeItem \<Rightarrow> uint32 \<Rightarrow> 'w Thread \<Rightarrow> (uint32 \<times> 'w Thread) option" where
  "FindNextInstructionFollowingException env code_item pc self =
     (if \<not> IsExceptionPending self then None
      else do {
        (found_dex_pc, clear_exception) \<leftarrow>
          FindCatchBlock (GetClassFromTypeIndex (objects env) self) (IsAssignableFrom (objects env) self)
            code_item (GetClass (objects env) self (exception self)) pc False;
        Some (found_dex_pc,
          (if found_dex_pc = kDexNoIndex then self
           else if clear_exception then ClearException self else self))
      })"

end
