(* ===== verification/Interpreter.thy ===== *)
theory Interpreter
  imports Interpreter_Common
begin

text \<open>
  The switch interpreter (\<open>runtime/interpreter/interpreter_switch_impl.cc\<close>): one definition per
  group of opcodes, the dispatch, and the loop of \<open>ExecuteSwitchImpl\<close>.  The values \<open>None\<close> are
  undefined behaviour, failed checks and \<open>UnexpectedOpcode\<close>; instrumentation, profiling, tracing,
  suspension points and the constructor fence do not change the state of the model.
\<close>

section \<open>State and control\<close>

record 'w Interp =
  shadow_frame :: ShadowFrame
  thread :: "'w Thread"
  inst :: nat
  dex_pc :: uint32
  result_register :: uint64
  lambda_captured_variable_index :: nat

text \<open>A handler either goes on with the next instruction or returns from the method.\<close>

datatype 'w outcome = Running "'w Interp" | Returned uint64 "'w Interp"

fun and_then :: "'w outcome \<Rightarrow> ('w Interp \<Rightarrow> 'w outcome option) \<Rightarrow> 'w outcome option" where
  "and_then (Running st) k = k st"
| "and_then (Returned v st) k = Some (Returned v st)"

definition go_next :: "nat \<Rightarrow> 'w Interp \<Rightarrow> 'w outcome option" where
  "go_next n st = Some (Running (st\<lparr>inst := inst st + n\<rparr>))"

definition leave :: "'w Env \<Rightarrow> uint64 \<Rightarrow> 'w Interp \<Rightarrow> 'w outcome option" where
  "leave env result st =
     Some (Returned result
       (if interpret_one_instruction env
        then st\<lparr>shadow_frame := SetDexPC kDexNoIndex (shadow_frame st)\<rparr> else st))"

definition HANDLE_PENDING_EXCEPTION :: "'w Env \<Rightarrow> CodeItem \<Rightarrow> 'w Interp \<Rightarrow> 'w outcome option" where
  "HANDLE_PENDING_EXCEPTION env code_item st = do {
     (found_dex_pc, self) \<leftarrow>
       FindNextInstructionFollowingException env code_item (of_nat (inst st)) (thread st);
     if found_dex_pc = kDexNoIndex then do {
       let (_, frame, self) = DoMonitorCheckOnExit env (shadow_frame st) self;
       leave env 0 (st\<lparr>shadow_frame := frame, thread := self\<rparr>)
     } else do {
       let displacement = found_dex_pc - dex_pc st;
       pc \<leftarrow> RelativeAt (inst st) displacement;
       Some (Running (st\<lparr>thread := self, inst := pc\<rparr>))
     }
   }"

definition throw_and_handle :: "'w Env \<Rightarrow> CodeItem \<Rightarrow> ExceptionKind \<Rightarrow> 'w Interp \<Rightarrow> 'w outcome option" where
  "throw_and_handle env code_item k st =
     HANDLE_PENDING_EXCEPTION env code_item (st\<lparr>thread := throw env k (thread st)\<rparr>)"

definition POSSIBLY_HANDLE_PENDING_EXCEPTION ::
    "'w Env \<Rightarrow> CodeItem \<Rightarrow> bool \<Rightarrow> nat \<Rightarrow> 'w Interp \<Rightarrow> 'w outcome option" where
  "POSSIBLY_HANDLE_PENDING_EXCEPTION env code_item is_exception_pending n st =
     (if is_exception_pending then HANDLE_PENDING_EXCEPTION env code_item st else go_next n st)"

definition HANDLE_MONITOR_CHECKS :: "'w Env \<Rightarrow> CodeItem \<Rightarrow> 'w Interp \<Rightarrow> 'w outcome option" where
  "HANDLE_MONITOR_CHECKS env code_item st =
     (let (ok, frame, self) = DoMonitorCheckOnExit env (shadow_frame st) (thread st);
          st = st\<lparr>shadow_frame := frame, thread := self\<rparr>
      in if \<not> ok then HANDLE_PENDING_EXCEPTION env code_item st else Some (Running st))"

definition BRANCH_INSTRUMENTATION ::
    "'w Env \<Rightarrow> int32 \<Rightarrow> 'w Interp \<Rightarrow> 'w outcome option \<Rightarrow> 'w outcome option" where
  "BRANCH_INSTRUMENTATION env offset st k =
     (case MaybeDoOnStackReplacement env (dex_pc st) offset (shadow_frame st) (thread st) of
        Some (result, self) \<Rightarrow> leave env result (st\<lparr>thread := self\<rparr>)
      | None \<Rightarrow> k)"

definition branch :: "'w Env \<Rightarrow> int32 \<Rightarrow> 'w Interp \<Rightarrow> 'w outcome option" where
  "branch env offset st =
     BRANCH_INSTRUMENTATION env offset st
       (do { pc \<leftarrow> RelativeAt (inst st) offset; Some (Running (st\<lparr>inst := pc\<rparr>)) })"

text \<open>Writing a register and going on behind an instruction of \<open>n\<close> code units.\<close>

definition set_reg ::
    "(ShadowFrame \<Rightarrow> nat \<Rightarrow> 'v \<Rightarrow> ShadowFrame option) \<Rightarrow> 'r::len word \<Rightarrow> 'v \<Rightarrow> nat \<Rightarrow> 'w Interp \<Rightarrow> 'w outcome option" where
  "set_reg wr a v n st = do {
     frame \<leftarrow> wr (shadow_frame st) (unat a) v;
     go_next n (st\<lparr>shadow_frame := frame\<rparr>)
   }"

section \<open>Moves\<close>

definition move_12x where
  "move_12x rd wr w st = do {
     v \<leftarrow> rd (shadow_frame st) (unat (VRegB_12x w));
     set_reg wr (VRegA_12x w) v 1 st
   }"

definition move_22x where
  "move_22x rd wr code w st = do {
     b \<leftarrow> VRegB_22x code (inst st);
     v \<leftarrow> rd (shadow_frame st) (unat b);
     set_reg wr (VRegA_22x w) v 2 st
   }"

definition move_32x where
  "move_32x rd wr code st = do {
     a \<leftarrow> VRegA_32x code (inst st);
     b \<leftarrow> VRegB_32x code (inst st);
     v \<leftarrow> rd (shadow_frame st) (unat b);
     set_reg wr a v 3 st
   }"

definition exec_move :: "CodeItem \<Rightarrow> Code \<Rightarrow> uint16 \<Rightarrow> 'w Interp \<Rightarrow> 'w outcome option" where
  "exec_move ci opcode w st =
     (if opcode = NOP then go_next 1 st
      else if opcode = MOVE then move_12x GetVReg SetVReg w st
      else if opcode = MOVE_FROM16 then move_22x GetVReg SetVReg (insns ci) w st
      else if opcode = MOVE_16 then move_32x GetVReg SetVReg (insns ci) st
      else if opcode = MOVE_WIDE then move_12x GetVRegLong SetVRegLong w st
      else if opcode = MOVE_WIDE_FROM16 then move_22x GetVRegLong SetVRegLong (insns ci) w st
      else if opcode = MOVE_WIDE_16 then move_32x GetVRegLong SetVRegLong (insns ci) st
      else if opcode = MOVE_OBJECT then move_12x GetVRegReference SetVRegReference w st
      else if opcode = MOVE_OBJECT_FROM16 then move_22x GetVRegReference SetVRegReference (insns ci) w st
      else if opcode = MOVE_OBJECT_16 then move_32x GetVRegReference SetVRegReference (insns ci) st
      else None)"

definition exec_move_result :: "Code \<Rightarrow> uint16 \<Rightarrow> 'w Interp \<Rightarrow> 'w outcome option" where
  "exec_move_result opcode w st =
     (if opcode = MOVE_RESULT then set_reg SetVReg (VRegA_11x w) (ucast (result_register st)) 1 st
      else if opcode = MOVE_RESULT_WIDE then set_reg SetVRegLong (VRegA_11x w) (result_register st) 1 st
      else if opcode = MOVE_RESULT_OBJECT then
        set_reg SetVRegReference (VRegA_11x w) (ucast (result_register st)) 1 st
      else if opcode = MOVE_EXCEPTION then
        if \<not> IsExceptionPending (thread st) then None
        else do {
          frame \<leftarrow> SetVRegReference (shadow_frame st) (unat (VRegA_11x w)) (exception (thread st));
          go_next 1 (st\<lparr>shadow_frame := frame, thread := ClearException (thread st)\<rparr>)
        }
      else None)"

section \<open>Returns\<close>

text \<open>
  The result of \<open>return-object\<close> is checked against the return type; a method whose return type
  cannot be resolved handles the pending exception and then compares with a null class.
\<close>

definition return_object :: "'w Env \<Rightarrow> CodeItem \<Rightarrow> uint8 \<Rightarrow> 'w Interp \<Rightarrow> 'w outcome option" where
  "return_object env ci ref_idx st = do {
     obj_result \<leftarrow> GetVRegReference (shadow_frame st) (unat ref_idx);
     if do_access_check env \<and> obj_result \<noteq> 0 then do {
       let (return_type, self) = GetReturnType (objects env) (thread st);
       let st = st\<lparr>thread := self\<rparr>;
       o1 \<leftarrow> (if return_type = 0 then HANDLE_PENDING_EXCEPTION env ci st else Some (Running st));
       and_then o1 (\<lambda>st.
         if return_type = 0 then None
         else if \<not> VerifierInstanceOf (objects env) (thread st) obj_result return_type then do {
           o2 \<leftarrow> throw_and_handle env ci (ReturningWrongType obj_result return_type) st;
           and_then o2 (leave env (ucast obj_result))
         } else leave env (ucast obj_result) st)
     } else leave env (ucast obj_result) st
   }"

definition exec_return :: "'w Env \<Rightarrow> CodeItem \<Rightarrow> Code \<Rightarrow> uint16 \<Rightarrow> 'w Interp \<Rightarrow> 'w outcome option" where
  "exec_return env ci opcode w st =
     (if opcode = RETURN_VOID_NO_BARRIER \<or> opcode = RETURN_VOID then do {
        o1 \<leftarrow> HANDLE_MONITOR_CHECKS env ci st;
        and_then o1 (leave env 0)
      } else if opcode = RETURN then do {
        v \<leftarrow> GetVReg (shadow_frame st) (unat (VRegA_11x w));
        o1 \<leftarrow> HANDLE_MONITOR_CHECKS env ci st;
        and_then o1 (leave env (scast v))
      } else if opcode = RETURN_WIDE then do {
        v \<leftarrow> GetVRegLong (shadow_frame st) (unat (VRegA_11x w));
        o1 \<leftarrow> HANDLE_MONITOR_CHECKS env ci st;
        and_then o1 (leave env v)
      } else if opcode = RETURN_OBJECT then do {
        o1 \<leftarrow> HANDLE_MONITOR_CHECKS env ci st;
        and_then o1 (return_object env ci (VRegA_11x w))
      } else None)"

section \<open>Constants\<close>

definition set_const :: "uint8 \<Rightarrow> int32 \<Rightarrow> nat \<Rightarrow> 'w Interp \<Rightarrow> 'w outcome option" where
  "set_const dst val n st = do {
     frame \<leftarrow> SetVReg (shadow_frame st) (unat dst) val;
     frame \<leftarrow> (if val = 0 then SetVRegReference frame (unat dst) 0 else Some frame);
     go_next n (st\<lparr>shadow_frame := frame\<rparr>)
   }"

definition exec_const :: "CodeItem \<Rightarrow> Code \<Rightarrow> uint16 \<Rightarrow> 'w Interp \<Rightarrow> 'w outcome option" where
  "exec_const ci opcode w st =
     (let code = insns ci; pc = inst st in
      if opcode = CONST_4 then set_const (VRegA_11n w) (scast (VRegB_11n w)) 1 st
      else if opcode = CONST_16 then do { v \<leftarrow> VRegB_21s code pc; set_const (VRegA_21s w) (scast v) 2 st }
      else if opcode = CONST_op then do { v \<leftarrow> VRegB_31i code pc; set_const (VRegA_31i w) v 3 st }
      else if opcode = CONST_HIGH16 then do {
        v \<leftarrow> VRegB_21h code pc;
        set_const (VRegA_21h w) (push_bit 16 (ucast v)) 2 st
      } else if opcode = CONST_WIDE_16 then do {
        v \<leftarrow> VRegB_21s code pc;
        set_reg SetVRegLong (VRegA_21s w) (scast v) 2 st
      } else if opcode = CONST_WIDE_32 then do {
        v \<leftarrow> VRegB_31i code pc;
        set_reg SetVRegLong (VRegA_31i w) (scast v) 3 st
      } else if opcode = CONST_WIDE then do {
        v \<leftarrow> VRegB_51l code pc;
        set_reg SetVRegLong (VRegA_51l w) v 5 st
      } else if opcode = CONST_WIDE_HIGH16 then do {
        v \<leftarrow> VRegB_21h code pc;
        set_reg SetVRegLong (VRegA_21h w) (push_bit 48 (ucast v)) 2 st
      } else None)"

text \<open>Storing an object that a call of the runtime has returned, or handling its failure.\<close>

definition set_object :: "'w Env \<Rightarrow> CodeItem \<Rightarrow> uint8 \<Rightarrow> uint32 \<times> 'w Thread \<Rightarrow> nat \<Rightarrow> 'w Interp \<Rightarrow> 'w outcome option" where
  "set_object env ci dst r n st =
     (let (obj, self) = r; st = st\<lparr>thread := self\<rparr> in
      if obj = 0 then HANDLE_PENDING_EXCEPTION env ci st
      else set_reg SetVRegReference dst obj n st)"

definition exec_const_object :: "'w Env \<Rightarrow> CodeItem \<Rightarrow> Code \<Rightarrow> uint16 \<Rightarrow> 'w Interp \<Rightarrow> 'w outcome option" where
  "exec_const_object env ci opcode w st =
     (let code = insns ci; pc = inst st in
      if opcode = CONST_STRING then do {
        i \<leftarrow> VRegB_21c code pc;
        set_object env ci (VRegA_21c w) (ResolveString (objects env) (ucast i) (thread st)) 2 st
      } else if opcode = CONST_STRING_JUMBO then do {
        i \<leftarrow> VRegB_31c code pc;
        set_object env ci (VRegA_31c w) (ResolveString (objects env) i (thread st)) 3 st
      } else if opcode = CONST_CLASS then do {
        i \<leftarrow> VRegB_21c code pc;
        set_object env ci (VRegA_21c w) (ResolveVerifyAndClinit (objects env) (ucast i) (thread st)) 2 st
      } else None)"

section \<open>Monitors, type checks and allocation\<close>

definition exec_monitor :: "'w Env \<Rightarrow> CodeItem \<Rightarrow> Code \<Rightarrow> uint16 \<Rightarrow> 'w Interp \<Rightarrow> 'w outcome option" where
  "exec_monitor env ci opcode w st =
     (if opcode = MONITOR_ENTER then do {
        obj \<leftarrow> GetVRegReference (shadow_frame st) (unat (VRegA_11x w));
        if obj = 0 then throw_and_handle env ci NullPointer st
        else do {
          let (frame, self) = DoMonitorEnter env obj (shadow_frame st) (thread st);
          POSSIBLY_HANDLE_PENDING_EXCEPTION env ci (IsExceptionPending self) 1
            (st\<lparr>shadow_frame := frame, thread := self\<rparr>)
        }
      } else if opcode = MONITOR_EXIT then do {
        obj \<leftarrow> GetVRegReference (shadow_frame st) (unat (VRegA_11x w));
        if obj = 0 then throw_and_handle env ci NullPointer st
        else do {
          let (frame, self) = DoMonitorExit env obj (shadow_frame st) (thread st);
          POSSIBLY_HANDLE_PENDING_EXCEPTION env ci (IsExceptionPending self) 1
            (st\<lparr>shadow_frame := frame, thread := self\<rparr>)
        }
      } else None)"

definition exec_type_check :: "'w Env \<Rightarrow> CodeItem \<Rightarrow> Code \<Rightarrow> uint16 \<Rightarrow> 'w Interp \<Rightarrow> 'w outcome option" where
  "exec_type_check env ci opcode w st =
     (if opcode = CHECK_CAST then do {
        i \<leftarrow> VRegB_21c (insns ci) (inst st);
        let (c, self) = ResolveVerifyAndClinit (objects env) (ucast i) (thread st);
        let st = st\<lparr>thread := self\<rparr>;
        if c = 0 then HANDLE_PENDING_EXCEPTION env ci st
        else do {
          obj \<leftarrow> GetVRegReference (shadow_frame st) (unat (VRegA_21c w));
          if obj \<noteq> 0 \<and> \<not> InstanceOf (objects env) self obj c
          then throw_and_handle env ci (ClassCast c (GetClass (objects env) self obj)) st
          else go_next 2 st
        }
      } else if opcode = INSTANCE_OF then do {
        i \<leftarrow> VRegC_22c (insns ci) (inst st);
        let (c, self) = ResolveVerifyAndClinit (objects env) (ucast i) (thread st);
        let st = st\<lparr>thread := self\<rparr>;
        if c = 0 then HANDLE_PENDING_EXCEPTION env ci st
        else do {
          obj \<leftarrow> GetVRegReference (shadow_frame st) (unat (VRegB_22c w));
          set_reg SetVReg (VRegA_22c w)
            (if obj \<noteq> 0 \<and> InstanceOf (objects env) self obj c then 1 else 0) 2 st
        }
      } else None)"

definition exec_array_length :: "'w Env \<Rightarrow> CodeItem \<Rightarrow> uint16 \<Rightarrow> 'w Interp \<Rightarrow> 'w outcome option" where
  "exec_array_length env ci w st = do {
     array \<leftarrow> GetVRegReference (shadow_frame st) (unat (VRegB_12x w));
     if array = 0 then throw_and_handle env ci NullPointer st
     else do {
       a \<leftarrow> heap (thread st) array;
       set_reg SetVReg (VRegA_12x w) (of_nat (GetLength a)) 1 st
     }
   }"

definition exec_new_instance :: "'w Env \<Rightarrow> CodeItem \<Rightarrow> uint16 \<Rightarrow> 'w Interp \<Rightarrow> 'w outcome option" where
  "exec_new_instance env ci w st = do {
     i \<leftarrow> VRegB_21c (insns ci) (inst st);
     let (c, self) = ResolveVerifyAndClinit (objects env) (ucast i) (thread st);
     let (obj, self) =
       (if c \<noteq> 0 then
          if IsStringClass (objects env) self c then AllocString (allocator env) self
          else AllocObjectFromCode (allocator env) (ucast i) self
        else (0, self));
     let st = st\<lparr>thread := self\<rparr>;
     if obj = 0 then HANDLE_PENDING_EXCEPTION env ci st
     else if transaction_active env \<and> IsFinalizable (objects env) self (GetClass (objects env) self obj) then
       HANDLE_PENDING_EXCEPTION env ci (st\<lparr>thread := AbortFinalizable (allocator env) obj self\<rparr>)
     else set_reg SetVRegReference (VRegA_21c w) obj 2 st
   }"

definition exec_new_array :: "'w Env \<Rightarrow> CodeItem \<Rightarrow> Code \<Rightarrow> uint16 \<Rightarrow> 'w Interp \<Rightarrow> 'w outcome option" where
  "exec_new_array env ci opcode w st =
     (if opcode = NEW_ARRAY then do {
        len \<leftarrow> GetVReg (shadow_frame st) (unat (VRegB_22c w));
        i \<leftarrow> VRegC_22c (insns ci) (inst st);
        set_object env ci (VRegA_22c w) (AllocArrayFromCode (allocator env) (ucast i) len (thread st)) 2 st
      } else if opcode = FILLED_NEW_ARRAY \<or> opcode = FILLED_NEW_ARRAY_RANGE then do {
        (success, result, self) \<leftarrow>
          DoFilledNewArray env (opcode = FILLED_NEW_ARRAY_RANGE) (insns ci) (inst st) w (shadow_frame st)
            (result_register st) (thread st);
        POSSIBLY_HANDLE_PENDING_EXCEPTION env ci (\<not> success) 3 (st\<lparr>thread := self, result_register := result\<rparr>)
      } else None)"

definition exec_fill_array_data :: "'w Env \<Rightarrow> CodeItem \<Rightarrow> uint16 \<Rightarrow> 'w Interp \<Rightarrow> 'w outcome option" where
  "exec_fill_array_data env ci w st = do {
     d \<leftarrow> VRegB_31t (insns ci) (inst st);
     payload \<leftarrow> RelativeAt (inst st) d;
     obj \<leftarrow> GetVRegReference (shadow_frame st) (unat (VRegA_31t w));
     (success, self) \<leftarrow> FillArrayData env (insns ci) obj payload (thread st);
     if \<not> success then HANDLE_PENDING_EXCEPTION env ci (st\<lparr>thread := self\<rparr>)
     else do {
       count \<leftarrow> Fetch32 (insns ci) payload 2;
       self \<leftarrow> (if transaction_active env then RecordArrayElementsInTransaction env obj count self else Some self);
       go_next 3 (st\<lparr>thread := self\<rparr>)
     }
   }"

definition exec_throw :: "'w Env \<Rightarrow> CodeItem \<Rightarrow> uint16 \<Rightarrow> 'w Interp \<Rightarrow> 'w outcome option" where
  "exec_throw env ci w st = do {
     e \<leftarrow> GetVRegReference (shadow_frame st) (unat (VRegA_11x w));
     let self =
       (if e = 0 then throw env NullPointer (thread st)
        else if do_access_check env \<and>
          \<not> IsThrowableClass (objects env) (thread st) (GetClass (objects env) (thread st) e)
        then throw env (ThrowingNonThrowable e) (thread st)
        else SetException e (thread st));
     HANDLE_PENDING_EXCEPTION env ci (st\<lparr>thread := self\<rparr>)
   }"

section \<open>Branches and comparisons\<close>

definition exec_goto :: "'w Env \<Rightarrow> CodeItem \<Rightarrow> Code \<Rightarrow> uint16 \<Rightarrow> 'w Interp \<Rightarrow> 'w outcome option" where
  "exec_goto env ci opcode w st =
     (if opcode = GOTO then branch env (scast (VRegA_10t w)) st
      else if opcode = GOTO_16 then do { offset \<leftarrow> VRegA_20t (insns ci) (inst st); branch env (scast offset) st }
      else if opcode = GOTO_32 then do { offset \<leftarrow> VRegA_30t (insns ci) (inst st); branch env offset st }
      else if opcode = PACKED_SWITCH then do {
        offset \<leftarrow> DoPackedSwitch (insns ci) (inst st) (shadow_frame st) w;
        branch env offset st
      } else if opcode = SPARSE_SWITCH then do {
        offset \<leftarrow> DoSparseSwitch (insns ci) (inst st) (shadow_frame st) w;
        branch env offset st
      } else None)"

definition op_23x where
  "op_23x rdB rdC wr f code w st = do {
     b \<leftarrow> VRegB_23x code (inst st);
     c \<leftarrow> VRegC_23x code (inst st);
     val1 \<leftarrow> rdB (shadow_frame st) (unat b);
     val2 \<leftarrow> rdC (shadow_frame st) (unat c);
     set_reg wr (VRegA_23x w) (f val1 val2) 2 st
   }"

text \<open>The comparisons of floating point values differ in the result for unordered operands.\<close>

definition cmpl :: "('f \<Rightarrow> 'f \<Rightarrow> bool) \<Rightarrow> ('f \<Rightarrow> 'f \<Rightarrow> bool) \<Rightarrow> 'f \<Rightarrow> 'f \<Rightarrow> int32" where
  "cmpl lt eq val1 val2 = (if lt val2 val1 then 1 else if eq val1 val2 then 0 else -1)"

definition cmpg :: "('f \<Rightarrow> 'f \<Rightarrow> bool) \<Rightarrow> ('f \<Rightarrow> 'f \<Rightarrow> bool) \<Rightarrow> 'f \<Rightarrow> 'f \<Rightarrow> int32" where
  "cmpg lt eq val1 val2 = (if lt val1 val2 then -1 else if eq val1 val2 then 0 else 1)"

definition cmp_long :: "int64 \<Rightarrow> int64 \<Rightarrow> int32" where
  "cmp_long val1 val2 = (if sint val1 > sint val2 then 1 else if val1 = val2 then 0 else -1)"

definition exec_cmp :: "'w Env \<Rightarrow> CodeItem \<Rightarrow> Code \<Rightarrow> uint16 \<Rightarrow> 'w Interp \<Rightarrow> 'w outcome option" where
  "exec_cmp env ci opcode w st =
     (if opcode = CMPL_FLOAT then
        op_23x GetVRegFloat GetVRegFloat SetVReg (cmpl (lt_float (fpu env)) (eq_float (fpu env))) (insns ci) w st
      else if opcode = CMPG_FLOAT then
        op_23x GetVRegFloat GetVRegFloat SetVReg (cmpg (lt_float (fpu env)) (eq_float (fpu env))) (insns ci) w st
      else if opcode = CMPL_DOUBLE then
        op_23x GetVRegDouble GetVRegDouble SetVReg (cmpl (lt_double (fpu env)) (eq_double (fpu env))) (insns ci) w st
      else if opcode = CMPG_DOUBLE then
        op_23x GetVRegDouble GetVRegDouble SetVReg (cmpg (lt_double (fpu env)) (eq_double (fpu env))) (insns ci) w st
      else if opcode = CMP_LONG then
        op_23x GetVRegLong GetVRegLong SetVReg cmp_long (insns ci) w st
      else None)"

text \<open>A branch that is not taken is reported with the offset 2, the size of the instruction.\<close>

definition branch_if :: "'w Env \<Rightarrow> bool \<Rightarrow> uint16 option \<Rightarrow> 'w Interp \<Rightarrow> 'w outcome option" where
  "branch_if env taken off st =
     (if taken then do { offset \<leftarrow> off; branch env (scast offset) st }
      else BRANCH_INSTRUMENTATION env 2 st (go_next 2 st))"

definition if_22t :: "'w Env \<Rightarrow> CodeItem \<Rightarrow> (int \<Rightarrow> int \<Rightarrow> bool) \<Rightarrow> uint16 \<Rightarrow> 'w Interp \<Rightarrow> 'w outcome option" where
  "if_22t env ci cond w st = do {
     a \<leftarrow> GetVReg (shadow_frame st) (unat (VRegA_22t w));
     b \<leftarrow> GetVReg (shadow_frame st) (unat (VRegB_22t w));
     branch_if env (cond (sint a) (sint b)) (VRegC_22t (insns ci) (inst st)) st
   }"

definition if_21t :: "'w Env \<Rightarrow> CodeItem \<Rightarrow> (int \<Rightarrow> bool) \<Rightarrow> uint16 \<Rightarrow> 'w Interp \<Rightarrow> 'w outcome option" where
  "if_21t env ci cond w st = do {
     a \<leftarrow> GetVReg (shadow_frame st) (unat (VRegA_21t w));
     branch_if env (cond (sint a)) (VRegB_21t (insns ci) (inst st)) st
   }"

definition exec_if :: "'w Env \<Rightarrow> CodeItem \<Rightarrow> Code \<Rightarrow> uint16 \<Rightarrow> 'w Interp \<Rightarrow> 'w outcome option" where
  "exec_if env ci opcode w st =
     (if opcode = IF_EQ then if_22t env ci (=) w st
      else if opcode = IF_NE then if_22t env ci (\<noteq>) w st
      else if opcode = IF_LT then if_22t env ci (<) w st
      else if opcode = IF_GE then if_22t env ci (\<ge>) w st
      else if opcode = IF_GT then if_22t env ci (>) w st
      else if opcode = IF_LE then if_22t env ci (\<le>) w st
      else None)"

definition exec_ifz :: "'w Env \<Rightarrow> CodeItem \<Rightarrow> Code \<Rightarrow> uint16 \<Rightarrow> 'w Interp \<Rightarrow> 'w outcome option" where
  "exec_ifz env ci opcode w st =
     (if opcode = IF_EQZ then if_21t env ci (\<lambda>a. a = 0) w st
      else if opcode = IF_NEZ then if_21t env ci (\<lambda>a. a \<noteq> 0) w st
      else if opcode = IF_LTZ then if_21t env ci (\<lambda>a. a < 0) w st
      else if opcode = IF_GEZ then if_21t env ci (\<lambda>a. a \<ge> 0) w st
      else if opcode = IF_GTZ then if_21t env ci (\<lambda>a. a > 0) w st
      else if opcode = IF_LEZ then if_21t env ci (\<lambda>a. a \<le> 0) w st
      else None)"

section \<open>Arrays\<close>

text \<open>The casts \<open>AsBooleanArray\<close> and so on; a wrong one is undefined.\<close>

fun AsBooleanArray :: "ArrayObject \<Rightarrow> uint8 list option" where
  "AsBooleanArray (BooleanArray xs) = Some xs" | "AsBooleanArray _ = None"
fun AsByteArray :: "ArrayObject \<Rightarrow> uint8 list option" where
  "AsByteArray (ByteArray xs) = Some xs" | "AsByteArray _ = None"
fun AsCharArray :: "ArrayObject \<Rightarrow> uint16 list option" where
  "AsCharArray (CharArray xs) = Some xs" | "AsCharArray _ = None"
fun AsShortArray :: "ArrayObject \<Rightarrow> uint16 list option" where
  "AsShortArray (ShortArray xs) = Some xs" | "AsShortArray _ = None"
fun AsIntArray :: "ArrayObject \<Rightarrow> uint32 list option" where
  "AsIntArray (IntArray xs) = Some xs" | "AsIntArray _ = None"
fun AsLongArray :: "ArrayObject \<Rightarrow> uint64 list option" where
  "AsLongArray (LongArray xs) = Some xs" | "AsLongArray _ = None"
fun AsObjectArray :: "ArrayObject \<Rightarrow> uint32 list option" where
  "AsObjectArray (ObjectArray xs) = Some xs" | "AsObjectArray _ = None"

definition aget ::
    "'w Env \<Rightarrow> CodeItem \<Rightarrow> (ArrayObject \<Rightarrow> 'e list option) \<Rightarrow> (ShadowFrame \<Rightarrow> nat \<Rightarrow> 'v \<Rightarrow> ShadowFrame option)
      \<Rightarrow> ('e \<Rightarrow> 'v) \<Rightarrow> uint16 \<Rightarrow> 'w Interp \<Rightarrow> 'w outcome option" where
  "aget env ci as_array wr widen w st = do {
     b \<leftarrow> VRegB_23x (insns ci) (inst st);
     a \<leftarrow> GetVRegReference (shadow_frame st) (unat b);
     if a = 0 then throw_and_handle env ci NullPointer st
     else do {
       c \<leftarrow> VRegC_23x (insns ci) (inst st);
       index \<leftarrow> GetVReg (shadow_frame st) (unat c);
       obj \<leftarrow> heap (thread st) a;
       array \<leftarrow> as_array obj;
       let (valid, self) = CheckIsValidIndex env (length array) index (thread st);
       if valid then do {
         x \<leftarrow> array_get array (unat index);
         set_reg wr (VRegA_23x w) (widen x) 2 (st\<lparr>thread := self\<rparr>)
       } else HANDLE_PENDING_EXCEPTION env ci (st\<lparr>thread := self\<rparr>)
     }
   }"

definition exec_aget :: "'w Env \<Rightarrow> CodeItem \<Rightarrow> Code \<Rightarrow> uint16 \<Rightarrow> 'w Interp \<Rightarrow> 'w outcome option" where
  "exec_aget env ci opcode w st =
     (if opcode = AGET_BOOLEAN then aget env ci AsBooleanArray SetVReg ucast w st
      else if opcode = AGET_BYTE then aget env ci AsByteArray SetVReg scast w st
      else if opcode = AGET_CHAR then aget env ci AsCharArray SetVReg ucast w st
      else if opcode = AGET_SHORT then aget env ci AsShortArray SetVReg scast w st
      else if opcode = AGET then aget env ci AsIntArray SetVReg id w st
      else if opcode = AGET_WIDE then aget env ci AsLongArray SetVRegLong id w st
      else if opcode = AGET_OBJECT then aget env ci AsObjectArray SetVRegReference id w st
      else None)"

text \<open>
  \<open>aput\<close> reads the value before the index; \<open>aput-object\<close> also checks the type of the value.  The old
  component is logged, as a 64-bit number, if a transaction is active.
\<close>

definition aput ::
    "'w Env \<Rightarrow> CodeItem \<Rightarrow> (ArrayObject \<Rightarrow> 'e list option) \<Rightarrow> ('e list \<Rightarrow> ArrayObject)
      \<Rightarrow> (ShadowFrame \<Rightarrow> nat \<Rightarrow> 'v option) \<Rightarrow> ('v \<Rightarrow> 'e)
      \<Rightarrow> (uint32 \<Rightarrow> 'v \<Rightarrow> 'w Thread \<Rightarrow> bool \<times> 'w Thread)
      \<Rightarrow> (uint32 \<Rightarrow> nat \<Rightarrow> 'e \<Rightarrow> 'w Thread \<Rightarrow> 'w Thread) \<Rightarrow> uint16 \<Rightarrow> 'w Interp \<Rightarrow> 'w outcome option" where
  "aput env ci as_array mk rd narrow assignable log w st = do {
     b \<leftarrow> VRegB_23x (insns ci) (inst st);
     a \<leftarrow> GetVRegReference (shadow_frame st) (unat b);
     if a = 0 then throw_and_handle env ci NullPointer st
     else do {
       val \<leftarrow> rd (shadow_frame st) (unat (VRegA_23x w));
       c \<leftarrow> VRegC_23x (insns ci) (inst st);
       index \<leftarrow> GetVReg (shadow_frame st) (unat c);
       obj \<leftarrow> heap (thread st) a;
       array \<leftarrow> as_array obj;
       let (valid, self) = CheckIsValidIndex env (length array) index (thread st);
       let (valid, self) = (if valid then assignable a val self else (False, self));
       if valid then do {
         old \<leftarrow> array_get array (unat index);
         let self = log a (unat index) old self;
         array \<leftarrow> array_set array (unat index) (narrow val);
         go_next 2 (st\<lparr>thread := self\<lparr>heap := (heap self)(a \<mapsto> mk array)\<rparr>\<rparr>)
       } else HANDLE_PENDING_EXCEPTION env ci (st\<lparr>thread := self\<rparr>)
     }
   }"

definition exec_aput :: "'w Env \<Rightarrow> CodeItem \<Rightarrow> Code \<Rightarrow> uint16 \<Rightarrow> 'w Interp \<Rightarrow> 'w outcome option" where
  "exec_aput env ci opcode w st =
     (let any = (\<lambda>a v self. (True, self)); any_long = (\<lambda>a v self. (True, self)) in
      if opcode = APUT_BOOLEAN then
        aput env ci AsBooleanArray BooleanArray GetVReg ucast any (\<lambda>a i old. record_component env a i (ucast old)) w st
      else if opcode = APUT_BYTE then
        aput env ci AsByteArray ByteArray GetVReg ucast any (\<lambda>a i old. record_component env a i (scast old)) w st
      else if opcode = APUT_CHAR then
        aput env ci AsCharArray CharArray GetVReg ucast any (\<lambda>a i old. record_component env a i (ucast old)) w st
      else if opcode = APUT_SHORT then
        aput env ci AsShortArray ShortArray GetVReg ucast any (\<lambda>a i old. record_component env a i (scast old)) w st
      else if opcode = APUT then
        aput env ci AsIntArray IntArray GetVReg id any (\<lambda>a i old. record_component env a i (scast old)) w st
      else if opcode = APUT_WIDE then
        aput env ci AsLongArray LongArray GetVRegLong id any_long (record_component env) w st
      else if opcode = APUT_OBJECT then
        aput env ci AsObjectArray ObjectArray GetVRegReference id (CheckAssignable (objects env))
          (record_reference env) w st
      else None)"

section \<open>Fields\<close>

definition field_get ::
    "'w Env \<Rightarrow> CodeItem \<Rightarrow> FindFieldType \<Rightarrow> PrimType \<Rightarrow> uint16 \<Rightarrow> 'w Interp \<Rightarrow> 'w outcome option" where
  "field_get env ci find_type field_type w st = do {
     (success, frame, self) \<leftarrow>
       DoFieldGet env find_type field_type (insns ci) (inst st) w (shadow_frame st) (thread st);
     POSSIBLY_HANDLE_PENDING_EXCEPTION env ci (\<not> success) 2 (st\<lparr>shadow_frame := frame, thread := self\<rparr>)
   }"

definition field_put ::
    "'w Env \<Rightarrow> CodeItem \<Rightarrow> FindFieldType \<Rightarrow> PrimType \<Rightarrow> uint16 \<Rightarrow> 'w Interp \<Rightarrow> 'w outcome option" where
  "field_put env ci find_type field_type w st = do {
     (success, self) \<leftarrow>
       DoFieldPut env find_type field_type (insns ci) (inst st) w (shadow_frame st) (thread st);
     POSSIBLY_HANDLE_PENDING_EXCEPTION env ci (\<not> success) 2 (st\<lparr>thread := self\<rparr>)
   }"

definition field_get_quick ::
    "'w Env \<Rightarrow> CodeItem \<Rightarrow> PrimType \<Rightarrow> uint16 \<Rightarrow> 'w Interp \<Rightarrow> 'w outcome option" where
  "field_get_quick env ci field_type w st = do {
     (success, frame, self) \<leftarrow>
       DoIGetQuick env field_type (insns ci) (inst st) w (shadow_frame st) (thread st);
     POSSIBLY_HANDLE_PENDING_EXCEPTION env ci (\<not> success) 2 (st\<lparr>shadow_frame := frame, thread := self\<rparr>)
   }"

definition field_put_quick ::
    "'w Env \<Rightarrow> CodeItem \<Rightarrow> PrimType \<Rightarrow> uint16 \<Rightarrow> 'w Interp \<Rightarrow> 'w outcome option" where
  "field_put_quick env ci field_type w st = do {
     (success, self) \<leftarrow>
       DoIPutQuick env field_type (insns ci) (inst st) w (shadow_frame st) (thread st);
     POSSIBLY_HANDLE_PENDING_EXCEPTION env ci (\<not> success) 2 (st\<lparr>thread := self\<rparr>)
   }"

definition exec_iget :: "'w Env \<Rightarrow> CodeItem \<Rightarrow> Code \<Rightarrow> uint16 \<Rightarrow> 'w Interp \<Rightarrow> 'w outcome option" where
  "exec_iget env ci opcode w st =
     (if opcode = IGET_BOOLEAN then field_get env ci InstancePrimitiveRead kPrimBoolean w st
      else if opcode = IGET_BYTE then field_get env ci InstancePrimitiveRead kPrimByte w st
      else if opcode = IGET_CHAR then field_get env ci InstancePrimitiveRead kPrimChar w st
      else if opcode = IGET_SHORT then field_get env ci InstancePrimitiveRead kPrimShort w st
      else if opcode = IGET then field_get env ci InstancePrimitiveRead kPrimInt w st
      else if opcode = IGET_WIDE then field_get env ci InstancePrimitiveRead kPrimLong w st
      else if opcode = IGET_OBJECT then field_get env ci InstanceObjectRead kPrimNot w st
      else None)"

definition exec_iget_quick :: "'w Env \<Rightarrow> CodeItem \<Rightarrow> Code \<Rightarrow> uint16 \<Rightarrow> 'w Interp \<Rightarrow> 'w outcome option" where
  "exec_iget_quick env ci opcode w st =
     (if opcode = IGET_QUICK then field_get_quick env ci kPrimInt w st
      else if opcode = IGET_WIDE_QUICK then field_get_quick env ci kPrimLong w st
      else if opcode = IGET_OBJECT_QUICK then field_get_quick env ci kPrimNot w st
      else if opcode = IGET_BOOLEAN_QUICK then field_get_quick env ci kPrimBoolean w st
      else if opcode = IGET_BYTE_QUICK then field_get_quick env ci kPrimByte w st
      else if opcode = IGET_CHAR_QUICK then field_get_quick env ci kPrimChar w st
      else if opcode = IGET_SHORT_QUICK then field_get_quick env ci kPrimShort w st
      else None)"

definition exec_sget :: "'w Env \<Rightarrow> CodeItem \<Rightarrow> Code \<Rightarrow> uint16 \<Rightarrow> 'w Interp \<Rightarrow> 'w outcome option" where
  "exec_sget env ci opcode w st =
     (if opcode = SGET_BOOLEAN then field_get env ci StaticPrimitiveRead kPrimBoolean w st
      else if opcode = SGET_BYTE then field_get env ci StaticPrimitiveRead kPrimByte w st
      else if opcode = SGET_CHAR then field_get env ci StaticPrimitiveRead kPrimChar w st
      else if opcode = SGET_SHORT then field_get env ci StaticPrimitiveRead kPrimShort w st
      else if opcode = SGET then field_get env ci StaticPrimitiveRead kPrimInt w st
      else if opcode = SGET_WIDE then field_get env ci StaticPrimitiveRead kPrimLong w st
      else if opcode = SGET_OBJECT then field_get env ci StaticObjectRead kPrimNot w st
      else None)"

definition exec_iput :: "'w Env \<Rightarrow> CodeItem \<Rightarrow> Code \<Rightarrow> uint16 \<Rightarrow> 'w Interp \<Rightarrow> 'w outcome option" where
  "exec_iput env ci opcode w st =
     (if opcode = IPUT_BOOLEAN then field_put env ci InstancePrimitiveWrite kPrimBoolean w st
      else if opcode = IPUT_BYTE then field_put env ci InstancePrimitiveWrite kPrimByte w st
      else if opcode = IPUT_CHAR then field_put env ci InstancePrimitiveWrite kPrimChar w st
      else if opcode = IPUT_SHORT then field_put env ci InstancePrimitiveWrite kPrimShort w st
      else if opcode = IPUT then field_put env ci InstancePrimitiveWrite kPrimInt w st
      else if opcode = IPUT_WIDE then field_put env ci InstancePrimitiveWrite kPrimLong w st
      else if opcode = IPUT_OBJECT then field_put env ci InstanceObjectWrite kPrimNot w st
      else None)"

definition exec_iput_quick :: "'w Env \<Rightarrow> CodeItem \<Rightarrow> Code \<Rightarrow> uint16 \<Rightarrow> 'w Interp \<Rightarrow> 'w outcome option" where
  "exec_iput_quick env ci opcode w st =
     (if opcode = IPUT_QUICK then field_put_quick env ci kPrimInt w st
      else if opcode = IPUT_WIDE_QUICK then field_put_quick env ci kPrimLong w st
      else if opcode = IPUT_OBJECT_QUICK then field_put_quick env ci kPrimNot w st
      else if opcode = IPUT_BOOLEAN_QUICK then field_put_quick env ci kPrimBoolean w st
      else if opcode = IPUT_BYTE_QUICK then field_put_quick env ci kPrimByte w st
      else if opcode = IPUT_CHAR_QUICK then field_put_quick env ci kPrimChar w st
      else if opcode = IPUT_SHORT_QUICK then field_put_quick env ci kPrimShort w st
      else None)"

definition exec_sput :: "'w Env \<Rightarrow> CodeItem \<Rightarrow> Code \<Rightarrow> uint16 \<Rightarrow> 'w Interp \<Rightarrow> 'w outcome option" where
  "exec_sput env ci opcode w st =
     (if opcode = SPUT_BOOLEAN then field_put env ci StaticPrimitiveWrite kPrimBoolean w st
      else if opcode = SPUT_BYTE then field_put env ci StaticPrimitiveWrite kPrimByte w st
      else if opcode = SPUT_CHAR then field_put env ci StaticPrimitiveWrite kPrimChar w st
      else if opcode = SPUT_SHORT then field_put env ci StaticPrimitiveWrite kPrimShort w st
      else if opcode = SPUT then field_put env ci StaticPrimitiveWrite kPrimInt w st
      else if opcode = SPUT_WIDE then field_put env ci StaticPrimitiveWrite kPrimLong w st
      else if opcode = SPUT_OBJECT then field_put env ci StaticObjectWrite kPrimNot w st
      else None)"

section \<open>Calls\<close>

definition call_op :: "'w Env \<Rightarrow> CodeItem \<Rightarrow> 'w call \<Rightarrow> nat \<Rightarrow> 'w Interp \<Rightarrow> 'w outcome option" where
  "call_op env ci callee n st =
     (let (success, result, frame, self) = callee (inst st) (shadow_frame st) (result_register st) (thread st)
      in POSSIBLY_HANDLE_PENDING_EXCEPTION env ci (\<not> success) n
           (st\<lparr>shadow_frame := frame, thread := self, result_register := result\<rparr>))"

definition exec_invoke :: "'w Env \<Rightarrow> CodeItem \<Rightarrow> Code \<Rightarrow> 'w Interp \<Rightarrow> 'w outcome option" where
  "exec_invoke env ci opcode st =
     (if opcode = INVOKE_VIRTUAL then call_op env ci (DoInvoke env kVirtual False) 3 st
      else if opcode = INVOKE_VIRTUAL_RANGE then call_op env ci (DoInvoke env kVirtual True) 3 st
      else if opcode = INVOKE_SUPER then call_op env ci (DoInvoke env kSuper False) 3 st
      else if opcode = INVOKE_SUPER_RANGE then call_op env ci (DoInvoke env kSuper True) 3 st
      else if opcode = INVOKE_DIRECT then call_op env ci (DoInvoke env kDirect False) 3 st
      else if opcode = INVOKE_DIRECT_RANGE then call_op env ci (DoInvoke env kDirect True) 3 st
      else if opcode = INVOKE_INTERFACE then call_op env ci (DoInvoke env kInterface False) 3 st
      else if opcode = INVOKE_INTERFACE_RANGE then call_op env ci (DoInvoke env kInterface True) 3 st
      else if opcode = INVOKE_STATIC then call_op env ci (DoInvoke env kStatic False) 3 st
      else if opcode = INVOKE_STATIC_RANGE then call_op env ci (DoInvoke env kStatic True) 3 st
      else if opcode = INVOKE_VIRTUAL_QUICK then call_op env ci (DoInvokeVirtualQuick env False) 3 st
      else if opcode = INVOKE_VIRTUAL_RANGE_QUICK then call_op env ci (DoInvokeVirtualQuick env True) 3 st
      else None)"

text \<open>
  The experimental lambda instructions, whose implementation is a parameter; they abort the runtime
  unless they are enabled.
\<close>

definition exec_lambda :: "'w Env \<Rightarrow> CodeItem \<Rightarrow> Code \<Rightarrow> 'w Interp \<Rightarrow> 'w outcome option" where
  "exec_lambda env ci opcode st =
     (if \<not> ExperimentalLambdas env then None
      else if opcode = INVOKE_LAMBDA \<or> opcode = CAPTURE_VARIABLE \<or> opcode = CREATE_LAMBDA \<or>
        opcode = BOX_LAMBDA \<or> opcode = UNBOX_LAMBDA
      then call_op env ci (DoLambda env opcode (lambda_captured_variable_index st)) 2 st
      else if opcode = LIBERATE_VARIABLE then
        call_op env ci (DoLambda env opcode (lambda_captured_variable_index st)) 2
          (st\<lparr>lambda_captured_variable_index := lambda_captured_variable_index st + 1\<rparr>)
      else None)"

section \<open>Unary operations\<close>

definition op_12x where
  "op_12x rd wr f w st = do {
     v \<leftarrow> rd (shadow_frame st) (unat (VRegB_12x w));
     set_reg wr (VRegA_12x w) (f v) 1 st
   }"

definition exec_unop :: "'w Env \<Rightarrow> Code \<Rightarrow> uint16 \<Rightarrow> 'w Interp \<Rightarrow> 'w outcome option" where
  "exec_unop env opcode w st =
     (if opcode = NEG_INT then op_12x GetVReg SetVReg uminus w st
      else if opcode = NOT_INT then op_12x GetVReg SetVReg not w st
      else if opcode = NEG_LONG then op_12x GetVRegLong SetVRegLong uminus w st
      else if opcode = NOT_LONG then op_12x GetVRegLong SetVRegLong not w st
      else if opcode = NEG_FLOAT then op_12x GetVRegFloat SetVRegFloat (neg_float (fpu env)) w st
      else if opcode = NEG_DOUBLE then op_12x GetVRegDouble SetVRegDouble (neg_double (fpu env)) w st
      else None)"

definition exec_convert :: "'w Env \<Rightarrow> Code \<Rightarrow> uint16 \<Rightarrow> 'w Interp \<Rightarrow> 'w outcome option" where
  "exec_convert env opcode w st =
     (let u = fpu env in
      if opcode = INT_TO_LONG then op_12x GetVReg SetVRegLong scast w st
      else if opcode = INT_TO_FLOAT then op_12x GetVReg SetVRegFloat (int_to_float u) w st
      else if opcode = INT_TO_DOUBLE then op_12x GetVReg SetVRegDouble (int_to_double u) w st
      else if opcode = LONG_TO_INT then op_12x GetVRegLong SetVReg ucast w st
      else if opcode = LONG_TO_FLOAT then op_12x GetVRegLong SetVRegFloat (long_to_float u) w st
      else if opcode = LONG_TO_DOUBLE then op_12x GetVRegLong SetVRegDouble (long_to_double u) w st
      else if opcode = FLOAT_TO_INT then
        op_12x GetVRegFloat SetVReg
          (art_float_to_integral (lt_float u) (eq_float u) (int_to_float u) (cast_float_int u) kMaxInt kMinInt) w st
      else if opcode = FLOAT_TO_LONG then
        op_12x GetVRegFloat SetVRegLong
          (art_float_to_integral (lt_float u) (eq_float u) (long_to_float u) (cast_float_long u) kMaxLong kMinLong) w st
      else if opcode = FLOAT_TO_DOUBLE then op_12x GetVRegFloat SetVRegDouble (float_to_double u) w st
      else if opcode = DOUBLE_TO_INT then
        op_12x GetVRegDouble SetVReg
          (art_float_to_integral (lt_double u) (eq_double u) (int_to_double u) (cast_double_int u) kMaxInt kMinInt) w st
      else if opcode = DOUBLE_TO_LONG then
        op_12x GetVRegDouble SetVRegLong
          (art_float_to_integral (lt_double u) (eq_double u) (long_to_double u) (cast_double_long u) kMaxLong kMinLong) w st
      else if opcode = DOUBLE_TO_FLOAT then op_12x GetVRegDouble SetVRegFloat (double_to_float u) w st
      else if opcode = INT_TO_BYTE then op_12x GetVReg SetVReg (\<lambda>v. scast (ucast v :: uint8)) w st
      else if opcode = INT_TO_CHAR then op_12x GetVReg SetVReg (\<lambda>v. ucast (ucast v :: uint16)) w st
      else if opcode = INT_TO_SHORT then op_12x GetVReg SetVReg (\<lambda>v. scast (ucast v :: uint16)) w st
      else None)"

section \<open>Binary operations\<close>

definition shl_int :: "int32 \<Rightarrow> int32 \<Rightarrow> int32" where "shl_int a b = push_bit (unat (b AND 0x1f)) a"
definition shr_int :: "int32 \<Rightarrow> int32 \<Rightarrow> int32" where "shr_int a b = signed_drop_bit (unat (b AND 0x1f)) a"
definition ushr_int :: "int32 \<Rightarrow> int32 \<Rightarrow> int32" where "ushr_int a b = drop_bit (unat (b AND 0x1f)) a"
definition shl_long :: "int64 \<Rightarrow> int32 \<Rightarrow> int64" where "shl_long a b = push_bit (unat (b AND 0x3f)) a"
definition shr_long :: "int64 \<Rightarrow> int32 \<Rightarrow> int64" where "shr_long a b = signed_drop_bit (unat (b AND 0x3f)) a"
definition ushr_long :: "int64 \<Rightarrow> int32 \<Rightarrow> int64" where "ushr_long a b = drop_bit (unat (b AND 0x3f)) a"

text \<open>
  A division tells whether it succeeded; the handlers of \<open>int\<close> operands use the answer, those of
  \<open>long\<close> operands look for a pending exception.
\<close>

definition divide ::
    "'w Env \<Rightarrow> CodeItem \<Rightarrow> bool \<Rightarrow> nat \<Rightarrow> (bool \<times> ShadowFrame \<times> 'w Thread) option \<Rightarrow> 'w Interp \<Rightarrow> 'w outcome option" where
  "divide env ci use_result n r st = do {
     (success, frame, self) \<leftarrow> r;
     POSSIBLY_HANDLE_PENDING_EXCEPTION env ci (if use_result then \<not> success else IsExceptionPending self) n
       (st\<lparr>shadow_frame := frame, thread := self\<rparr>)
   }"

definition divide_23x where
  "divide_23x env ci use_result rd do_divide w st = do {
     b \<leftarrow> VRegB_23x (insns ci) (inst st);
     c \<leftarrow> VRegC_23x (insns ci) (inst st);
     dividend \<leftarrow> rd (shadow_frame st) (unat b);
     divisor \<leftarrow> rd (shadow_frame st) (unat c);
     divide env ci use_result 2
       (do_divide env (shadow_frame st) (thread st) (unat (VRegA_23x w)) dividend divisor) st
   }"

definition exec_int_23x :: "'w Env \<Rightarrow> CodeItem \<Rightarrow> Code \<Rightarrow> uint16 \<Rightarrow> 'w Interp \<Rightarrow> 'w outcome option" where
  "exec_int_23x env ci opcode w st =
     (let int_op = (\<lambda>f. op_23x GetVReg GetVReg SetVReg f (insns ci) w st) in
      if opcode = ADD_INT then int_op SafeAdd
      else if opcode = SUB_INT then int_op SafeSub
      else if opcode = MUL_INT then int_op SafeMul
      else if opcode = DIV_INT then divide_23x env ci True GetVReg DoIntDivide w st
      else if opcode = REM_INT then divide_23x env ci True GetVReg DoIntRemainder w st
      else if opcode = SHL_INT then int_op shl_int
      else if opcode = SHR_INT then int_op shr_int
      else if opcode = USHR_INT then int_op ushr_int
      else if opcode = AND_INT then int_op (AND)
      else if opcode = OR_INT then int_op (OR)
      else if opcode = XOR_INT then int_op (XOR)
      else None)"

definition exec_long_23x :: "'w Env \<Rightarrow> CodeItem \<Rightarrow> Code \<Rightarrow> uint16 \<Rightarrow> 'w Interp \<Rightarrow> 'w outcome option" where
  "exec_long_23x env ci opcode w st =
     (let long_op = (\<lambda>f. op_23x GetVRegLong GetVRegLong SetVRegLong f (insns ci) w st);
          shift_op = (\<lambda>f. op_23x GetVRegLong GetVReg SetVRegLong f (insns ci) w st) in
      if opcode = ADD_LONG then long_op SafeAdd
      else if opcode = SUB_LONG then long_op SafeSub
      else if opcode = MUL_LONG then long_op SafeMul
      else if opcode = DIV_LONG then divide_23x env ci False GetVRegLong DoLongDivide w st
      else if opcode = REM_LONG then divide_23x env ci False GetVRegLong DoLongRemainder w st
      else if opcode = AND_LONG then long_op (AND)
      else if opcode = OR_LONG then long_op (OR)
      else if opcode = XOR_LONG then long_op (XOR)
      else if opcode = SHL_LONG then shift_op shl_long
      else if opcode = SHR_LONG then shift_op shr_long
      else if opcode = USHR_LONG then shift_op ushr_long
      else None)"

definition exec_float_23x :: "'w Env \<Rightarrow> CodeItem \<Rightarrow> Code \<Rightarrow> uint16 \<Rightarrow> 'w Interp \<Rightarrow> 'w outcome option" where
  "exec_float_23x env ci opcode w st =
     (let float_op = (\<lambda>k. op_23x GetVRegFloat GetVRegFloat SetVRegFloat (op_float (fpu env) k) (insns ci) w st) in
      if opcode = ADD_FLOAT then float_op FAdd
      else if opcode = SUB_FLOAT then float_op FSub
      else if opcode = MUL_FLOAT then float_op FMul
      else if opcode = DIV_FLOAT then float_op FDiv
      else if opcode = REM_FLOAT then float_op FMod
      else None)"

definition exec_double_23x :: "'w Env \<Rightarrow> CodeItem \<Rightarrow> Code \<Rightarrow> uint16 \<Rightarrow> 'w Interp \<Rightarrow> 'w outcome option" where
  "exec_double_23x env ci opcode w st =
     (let double_op = (\<lambda>k. op_23x GetVRegDouble GetVRegDouble SetVRegDouble (op_double (fpu env) k) (insns ci) w st) in
      if opcode = ADD_DOUBLE then double_op FAdd
      else if opcode = SUB_DOUBLE then double_op FSub
      else if opcode = MUL_DOUBLE then double_op FMul
      else if opcode = DIV_DOUBLE then double_op FDiv
      else if opcode = REM_DOUBLE then double_op FMod
      else None)"

text \<open>The two-address forms: the first operand is the destination.\<close>

definition op_2addr where
  "op_2addr rdA rdB wr f w st = do {
     val1 \<leftarrow> rdA (shadow_frame st) (unat (VRegA_12x w));
     val2 \<leftarrow> rdB (shadow_frame st) (unat (VRegB_12x w));
     set_reg wr (VRegA_12x w) (f val1 val2) 1 st
   }"

definition divide_2addr where
  "divide_2addr env ci use_result rd do_divide w st = do {
     dividend \<leftarrow> rd (shadow_frame st) (unat (VRegA_12x w));
     divisor \<leftarrow> rd (shadow_frame st) (unat (VRegB_12x w));
     divide env ci use_result 1
       (do_divide env (shadow_frame st) (thread st) (unat (VRegA_12x w)) dividend divisor) st
   }"

definition exec_int_2addr :: "'w Env \<Rightarrow> CodeItem \<Rightarrow> Code \<Rightarrow> uint16 \<Rightarrow> 'w Interp \<Rightarrow> 'w outcome option" where
  "exec_int_2addr env ci opcode w st =
     (let int_op = (\<lambda>f. op_2addr GetVReg GetVReg SetVReg f w st) in
      if opcode = ADD_INT_2ADDR then int_op SafeAdd
      else if opcode = SUB_INT_2ADDR then int_op SafeSub
      else if opcode = MUL_INT_2ADDR then int_op SafeMul
      else if opcode = DIV_INT_2ADDR then divide_2addr env ci True GetVReg DoIntDivide w st
      else if opcode = REM_INT_2ADDR then divide_2addr env ci True GetVReg DoIntRemainder w st
      else if opcode = SHL_INT_2ADDR then int_op shl_int
      else if opcode = SHR_INT_2ADDR then int_op shr_int
      else if opcode = USHR_INT_2ADDR then int_op ushr_int
      else if opcode = AND_INT_2ADDR then int_op (AND)
      else if opcode = OR_INT_2ADDR then int_op (OR)
      else if opcode = XOR_INT_2ADDR then int_op (XOR)
      else None)"

definition exec_long_2addr :: "'w Env \<Rightarrow> CodeItem \<Rightarrow> Code \<Rightarrow> uint16 \<Rightarrow> 'w Interp \<Rightarrow> 'w outcome option" where
  "exec_long_2addr env ci opcode w st =
     (let long_op = (\<lambda>f. op_2addr GetVRegLong GetVRegLong SetVRegLong f w st);
          shift_op = (\<lambda>f. op_2addr GetVRegLong GetVReg SetVRegLong f w st) in
      if opcode = ADD_LONG_2ADDR then long_op SafeAdd
      else if opcode = SUB_LONG_2ADDR then long_op SafeSub
      else if opcode = MUL_LONG_2ADDR then long_op SafeMul
      else if opcode = DIV_LONG_2ADDR then divide_2addr env ci False GetVRegLong DoLongDivide w st
      else if opcode = REM_LONG_2ADDR then divide_2addr env ci False GetVRegLong DoLongRemainder w st
      else if opcode = AND_LONG_2ADDR then long_op (AND)
      else if opcode = OR_LONG_2ADDR then long_op (OR)
      else if opcode = XOR_LONG_2ADDR then long_op (XOR)
      else if opcode = SHL_LONG_2ADDR then shift_op shl_long
      else if opcode = SHR_LONG_2ADDR then shift_op shr_long
      else if opcode = USHR_LONG_2ADDR then shift_op ushr_long
      else None)"

definition exec_float_2addr :: "'w Env \<Rightarrow> Code \<Rightarrow> uint16 \<Rightarrow> 'w Interp \<Rightarrow> 'w outcome option" where
  "exec_float_2addr env opcode w st =
     (let float_op = (\<lambda>k. op_2addr GetVRegFloat GetVRegFloat SetVRegFloat (op_float (fpu env) k) w st) in
      if opcode = ADD_FLOAT_2ADDR then float_op FAdd
      else if opcode = SUB_FLOAT_2ADDR then float_op FSub
      else if opcode = MUL_FLOAT_2ADDR then float_op FMul
      else if opcode = DIV_FLOAT_2ADDR then float_op FDiv
      else if opcode = REM_FLOAT_2ADDR then float_op FMod
      else None)"

definition exec_double_2addr :: "'w Env \<Rightarrow> Code \<Rightarrow> uint16 \<Rightarrow> 'w Interp \<Rightarrow> 'w outcome option" where
  "exec_double_2addr env opcode w st =
     (let double_op = (\<lambda>k. op_2addr GetVRegDouble GetVRegDouble SetVRegDouble (op_double (fpu env) k) w st) in
      if opcode = ADD_DOUBLE_2ADDR then double_op FAdd
      else if opcode = SUB_DOUBLE_2ADDR then double_op FSub
      else if opcode = MUL_DOUBLE_2ADDR then double_op FMul
      else if opcode = DIV_DOUBLE_2ADDR then double_op FDiv
      else if opcode = REM_DOUBLE_2ADDR then double_op FMod
      else None)"

text \<open>The forms with a literal operand of 16 or 8 bits.\<close>

definition op_lit16 where
  "op_lit16 f code w st = do {
     b \<leftarrow> GetVReg (shadow_frame st) (unat (VRegB_22s w));
     c \<leftarrow> VRegC_22s code (inst st);
     set_reg SetVReg (VRegA_22s w) (f b c) 2 st
   }"

definition divide_lit16 where
  "divide_lit16 env ci do_divide w st = do {
     dividend \<leftarrow> GetVReg (shadow_frame st) (unat (VRegB_22s w));
     c \<leftarrow> VRegC_22s (insns ci) (inst st);
     divide env ci True 2
       (do_divide env (shadow_frame st) (thread st) (unat (VRegA_22s w)) dividend (scast c)) st
   }"

definition exec_lit16 :: "'w Env \<Rightarrow> CodeItem \<Rightarrow> Code \<Rightarrow> uint16 \<Rightarrow> 'w Interp \<Rightarrow> 'w outcome option" where
  "exec_lit16 env ci opcode w st =
     (let lit_op = (\<lambda>f. op_lit16 f (insns ci) w st) in
      if opcode = ADD_INT_LIT16 then lit_op SafeAdd
      else if opcode = RSUB_INT then lit_op (\<lambda>b c. SafeSub c b)
      else if opcode = MUL_INT_LIT16 then lit_op SafeMul
      else if opcode = DIV_INT_LIT16 then divide_lit16 env ci DoIntDivide w st
      else if opcode = REM_INT_LIT16 then divide_lit16 env ci DoIntRemainder w st
      else if opcode = AND_INT_LIT16 then lit_op (\<lambda>b c. b AND scast c)
      else if opcode = OR_INT_LIT16 then lit_op (\<lambda>b c. b OR scast c)
      else if opcode = XOR_INT_LIT16 then lit_op (\<lambda>b c. b XOR scast c)
      else None)"

definition op_lit8 where
  "op_lit8 f code w st = do {
     r \<leftarrow> VRegB_22b code (inst st);
     b \<leftarrow> GetVReg (shadow_frame st) (unat r);
     c \<leftarrow> VRegC_22b code (inst st);
     set_reg SetVReg (VRegA_22b w) (f b c) 2 st
   }"

definition divide_lit8 where
  "divide_lit8 env ci do_divide w st = do {
     r \<leftarrow> VRegB_22b (insns ci) (inst st);
     dividend \<leftarrow> GetVReg (shadow_frame st) (unat r);
     c \<leftarrow> VRegC_22b (insns ci) (inst st);
     divide env ci True 2
       (do_divide env (shadow_frame st) (thread st) (unat (VRegA_22b w)) dividend (scast c)) st
   }"

definition exec_lit8 :: "'w Env \<Rightarrow> CodeItem \<Rightarrow> Code \<Rightarrow> uint16 \<Rightarrow> 'w Interp \<Rightarrow> 'w outcome option" where
  "exec_lit8 env ci opcode w st =
     (let lit_op = (\<lambda>f. op_lit8 f (insns ci) w st) in
      if opcode = ADD_INT_LIT8 then lit_op SafeAdd
      else if opcode = RSUB_INT_LIT8 then lit_op (\<lambda>b c. SafeSub c b)
      else if opcode = MUL_INT_LIT8 then lit_op SafeMul
      else if opcode = DIV_INT_LIT8 then divide_lit8 env ci DoIntDivide w st
      else if opcode = REM_INT_LIT8 then divide_lit8 env ci DoIntRemainder w st
      else if opcode = AND_INT_LIT8 then lit_op (\<lambda>b c. b AND scast c)
      else if opcode = OR_INT_LIT8 then lit_op (\<lambda>b c. b OR scast c)
      else if opcode = XOR_INT_LIT8 then lit_op (\<lambda>b c. b XOR scast c)
      else if opcode = SHL_INT_LIT8 then lit_op (\<lambda>b c. shl_int b (scast c))
      else if opcode = SHR_INT_LIT8 then lit_op (\<lambda>b c. shr_int b (scast c))
      else if opcode = USHR_INT_LIT8 then lit_op (\<lambda>b c. ushr_int b (scast c))
      else None)"

section \<open>The interpreter\<close>

text \<open>The \<open>switch\<close>: opcodes of a group are adjacent.\<close>

definition dispatch :: "'w Env \<Rightarrow> CodeItem \<Rightarrow> Code \<Rightarrow> uint16 \<Rightarrow> 'w Interp \<Rightarrow> 'w outcome option" where
  "dispatch env ci opcode w st =
     (if opcode \<le> MOVE_OBJECT_16 then exec_move ci opcode w st
      else if opcode \<le> MOVE_EXCEPTION then exec_move_result opcode w st
      else if opcode \<le> RETURN_OBJECT \<or> opcode = RETURN_VOID_NO_BARRIER then exec_return env ci opcode w st
      else if opcode \<le> CONST_WIDE_HIGH16 then exec_const ci opcode w st
      else if opcode \<le> CONST_CLASS then exec_const_object env ci opcode w st
      else if opcode \<le> MONITOR_EXIT then exec_monitor env ci opcode w st
      else if opcode \<le> INSTANCE_OF then exec_type_check env ci opcode w st
      else if opcode = ARRAY_LENGTH then exec_array_length env ci w st
      else if opcode = NEW_INSTANCE then exec_new_instance env ci w st
      else if opcode \<le> FILLED_NEW_ARRAY_RANGE then exec_new_array env ci opcode w st
      else if opcode = FILL_ARRAY_DATA then exec_fill_array_data env ci w st
      else if opcode = THROW then exec_throw env ci w st
      else if opcode \<le> SPARSE_SWITCH then exec_goto env ci opcode w st
      else if opcode \<le> CMP_LONG then exec_cmp env ci opcode w st
      else if opcode \<le> IF_LE then exec_if env ci opcode w st
      else if opcode \<le> IF_LEZ then exec_ifz env ci opcode w st
      else if opcode < AGET then None
      else if opcode \<le> AGET_SHORT then exec_aget env ci opcode w st
      else if opcode \<le> APUT_SHORT then exec_aput env ci opcode w st
      else if opcode \<le> IGET_SHORT then exec_iget env ci opcode w st
      else if opcode \<le> IPUT_SHORT then exec_iput env ci opcode w st
      else if opcode \<le> SGET_SHORT then exec_sget env ci opcode w st
      else if opcode \<le> SPUT_SHORT then exec_sput env ci opcode w st
      else if opcode \<le> INVOKE_INTERFACE_RANGE then exec_invoke env ci opcode st
      else if opcode < NEG_INT then None
      else if opcode \<le> NEG_DOUBLE then exec_unop env opcode w st
      else if opcode \<le> INT_TO_SHORT then exec_convert env opcode w st
      else if opcode \<le> USHR_INT then exec_int_23x env ci opcode w st
      else if opcode \<le> USHR_LONG then exec_long_23x env ci opcode w st
      else if opcode \<le> REM_FLOAT then exec_float_23x env ci opcode w st
      else if opcode \<le> REM_DOUBLE then exec_double_23x env ci opcode w st
      else if opcode \<le> USHR_INT_2ADDR then exec_int_2addr env ci opcode w st
      else if opcode \<le> USHR_LONG_2ADDR then exec_long_2addr env ci opcode w st
      else if opcode \<le> REM_FLOAT_2ADDR then exec_float_2addr env opcode w st
      else if opcode \<le> REM_DOUBLE_2ADDR then exec_double_2addr env opcode w st
      else if opcode \<le> XOR_INT_LIT16 then exec_lit16 env ci opcode w st
      else if opcode \<le> USHR_INT_LIT8 then exec_lit8 env ci opcode w st
      else if opcode \<le> IGET_OBJECT_QUICK then exec_iget_quick env ci opcode w st
      else if opcode \<le> IPUT_OBJECT_QUICK then exec_iput_quick env ci opcode w st
      else if opcode \<le> INVOKE_VIRTUAL_RANGE_QUICK then exec_invoke env ci opcode st
      else if opcode \<le> IPUT_SHORT_QUICK then exec_iput_quick env ci opcode w st
      else if opcode \<le> IGET_SHORT_QUICK then exec_iget_quick env ci opcode w st
      else if opcode \<le> UNBOX_LAMBDA then exec_lambda env ci opcode st
      else None)"

text \<open>One round of the loop.\<close>

definition step :: "'w Env \<Rightarrow> CodeItem \<Rightarrow> 'w Interp \<Rightarrow> 'w outcome option" where
  "step env ci st = do {
     let pc = (of_nat (inst st) :: uint32);
     let st = st\<lparr>dex_pc := pc, shadow_frame := SetDexPC pc (shadow_frame st)\<rparr>;
     inst_data \<leftarrow> Fetch16 (insns ci) (inst st) 0;
     dispatch env ci (Opcode inst_data) inst_data st
   }"

text \<open>
  The loop, cut off after a number of rounds: the outcome is \<open>Running\<close> if the method has not
  returned by then.
\<close>

primrec execute :: "'w Env \<Rightarrow> CodeItem \<Rightarrow> nat \<Rightarrow> 'w Interp \<Rightarrow> 'w outcome option" where
  "execute env ci 0 st = Some (Running st)"
| "execute env ci (Suc n) st = do {
     r \<leftarrow> step env ci st;
     and_then r (\<lambda>st.
       if interpret_one_instruction env then
         Some (Returned (result_register st)
           (st\<lparr>shadow_frame := SetDexPC (of_nat (inst st)) (shadow_frame st)\<rparr>))
       else execute env ci n st)
   }"

definition ExecuteSwitchImpl ::
    "'w Env \<Rightarrow> CodeItem \<Rightarrow> nat \<Rightarrow> ShadowFrame \<Rightarrow> 'w Thread \<Rightarrow> uint64 \<Rightarrow> 'w outcome option" where
  "ExecuteSwitchImpl env ci fuel frame self result =
     (if \<not> HasReferenceArray frame then None
      else execute env ci fuel
        \<lparr>shadow_frame = frame, thread = self, inst = unat (GetDexPC frame), dex_pc = GetDexPC frame,
         result_register = result, lambda_captured_variable_index = 0\<rparr>)"

end
