(* ===== verification/Interpreter_Frames.thy ===== *)
theory Interpreter_Frames
  imports Interpreter
begin

text \<open>
  The frame invariant along the interpreter: whatever an instruction does, both halves of the frame
  keep their size and stay consistent.  The lemmas follow the groups of opcodes.
\<close>

named_theorems keeps \<open>handlers keep the frame invariant\<close>

text \<open>Partial correctness of a computation that may be undefined.\<close>

definition ensures :: "('a \<Rightarrow> bool) \<Rightarrow> 'a option \<Rightarrow> bool" where
  "ensures P r \<longleftrightarrow> (\<forall>x. r = Some x \<longrightarrow> P x)"

lemma ensures_None [keeps]: "ensures P None"
  by (simp add: ensures_def)

lemma ensures_Some [keeps]: "P x \<Longrightarrow> ensures P (Some x)"
  by (simp add: ensures_def)

lemma ensures_bind [keeps]: "(\<And>x. m = Some x \<Longrightarrow> ensures P (f x)) \<Longrightarrow> ensures P (Option.bind m f)"
  by (cases m) (simp_all add: ensures_def)

lemma ensures_if [keeps]: "(b \<Longrightarrow> ensures P x) \<Longrightarrow> (\<not> b \<Longrightarrow> ensures P y) \<Longrightarrow> ensures P (if b then x else y)"
  by simp

lemma ensures_prod [keeps]: "(\<And>a b. p = (a, b) \<Longrightarrow> ensures P (f a b)) \<Longrightarrow> ensures P (case p of (a, b) \<Rightarrow> f a b)"
  by (cases p) simp

lemma ensuresD: "ensures P r \<Longrightarrow> r = Some x \<Longrightarrow> P x"
  by (simp add: ensures_def)

text \<open>The invariant, and a handler that ends with a frame of \<open>n\<close> registers.\<close>

fun out_state :: "'w outcome \<Rightarrow> 'w Interp" where
  "out_state (Running st) = st"
| "out_state (Returned v st) = st"

definition fits :: "uint32 \<Rightarrow> ShadowFrame \<Rightarrow> bool" where
  "fits n f \<longleftrightarrow> frame_ok f \<and> number_of_vregs f = n"

abbreviation ends_in :: "uint32 \<Rightarrow> 'w outcome option \<Rightarrow> bool" where
  "ends_in n \<equiv> ensures (\<lambda>o1. fits n (shadow_frame (out_state o1)))"

abbreviation frame_in :: "uint32 \<Rightarrow> (bool \<times> ShadowFrame \<times> 'w Thread) option \<Rightarrow> bool" where
  "frame_in n \<equiv> ensures (\<lambda>(ok, f, self). fits n f)"

text \<open>What the calls of the environment promise: the frame they hand back is as large and consistent.\<close>

definition call_keeps :: "'w call \<Rightarrow> bool" where
  "call_keeps c \<longleftrightarrow> (\<forall>pc f r self n ok r' f' self'. fits n f \<longrightarrow> c pc f r self = (ok, r', f', self') \<longrightarrow> fits n f')"

definition calls_keep :: "'w Env \<Rightarrow> bool" where
  "calls_keep env \<longleftrightarrow> (\<forall>t range. call_keeps (DoInvoke env t range)) \<and>
     (\<forall>range. call_keeps (DoInvokeVirtualQuick env range)) \<and>
     (\<forall>opcode i. call_keeps (DoLambda env opcode i))"

lemma ends_and_then [keeps]:
  assumes "fits n (shadow_frame (out_state o1))"
    and "\<And>st. fits n (shadow_frame st) \<Longrightarrow> ends_in n (k st)"
  shows "ends_in n (and_then o1 k)"
  using assms by (cases o1) (simp_all add: ensures_def)

section \<open>Control\<close>

lemma fits_SetDexPC [simp]: "fits n (SetDexPC pc f) = fits n f"
  by (simp add: fits_def SetDexPC_def frame_ok_def NumberOfVRegs_def)

lemma fits_monitors [simp]: "fits n (f\<lparr>monitors := ms\<rparr>) = fits n f"
  by (simp add: fits_def frame_ok_def NumberOfVRegs_def)

lemma fits_monitor_ops:
  assumes "fits n f"
  shows "DoMonitorEnter env ref f self = (g, self') \<Longrightarrow> fits n g"
    "DoMonitorExit env ref f self = (g, self') \<Longrightarrow> fits n g"
    "DoMonitorCheckOnExit env f self = (ok, g, self') \<Longrightarrow> fits n g"
  using assms
  by (auto simp: DoMonitorEnter_def DoMonitorExit_def DoMonitorCheckOnExit_def AddMonitor_def
      RemoveMonitorOrThrow_def CheckAllMonitorsReleasedOrThrow_def Let_def
      split: if_splits option.splits)

lemma go_next_keeps [keeps]: "fits n (shadow_frame st) \<Longrightarrow> ends_in n (go_next k st)"
  by (simp add: go_next_def ensures_def)

lemma leave_keeps [keeps]: "fits n (shadow_frame st) \<Longrightarrow> ends_in n (leave env v st)"
  by (simp add: leave_def ensures_def)

lemma HANDLE_keeps [keeps]: "fits n (shadow_frame st) \<Longrightarrow> ends_in n (HANDLE_PENDING_EXCEPTION env ci st)"
  unfolding HANDLE_PENDING_EXCEPTION_def Let_def
  by (intro keeps) (auto dest: fits_monitor_ops)

lemma throw_keeps [keeps]: "fits n (shadow_frame st) \<Longrightarrow> ends_in n (throw_and_handle env ci k st)"
  unfolding throw_and_handle_def by (intro keeps) simp

lemma POSSIBLY_keeps [keeps]:
  "fits n (shadow_frame st) \<Longrightarrow> ends_in n (POSSIBLY_HANDLE_PENDING_EXCEPTION env ci b k st)"
  unfolding POSSIBLY_HANDLE_PENDING_EXCEPTION_def by (intro keeps)

lemma MONITOR_CHECKS_keeps [keeps]:
  "fits n (shadow_frame st) \<Longrightarrow> ends_in n (HANDLE_MONITOR_CHECKS env ci st)"
  unfolding HANDLE_MONITOR_CHECKS_def Let_def
  by (intro keeps) (auto dest: fits_monitor_ops)

lemma BRANCH_keeps [keeps]:
  "fits n (shadow_frame st) \<Longrightarrow> ends_in n k \<Longrightarrow> ends_in n (BRANCH_INSTRUMENTATION env off st k)"
  unfolding BRANCH_INSTRUMENTATION_def
  by (auto split: option.split intro!: keeps)

lemma branch_keeps [keeps]: "fits n (shadow_frame st) \<Longrightarrow> ends_in n (branch env off st)"
  unfolding branch_def by (intro keeps) auto

lemma branch_if_keeps [keeps]: "fits n (shadow_frame st) \<Longrightarrow> ends_in n (branch_if env b off st)"
  unfolding branch_if_def by (intro keeps) auto

section \<open>Register operands\<close>

context register_kind
begin

lemma wr_fits: "fits n f \<Longrightarrow> wr f i v = Some g \<Longrightarrow> fits n g"
  using write_frame [of f i v g] by (auto simp: fits_def same_frame_def)

lemma set_reg_keeps: "fits n (shadow_frame st) \<Longrightarrow> ends_in n (set_reg wr a v k st)"
  unfolding set_reg_def by (intro keeps) (auto dest: wr_fits)

lemma op_keeps:
  assumes "fits n (shadow_frame st)"
  shows "ends_in n (move_12x r wr w st)" "ends_in n (move_22x r wr code w st)"
    "ends_in n (move_32x r wr code st)" "ends_in n (op_23x r1 r2 wr f2 code w st)"
    "ends_in n (op_12x r3 wr f1 w st)" "ends_in n (op_2addr r1 r2 wr f2 w st)"
  unfolding move_12x_def move_22x_def move_32x_def op_23x_def op_12x_def op_2addr_def
  by (intro keeps set_reg_keeps assms)+

lemma aget_keeps: "fits n (shadow_frame st) \<Longrightarrow> ends_in n (aget env ci as_array wr widen w st)"
  unfolding aget_def by (intro keeps set_reg_keeps) (auto simp: Let_def intro!: keeps set_reg_keeps)

end

lemmas [keeps] = vreg.op_keeps vreg_float.op_keeps vreg_ref.op_keeps vreg_long.op_keeps vreg_double.op_keeps
  vreg.set_reg_keeps vreg_float.set_reg_keeps vreg_ref.set_reg_keeps vreg_long.set_reg_keeps vreg_double.set_reg_keeps
  vreg.aget_keeps vreg_ref.aget_keeps vreg_long.aget_keeps

lemmas wr_fits = vreg.wr_fits vreg_float.wr_fits vreg_ref.wr_fits vreg_long.wr_fits vreg_double.wr_fits

section \<open>Groups of opcodes\<close>

lemma divide_fits [keeps]:
  assumes "fits n f"
  shows "frame_in n (DoIntDivide env f self i a b)" "frame_in n (DoIntRemainder env f self i a b)"
    "frame_in n (DoLongDivide env f self i x y)" "frame_in n (DoLongRemainder env f self i x y)"
  unfolding DoIntDivide_def DoIntRemainder_def DoLongDivide_def DoLongRemainder_def
  by (intro keeps; use assms in \<open>auto split: if_splits dest: wr_fits\<close>)+

lemma divide_keeps [keeps]:
  "frame_in n r \<Longrightarrow> ends_in n (divide env ci b k r st)"
  unfolding divide_def by (intro keeps) (auto dest: ensuresD)

lemma divide_ops_keep [keeps]:
  assumes "fits n (shadow_frame st)"
  shows "ends_in n (divide_23x env ci b GetVReg DoIntDivide w st)"
    "ends_in n (divide_23x env ci b GetVReg DoIntRemainder w st)"
    "ends_in n (divide_23x env ci b GetVRegLong DoLongDivide w st)"
    "ends_in n (divide_23x env ci b GetVRegLong DoLongRemainder w st)"
    "ends_in n (divide_2addr env ci b GetVReg DoIntDivide w st)"
    "ends_in n (divide_2addr env ci b GetVReg DoIntRemainder w st)"
    "ends_in n (divide_2addr env ci b GetVRegLong DoLongDivide w st)"
    "ends_in n (divide_2addr env ci b GetVRegLong DoLongRemainder w st)"
    "ends_in n (divide_lit16 env ci DoIntDivide w st)"
    "ends_in n (divide_lit16 env ci DoIntRemainder w st)"
    "ends_in n (divide_lit8 env ci DoIntDivide w st)"
    "ends_in n (divide_lit8 env ci DoIntRemainder w st)"
  unfolding divide_23x_def divide_2addr_def divide_lit16_def divide_lit8_def
  by (intro keeps assms)+

lemma lit_keeps [keeps]:
  assumes "fits n (shadow_frame st)"
  shows "ends_in n (op_lit16 f code w st)" "ends_in n (op_lit8 g code w st)"
  unfolding op_lit16_def op_lit8_def by (intro keeps assms)+

lemma set_const_keeps [keeps]: "fits n (shadow_frame st) \<Longrightarrow> ends_in n (set_const a v k st)"
  unfolding set_const_def by (intro keeps) (auto split: if_splits dest: wr_fits)

lemma set_object_keeps [keeps]: "fits n (shadow_frame st) \<Longrightarrow> ends_in n (set_object env ci a r k st)"
  unfolding set_object_def Let_def by (intro keeps) auto

lemma if_keeps [keeps]:
  assumes "fits n (shadow_frame st)"
  shows "ends_in n (if_22t env ci c w st)" "ends_in n (if_21t env ci d w st)"
  unfolding if_22t_def if_21t_def by (intro keeps assms)+

lemma aput_keeps [keeps]:
  "fits n (shadow_frame st) \<Longrightarrow> ends_in n (aput env ci as_array mk rd narrow assignable log w st)"
  unfolding aput_def Let_def by (intro keeps) auto

lemma set_typed_fits: "fits n f \<Longrightarrow> set_typed f i t v = Some g \<Longrightarrow> fits n g"
  by (cases t) (auto dest: wr_fits)

lemma field_fits [keeps]:
  assumes "fits n f"
  shows "frame_in n (DoFieldGet env ft t code pc w f self)" "frame_in n (DoIGetQuick env t code pc w f self)"
  unfolding DoFieldGet_def DoIGetQuick_def Let_def
  by (intro keeps; use assms set_typed_fits in auto)+

lemma field_keeps [keeps]:
  assumes "fits n (shadow_frame st)"
  shows "ends_in n (field_get env ci ft t w st)" "ends_in n (field_put env ci ft t w st)"
    "ends_in n (field_get_quick env ci t w st)" "ends_in n (field_put_quick env ci t w st)"
  unfolding field_get_def field_put_def field_get_quick_def field_put_quick_def
  using assms by (intro keeps; auto dest: ensuresD [OF field_fits(1)] ensuresD [OF field_fits(2)])+

lemma call_keepsD: "call_keeps c \<Longrightarrow> c pc f r self = (ok, r', f', self') \<Longrightarrow> fits n f \<Longrightarrow> fits n f'"
  unfolding call_keeps_def by blast

lemma call_op_keeps [keeps]:
  assumes "call_keeps c" "fits n (shadow_frame st)"
  shows "ends_in n (call_op env ci c k st)"
  unfolding call_op_def Let_def using assms(2)
  by (intro keeps) (auto dest: call_keepsD [OF assms(1)])

lemma HANDLE_fits:
  "HANDLE_PENDING_EXCEPTION env ci st = Some o1 \<Longrightarrow> fits n (shadow_frame st) \<Longrightarrow> fits n (shadow_frame (out_state o1))"
  "throw_and_handle env ci e st = Some o1 \<Longrightarrow> fits n (shadow_frame st) \<Longrightarrow> fits n (shadow_frame (out_state o1))"
  "HANDLE_MONITOR_CHECKS env ci st = Some o1 \<Longrightarrow> fits n (shadow_frame st) \<Longrightarrow> fits n (shadow_frame (out_state o1))"
  by (auto dest: ensuresD [OF HANDLE_keeps] ensuresD [OF throw_keeps] ensuresD [OF MONITOR_CHECKS_keeps])

lemma return_object_keeps [keeps]: "fits n (shadow_frame st) \<Longrightarrow> ends_in n (return_object env ci i st)"
  unfolding return_object_def Let_def
  by (intro keeps) (auto split: if_splits dest: HANDLE_fits)

lemma exec_move_keeps [keeps]: "fits n (shadow_frame st) \<Longrightarrow> ends_in n (exec_move ci opcode w st)"
  unfolding exec_move_def Let_def by (intro keeps) simp_all

lemma exec_move_result_keeps [keeps]: "fits n (shadow_frame st) \<Longrightarrow> ends_in n (exec_move_result opcode w st)"
  unfolding exec_move_result_def Let_def by (intro keeps) (auto dest: wr_fits)

lemma exec_return_keeps [keeps]: "fits n (shadow_frame st) \<Longrightarrow> ends_in n (exec_return env ci opcode w st)"
  unfolding exec_return_def Let_def by (intro keeps) (auto dest: HANDLE_fits)

lemma exec_const_keeps [keeps]: "fits n (shadow_frame st) \<Longrightarrow> ends_in n (exec_const ci opcode w st)"
  unfolding exec_const_def Let_def by (intro keeps) simp_all

lemma exec_const_object_keeps [keeps]: "fits n (shadow_frame st) \<Longrightarrow> ends_in n (exec_const_object env ci opcode w st)"
  unfolding exec_const_object_def Let_def by (intro keeps) simp_all

lemma exec_monitor_keeps [keeps]: "fits n (shadow_frame st) \<Longrightarrow> ends_in n (exec_monitor env ci opcode w st)"
  unfolding exec_monitor_def Let_def by (intro keeps) (auto dest: fits_monitor_ops)

lemma exec_type_check_keeps [keeps]: "fits n (shadow_frame st) \<Longrightarrow> ends_in n (exec_type_check env ci opcode w st)"
  unfolding exec_type_check_def Let_def by (intro keeps) simp_all

lemma exec_array_length_keeps [keeps]: "fits n (shadow_frame st) \<Longrightarrow> ends_in n (exec_array_length env ci w st)"
  unfolding exec_array_length_def Let_def by (intro keeps) simp_all

lemma exec_new_instance_keeps [keeps]: "fits n (shadow_frame st) \<Longrightarrow> ends_in n (exec_new_instance env ci w st)"
  unfolding exec_new_instance_def Let_def by (intro keeps) simp_all

lemma exec_new_array_keeps [keeps]: "fits n (shadow_frame st) \<Longrightarrow> ends_in n (exec_new_array env ci opcode w st)"
  unfolding exec_new_array_def Let_def by (intro keeps) simp_all

lemma exec_fill_array_data_keeps [keeps]: "fits n (shadow_frame st) \<Longrightarrow> ends_in n (exec_fill_array_data env ci w st)"
  unfolding exec_fill_array_data_def Let_def by (intro keeps) simp_all

lemma exec_throw_keeps [keeps]: "fits n (shadow_frame st) \<Longrightarrow> ends_in n (exec_throw env ci w st)"
  unfolding exec_throw_def Let_def by (intro keeps) simp_all

lemma exec_goto_keeps [keeps]: "fits n (shadow_frame st) \<Longrightarrow> ends_in n (exec_goto env ci opcode w st)"
  unfolding exec_goto_def Let_def by (intro keeps) simp_all

lemma exec_cmp_keeps [keeps]: "fits n (shadow_frame st) \<Longrightarrow> ends_in n (exec_cmp env ci opcode w st)"
  unfolding exec_cmp_def Let_def by (intro keeps) simp_all

lemma exec_if_keeps [keeps]: "fits n (shadow_frame st) \<Longrightarrow> ends_in n (exec_if env ci opcode w st)"
  unfolding exec_if_def Let_def by (intro keeps) simp_all

lemma exec_ifz_keeps [keeps]: "fits n (shadow_frame st) \<Longrightarrow> ends_in n (exec_ifz env ci opcode w st)"
  unfolding exec_ifz_def Let_def by (intro keeps) simp_all

lemma exec_aget_keeps [keeps]: "fits n (shadow_frame st) \<Longrightarrow> ends_in n (exec_aget env ci opcode w st)"
  unfolding exec_aget_def Let_def by (intro keeps) simp_all

lemma exec_aput_keeps [keeps]: "fits n (shadow_frame st) \<Longrightarrow> ends_in n (exec_aput env ci opcode w st)"
  unfolding exec_aput_def Let_def by (intro keeps) simp_all

lemma exec_iget_keeps [keeps]: "fits n (shadow_frame st) \<Longrightarrow> ends_in n (exec_iget env ci opcode w st)"
  unfolding exec_iget_def Let_def by (intro keeps) simp_all

lemma exec_iget_quick_keeps [keeps]: "fits n (shadow_frame st) \<Longrightarrow> ends_in n (exec_iget_quick env ci opcode w st)"
  unfolding exec_iget_quick_def Let_def by (intro keeps) simp_all

lemma exec_sget_keeps [keeps]: "fits n (shadow_frame st) \<Longrightarrow> ends_in n (exec_sget env ci opcode w st)"
  unfolding exec_sget_def Let_def by (intro keeps) simp_all

lemma exec_iput_keeps [keeps]: "fits n (shadow_frame st) \<Longrightarrow> ends_in n (exec_iput env ci opcode w st)"
  unfolding exec_iput_def Let_def by (intro keeps) simp_all

lemma exec_iput_quick_keeps [keeps]: "fits n (shadow_frame st) \<Longrightarrow> ends_in n (exec_iput_quick env ci opcode w st)"
  unfolding exec_iput_quick_def Let_def by (intro keeps) simp_all

lemma exec_sput_keeps [keeps]: "fits n (shadow_frame st) \<Longrightarrow> ends_in n (exec_sput env ci opcode w st)"
  unfolding exec_sput_def Let_def by (intro keeps) simp_all

lemma exec_unop_keeps [keeps]: "fits n (shadow_frame st) \<Longrightarrow> ends_in n (exec_unop env opcode w st)"
  unfolding exec_unop_def Let_def by (intro keeps) simp_all

lemma exec_convert_keeps [keeps]: "fits n (shadow_frame st) \<Longrightarrow> ends_in n (exec_convert env opcode w st)"
  unfolding exec_convert_def Let_def by (intro keeps) simp_all

lemma exec_int_23x_keeps [keeps]: "fits n (shadow_frame st) \<Longrightarrow> ends_in n (exec_int_23x env ci opcode w st)"
  unfolding exec_int_23x_def Let_def by (intro keeps) simp_all

lemma exec_long_23x_keeps [keeps]: "fits n (shadow_frame st) \<Longrightarrow> ends_in n (exec_long_23x env ci opcode w st)"
  unfolding exec_long_23x_def Let_def by (intro keeps) simp_all

lemma exec_float_23x_keeps [keeps]: "fits n (shadow_frame st) \<Longrightarrow> ends_in n (exec_float_23x env ci opcode w st)"
  unfolding exec_float_23x_def Let_def by (intro keeps) simp_all

lemma exec_double_23x_keeps [keeps]: "fits n (shadow_frame st) \<Longrightarrow> ends_in n (exec_double_23x env ci opcode w st)"
  unfolding exec_double_23x_def Let_def by (intro keeps) simp_all

lemma exec_int_2addr_keeps [keeps]: "fits n (shadow_frame st) \<Longrightarrow> ends_in n (exec_int_2addr env ci opcode w st)"
  unfolding exec_int_2addr_def Let_def by (intro keeps) simp_all

lemma exec_long_2addr_keeps [keeps]: "fits n (shadow_frame st) \<Longrightarrow> ends_in n (exec_long_2addr env ci opcode w st)"
  unfolding exec_long_2addr_def Let_def by (intro keeps) simp_all

lemma exec_float_2addr_keeps [keeps]: "fits n (shadow_frame st) \<Longrightarrow> ends_in n (exec_float_2addr env opcode w st)"
  unfolding exec_float_2addr_def Let_def by (intro keeps) simp_all

lemma exec_double_2addr_keeps [keeps]: "fits n (shadow_frame st) \<Longrightarrow> ends_in n (exec_double_2addr env opcode w st)"
  unfolding exec_double_2addr_def Let_def by (intro keeps) simp_all

lemma exec_lit16_keeps [keeps]: "fits n (shadow_frame st) \<Longrightarrow> ends_in n (exec_lit16 env ci opcode w st)"
  unfolding exec_lit16_def Let_def by (intro keeps) simp_all

lemma exec_lit8_keeps [keeps]: "fits n (shadow_frame st) \<Longrightarrow> ends_in n (exec_lit8 env ci opcode w st)"
  unfolding exec_lit8_def Let_def by (intro keeps) simp_all

lemma exec_invoke_keeps [keeps]:
  "calls_keep env \<Longrightarrow> fits n (shadow_frame st) \<Longrightarrow> ends_in n (exec_invoke env ci opcode st)"
  unfolding exec_invoke_def by (intro keeps) (auto simp: calls_keep_def)

lemma exec_lambda_keeps [keeps]:
  "calls_keep env \<Longrightarrow> fits n (shadow_frame st) \<Longrightarrow> ends_in n (exec_lambda env ci opcode st)"
  unfolding exec_lambda_def by (intro keeps) (auto simp: calls_keep_def)

lemma dispatch_keeps:
  "calls_keep env \<Longrightarrow> fits n (shadow_frame st) \<Longrightarrow> ends_in n (dispatch env ci opcode w st)"
  unfolding dispatch_def by (intro keeps)

lemma step_keeps: "calls_keep env \<Longrightarrow> fits n (shadow_frame st) \<Longrightarrow> ends_in n (step env ci st)"
  unfolding step_def Let_def by (intro ensures_bind dispatch_keeps) auto

lemma execute_keeps:
  "calls_keep env \<Longrightarrow> fits n (shadow_frame st) \<Longrightarrow> ends_in n (execute env ci k st)"
proof (induction k arbitrary: st)
  case (Suc k)
  then show ?case
    by (auto intro!: keeps intro: ensuresD [OF step_keeps])
qed (simp add: ensures_def)

section \<open>An environment\<close>

text \<open>
  A runtime without classes: every resolution and allocation fails with the pending exception 1,
  calls do nothing, comparisons of floating point values compare bits.
\<close>

definition example_fpu :: FloatUnit where
  "example_fpu = \<lparr>lt_float = (<), eq_float = (=), lt_double = (<), eq_double = (=),
     op_float = (\<lambda>_ a b. a), op_double = (\<lambda>_ a b. a), neg_float = id, neg_double = id,
     int_to_float = id, int_to_double = ucast, long_to_float = ucast, long_to_double = id,
     float_to_double = ucast, double_to_float = ucast, cast_float_int = id, cast_float_long = ucast,
     cast_double_int = ucast, cast_double_long = id, cast_float_ulong = ucast, cast_double_ulong = id\<rparr>"

text \<open>The classes of the example: one for every kind of array, and class 1 for all other objects.\<close>

definition example_class :: "'w Thread \<Rightarrow> uint32 \<Rightarrow> uint32" where
  "example_class self a =
     (case heap self a of
        None \<Rightarrow> 1 | Some (BooleanArray xs) \<Rightarrow> 2 | Some (ByteArray xs) \<Rightarrow> 3 | Some (CharArray xs) \<Rightarrow> 4
      | Some (ShortArray xs) \<Rightarrow> 5 | Some (IntArray xs) \<Rightarrow> 6 | Some (LongArray xs) \<Rightarrow> 7 | Some (ObjectArray xs) \<Rightarrow> 8)"

definition example_component :: "uint32 \<Rightarrow> PrimType option" where
  "example_component c =
     (if 2 \<le> c \<and> c \<le> 8
      then Some ([kPrimBoolean, kPrimByte, kPrimChar, kPrimShort, kPrimInt, kPrimLong, kPrimNot] ! (unat c - 2))
      else None)"

definition example_objects :: "unit ObjectModel" where
  "example_objects = (let failing = (\<lambda>self. (0, self\<lparr>exception := 1\<rparr>)) in
     \<lparr>ThrowNewException = (\<lambda>k self. self\<lparr>exception := 1\<rparr>), GetClass = example_class,
      GetClassFromTypeIndex = (\<lambda>_ _. None), IsAssignableFrom = (\<lambda>_ _ _. True),
      InstanceOf = (\<lambda>_ _ _. True), VerifierInstanceOf = (\<lambda>_ _ _. True),
      IsThrowableClass = (\<lambda>_ _. True), IsStringClass = (\<lambda>_ _. False), IsFinalizable = (\<lambda>_ _. False),
      ComponentPrimitiveType = (\<lambda>_. example_component), CheckAssignable = (\<lambda>_ _ self. (True, self)),
      ResolveString = (\<lambda>_. failing), ResolveVerifyAndClinit = (\<lambda>_. failing),
      GetReturnType = (\<lambda>self. (1, self)), MonitorEnter = (\<lambda>_ self. self), MonitorExit = (\<lambda>_ self. self)\<rparr>)"

definition example_env :: "unit Env" where
  "example_env = (let failing = (\<lambda>self. (0, self\<lparr>exception := 1\<rparr>));
       call = (\<lambda>pc f r self. (True, r, f, self)) in
     \<lparr>do_access_check = True, transaction_active = False, interpret_one_instruction = False,
      MustCountLocks = True, ExperimentalLambdas = False, fpu = example_fpu, objects = example_objects,
      allocator = \<lparr>AllocString = failing, AllocObjectFromCode = (\<lambda>_. failing),
        AllocArrayFromCode = (\<lambda>_ _. failing), AllocArray = (\<lambda>_ _. failing),
        AbortFinalizable = (\<lambda>_ self. self\<lparr>exception := 1\<rparr>)\<rparr>,
      field_model = \<lparr>FindFieldFromCode = (\<lambda>_ _ _ self. (0, self\<lparr>exception := 1\<rparr>)),
        GetDeclaringClass = (\<lambda>_ _. 1), GetFieldType = (\<lambda>_ self. (1, self)), ArtField_Get = (\<lambda>_ _ _ _. 0),
        ArtField_Set = (\<lambda>_ _ _ _ self. self), Object_GetField = (\<lambda>_ _ _ _. 0),
        Object_SetField = (\<lambda>_ _ _ _ self. self)\<rparr>,
      transaction_log = \<lparr>log_write_array = (\<lambda>_ _ _ w. w), log_write_reference = (\<lambda>_ _ _ _ w. w)\<rparr>,
      DoInvoke = (\<lambda>_ _. call), DoInvokeVirtualQuick = (\<lambda>_. call), DoLambda = (\<lambda>_ _. call),
      MaybeDoOnStackReplacement = (\<lambda>_ _ _ _. None)\<rparr>)"

definition example_thread :: "unit Thread" where
  "example_thread = \<lparr>heap = Map.empty, exception = 0, world = ()\<rparr>"

lemma example_calls_keep: "calls_keep example_env"
  by (simp add: calls_keep_def call_keeps_def example_env_def Let_def)

text \<open>A method of two registers: \<open>const/4 v0, #7\<close>, \<open>add-int/2addr v0, v0\<close>, \<open>return v0\<close>.\<close>

definition example_sum :: CodeItem where
  "example_sum = \<lparr>registers_size = 2, ins_size = 0, outs_size = 0, tries = [],
     insns = [0x7012, 0x00B0, 0x000F], handler_data = []\<rparr>"

lemmas step_eval = step_def dispatch_def example_sum_def Fetch16_def array_get_def array_set_def Opcode_def
  SetDexPC_def exec_const_def set_const_def VRegA_11n_def VRegB_11n_def InstA_def InstB_def go_next_def
  exec_int_2addr_def op_2addr_def VRegA_12x_def VRegB_12x_def set_reg_def exec_return_def VRegA_11x_def
  InstAA_def HANDLE_MONITOR_CHECKS_def DoMonitorCheckOnExit_def CheckAllMonitorsReleasedOrThrow_def
  leave_def SafeAdd_def SafeMath_def frame_defs

lemma example_sum_run:
  "\<exists>st. ExecuteSwitchImpl example_env example_sum 3 (CreateShadowFrameImpl 2 0) example_thread 0
     = Some (Returned 14 st)"
  by (simp add: ExecuteSwitchImpl_def CreateShadowFrameImpl_def GetDexPC_def numeral_3_eq_3 step_eval
      example_env_def Let_def)

section \<open>Property\<close>

text \<open>
  C15: The frame invariant is kept by every execution.  If the frame handed to the interpreter has both
  its halves and every non-null entry of the reference half equals its register, then after any
  number of rounds, at an exception or at the return, the frame has the same number of registers
  and the same property, provided the calls the interpreter makes hand the frame back that way.
\<close>
theorem interpreter_keeps_frame:
  assumes "calls_keep env" "frame_ok frame"
    and "ExecuteSwitchImpl env ci fuel frame self result = Some r"
  shows "frame_ok (shadow_frame (out_state r)) \<and>
    NumberOfVRegs (shadow_frame (out_state r)) = NumberOfVRegs frame"
proof -
  have "fits (number_of_vregs frame) frame" using assms(2) by (simp add: fits_def)
  then have "fits (number_of_vregs frame) (shadow_frame (out_state r))"
    using ensuresD [OF execute_keeps [OF assms(1)] ] assms(3)
    by (force simp: ExecuteSwitchImpl_def HasReferenceArray_def)
  then show ?thesis by (simp add: fits_def NumberOfVRegs_def)
qed

theorem interpreter_keeps_frame_witness:
  "\<exists>st. ExecuteSwitchImpl example_env example_sum 3 (CreateShadowFrameImpl 2 0) example_thread 0
     = Some (Returned 14 st) \<and> frame_ok (shadow_frame st) \<and> NumberOfVRegs (shadow_frame st) = 2"
proof -
  obtain st where "ExecuteSwitchImpl example_env example_sum 3 (CreateShadowFrameImpl 2 0) example_thread 0
     = Some (Returned 14 st)"
    using example_sum_run by blast
  with interpreter_keeps_frame [OF example_calls_keep new_frame_ok this] show ?thesis
    by (simp add: NumberOfVRegs_def CreateShadowFrameImpl_def)
qed

end
