(* ===== verification/Opcode_Shapes.thy ===== *)
theory Opcode_Shapes
  imports Verifier_Soundness Interpreter_Frames
begin

text \<open>
  A summary of the instruction table for proofs about executed instructions: the format of an
  opcode, which operands are registers or register pairs that the verifier checks, and whether the
  verifier lets execution continue behind it.
\<close>

section \<open>Operands of opcodes\<close>

text \<open>
  Format, registers (0, 1 or 2 for none, one or a pair) in the operands A, B and C, and whether
  execution continues behind the instruction.
\<close>

definition row_shape :: "insn_row \<Rightarrow> Format \<times> nat \<times> nat \<times> nat \<times> bool" where
  "row_shape r =
     (let v = row_verify r;
          a = v AND (kVerifyRegA OR kVerifyRegAWide);
          b = v AND (kVerifyRegB OR kVerifyRegBField OR kVerifyRegBMethod OR kVerifyRegBNewInstance
             OR kVerifyRegBString OR kVerifyRegBType OR kVerifyRegBWide);
          c = v AND (kVerifyRegC OR kVerifyRegCField OR kVerifyRegCNewArray OR kVerifyRegCType
             OR kVerifyRegCWide OR kVerifyRegCString)
      in (row_format r,
          if a = kVerifyRegA then 1 else if a = kVerifyRegAWide then 2 else 0,
          if b = kVerifyRegB then 1 else if b = kVerifyRegBWide then 2 else 0,
          if c = kVerifyRegC then 1 else if c = kVerifyRegCWide then 2 else 0,
          row_flags r AND kContinue \<noteq> 0))"

text \<open>The values for the opcodes before the experimental ones.\<close>

definition shapes :: "(Format \<times> nat \<times> nat \<times> nat \<times> bool) list" where
  "shapes = [
     (k10x, 0, 0, 0, True), (k12x, 1, 1, 0, True), (k22x, 1, 1, 0, True), (k32x, 1, 1, 0, True),
     (k12x, 2, 2, 0, True), (k22x, 2, 2, 0, True), (k32x, 2, 2, 0, True), (k12x, 1, 1, 0, True),
     (k22x, 1, 1, 0, True), (k32x, 1, 1, 0, True), (k11x, 1, 0, 0, True), (k11x, 2, 0, 0, True),
     (k11x, 1, 0, 0, True), (k11x, 1, 0, 0, True), (k10x, 0, 0, 0, False),
     (k11x, 1, 0, 0, False), (k11x, 2, 0, 0, False), (k11x, 1, 0, 0, False),
     (k11n, 1, 0, 0, True), (k21s, 1, 0, 0, True), (k31i, 1, 0, 0, True), (k21h, 1, 0, 0, True),
     (k21s, 2, 0, 0, True), (k31i, 2, 0, 0, True), (k51l, 2, 0, 0, True), (k21h, 2, 0, 0, True),
     (k21c, 1, 0, 0, True), (k31c, 1, 0, 0, True), (k21c, 1, 0, 0, True), (k11x, 1, 0, 0, True),
     (k11x, 1, 0, 0, True), (k21c, 1, 0, 0, True), (k22c, 1, 1, 0, True), (k12x, 1, 1, 0, True),
     (k21c, 1, 0, 0, True), (k22c, 1, 1, 0, True), (k35c, 0, 0, 0, True), (k3rc, 0, 0, 0, True),
     (k31t, 1, 0, 0, True), (k11x, 1, 0, 0, False), (k10t, 0, 0, 0, False),
     (k20t, 0, 0, 0, False), (k30t, 0, 0, 0, False), (k31t, 1, 0, 0, True),
     (k31t, 1, 0, 0, True), (k23x, 1, 1, 1, True), (k23x, 1, 1, 1, True), (k23x, 1, 2, 2, True),
     (k23x, 1, 2, 2, True), (k23x, 1, 2, 2, True), (k22t, 1, 1, 0, True), (k22t, 1, 1, 0, True),
     (k22t, 1, 1, 0, True), (k22t, 1, 1, 0, True), (k22t, 1, 1, 0, True), (k22t, 1, 1, 0, True),
     (k21t, 1, 0, 0, True), (k21t, 1, 0, 0, True), (k21t, 1, 0, 0, True), (k21t, 1, 0, 0, True),
     (k21t, 1, 0, 0, True), (k21t, 1, 0, 0, True), (k10x, 0, 0, 0, False),
     (k10x, 0, 0, 0, False), (k10x, 0, 0, 0, False), (k10x, 0, 0, 0, False),
     (k10x, 0, 0, 0, False), (k10x, 0, 0, 0, False), (k23x, 1, 1, 1, True),
     (k23x, 2, 1, 1, True), (k23x, 1, 1, 1, True), (k23x, 1, 1, 1, True), (k23x, 1, 1, 1, True),
     (k23x, 1, 1, 1, True), (k23x, 1, 1, 1, True), (k23x, 1, 1, 1, True), (k23x, 2, 1, 1, True),
     (k23x, 1, 1, 1, True), (k23x, 1, 1, 1, True), (k23x, 1, 1, 1, True), (k23x, 1, 1, 1, True),
     (k23x, 1, 1, 1, True), (k22c, 1, 1, 0, True), (k22c, 2, 1, 0, True), (k22c, 1, 1, 0, True),
     (k22c, 1, 1, 0, True), (k22c, 1, 1, 0, True), (k22c, 1, 1, 0, True), (k22c, 1, 1, 0, True),
     (k22c, 1, 1, 0, True), (k22c, 2, 1, 0, True), (k22c, 1, 1, 0, True), (k22c, 1, 1, 0, True),
     (k22c, 1, 1, 0, True), (k22c, 1, 1, 0, True), (k22c, 1, 1, 0, True), (k21c, 1, 0, 0, True),
     (k21c, 2, 0, 0, True), (k21c, 1, 0, 0, True), (k21c, 1, 0, 0, True), (k21c, 1, 0, 0, True),
     (k21c, 1, 0, 0, True), (k21c, 1, 0, 0, True), (k21c, 1, 0, 0, True), (k21c, 2, 0, 0, True),
     (k21c, 1, 0, 0, True), (k21c, 1, 0, 0, True), (k21c, 1, 0, 0, True), (k21c, 1, 0, 0, True),
     (k21c, 1, 0, 0, True), (k35c, 0, 0, 0, True), (k35c, 0, 0, 0, True), (k35c, 0, 0, 0, True),
     (k35c, 0, 0, 0, True), (k35c, 0, 0, 0, True), (k10x, 0, 0, 0, False),
     (k3rc, 0, 0, 0, True), (k3rc, 0, 0, 0, True), (k3rc, 0, 0, 0, True), (k3rc, 0, 0, 0, True),
     (k3rc, 0, 0, 0, True), (k10x, 0, 0, 0, False), (k10x, 0, 0, 0, False),
     (k12x, 1, 1, 0, True), (k12x, 1, 1, 0, True), (k12x, 2, 2, 0, True), (k12x, 2, 2, 0, True),
     (k12x, 1, 1, 0, True), (k12x, 2, 2, 0, True), (k12x, 2, 1, 0, True), (k12x, 1, 1, 0, True),
     (k12x, 2, 1, 0, True), (k12x, 1, 2, 0, True), (k12x, 1, 2, 0, True), (k12x, 2, 2, 0, True),
     (k12x, 1, 1, 0, True), (k12x, 2, 1, 0, True), (k12x, 2, 1, 0, True), (k12x, 1, 2, 0, True),
     (k12x, 2, 2, 0, True), (k12x, 1, 2, 0, True), (k12x, 1, 1, 0, True), (k12x, 1, 1, 0, True),
     (k12x, 1, 1, 0, True), (k23x, 1, 1, 1, True), (k23x, 1, 1, 1, True), (k23x, 1, 1, 1, True),
     (k23x, 1, 1, 1, True), (k23x, 1, 1, 1, True), (k23x, 1, 1, 1, True), (k23x, 1, 1, 1, True),
     (k23x, 1, 1, 1, True), (k23x, 1, 1, 1, True), (k23x, 1, 1, 1, True), (k23x, 1, 1, 1, True),
     (k23x, 2, 2, 2, True), (k23x, 2, 2, 2, True), (k23x, 2, 2, 2, True), (k23x, 2, 2, 2, True),
     (k23x, 2, 2, 2, True), (k23x, 2, 2, 2, True), (k23x, 2, 2, 2, True), (k23x, 2, 2, 2, True),
     (k23x, 2, 2, 1, True), (k23x, 2, 2, 1, True), (k23x, 2, 2, 1, True), (k23x, 1, 1, 1, True),
     (k23x, 1, 1, 1, True), (k23x, 1, 1, 1, True), (k23x, 1, 1, 1, True), (k23x, 1, 1, 1, True),
     (k23x, 2, 2, 2, True), (k23x, 2, 2, 2, True), (k23x, 2, 2, 2, True), (k23x, 2, 2, 2, True),
     (k23x, 2, 2, 2, True), (k12x, 1, 1, 0, True), (k12x, 1, 1, 0, True), (k12x, 1, 1, 0, True),
     (k12x, 1, 1, 0, True), (k12x, 1, 1, 0, True), (k12x, 1, 1, 0, True), (k12x, 1, 1, 0, True),
     (k12x, 1, 1, 0, True), (k12x, 1, 1, 0, True), (k12x, 1, 1, 0, True), (k12x, 1, 1, 0, True),
     (k12x, 2, 2, 0, True), (k12x, 2, 2, 0, True), (k12x, 2, 2, 0, True), (k12x, 2, 2, 0, True),
     (k12x, 2, 2, 0, True), (k12x, 2, 2, 0, True), (k12x, 2, 2, 0, True), (k12x, 2, 2, 0, True),
     (k12x, 2, 1, 0, True), (k12x, 2, 1, 0, True), (k12x, 2, 1, 0, True), (k12x, 1, 1, 0, True),
     (k12x, 1, 1, 0, True), (k12x, 1, 1, 0, True), (k12x, 1, 1, 0, True), (k12x, 1, 1, 0, True),
     (k12x, 2, 2, 0, True), (k12x, 2, 2, 0, True), (k12x, 2, 2, 0, True), (k12x, 2, 2, 0, True),
     (k12x, 2, 2, 0, True), (k22s, 1, 1, 0, True), (k22s, 1, 1, 0, True), (k22s, 1, 1, 0, True),
     (k22s, 1, 1, 0, True), (k22s, 1, 1, 0, True), (k22s, 1, 1, 0, True), (k22s, 1, 1, 0, True),
     (k22s, 1, 1, 0, True), (k22b, 1, 1, 0, True), (k22b, 1, 1, 0, True), (k22b, 1, 1, 0, True),
     (k22b, 1, 1, 0, True), (k22b, 1, 1, 0, True), (k22b, 1, 1, 0, True), (k22b, 1, 1, 0, True),
     (k22b, 1, 1, 0, True), (k22b, 1, 1, 0, True), (k22b, 1, 1, 0, True), (k22b, 1, 1, 0, True),
     (k22c, 1, 1, 0, True), (k22c, 2, 1, 0, True), (k22c, 1, 1, 0, True), (k22c, 1, 1, 0, True),
     (k22c, 2, 1, 0, True), (k22c, 1, 1, 0, True), (k35c, 0, 0, 0, True), (k3rc, 0, 0, 0, True),
     (k22c, 1, 1, 0, True), (k22c, 1, 1, 0, True), (k22c, 1, 1, 0, True), (k22c, 1, 1, 0, True),
     (k22c, 1, 1, 0, True), (k22c, 1, 1, 0, True), (k22c, 1, 1, 0, True), (k22c, 1, 1, 0, True)]"

lemma table_shapes: "take 243 (map row_shape dex_instruction_list) = shapes"
  by (simp add: table_defs shapes_def row_shape_def)

definition shape :: "Code \<Rightarrow> Format \<times> nat \<times> nat \<times> nat \<times> bool" where
  "shape opcode = row_shape (dex_instruction_list ! unat opcode)"

lemma shape_nth: "unat opcode < 243 \<Longrightarrow> shape opcode = shapes ! unat opcode"
  unfolding shape_def table_shapes [symmetric] by simp

lemmas shape_eval = shape_nth shapes_def

lemma shape_parts:
  assumes "shape opcode = (fmt, a, b, c, fl)"
  shows "FormatOf opcode = fmt" "CanFlowThrough opcode = fl"
    "a = (if GetVerifyTypeArgumentA opcode = kVerifyRegA then 1
       else if GetVerifyTypeArgumentA opcode = kVerifyRegAWide then 2 else 0)"
    "b = (if GetVerifyTypeArgumentB opcode = kVerifyRegB then 1
       else if GetVerifyTypeArgumentB opcode = kVerifyRegBWide then 2 else 0)"
    "c = (if GetVerifyTypeArgumentC opcode = kVerifyRegC then 1
       else if GetVerifyTypeArgumentC opcode = kVerifyRegCWide then 2 else 0)"
  using assms
  by (auto simp: shape_def row_shape_def Let_def FormatOf_row FlagsOf_row VerifyFlagsOf_row CanFlowThrough_def
      GetVerifyTypeArgumentA_def GetVerifyTypeArgumentB_def GetVerifyTypeArgumentC_def)

text \<open>The verifier accepts only opcodes that the interpreter implements.\<close>

definition executable :: "Code \<Rightarrow> bool" where
  "executable opcode \<longleftrightarrow> unat opcode < 243 \<and> unat opcode \<notin> {0x3e..0x43} \<and> opcode \<noteq> 0x79 \<and> opcode \<noteq> 0x7a"

lemma verified_executable:
  "\<not> IsExperimental opcode \<longrightarrow> GetVerifyExtraFlags opcode \<noteq> kVerifyError \<longrightarrow> executable opcode"
  unfolding IsExperimental_def GetVerifyExtraFlags_def
  by (rule opcode_all [where P = "\<lambda>opcode format flags verify. \<not> flags AND kExperimental \<noteq> 0 \<longrightarrow>
     verify AND (kVerifyArrayData OR kVerifyBranchTarget
     OR kVerifySwitchTargets OR kVerifyVarArg OR kVerifyVarArgNonZero OR kVerifyVarArgRange
     OR kVerifyVarArgRangeNonZero OR kVerifyError) \<noteq> kVerifyError \<longrightarrow> executable opcode"])
    (simp add: table_defs executable_def)

text \<open>Opcodes of a range, one by one.\<close>

lemma opcode_range:
  assumes "opcode \<le> hi" "\<not> opcode \<le> lo"
  shows "(opcode :: Code) \<in> set (map of_nat [Suc (unat lo)..<Suc (unat hi)])"
proof -
  have "unat opcode \<in> set [Suc (unat lo)..<Suc (unat hi)]"
    using assms by (auto simp: word_le_nat_alt)
  then have "of_nat (unat opcode) \<in> set (map of_nat [Suc (unat lo)..<Suc (unat hi)] :: Code list)"
    unfolding set_map by (rule imageI)
  then show ?thesis by simp
qed

end
