(* ===== verification/Interpreter_Progress.thy ===== *)
theory Interpreter_Progress
  imports Opcode_Shapes
begin

text \<open>
  What a step of the interpreter needs from a verified instruction.  The static passes of the
  verifier promise what the interpreter relies on without checking: operands that can be decoded,
  registers inside the frame, branch and switch targets at starts of instructions.  The rules of
  the collection \<open>progress\<close> say that the building blocks of the handlers have a defined outcome
  on such an instruction and where execution goes on.
\<close>

section \<open>A verified instruction about to be executed\<close>

definition ready :: "CodeItem \<Rightarrow> 'w Interp \<Rightarrow> uint16 \<Rightarrow> bool" where
  "ready ci st w \<longleftrightarrow> Fetch16 (insns ci) (inst st) 0 = Some w \<and> registers_ok ci (inst st) (Opcode w) \<and>
     branch_ok (insn_start (insns ci)) (insns ci) (inst st) (Opcode w) \<and>
     switch_ok (insn_start (insns ci)) (insns ci) (inst st) (Opcode w) \<and>
     array_data_ok (insn_start (insns ci)) (insns ci) (inst st) (Opcode w) \<and>
     arguments_ok ci (inst st) (Opcode w) \<and>
     inst st + format_size (FormatOf (Opcode w)) \<le> length (insns ci) \<and> length (insns ci) < 2 ^ 31 \<and>
     frame_ok (shadow_frame st) \<and> NumberOfVRegs (shadow_frame st) = unat (registers_size ci) \<and>
     dex_pc st = of_nat (inst st)"

definition shape_is :: "Code \<Rightarrow> Format \<Rightarrow> nat \<Rightarrow> nat \<Rightarrow> nat \<Rightarrow> bool" where
  "shape_is opcode fmt a b c \<longleftrightarrow> (\<exists>fl. shape opcode = (fmt, a, b, c, fl))"

lemma ready_registers:
  assumes "ready ci st w" "shape_is (Opcode w) fmt a b c"
  shows "0 < a \<Longrightarrow> \<exists>x. VRegA (insns ci) (inst st) = Some x \<and> unat x + a \<le> NumberOfVRegs (shadow_frame st)"
    "0 < b \<Longrightarrow> \<exists>x. VRegB (insns ci) (inst st) = Some x \<and> unat x + b \<le> NumberOfVRegs (shadow_frame st)"
    "0 < c \<Longrightarrow> \<exists>x. VRegC (insns ci) (inst st) = Some x \<and> unat x + c \<le> NumberOfVRegs (shadow_frame st)"
proof -
  obtain fl where s: "shape (Opcode w) = (fmt, a, b, c, fl)" using assms(2) by (auto simp: shape_is_def)
  have r: "registers_ok ci (inst st) (Opcode w)" "NumberOfVRegs (shadow_frame st) = unat (registers_size ci)"
    using assms(1) by (simp_all add: ready_def)
  show "\<exists>x. VRegA (insns ci) (inst st) = Some x \<and> unat x + a \<le> NumberOfVRegs (shadow_frame st)" if "0 < a"
    using r that shape_parts(3) [OF s] by (auto simp: registers_ok_def split: if_splits)
  show "\<exists>x. VRegB (insns ci) (inst st) = Some x \<and> unat x + b \<le> NumberOfVRegs (shadow_frame st)" if "0 < b"
    using r that shape_parts(4) [OF s] by (auto simp: registers_ok_def split: if_splits)
  show "\<exists>x. VRegC (insns ci) (inst st) = Some x \<and> unat x + c \<le> NumberOfVRegs (shadow_frame st)" if "0 < c"
    using r that shape_parts(5) [OF s] by (auto simp: registers_ok_def split: if_splits)
qed

lemma ready_format:
  assumes "ready ci st w" "shape_is (Opcode w) fmt a b c"
  shows "FormatOf (Opcode w) = fmt" "Fetch16 (insns ci) (inst st) 0 = Some w"
    "inst st + format_size fmt \<le> length (insns ci)"
  using assms shape_parts(1) by (auto simp: ready_def shape_is_def)

text \<open>The operands of the formats, with room for their registers.\<close>

abbreviation room :: "'w Interp \<Rightarrow> nat \<Rightarrow> nat \<Rightarrow> bool" where
  "room st i k \<equiv> 0 < k \<longrightarrow> i + k \<le> NumberOfVRegs (shadow_frame st)"

lemma operands_A:
  assumes "ready ci st w" "shape_is (Opcode w) fmt a b c"
  shows "fmt = k11n \<Longrightarrow> room st (unat (VRegA_11n w)) a" "fmt = k11x \<Longrightarrow> room st (unat (VRegA_11x w)) a"
    "fmt = k12x \<Longrightarrow> room st (unat (VRegA_12x w)) a" "fmt = k21c \<Longrightarrow> room st (unat (VRegA_21c w)) a"
    "fmt = k21h \<Longrightarrow> room st (unat (VRegA_21h w)) a" "fmt = k21s \<Longrightarrow> room st (unat (VRegA_21s w)) a"
    "fmt = k21t \<Longrightarrow> room st (unat (VRegA_21t w)) a" "fmt = k22b \<Longrightarrow> room st (unat (VRegA_22b w)) a"
    "fmt = k22c \<Longrightarrow> room st (unat (VRegA_22c w)) a" "fmt = k22s \<Longrightarrow> room st (unat (VRegA_22s w)) a"
    "fmt = k22t \<Longrightarrow> room st (unat (VRegA_22t w)) a" "fmt = k22x \<Longrightarrow> room st (unat (VRegA_22x w)) a"
    "fmt = k23x \<Longrightarrow> room st (unat (VRegA_23x w)) a" "fmt = k31c \<Longrightarrow> room st (unat (VRegA_31c w)) a"
    "fmt = k31i \<Longrightarrow> room st (unat (VRegA_31i w)) a" "fmt = k31t \<Longrightarrow> room st (unat (VRegA_31t w)) a"
    "fmt = k51l \<Longrightarrow> room st (unat (VRegA_51l w)) a"
  using ready_registers(1) [OF assms] ready_format(1,2) [OF assms]
  by (auto simp: VRegA_def)

lemma operands_B:
  assumes "ready ci st w" "shape_is (Opcode w) fmt a b c"
  shows "fmt = k12x \<Longrightarrow> room st (unat (VRegB_12x w)) b" "fmt = k22c \<Longrightarrow> room st (unat (VRegB_22c w)) b"
    "fmt = k22s \<Longrightarrow> room st (unat (VRegB_22s w)) b" "fmt = k22t \<Longrightarrow> room st (unat (VRegB_22t w)) b"
  using ready_registers(2) [OF assms] ready_format(1,2) [OF assms]
  by (auto simp: VRegB_def)

text \<open>Operands outside the first code unit.\<close>

lemma operand_units:
  assumes "ready ci st w" "shape_is (Opcode w) fmt a b c"
  shows "fmt = k22b \<Longrightarrow> \<exists>x y. VRegB_22b (insns ci) (inst st) = Some x \<and> VRegC_22b (insns ci) (inst st) = Some y \<and> room st (unat x) b"
    "fmt = k22x \<Longrightarrow> \<exists>x. VRegB_22x (insns ci) (inst st) = Some x \<and> room st (unat x) b"
    "fmt = k23x \<Longrightarrow> \<exists>x y. VRegB_23x (insns ci) (inst st) = Some x \<and> VRegC_23x (insns ci) (inst st) = Some y \<and>
       room st (unat x) b \<and> room st (unat y) c"
    "fmt = k32x \<Longrightarrow> \<exists>x y. VRegA_32x (insns ci) (inst st) = Some x \<and> VRegB_32x (insns ci) (inst st) = Some y \<and>
       room st (unat x) a \<and> room st (unat y) b"
  using ready_registers [OF assms] ready_format [OF assms]
  by (auto simp: VRegA_def VRegB_def VRegC_def VReg_defs Fetch16_in format_size_def less_eq_Format_def)

lemma literal_units:
  assumes "ready ci st w" "shape_is (Opcode w) fmt a b c"
  shows "fmt = k20t \<Longrightarrow> \<exists>x. VRegA_20t (insns ci) (inst st) = Some x"
    "fmt = k30t \<Longrightarrow> \<exists>x. VRegA_30t (insns ci) (inst st) = Some x"
    "fmt = k21c \<Longrightarrow> \<exists>x. VRegB_21c (insns ci) (inst st) = Some x"
    "fmt = k21h \<Longrightarrow> \<exists>x. VRegB_21h (insns ci) (inst st) = Some x"
    "fmt = k21s \<Longrightarrow> \<exists>x. VRegB_21s (insns ci) (inst st) = Some x"
    "fmt = k21t \<Longrightarrow> \<exists>x. VRegB_21t (insns ci) (inst st) = Some x"
    "fmt = k31c \<Longrightarrow> \<exists>x. VRegB_31c (insns ci) (inst st) = Some x"
    "fmt = k31i \<Longrightarrow> \<exists>x. VRegB_31i (insns ci) (inst st) = Some x"
    "fmt = k31t \<Longrightarrow> \<exists>x. VRegB_31t (insns ci) (inst st) = Some x"
    "fmt = k51l \<Longrightarrow> \<exists>x. VRegB_51l (insns ci) (inst st) = Some x"
    "fmt = k22c \<Longrightarrow> \<exists>x. VRegC_22c (insns ci) (inst st) = Some x"
    "fmt = k22s \<Longrightarrow> \<exists>x. VRegC_22s (insns ci) (inst st) = Some x"
    "fmt = k22t \<Longrightarrow> \<exists>x. VRegC_22t (insns ci) (inst st) = Some x"
  using ready_format(3) [OF assms] Fetch32_in [of "inst st" 1 "insns ci"] Fetch32_in [of "inst st" 3 "insns ci"]
  by (auto simp: VReg_defs Fetch16_in format_size_def less_eq_Format_def)

section \<open>Where execution goes\<close>

text \<open>A possible target of a branch or an exception.\<close>

definition target :: "CodeItem \<Rightarrow> nat \<Rightarrow> bool" where
  "target ci t \<longleftrightarrow> t < length (insns ci) \<and> insn_start (insns ci) t"

text \<open>
  A defined outcome: the method returns, or execution goes on \<open>n\<close> code units behind the instruction
  or at a target.
\<close>

definition flows :: "CodeItem \<Rightarrow> nat \<Rightarrow> nat \<Rightarrow> 'w outcome option \<Rightarrow> bool" where
  "flows ci pc n r \<longleftrightarrow>
     (\<exists>o1. r = Some o1 \<and> (\<forall>st. o1 = Running st \<longrightarrow> inst st = pc + n \<or> target ci (inst st)))"

named_theorems progress \<open>handlers have a defined outcome\<close>

lemma flows_if [progress]: "(b \<Longrightarrow> flows ci pc n x) \<Longrightarrow> (\<not> b \<Longrightarrow> flows ci pc n y) \<Longrightarrow> flows ci pc n (if b then x else y)"
  by simp

lemma flows_prod [progress]: "(\<And>a b. p = (a, b) \<Longrightarrow> flows ci pc n (f a b)) \<Longrightarrow> flows ci pc n (case p of (a, b) \<Rightarrow> f a b)"
  by (cases p) simp

lemma flows_leave [progress]: "flows ci pc n (leave env v st)"
  by (simp add: flows_def leave_def)

lemma flows_n: "flows ci pc m r \<Longrightarrow> n = m \<Longrightarrow> flows ci pc n r"
  by simp

lemma flows_go_next [progress]: "inst st = pc \<Longrightarrow> n = m \<Longrightarrow> flows ci pc n (go_next m st)"
  by (simp add: flows_def go_next_def)

lemma flows_bind: "m = Some x \<Longrightarrow> flows ci pc n (f x) \<Longrightarrow> flows ci pc n (Option.bind m f)"
  by simp

lemma flows_binds [progress]:
  "\<exists>x. m = Some x \<Longrightarrow> (\<And>x. m = Some x \<Longrightarrow> flows ci pc n (f x)) \<Longrightarrow> flows ci pc n (Option.bind m f)"
  by auto

lemma flows_and_then:
  assumes "flows ci pc n r" "\<And>st. flows ci pc n (k st)"
  shows "flows ci pc n (Option.bind r (\<lambda>o1. and_then o1 k))"
proof -
  obtain o1 where "r = Some o1" using assms(1) by (auto simp: flows_def)
  then show ?thesis using assms(2) by (cases o1) (auto simp: flows_def)
qed

subsection \<open>Exceptions\<close>

text \<open>
  The handler lists that the try items name can be read and lead to targets.  (The verifier checks
  the lists one after the other; that the try items name their starts is a matter of the dex file
  format.)
\<close>

definition handlers_ok :: "CodeItem \<Rightarrow> bool" where
  "handlers_ok ci \<longleftrightarrow> tries_ok (tries ci) \<and>
     (\<forall>ti \<in> set (tries ci). \<exists>it hs e. Init_offset ci (int (unat (handler_off ti))) = Some it \<and>
        handlers_of it = Some (hs, e) \<and> (\<forall>h \<in> set hs. target ci (unat (snd h))))"

lemma FindCatchBlock_target:
  assumes "handlers_ok ci" "length (insns ci) < 2 ^ 31"
  shows "\<exists>found clear. FindCatchBlock resolve assignable ci exc pc b = Some (found, clear) \<and>
    (found = kDexNoIndex \<or> target ci (unat found))"
proof -
  obtain r where r: "FindTryItem ci pc = Some r" "try_found (tries ci) pc r"
    using FindTryItem_correct [of ci pc] assms(1) unfolding handlers_ok_def by blast
  obtain it hs e where it: "CatchHandlerIterator_at ci pc = Some it" "handlers_of it = Some (hs, e)"
      "\<forall>h \<in> set hs. target ci (unat (snd h))"
  proof (cases "r = -1")
    case True
    then show ?thesis
      using r(1) that
      by (simp add: CatchHandlerIterator_at_search FindCatchHandlerOffset_def Init_offset_def
          handlers_of.simps HasNext_def)
  next
    case False
    then have "nat r < length (tries ci)" using r(2) by (auto simp: try_found_def)
    then show ?thesis
      using r(1) False assms(1) that
      by (force simp: CatchHandlerIterator_at_search FindCatchHandlerOffset_def GetTryItems_def
          array_get_in handlers_ok_def dest: nth_mem)
  qed
  define h where "h = find (catches resolve assignable exc) hs"
  have t: "target ci (unat (snd x))" if "h = Some x" for x
    using that it(3) by (auto simp: h_def find_Some_iff)
  have l: "FindCatchBlock_loop resolve assignable exc it = Some (case h of None \<Rightarrow> kDexNoIndex | Some h \<Rightarrow> snd h)"
    unfolding h_def by (rule FindCatchBlock_loop_find [OF it(2)])
  show ?thesis
  proof (cases h)
    case None
    then show ?thesis using it(1) l by (simp add: FindCatchBlock_def)
  next
    case (Some x)
    then have "Fetch16 (insns ci) (unat (snd x)) 0 = Some (insns ci ! unat (snd x))"
      using t by (simp add: target_def Fetch16_in)
    then show ?thesis using it(1) l Some t by (simp add: FindCatchBlock_def)
  qed
qed

lemma RelativeAt_target:
  assumes "pc < 2 ^ 31" "t < 2 ^ 31"
  shows "RelativeAt pc (of_nat t - of_nat pc) = Some t"
proof -
  have "sint (of_nat t - of_nat pc :: int32) = int t - int pc"
    using assms sint_of_int32 [of "int t - int pc"] by simp
  then show ?thesis by (simp add: RelativeAt_def)
qed

text \<open>What the environment promises: whoever raises an exception leaves it pending.\<close>

definition runtime_ok :: "'w Env \<Rightarrow> bool" where
  "runtime_ok env \<longleftrightarrow>
     (\<forall>k self. IsExceptionPending (throw env k self)) \<and>
     (\<forall>i self. fst (ResolveString (objects env) i self) = 0 \<longrightarrow>
        IsExceptionPending (snd (ResolveString (objects env) i self))) \<and>
     (\<forall>i self. fst (ResolveVerifyAndClinit (objects env) i self) = 0 \<longrightarrow>
        IsExceptionPending (snd (ResolveVerifyAndClinit (objects env) i self))) \<and>
     (\<forall>self. fst (AllocString (allocator env) self) = 0 \<longrightarrow>
        IsExceptionPending (snd (AllocString (allocator env) self))) \<and>
     (\<forall>i self. fst (AllocObjectFromCode (allocator env) i self) = 0 \<longrightarrow>
        IsExceptionPending (snd (AllocObjectFromCode (allocator env) i self))) \<and>
     (\<forall>i n self. fst (AllocArrayFromCode (allocator env) i n self) = 0 \<longrightarrow>
        IsExceptionPending (snd (AllocArrayFromCode (allocator env) i n self))) \<and>
     (\<forall>obj self. IsExceptionPending (AbortFinalizable (allocator env) obj self)) \<and>
     (\<forall>t i n self. fst (FindFieldFromCode (field_model env) t i n self) = 0 \<longrightarrow>
        IsExceptionPending (snd (FindFieldFromCode (field_model env) t i n self))) \<and>
     (\<forall>a v self. \<not> fst (CheckAssignable (objects env) a v self) \<longrightarrow>
        IsExceptionPending (snd (CheckAssignable (objects env) a v self)))"

definition call_reports :: "'w call \<Rightarrow> bool" where
  "call_reports c \<longleftrightarrow> (\<forall>pc f r self r' f' self'. c pc f r self = (False, r', f', self') \<longrightarrow> IsExceptionPending self')"

definition calls_report :: "'w Env \<Rightarrow> bool" where
  "calls_report env \<longleftrightarrow> (\<forall>t range. call_reports (DoInvoke env t range)) \<and>
     (\<forall>range. call_reports (DoInvokeVirtualQuick env range))"

text \<open>A state in which the handlers of the method can be looked up from the current instruction.\<close>

definition located :: "CodeItem \<Rightarrow> nat \<Rightarrow> 'w Interp \<Rightarrow> bool" where
  "located ci pc st \<longleftrightarrow> inst st = pc \<and> dex_pc st = of_nat pc \<and> pc < 2 ^ 31 \<and>
     length (insns ci) < 2 ^ 31 \<and> handlers_ok ci"

lemma located_update [simp]:
  "located ci pc (st\<lparr>shadow_frame := f\<rparr>) = located ci pc st"
  "located ci pc (st\<lparr>thread := self\<rparr>) = located ci pc st"
  "located ci pc (st\<lparr>result_register := r\<rparr>) = located ci pc st"
  by (simp_all add: located_def)

lemma FindNext_target:
  assumes "located ci pc st" "IsExceptionPending (thread st)"
  shows "\<exists>found self. FindNextInstructionFollowingException env ci (of_nat pc) (thread st) = Some (found, self) \<and>
    (found = kDexNoIndex \<or> target ci (unat found))"
proof -
  have "handlers_ok ci" "length (insns ci) < 2 ^ 31" using assms(1) by (simp_all add: located_def)
  from FindCatchBlock_target [OF this, of "GetClassFromTypeIndex (objects env) (thread st)"
      "IsAssignableFrom (objects env) (thread st)" "GetClass (objects env) (thread st) (exception (thread st))"
      "of_nat pc" False]
  show ?thesis
    using assms(2) by (auto simp: FindNextInstructionFollowingException_def)
qed

lemma HANDLE_flows [progress]:
  assumes "located ci pc st" "IsExceptionPending (thread st)"
  shows "flows ci pc n (HANDLE_PENDING_EXCEPTION env ci st)"
proof -
  have l: "length (insns ci) < 2 ^ 31" "inst st = pc" "dex_pc st = of_nat pc" "pc < 2 ^ 31"
    using assms(1) by (simp_all add: located_def)
  obtain found self where f: "FindNextInstructionFollowingException env ci (of_nat pc) (thread st) = Some (found, self)"
      "found = kDexNoIndex \<or> target ci (unat found)"
    using FindNext_target [OF assms] by blast
  show ?thesis
  proof (cases "found = kDexNoIndex")
    case True
    show ?thesis
      unfolding HANDLE_PENDING_EXCEPTION_def l(2) f(1) Let_def
      by (simp only: bind.bind_lunit prod.case True if_True) (intro progress; simp)
  next
    case False
    with f(2) have t: "target ci (unat found)" by simp
    then have "RelativeAt pc (of_nat (unat found) - of_nat pc) = Some (unat found)"
      using l by (intro RelativeAt_target) (auto simp: target_def)
    then have "HANDLE_PENDING_EXCEPTION env ci st = Some (Running (st\<lparr>thread := self, inst := unat found\<rparr>))"
      unfolding HANDLE_PENDING_EXCEPTION_def l(2,3) f(1) using False by simp
    then show ?thesis using t by (simp add: flows_def)
  qed
qed

lemma throw_flows [progress]:
  assumes "runtime_ok env" "located ci pc st"
  shows "flows ci pc n (throw_and_handle env ci k st)"
  unfolding throw_and_handle_def using assms by (intro progress) (simp_all add: runtime_ok_def)

lemma POSSIBLY_flows [progress]:
  assumes "located ci pc st" "b \<Longrightarrow> IsExceptionPending (thread st)" "n = m"
  shows "flows ci pc n (POSSIBLY_HANDLE_PENDING_EXCEPTION env ci b m st)"
  unfolding POSSIBLY_HANDLE_PENDING_EXCEPTION_def using assms
  by (intro progress) (simp_all add: located_def)

lemma MONITOR_CHECKS_flows:
  assumes "runtime_ok env" "located ci pc st"
  shows "flows ci pc 0 (HANDLE_MONITOR_CHECKS env ci st)"
proof -
  obtain ok f self where m: "DoMonitorCheckOnExit env (shadow_frame st) (thread st) = (ok, f, self)"
    by (metis prod_cases3)
  then have "\<not> ok \<Longrightarrow> IsExceptionPending self"
    using assms(1)
    by (auto simp: DoMonitorCheckOnExit_def CheckAllMonitorsReleasedOrThrow_def Let_def runtime_ok_def
        split: if_splits option.splits)
  moreover have "flows ci pc 0 (Some (Running (st\<lparr>shadow_frame := f, thread := self\<rparr>)))"
    using assms(2) by (simp add: flows_def located_def)
  ultimately show ?thesis
    unfolding HANDLE_MONITOR_CHECKS_def m Let_def using assms(2)
    by (auto intro!: progress)
qed

subsection \<open>Branches\<close>

lemma BRANCH_flows [progress]:
  "flows ci pc n k \<Longrightarrow> flows ci pc n (BRANCH_INSTRUMENTATION env off st k)"
  unfolding BRANCH_INSTRUMENTATION_def by (auto split: option.split intro!: progress)

lemma branch_flows:
  assumes "inst st = pc" "int t = int pc + sint off" "target ci t \<or> t = pc + n"
  shows "flows ci pc n (branch env off st)"
proof -
  have "RelativeAt (inst st) off = Some t" using assms(1,2) by (simp add: RelativeAt_def flip: assms(2))
  then show ?thesis unfolding branch_def using assms(3) by (intro progress) (auto simp: flows_def)
qed

lemma branch_if_flows:
  assumes "inst st = pc" "off = Some d" "int t = int pc + sint (scast d :: int32)" "target ci t"
  shows "flows ci pc 2 (branch_if env b off st)"
  unfolding branch_if_def using assms
  by (intro progress) (auto intro!: branch_flows)

section \<open>Register operations\<close>

definition reads :: "(ShadowFrame \<Rightarrow> nat \<Rightarrow> 'v option) \<Rightarrow> nat \<Rightarrow> bool" where
  "reads rd k \<longleftrightarrow> (\<forall>f i. frame_ok f \<longrightarrow> i + k \<le> NumberOfVRegs f \<longrightarrow> rd f i \<noteq> None)"

definition writes :: "(ShadowFrame \<Rightarrow> nat \<Rightarrow> 'v \<Rightarrow> ShadowFrame option) \<Rightarrow> nat \<Rightarrow> bool" where
  "writes wr k \<longleftrightarrow> (\<forall>f i v. frame_ok f \<longrightarrow> i + k \<le> NumberOfVRegs f \<longrightarrow> wr f i v \<noteq> None)"

context register_kind
begin

lemma reads_writes: "reads rd width" "writes wr width"
  using load store by (fastforce simp: reads_def writes_def)+

end

lemma zero_less_width: "0 < (1 :: nat)" "0 < (2 :: nat)"
  by simp_all

lemma readsD:
  "reads rd k \<Longrightarrow> ready ci st w \<Longrightarrow> room st i k \<Longrightarrow> 0 < k \<Longrightarrow> \<exists>v. rd (shadow_frame st) i = Some v"
  by (auto simp: reads_def ready_def simp del: not_None_eq simp flip: not_None_eq)

lemma writesD:
  "writes wr k \<Longrightarrow> frame_ok f \<Longrightarrow> i + k \<le> NumberOfVRegs f \<Longrightarrow> \<exists>g. wr f i v = Some g"
  by (auto simp: writes_def simp del: not_None_eq simp flip: not_None_eq)

lemma set_reg_flows:
  assumes "writes wr k" "ready ci st w" "room st (unat a) k" "0 < k"
  shows "flows ci (inst st) n (set_reg wr a v n st)"
proof -
  obtain g where "wr (shadow_frame st) (unat a) v = Some g"
    using writesD [OF assms(1)] assms(2-4) unfolding ready_def by blast
  then show ?thesis unfolding set_reg_def by (intro flows_bind progress) simp_all
qed

lemma op_12x_flows:
  assumes "reads rd b" "writes wr a" "ready ci st w" "shape_is (Opcode w) k12x a b c" "0 < a" "0 < b"
  shows "flows ci (inst st) 1 (op_12x rd wr f w st)"
proof -
  obtain v where "rd (shadow_frame st) (unat (VRegB_12x w)) = Some v"
    using readsD [OF assms(1,3) operands_B(1) [OF assms(3,4) refl] assms(6)] ..
  then show ?thesis
    unfolding op_12x_def
    by (rule flows_bind) (rule set_reg_flows [OF assms(2,3) operands_A(3) [OF assms(3,4) refl] assms(5)])
qed

lemma move_12x_flows:
  assumes "reads rd b" "writes wr a" "ready ci st w" "shape_is (Opcode w) k12x a b c" "0 < a" "0 < b"
  shows "flows ci (inst st) 1 (move_12x rd wr w st)"
  using op_12x_flows [OF assms, of id] by (simp add: op_12x_def move_12x_def)

lemma move_22x_flows:
  assumes "reads rd b" "writes wr a" "ready ci st w" "shape_is (Opcode w) k22x a b c" "0 < a" "0 < b"
  shows "flows ci (inst st) 2 (move_22x rd wr (insns ci) w st)"
proof -
  obtain x where x: "VRegB_22x (insns ci) (inst st) = Some x" "room st (unat x) b"
    using operand_units(2) [OF assms(3,4) refl] by blast
  obtain v where "rd (shadow_frame st) (unat x) = Some v"
    using readsD [OF assms(1,3) x(2) assms(6)] ..
  with x(1) show ?thesis
    unfolding move_22x_def
    by (intro flows_bind) (auto intro: set_reg_flows [OF assms(2,3) operands_A(12) [OF assms(3,4) refl] assms(5)])
qed

lemma move_32x_flows:
  assumes "reads rd b" "writes wr a" "ready ci st w" "shape_is (Opcode w) k32x a b c" "0 < a" "0 < b"
  shows "flows ci (inst st) 3 (move_32x rd wr (insns ci) st)"
proof -
  obtain x y where x: "VRegA_32x (insns ci) (inst st) = Some x" "VRegB_32x (insns ci) (inst st) = Some y"
      "room st (unat x) a" "room st (unat y) b"
    using operand_units(4) [OF assms(3,4) refl] by blast
  obtain v where "rd (shadow_frame st) (unat y) = Some v"
    using readsD [OF assms(1,3) x(4) assms(6)] ..
  with x(1,2) show ?thesis
    unfolding move_32x_def
    by (intro flows_bind) (auto intro: set_reg_flows [OF assms(2,3) x(3) assms(5)])
qed

lemma operands_23x:
  assumes "reads rdB b" "reads rdC c" "ready ci st w" "shape_is (Opcode w) k23x a b c" "0 < b" "0 < c"
  obtains x y u v where "VRegB_23x (insns ci) (inst st) = Some x" "VRegC_23x (insns ci) (inst st) = Some y"
    "rdB (shadow_frame st) (unat x) = Some u" "rdC (shadow_frame st) (unat y) = Some v"
proof -
  obtain x y where x: "VRegB_23x (insns ci) (inst st) = Some x" "VRegC_23x (insns ci) (inst st) = Some y"
      "room st (unat x) b" "room st (unat y) c"
    using operand_units(3) [OF assms(3,4) refl] by blast
  with readsD [OF assms(1,3) x(3) assms(5)] readsD [OF assms(2,3) x(4) assms(6)] that show ?thesis by blast
qed

lemma op_23x_flows:
  assumes "reads rdB b" "reads rdC c" "writes wr a" "ready ci st w" "shape_is (Opcode w) k23x a b c"
    and "0 < a" "0 < b" "0 < c"
  shows "flows ci (inst st) 2 (op_23x rdB rdC wr f (insns ci) w st)"
proof -
  obtain x y u v where "VRegB_23x (insns ci) (inst st) = Some x" "VRegC_23x (insns ci) (inst st) = Some y"
      "rdB (shadow_frame st) (unat x) = Some u" "rdC (shadow_frame st) (unat y) = Some v"
    using operands_23x [OF assms(1,2,4,5,7,8)] .
  then show ?thesis
    unfolding op_23x_def
    by (intro flows_bind) (auto intro: set_reg_flows [OF assms(3,4) operands_A(13) [OF assms(4,5) refl] assms(6)])
qed

lemma op_2addr_flows:
  assumes "reads rdA a" "reads rdB b" "writes wr a" "ready ci st w" "shape_is (Opcode w) k12x a b c" "0 < a" "0 < b"
  shows "flows ci (inst st) 1 (op_2addr rdA rdB wr f w st)"
proof -
  obtain u v where "rdA (shadow_frame st) (unat (VRegA_12x w)) = Some u" "rdB (shadow_frame st) (unat (VRegB_12x w)) = Some v"
    using readsD [OF assms(1,4) operands_A(3) [OF assms(4,5) refl] assms(6)]
      readsD [OF assms(2,4) operands_B(1) [OF assms(4,5) refl] assms(7)] by blast
  then show ?thesis
    unfolding op_2addr_def
    by (intro flows_bind) (auto intro: set_reg_flows [OF assms(3,4) operands_A(3) [OF assms(4,5) refl] assms(6)])
qed

lemma operands_22s:
  assumes "ready ci st w" "shape_is (Opcode w) k22s 1 1 c"
  obtains b x where "GetVReg (shadow_frame st) (unat (VRegB_22s w)) = Some b" "VRegC_22s (insns ci) (inst st) = Some x"
  using readsD [OF vreg.reads_writes(1) assms(1) operands_B(3) [OF assms refl]] literal_units(12) [OF assms refl]
  by auto

lemma operands_22b:
  assumes "ready ci st w" "shape_is (Opcode w) k22b 1 1 c"
  obtains r b x where "VRegB_22b (insns ci) (inst st) = Some r" "GetVReg (shadow_frame st) (unat r) = Some b"
    "VRegC_22b (insns ci) (inst st) = Some x"
proof -
  obtain r x where r: "VRegB_22b (insns ci) (inst st) = Some r" "VRegC_22b (insns ci) (inst st) = Some x" "room st (unat r) 1"
    using operand_units(1) [OF assms refl] by auto
  with readsD [OF vreg.reads_writes(1) assms(1) r(3)] that show ?thesis by auto
qed

lemma lit_flows:
  assumes "ready ci st w"
  shows "shape_is (Opcode w) k22s 1 1 c \<Longrightarrow> flows ci (inst st) 2 (op_lit16 f (insns ci) w st)"
    "shape_is (Opcode w) k22b 1 1 c \<Longrightarrow> flows ci (inst st) 2 (op_lit8 g (insns ci) w st)"
proof -
  show "flows ci (inst st) 2 (op_lit16 f (insns ci) w st)" if s: "shape_is (Opcode w) k22s 1 1 c"
  proof -
    obtain b x where "GetVReg (shadow_frame st) (unat (VRegB_22s w)) = Some b" "VRegC_22s (insns ci) (inst st) = Some x"
      using operands_22s [OF assms s] .
    then show ?thesis
      unfolding op_lit16_def
      by (intro flows_bind)
        (auto intro: set_reg_flows [OF vreg.reads_writes(2) assms operands_A(10) [OF assms s refl]])
  qed
  show "flows ci (inst st) 2 (op_lit8 g (insns ci) w st)" if s: "shape_is (Opcode w) k22b 1 1 c"
  proof -
    obtain r b x where "VRegB_22b (insns ci) (inst st) = Some r" "GetVReg (shadow_frame st) (unat r) = Some b"
        "VRegC_22b (insns ci) (inst st) = Some x"
      using operands_22b [OF assms s] .
    then show ?thesis
      unfolding op_lit8_def
      by (intro flows_bind)
        (auto intro: set_reg_flows [OF vreg.reads_writes(2) assms operands_A(8) [OF assms s refl]])
  qed
qed

section \<open>Division\<close>

lemma ready_located: "ready ci st w \<Longrightarrow> handlers_ok ci \<Longrightarrow> located ci (inst st) st"
  using format_size_pos [of "FormatOf (Opcode w)"] by (auto simp: ready_def located_def)

definition divides :: "'w Env \<Rightarrow> ('w Env \<Rightarrow> ShadowFrame \<Rightarrow> 'w Thread \<Rightarrow> nat \<Rightarrow> 'v \<Rightarrow> 'v \<Rightarrow>
    (bool \<times> ShadowFrame \<times> 'w Thread) option) \<Rightarrow> nat \<Rightarrow> bool" where
  "divides env d k \<longleftrightarrow> (\<forall>f self i x y. frame_ok f \<longrightarrow> i + k \<le> NumberOfVRegs f \<longrightarrow>
     (\<exists>ok g self'. d env f self i x y = Some (ok, g, self') \<and> (ok \<or> IsExceptionPending self')))"

lemma dividesI:
  assumes "runtime_ok env" "writes wr k"
    and "\<And>f self i x y. d env f self i x y =
      (if y = 0 then Some (False, f, throw env ArithmeticDivideByZero self)
       else do { f \<leftarrow> wr f i (h x y); Some (True, f, self) })"
  shows "divides env d k"
  unfolding divides_def
proof (intro allI impI)
  fix f self i x y assume f: "frame_ok f" "i + k \<le> NumberOfVRegs f"
  obtain g where "wr f i (h x y) = Some g" using writesD [OF assms(2) f] ..
  then show "\<exists>ok g self'. d env f self i x y = Some (ok, g, self') \<and> (ok \<or> IsExceptionPending self')"
    using assms(1) by (cases "y = 0") (auto simp: assms(3) runtime_ok_def)
qed

lemma divides:
  assumes "runtime_ok env"
  shows "divides env DoIntDivide 1" "divides env DoIntRemainder 1"
    "divides env DoLongDivide 2" "divides env DoLongRemainder 2"
proof -
  show "divides env DoIntDivide 1"
    by (rule dividesI [OF assms vreg.reads_writes(2),
          where h = "\<lambda>x y. if x = kMinInt \<and> y = -1 then kMinInt else c_div x y"])
      (simp add: DoIntDivide_def)
  show "divides env DoIntRemainder 1"
    by (rule dividesI [OF assms vreg.reads_writes(2),
          where h = "\<lambda>x y. if x = kMinInt \<and> y = -1 then 0 else c_rem x y"])
      (simp add: DoIntRemainder_def)
  show "divides env DoLongDivide 2"
    by (rule dividesI [OF assms vreg_long.reads_writes(2),
          where h = "\<lambda>x y. if x = kMinLong \<and> y = -1 then kMinLong else c_div x y"])
      (simp add: DoLongDivide_def)
  show "divides env DoLongRemainder 2"
    by (rule dividesI [OF assms vreg_long.reads_writes(2),
          where h = "\<lambda>x y. if x = kMinLong \<and> y = -1 then 0 else c_rem x y"])
      (simp add: DoLongRemainder_def)
qed

lemma divide_flows:
  assumes "located ci pc st" "r = Some (ok, g, self)" "ok \<or> IsExceptionPending self"
  shows "flows ci pc n (divide env ci b n r st)"
  unfolding divide_def assms(2) using assms(1,3) by (auto intro!: progress split: if_splits)

lemma divide_at:
  assumes "divides env d k" "ready ci st w" "handlers_ok ci" "room st i k" "0 < k"
  shows "flows ci (inst st) n (divide env ci b n (d env (shadow_frame st) (thread st) i x y) st)"
proof -
  obtain ok g self where "d env (shadow_frame st) (thread st) i x y = Some (ok, g, self)" "ok \<or> IsExceptionPending self"
    using assms(1,2,4,5) unfolding divides_def ready_def by blast
  then show ?thesis by (rule divide_flows [OF ready_located [OF assms(2,3)]])
qed

lemma divide_23x_flows:
  assumes "reads rd k" "divides env d k" "ready ci st w" "handlers_ok ci" "shape_is (Opcode w) k23x k k k" "0 < k"
  shows "flows ci (inst st) 2 (divide_23x env ci b rd d w st)"
proof -
  obtain x y u v where "VRegB_23x (insns ci) (inst st) = Some x" "VRegC_23x (insns ci) (inst st) = Some y"
      "rd (shadow_frame st) (unat x) = Some u" "rd (shadow_frame st) (unat y) = Some v"
    using operands_23x [OF assms(1,1,3,5,6,6)] .
  then show ?thesis
    unfolding divide_23x_def
    using divide_at [OF assms(2-4) operands_A(13) [OF assms(3,5) refl] assms(6)] by simp
qed

lemma divide_2addr_flows:
  assumes "reads rd k" "divides env d k" "ready ci st w" "handlers_ok ci" "shape_is (Opcode w) k12x k k c" "0 < k"
  shows "flows ci (inst st) 1 (divide_2addr env ci b rd d w st)"
proof -
  obtain u v where "rd (shadow_frame st) (unat (VRegA_12x w)) = Some u" "rd (shadow_frame st) (unat (VRegB_12x w)) = Some v"
    using readsD [OF assms(1,3) operands_A(3) [OF assms(3,5) refl] assms(6)]
      readsD [OF assms(1,3) operands_B(1) [OF assms(3,5) refl] assms(6)] by blast
  then show ?thesis
    unfolding divide_2addr_def
    using divide_at [OF assms(2-4) operands_A(3) [OF assms(3,5) refl] assms(6)] by simp
qed

lemma divide_lit_flows:
  assumes "divides env d 1" "ready ci st w" "handlers_ok ci"
  shows "shape_is (Opcode w) k22s 1 1 c \<Longrightarrow> flows ci (inst st) 2 (divide_lit16 env ci d w st)"
    "shape_is (Opcode w) k22b 1 1 c \<Longrightarrow> flows ci (inst st) 2 (divide_lit8 env ci d w st)"
proof -
  show "flows ci (inst st) 2 (divide_lit16 env ci d w st)" if s: "shape_is (Opcode w) k22s 1 1 c"
  proof -
    obtain b x where "GetVReg (shadow_frame st) (unat (VRegB_22s w)) = Some b" "VRegC_22s (insns ci) (inst st) = Some x"
      using operands_22s [OF assms(2) s] .
    then show ?thesis
      unfolding divide_lit16_def
      by (intro flows_bind) (auto intro: divide_at [OF assms operands_A(10) [OF assms(2) s refl]])
  qed
  show "flows ci (inst st) 2 (divide_lit8 env ci d w st)" if s: "shape_is (Opcode w) k22b 1 1 c"
  proof -
    obtain r b x where "VRegB_22b (insns ci) (inst st) = Some r" "GetVReg (shadow_frame st) (unat r) = Some b"
        "VRegC_22b (insns ci) (inst st) = Some x"
      using operands_22b [OF assms(2) s] .
    then show ?thesis
      unfolding divide_lit8_def
      by (intro flows_bind) (auto intro: divide_at [OF assms operands_A(8) [OF assms(2) s refl]])
  qed
qed

section \<open>Groups of opcodes without objects\<close>

text \<open>The register operations at the kinds of registers the instructions use.\<close>

lemmas move_ops [progress] =
  move_12x_flows [OF vreg.reads_writes(1) vreg.reads_writes(2) _ _ zero_less_width(1) zero_less_width(1), THEN flows_n]
  move_12x_flows [OF vreg_long.reads_writes(1) vreg_long.reads_writes(2) _ _ zero_less_width(2) zero_less_width(2), THEN flows_n]
  move_12x_flows [OF vreg_ref.reads_writes(1) vreg_ref.reads_writes(2) _ _ zero_less_width(1) zero_less_width(1), THEN flows_n]
  move_22x_flows [OF vreg.reads_writes(1) vreg.reads_writes(2) _ _ zero_less_width(1) zero_less_width(1), THEN flows_n]
  move_22x_flows [OF vreg_long.reads_writes(1) vreg_long.reads_writes(2) _ _ zero_less_width(2) zero_less_width(2), THEN flows_n]
  move_22x_flows [OF vreg_ref.reads_writes(1) vreg_ref.reads_writes(2) _ _ zero_less_width(1) zero_less_width(1), THEN flows_n]
  move_32x_flows [OF vreg.reads_writes(1) vreg.reads_writes(2) _ _ zero_less_width(1) zero_less_width(1), THEN flows_n]
  move_32x_flows [OF vreg_long.reads_writes(1) vreg_long.reads_writes(2) _ _ zero_less_width(2) zero_less_width(2), THEN flows_n]
  move_32x_flows [OF vreg_ref.reads_writes(1) vreg_ref.reads_writes(2) _ _ zero_less_width(1) zero_less_width(1), THEN flows_n]

lemmas unary_ops [progress] =
  op_12x_flows [OF vreg.reads_writes(1) vreg.reads_writes(2) _ _ zero_less_width(1) zero_less_width(1), THEN flows_n]
  op_12x_flows [OF vreg_long.reads_writes(1) vreg_long.reads_writes(2) _ _ zero_less_width(2) zero_less_width(2), THEN flows_n]
  op_12x_flows [OF vreg_float.reads_writes(1) vreg_float.reads_writes(2) _ _ zero_less_width(1) zero_less_width(1), THEN flows_n]
  op_12x_flows [OF vreg_double.reads_writes(1) vreg_double.reads_writes(2) _ _ zero_less_width(2) zero_less_width(2), THEN flows_n]
  op_12x_flows [OF vreg.reads_writes(1) vreg_long.reads_writes(2) _ _ zero_less_width(2) zero_less_width(1), THEN flows_n]
  op_12x_flows [OF vreg.reads_writes(1) vreg_float.reads_writes(2) _ _ zero_less_width(1) zero_less_width(1), THEN flows_n]
  op_12x_flows [OF vreg.reads_writes(1) vreg_double.reads_writes(2) _ _ zero_less_width(2) zero_less_width(1), THEN flows_n]
  op_12x_flows [OF vreg_long.reads_writes(1) vreg.reads_writes(2) _ _ zero_less_width(1) zero_less_width(2), THEN flows_n]
  op_12x_flows [OF vreg_long.reads_writes(1) vreg_float.reads_writes(2) _ _ zero_less_width(1) zero_less_width(2), THEN flows_n]
  op_12x_flows [OF vreg_long.reads_writes(1) vreg_double.reads_writes(2) _ _ zero_less_width(2) zero_less_width(2), THEN flows_n]
  op_12x_flows [OF vreg_float.reads_writes(1) vreg.reads_writes(2) _ _ zero_less_width(1) zero_less_width(1), THEN flows_n]
  op_12x_flows [OF vreg_float.reads_writes(1) vreg_long.reads_writes(2) _ _ zero_less_width(2) zero_less_width(1), THEN flows_n]
  op_12x_flows [OF vreg_float.reads_writes(1) vreg_double.reads_writes(2) _ _ zero_less_width(2) zero_less_width(1), THEN flows_n]
  op_12x_flows [OF vreg_double.reads_writes(1) vreg.reads_writes(2) _ _ zero_less_width(1) zero_less_width(2), THEN flows_n]
  op_12x_flows [OF vreg_double.reads_writes(1) vreg_long.reads_writes(2) _ _ zero_less_width(2) zero_less_width(2), THEN flows_n]
  op_12x_flows [OF vreg_double.reads_writes(1) vreg_float.reads_writes(2) _ _ zero_less_width(1) zero_less_width(2), THEN flows_n]

lemmas binary_ops [progress] =
  op_23x_flows [OF vreg.reads_writes(1) vreg.reads_writes(1) vreg.reads_writes(2) _ _ zero_less_width(1) zero_less_width(1) zero_less_width(1), THEN flows_n]
  op_23x_flows [OF vreg_long.reads_writes(1) vreg_long.reads_writes(1) vreg_long.reads_writes(2) _ _ zero_less_width(2) zero_less_width(2) zero_less_width(2), THEN flows_n]
  op_23x_flows [OF vreg_long.reads_writes(1) vreg.reads_writes(1) vreg_long.reads_writes(2) _ _ zero_less_width(2) zero_less_width(2) zero_less_width(1), THEN flows_n]
  op_23x_flows [OF vreg_float.reads_writes(1) vreg_float.reads_writes(1) vreg_float.reads_writes(2) _ _ zero_less_width(1) zero_less_width(1) zero_less_width(1), THEN flows_n]
  op_23x_flows [OF vreg_double.reads_writes(1) vreg_double.reads_writes(1) vreg_double.reads_writes(2) _ _ zero_less_width(2) zero_less_width(2) zero_less_width(2), THEN flows_n]
  op_23x_flows [OF vreg_float.reads_writes(1) vreg_float.reads_writes(1) vreg.reads_writes(2) _ _ zero_less_width(1) zero_less_width(1) zero_less_width(1), THEN flows_n]
  op_23x_flows [OF vreg_double.reads_writes(1) vreg_double.reads_writes(1) vreg.reads_writes(2) _ _ zero_less_width(1) zero_less_width(2) zero_less_width(2), THEN flows_n]
  op_23x_flows [OF vreg_long.reads_writes(1) vreg_long.reads_writes(1) vreg.reads_writes(2) _ _ zero_less_width(1) zero_less_width(2) zero_less_width(2), THEN flows_n]
  op_2addr_flows [OF vreg.reads_writes(1) vreg.reads_writes(1) vreg.reads_writes(2) _ _ zero_less_width(1) zero_less_width(1), THEN flows_n]
  op_2addr_flows [OF vreg_long.reads_writes(1) vreg_long.reads_writes(1) vreg_long.reads_writes(2) _ _ zero_less_width(2) zero_less_width(2), THEN flows_n]
  op_2addr_flows [OF vreg_long.reads_writes(1) vreg.reads_writes(1) vreg_long.reads_writes(2) _ _ zero_less_width(2) zero_less_width(1), THEN flows_n]
  op_2addr_flows [OF vreg_float.reads_writes(1) vreg_float.reads_writes(1) vreg_float.reads_writes(2) _ _ zero_less_width(1) zero_less_width(1), THEN flows_n]
  op_2addr_flows [OF vreg_double.reads_writes(1) vreg_double.reads_writes(1) vreg_double.reads_writes(2) _ _ zero_less_width(2) zero_less_width(2), THEN flows_n]

lemmas lit_ops [progress] = lit_flows [THEN flows_n]

lemmas divide_ops [progress] =
  divide_23x_flows [OF vreg.reads_writes(1) divides(1) _ _ _ zero_less_width(1), THEN flows_n]
  divide_23x_flows [OF vreg.reads_writes(1) divides(2) _ _ _ zero_less_width(1), THEN flows_n]
  divide_23x_flows [OF vreg_long.reads_writes(1) divides(3) _ _ _ zero_less_width(2), THEN flows_n]
  divide_23x_flows [OF vreg_long.reads_writes(1) divides(4) _ _ _ zero_less_width(2), THEN flows_n]
  divide_2addr_flows [OF vreg.reads_writes(1) divides(1) _ _ _ zero_less_width(1), THEN flows_n]
  divide_2addr_flows [OF vreg.reads_writes(1) divides(2) _ _ _ zero_less_width(1), THEN flows_n]
  divide_2addr_flows [OF vreg_long.reads_writes(1) divides(3) _ _ _ zero_less_width(2), THEN flows_n]
  divide_2addr_flows [OF vreg_long.reads_writes(1) divides(4) _ _ _ zero_less_width(2), THEN flows_n]
  divide_lit_flows [OF divides(1), THEN flows_n] divide_lit_flows [OF divides(2), THEN flows_n]

end
