(* ===== verification/Interpreter_Switch.thy ===== *)
theory Interpreter_Switch
  imports Interpreter_Common
begin

text \<open>
  The two switch instructions against one specification.  A switch is a list of cases, keys with
  branch offsets; the table of \<open>packed-switch\<close> stores the first key of a run, the table of
  \<open>sparse-switch\<close> stores ascending keys, which \<open>DoSparseSwitch\<close> searches by bisection.
\<close>

section \<open>Specification\<close>

definition switch_lookup :: "(int32 \<times> int32) list \<Rightarrow> int32 \<Rightarrow> int32" where
  "switch_lookup table v = (case map_of table v of None \<Rightarrow> 3 | Some offset \<Rightarrow> offset)"

text \<open>The tables in the code, at the index \<open>p\<close>.\<close>

definition packed_table :: "insns \<Rightarrow> nat \<Rightarrow> (int32 \<times> int32) list \<Rightarrow> bool" where
  "packed_table code p table \<longleftrightarrow> length table < 2 ^ 16 \<and> Fetch16 code p 1 = Some (of_nat (length table)) \<and>
     (table \<noteq> [] \<longrightarrow> Fetch32 code p 2 = Some (fst (hd table))) \<and>
     (\<forall>i < length table. fst (table ! i) = fst (hd table) + of_nat i \<and>
        Fetch32 code p (4 + i * 2) = Some (snd (table ! i)))"

definition sparse_table :: "insns \<Rightarrow> nat \<Rightarrow> (int32 \<times> int32) list \<Rightarrow> bool" where
  "sparse_table code p table \<longleftrightarrow> length table < 2 ^ 16 \<and> Fetch16 code p 1 = Some (of_nat (length table)) \<and>
     sorted_wrt (\<lambda>a b. sint (fst a) < sint (fst b)) table \<and>
     (\<forall>i < length table. Fetch32 code p (2 + i * 2) = Some (fst (table ! i)) \<and>
        Fetch32 code p (2 + length table * 2 + i * 2) = Some (snd (table ! i)))"

lemma switch_lookup_nth:
  assumes "distinct (map fst table)" "i < length table"
  shows "switch_lookup table (fst (table ! i)) = snd (table ! i)"
proof -
  have "map_of table (fst (table ! i)) = Some (snd (table ! i))"
    using assms by (intro map_of_is_SomeI) (auto simp: nth_mem)
  then show ?thesis by (simp add: switch_lookup_def)
qed

lemma switch_lookup_none:
  "(\<And>i. i < length table \<Longrightarrow> fst (table ! i) \<noteq> v) \<Longrightarrow> switch_lookup table v = 3"
proof -
  assume "\<And>i. i < length table \<Longrightarrow> fst (table ! i) \<noteq> v"
  then have "map_of table v = None" by (fastforce simp: map_of_eq_None_iff in_set_conv_nth)
  then show ?thesis by (simp add: switch_lookup_def)
qed

lemma index_in_range:
  assumes "n < 2 ^ 31"
  shows "0 \<le> sint (w :: int32) \<and> sint w < int n \<longleftrightarrow> unat w < n"
proof
  assume "0 \<le> sint w \<and> sint w < int n"
  then have "int (unat w) < int n" using int_unat_sint [of w] by linarith
  then show "unat w < n" by (simp only: of_nat_less_iff)
next
  assume w: "unat w < n"
  have e: "(of_nat (unat w) :: int32) = w" by simp
  have "sint w = int (unat w)"
    using sint_of_nat32 [of "unat w", unfolded e] w assms by (meson order.strict_trans)
  then show "0 \<le> sint w \<and> sint w < int n" using w by (simp only: of_nat_less_iff) simp
qed

section \<open>Bisection\<close>

lemma sparse_distinct: "sorted_wrt (\<lambda>a b. sint (fst a) < sint (fst b)) table \<Longrightarrow> distinct (map fst table)"
  by (induction table) auto

lemma sparse_switch_loop_lookup:
  assumes "sparse_table code p table" "0 \<le> lo" "hi < int (length table)"
    and "\<And>i. i < length table \<Longrightarrow> fst (table ! i) = v \<Longrightarrow> lo \<le> int i \<and> int i \<le> hi"
  shows "sparse_switch_loop code p (length table) v lo hi = Some (switch_lookup table v)"
  using assms
proof (induction code p "length table" v lo hi rule: sparse_switch_loop.induct)
  case (1 code p v lo hi)
  have s: "sint (fst (table ! i)) < sint (fst (table ! j))" if "i < j" "j < length table" for i j
    using "1.prems"(1) that by (auto simp: sparse_table_def sorted_wrt_iff_nth_less)
  show ?case
  proof (cases "lo \<le> hi")
    case False
    then show ?thesis
      using "1.prems"(4) switch_lookup_none [of table v]
      by (subst sparse_switch_loop.simps) fastforce
  next
    case True
    define mid where "mid = (lo + hi) div 2"
    have m: "lo \<le> mid" "mid \<le> hi" "nat mid < length table"
      using True "1.prems"(2,3) unfolding mid_def by auto
    have k: "Fetch32 code p (2 + nat mid * 2) = Some (fst (table ! nat mid))"
        "Fetch32 code p (2 + length table * 2 + nat mid * 2) = Some (snd (table ! nat mid))"
      using "1.prems"(1) m(3) by (simp_all add: sparse_table_def)
    consider (less) "sint v < sint (fst (table ! nat mid))" | (greater) "sint v > sint (fst (table ! nat mid))"
      | (found) "v = fst (table ! nat mid)"
      by (metis linorder_less_linear signed_word_eqI)
    then show ?thesis
    proof cases
      case less
      have "int i \<le> mid - 1" if "i < length table" "fst (table ! i) = v" for i
        using s [of "nat mid" i] that less by (cases "i = nat mid"; cases "nat mid < i") auto
      then show ?thesis
        using less True k m "1.prems" "1.hyps"(1) [OF True mid_def k(1) less]
        by (subst sparse_switch_loop.simps) (auto simp: mid_def [symmetric])
    next
      case greater
      have "mid + 1 \<le> int i" if "i < length table" "fst (table ! i) = v" for i
        using s [of i "nat mid"] that greater m by (cases "i = nat mid"; cases "i < nat mid") auto
      then show ?thesis
        using greater True k m "1.prems" "1.hyps"(2) [OF True mid_def k(1) _ greater]
        by (subst sparse_switch_loop.simps) (auto simp: mid_def [symmetric])
    next
      case found
      have "distinct (map fst table)"
        using "1.prems"(1) by (simp add: sparse_table_def sparse_distinct)
      then show ?thesis
        using found True k switch_lookup_nth [OF _ m(3)]
        by (subst sparse_switch_loop.simps) (simp add: mid_def [symmetric])
    qed
  qed
qed

section \<open>The instructions\<close>

lemma DoSparseSwitch_lookup:
  assumes "VRegB_31t code pc = Some d" "RelativeAt pc d = Some p" "sparse_table code p table"
    and "GetVReg frame (unat (VRegA_31t w)) = Some v"
  shows "DoSparseSwitch code pc frame w = Some (switch_lookup table v)"
proof -
  have n: "length table < 2 ^ 16" "Fetch16 code p 1 = Some (of_nat (length table))"
    using assms(3) by (simp_all add: sparse_table_def)
  then have u: "unat (of_nat (length table) :: uint16) = length table" by (simp add: unat_of_nat)
  show ?thesis
  proof (cases "table = []")
    case True
    then show ?thesis using assms n by (simp add: DoSparseSwitch_def switch_lookup_def)
  next
    case False
    then have "(of_nat (length table) :: uint16) \<noteq> 0" using u by (metis length_0_conv unat_0)
    then show ?thesis
      using assms n u sparse_switch_loop_lookup [OF assms(3), of 0 "int (length table) - 1" v]
      by (simp add: DoSparseSwitch_def)
  qed
qed

lemma DoPackedSwitch_lookup:
  assumes "VRegB_31t code pc = Some d" "RelativeAt pc d = Some p" "packed_table code p table"
    and "GetVReg frame (unat (VRegA_31t w)) = Some v"
  shows "DoPackedSwitch code pc frame w = Some (switch_lookup table v)"
proof -
  have n: "length table < 2 ^ 16" "Fetch16 code p 1 = Some (of_nat (length table))"
    using assms(3) by (simp_all add: packed_table_def)
  then have u: "unat (of_nat (length table) :: uint16) = length table" by (simp add: unat_of_nat)
  show ?thesis
  proof (cases "table = []")
    case True
    then show ?thesis using assms n by (simp add: DoPackedSwitch_def switch_lookup_def)
  next
    case False
    then have nz: "(of_nat (length table) :: uint16) \<noteq> 0" using u by (metis length_0_conv unat_0)
    define index where "index = v - fst (hd table)"
    have small: "unat (of_nat i :: int32) = i" if "i < length table" for i
      using that n(1) by (simp add: unat_of_nat)
    have k: "fst (table ! i) = fst (hd table) + of_nat i" if "i < length table" for i
      using that assms(3) by (simp add: packed_table_def)
    have d: "distinct (map fst table)"
      unfolding distinct_conv_nth using k small by (auto dest: arg_cong [of _ _ unat])
    have r: "0 \<le> sint index \<and> sint index < int (length table) \<longleftrightarrow> unat index < length table"
      using n(1) by (intro index_in_range) simp
    have "switch_lookup table v = (if unat index < length table then snd (table ! unat index) else 3)"
    proof (cases "unat index < length table")
      case True
      then have "fst (table ! unat index) = v" using k [of "unat index"] by (simp add: index_def)
      then show ?thesis using True switch_lookup_nth [OF d, of "unat index"] by simp
    next
      case False
      then show ?thesis
        using k small by (intro trans [OF switch_lookup_none]) (auto simp: index_def)
    qed
    moreover have "\<forall>i < length table. Fetch32 code p (4 + i * 2) = Some (snd (table ! i))"
      using assms(3) by (simp add: packed_table_def)
    ultimately show ?thesis
      using assms n u nz False
      by (simp add: DoPackedSwitch_def Let_def packed_table_def index_def [symmetric] r)
  qed
qed

section \<open>An example\<close>

text \<open>A sparse switch over the cases \<open>-1\<close> and \<open>7\<close>, whose table is behind it.\<close>

definition example_switch :: insns where
  "example_switch = [0x002c, 3, 0, 0x0200, 2, 0xffff, 0xffff, 7, 0, 0x10, 0, 0x20, 0]"

lemma example_switch_words:
  "Fetch16 example_switch 3 1 = Some 2" "Fetch32 example_switch 3 2 = Some (-1)"
  "Fetch32 example_switch 3 4 = Some 7" "Fetch32 example_switch 3 6 = Some 0x10"
  "Fetch32 example_switch 3 8 = Some 0x20" "VRegB_31t example_switch 0 = Some 3"
  by (simp_all add: example_switch_def Fetch32_def Fetch16_def array_get_def VRegB_31t_def)

lemma example_switch_table: "sparse_table example_switch 3 [(-1, 0x10), (7, 0x20)]"
  using example_switch_words example_switch_words(2) [unfolded numeral_2_eq_2]
  by (auto simp: sparse_table_def less_Suc_eq)

section \<open>Property\<close>

text \<open>
  C5: Switches are table lookups.  If the code at the address a switch instruction names holds the
  table of a list of cases, packed keys in a row or sparse keys in ascending order, then
  \<open>DoPackedSwitch\<close> and \<open>DoSparseSwitch\<close> return the branch offset of the case whose key is the value of
  the register, and 3, the size of the instruction, if there is none.
\<close>
theorem switches_lookup:
  assumes "VRegB_31t code pc = Some d" "RelativeAt pc d = Some p"
    and "GetVReg frame (unat (VRegA_31t w)) = Some v"
  shows "(packed_table code p table \<longrightarrow> DoPackedSwitch code pc frame w = Some (switch_lookup table v)) \<and>
    (sparse_table code p table \<longrightarrow> DoSparseSwitch code pc frame w = Some (switch_lookup table v))"
  using DoPackedSwitch_lookup DoSparseSwitch_lookup assms by blast

theorem switches_lookup_witness:
  "sparse_table example_switch 3 [(-1, 0x10), (7, 0x20)] \<and>
   DoSparseSwitch example_switch 0 ((CreateShadowFrameImpl 1 0)\<lparr>vregs := [7, 0]\<rparr>) 0x002c = Some 0x20"
proof -
  let ?frame = "(CreateShadowFrameImpl 1 0)\<lparr>vregs := [7, 0]\<rparr>"
  have "RelativeAt 0 3 = Some 3" by (simp add: RelativeAt_def)
  moreover have "GetVReg ?frame (unat (VRegA_31t 0x002c)) = Some 7"
    by (simp add: VRegA_31t_def InstAA_def frame_defs array_get_def CreateShadowFrameImpl_def)
  ultimately show ?thesis
    using switches_lookup [OF example_switch_words(6), of 3 ?frame "0x002c" 7 "[(-1, 0x10), (7, 0x20)]"]
      example_switch_table
    by (simp add: switch_lookup_def)
qed

end
