(* ===== verification/Verified_Handlers.thy ===== *)
theory Verified_Handlers
  imports Interpreter_Progress Interpreter_Switch
begin

text \<open>
  The interpreter on verified code: every group of handlers has a defined outcome on an instruction
  that the static passes of the verifier accept, if the types are right that the code flow analysis
  has to establish.
\<close>

section \<open>Arithmetic and moves\<close>

abbreviation insn_width :: "uint16 \<Rightarrow> nat" where
  "insn_width w \<equiv> format_size (FormatOf (Opcode w))"

lemma shape_FormatOf: "FormatOf opcode = fst (shape opcode)"
  using shape_parts(1) [of opcode] by (metis prod.collapse)

lemmas opcode_simps = shape_is_def shape_FormatOf shape_eval ex_bool_eq format_size_def less_eq_Format_def



lemma exec_int_23x_flows:
  assumes "runtime_ok env" "ready ci st w" "handlers_ok ci" "Opcode w \<in> set (map of_nat [0x90..<0x9b])"
  shows "flows ci (inst st) (insn_width w) (exec_int_23x env ci (Opcode w) w st)"
  unfolding exec_int_23x_def Let_def using assms
  by (intro progress) (assumption | simp add: opcode_simps)+

lemma exec_long_23x_flows:
  assumes "runtime_ok env" "ready ci st w" "handlers_ok ci" "Opcode w \<in> set (map of_nat [0x9b..<0xa6])"
  shows "flows ci (inst st) (insn_width w) (exec_long_23x env ci (Opcode w) w st)"
  unfolding exec_long_23x_def Let_def using assms
  by (intro progress) (assumption | simp add: opcode_simps)+

lemma exec_float_23x_flows:
  assumes "ready ci st w" "Opcode w \<in> set (map of_nat [0xa6..<0xab])"
  shows "flows ci (inst st) (insn_width w) (exec_float_23x env ci (Opcode w) w st)"
  unfolding exec_float_23x_def Let_def using assms
  by (intro progress) (assumption | simp add: opcode_simps)+

lemma exec_double_23x_flows:
  assumes "ready ci st w" "Opcode w \<in> set (map of_nat [0xab..<0xb0])"
  shows "flows ci (inst st) (insn_width w) (exec_double_23x env ci (Opcode w) w st)"
  unfolding exec_double_23x_def Let_def using assms
  by (intro progress) (assumption | simp add: opcode_simps)+

lemma exec_int_2addr_flows:
  assumes "runtime_ok env" "ready ci st w" "handlers_ok ci" "Opcode w \<in> set (map of_nat [0xb0..<0xbb])"
  shows "flows ci (inst st) (insn_width w) (exec_int_2addr env ci (Opcode w) w st)"
  unfolding exec_int_2addr_def Let_def using assms
  by (intro progress) (assumption | simp add: opcode_simps)+

lemma exec_long_2addr_flows:
  assumes "runtime_ok env" "ready ci st w" "handlers_ok ci" "Opcode w \<in> set (map of_nat [0xbb..<0xc6])"
  shows "flows ci (inst st) (insn_width w) (exec_long_2addr env ci (Opcode w) w st)"
  unfolding exec_long_2addr_def Let_def using assms
  by (intro progress) (assumption | simp add: opcode_simps)+

lemma exec_float_2addr_flows:
  assumes "ready ci st w" "Opcode w \<in> set (map of_nat [0xc6..<0xcb])"
  shows "flows ci (inst st) (insn_width w) (exec_float_2addr env (Opcode w) w st)"
  unfolding exec_float_2addr_def Let_def using assms
  by (intro progress) (assumption | simp add: opcode_simps)+

lemma exec_double_2addr_flows:
  assumes "ready ci st w" "Opcode w \<in> set (map of_nat [0xcb..<0xd0])"
  shows "flows ci (inst st) (insn_width w) (exec_double_2addr env (Opcode w) w st)"
  unfolding exec_double_2addr_def Let_def using assms
  by (intro progress) (assumption | simp add: opcode_simps)+

lemma exec_lit16_flows:
  assumes "runtime_ok env" "ready ci st w" "handlers_ok ci" "Opcode w \<in> set (map of_nat [0xd0..<0xd8])"
  shows "flows ci (inst st) (insn_width w) (exec_lit16 env ci (Opcode w) w st)"
  unfolding exec_lit16_def Let_def using assms
  by (intro progress) (assumption | simp add: opcode_simps)+

lemma exec_lit8_flows:
  assumes "runtime_ok env" "ready ci st w" "handlers_ok ci" "Opcode w \<in> set (map of_nat [0xd8..<0xe3])"
  shows "flows ci (inst st) (insn_width w) (exec_lit8 env ci (Opcode w) w st)"
  unfolding exec_lit8_def Let_def using assms
  by (intro progress) (assumption | simp add: opcode_simps)+

lemma exec_unop_flows:
  assumes "ready ci st w" "Opcode w \<in> set (map of_nat [0x7b..<0x81])"
  shows "flows ci (inst st) (insn_width w) (exec_unop env (Opcode w) w st)"
  unfolding exec_unop_def Let_def using assms
  by (intro progress) (assumption | simp add: opcode_simps)+

lemma exec_convert_flows:
  assumes "ready ci st w" "Opcode w \<in> set (map of_nat [0x81..<0x90])"
  shows "flows ci (inst st) (insn_width w) (exec_convert env (Opcode w) w st)"
  unfolding exec_convert_def Let_def using assms
  by (intro progress) (assumption | simp add: opcode_simps)+

lemma exec_move_flows:
  assumes "ready ci st w" "Opcode w = 0 \<or> Opcode w = 1 \<or> Opcode w \<in> set (map of_nat [2..<0xa])"
  shows "flows ci (inst st) (insn_width w) (exec_move ci (Opcode w) w st)"
  unfolding exec_move_def Let_def using assms
  by (intro progress) (assumption | simp add: opcode_simps)+

lemma exec_cmp_flows:
  assumes "ready ci st w" "Opcode w \<in> set (map of_nat [0x2d..<0x32])"
  shows "flows ci (inst st) (insn_width w) (exec_cmp env ci (Opcode w) w st)"
  unfolding exec_cmp_def Let_def using assms
  by (intro progress) (assumption | simp add: opcode_simps)+


section \<open>Results, returns and constants\<close>

lemma set_reg_at:
  "writes wr k \<Longrightarrow> 0 < k \<Longrightarrow> ready ci st w \<Longrightarrow> room st (unat a) k \<Longrightarrow> inst st = pc \<Longrightarrow> n = m \<Longrightarrow>
    flows ci pc n (set_reg wr a v m st)"
  using set_reg_flows [of wr k ci st w a m v] by simp

lemmas reg_flows [progress] =
  set_reg_at [OF vreg.reads_writes(2) zero_less_width(1)]
  set_reg_at [OF vreg_ref.reads_writes(2) zero_less_width(1)]
  set_reg_at [OF vreg_long.reads_writes(2) zero_less_width(2)]

lemma writes_room:
  "writes wr k \<Longrightarrow> ready ci st w \<Longrightarrow> room st i k \<Longrightarrow> 0 < k \<Longrightarrow> \<exists>f. wr (shadow_frame st) i v = Some f"
  by (rule writesD) (auto simp: ready_def)

lemma ready_thread [simp]: "ready ci (st\<lparr>thread := self\<rparr>) w = ready ci st w"
  by (simp add: ready_def)

lemma exec_move_result_flows:
  assumes "ready ci st w" "Opcode w \<in> set (map of_nat [0xa..<0xe])"
    and "Opcode w = MOVE_EXCEPTION \<Longrightarrow> IsExceptionPending (thread st)"
  shows "flows ci (inst st) (insn_width w) (exec_move_result (Opcode w) w st)"
proof (cases "Opcode w = MOVE_EXCEPTION")
  case True
  have s: "shape_is (Opcode w) k11x 1 0 0" using True by (simp add: opcode_simps)
  obtain f where "SetVRegReference (shadow_frame st) (unat (VRegA_11x w)) (exception (thread st)) = Some f"
    using writes_room [OF vreg_ref.reads_writes(2) assms(1) operands_A(2) [OF assms(1) s refl]] by auto
  then show ?thesis
    using True assms(3) unfolding exec_move_result_def
    by (simp add: opcode_simps) (intro progress; simp)
next
  case False
  have s: "shape_is (Opcode w) k11x (if Opcode w = MOVE_RESULT_WIDE then 2 else 1) 0 0"
    using False assms(2) by (auto simp: opcode_simps)
  have "insn_width w = 1" using assms(2) by (auto simp: opcode_simps)
  then show ?thesis
    unfolding exec_move_result_def using False assms operands_A(2) [OF assms(1) s refl]
    by (intro progress) (assumption | simp add: opcode_simps split: if_splits)+
qed


lemma return_flows:
  assumes "runtime_ok env" "ready ci st w" "handlers_ok ci"
  shows "flows ci pc n (Option.bind (HANDLE_MONITOR_CHECKS env ci st) (\<lambda>o1. and_then o1 (leave env v)))"
proof -
  obtain o1 where "HANDLE_MONITOR_CHECKS env ci st = Some o1"
    using MONITOR_CHECKS_flows [OF assms(1) ready_located [OF assms(2,3)]] by (auto simp: flows_def)
  then show ?thesis by (cases o1) (auto simp: flows_def leave_def)
qed

lemma set_const_flows [progress]:
  assumes "ready ci st w" "room st (unat a) 1" "n = m"
  shows "flows ci (inst st) n (set_const a v m st)"
proof -
  obtain f where f: "SetVReg (shadow_frame st) (unat a) v = Some f"
    using writes_room [OF vreg.reads_writes(2) assms(1,2)] by auto
  moreover have "same_frame (shadow_frame st) f \<and> frame_ok f"
    using vreg.write_frame [OF _ f] assms(1) by (auto simp: ready_def)
  then obtain g where "SetVRegReference f (unat a) 0 = Some g"
    using writesD [OF vreg_ref.reads_writes(2), of f "unat a" 0] assms(2) same_frame_size by fastforce
  ultimately show ?thesis
    unfolding set_const_def using assms(3) by (auto intro: progress)
qed

lemma exec_const_flows:
  assumes "ready ci st w" "Opcode w \<in> set (map of_nat [0x12..<0x1a])"
  shows "flows ci (inst st) (insn_width w) (exec_const ci (Opcode w) w st)"
proof -
  obtain fmt a where s: "shape_is (Opcode w) fmt a 0 0"
    using assms(2) by (auto simp: opcode_simps)
  show ?thesis
    unfolding exec_const_def Let_def using assms literal_units [OF assms(1) s] operands_A [OF assms(1) s] s
    by (intro progress) (auto simp: opcode_simps)
qed


section \<open>Types\<close>

text \<open>
  What the code flow analysis of the verifier establishes about the instruction about to be
  executed: a \<open>nop\<close> is not the header of a table, \<open>move-exception\<close> starts a handler, a register used
  as an array is null or holds an array of the right kind, a returned object has the return type,
  the class of a filled new array is an array class.  The data for an array has the width of its
  components and a count that is not negative; that the count is not negative is what the verifier
  itself leaves open.
\<close>

definition array_kind :: "Code \<Rightarrow> ArrayObject \<Rightarrow> bool" where
  "array_kind opcode array =
     (case array of
        BooleanArray xs \<Rightarrow> opcode \<in> {AGET_BOOLEAN, APUT_BOOLEAN}
      | ByteArray xs \<Rightarrow> opcode \<in> {AGET_BYTE, APUT_BYTE}
      | CharArray xs \<Rightarrow> opcode \<in> {AGET_CHAR, APUT_CHAR}
      | ShortArray xs \<Rightarrow> opcode \<in> {AGET_SHORT, APUT_SHORT}
      | IntArray xs \<Rightarrow> opcode \<in> {AGET, APUT}
      | LongArray xs \<Rightarrow> opcode \<in> {AGET_WIDE, APUT_WIDE}
      | ObjectArray xs \<Rightarrow> opcode \<in> {AGET_OBJECT, APUT_OBJECT})"

definition array_typed :: "'w Interp \<Rightarrow> Code \<Rightarrow> uint32 \<Rightarrow> bool" where
  "array_typed st opcode a \<longleftrightarrow>
     (\<exists>array. heap (thread st) a = Some array \<and> GetLength array < 2 ^ 31 \<and>
        (AGET \<le> opcode \<and> opcode \<le> APUT_SHORT \<longrightarrow> array_kind opcode array))"

definition element_width :: "ArrayObject \<Rightarrow> nat" where
  "element_width array =
     (case array of
        BooleanArray xs \<Rightarrow> 1 | ByteArray xs \<Rightarrow> 1 | CharArray xs \<Rightarrow> 2 | ShortArray xs \<Rightarrow> 2
      | IntArray xs \<Rightarrow> 4 | LongArray xs \<Rightarrow> 8 | ObjectArray xs \<Rightarrow> 0)"

definition array_register :: "insns \<Rightarrow> 'w Interp \<Rightarrow> uint16 \<Rightarrow> nat option" where
  "array_register code st w =
     (if Opcode w = ARRAY_LENGTH then Some (unat (VRegB_12x w))
      else if Opcode w = FILL_ARRAY_DATA then Some (unat (VRegA_31t w))
      else if AGET \<le> Opcode w \<and> Opcode w \<le> APUT_SHORT then map_option unat (VRegB_23x code (inst st))
      else None)"

definition typed :: "'w Env \<Rightarrow> CodeItem \<Rightarrow> 'w Interp \<Rightarrow> uint16 \<Rightarrow> bool" where
  "typed env ci st w \<longleftrightarrow>
     (Opcode w = NOP \<longrightarrow> w = 0) \<and>
     (Opcode w = MOVE_EXCEPTION \<longrightarrow> IsExceptionPending (thread st)) \<and>
     (Opcode w = RETURN_OBJECT \<longrightarrow>
        (\<forall>a self t self'. GetVRegReference (shadow_frame st) (unat (VRegA_11x w)) = Some a \<longrightarrow> a \<noteq> 0 \<longrightarrow>
           GetReturnType (objects env) self = (t, self') \<longrightarrow> t \<noteq> 0 \<longrightarrow> VerifierInstanceOf (objects env) self' a t)) \<and>
     (\<forall>r a. array_register (insns ci) st w = Some r \<longrightarrow> GetVRegReference (shadow_frame st) r = Some a \<longrightarrow>
        a \<noteq> 0 \<longrightarrow> array_typed st (Opcode w) a) \<and>
     (Opcode w \<in> {FILLED_NEW_ARRAY, FILLED_NEW_ARRAY_RANGE} \<longrightarrow>
        (\<forall>i c self. VRegB (insns ci) (inst st) = Some i \<longrightarrow>
           ResolveVerifyAndClinit (objects env) i (thread st) = (c, self) \<longrightarrow> c \<noteq> 0 \<longrightarrow>
           ComponentPrimitiveType (objects env) self c \<noteq> None)) \<and>
     (Opcode w = FILL_ARRAY_DATA \<longrightarrow>
        (\<forall>d p n a array. VRegB_31t (insns ci) (inst st) = Some d \<longrightarrow> RelativeAt (inst st) d = Some p \<longrightarrow>
           Fetch16 (insns ci) p 1 = Some n \<longrightarrow>
           GetVRegReference (shadow_frame st) (unat (VRegA_31t w)) = Some a \<longrightarrow> heap (thread st) a = Some array \<longrightarrow>
           unat n = element_width array \<and> element_width array \<noteq> 0))"

lemma typed_array:
  assumes "typed env ci st w" "array_register (insns ci) st w = Some r"
    and "GetVRegReference (shadow_frame st) r = Some a" "a \<noteq> 0"
  shows "array_typed st (Opcode w) a"
  using assms unfolding typed_def by blast

section \<open>Returns, objects and monitors\<close>

text \<open>
  The three instructions at which the interpreter can go wrong on verified code.  With access checks,
  \<open>return-object\<close> goes on after a return type that cannot be resolved if the method catches the
  exception, and \<open>iput-object\<close> and \<open>sput-object\<close> do not look whether the type of the field is resolved;
  both then compare with a null class.  \<open>fill-array-data\<close> compares the number of elements as a signed
  number with the length of the array, and copies a number of bytes that wraps around.
\<close>

definition return_fault :: "'w Env \<Rightarrow> CodeItem \<Rightarrow> uint16 \<Rightarrow> 'w Interp \<Rightarrow> bool" where
  "return_fault env ci w st \<longleftrightarrow> Opcode w = RETURN_OBJECT \<and> do_access_check env \<and>
     (case HANDLE_MONITOR_CHECKS env ci st of
        Some (Running st1) \<Rightarrow>
          (case GetVRegReference (shadow_frame st1) (unat (VRegA_11x w)) of
             Some obj_result \<Rightarrow> obj_result \<noteq> 0 \<and>
               (let (return_type, self) = GetReturnType (objects env) (thread st1) in
                return_type = 0 \<and>
                (case HANDLE_PENDING_EXCEPTION env ci (st1\<lparr>thread := self\<rparr>) of
                   Some (Returned v st2) \<Rightarrow> False | _ \<Rightarrow> True))
           | None \<Rightarrow> False)
      | _ \<Rightarrow> False)"

definition unresolved_put :: "'w Env \<Rightarrow> CodeItem \<Rightarrow> FindFieldType \<Rightarrow> uint16 \<Rightarrow> 'w Interp \<Rightarrow> bool" where
  "unresolved_put env ci find_type w st \<longleftrightarrow>
     (let is_static = (find_type = StaticObjectWrite) in
      case (if is_static then VRegB_21c (insns ci) (inst st) else VRegC_22c (insns ci) (inst st)) of
        Some field_idx \<Rightarrow>
          (let (f, self) = FindFieldFromCode (field_model env) find_type (ucast field_idx)
                 (ComponentSize kPrimNot) (thread st) in
           f \<noteq> 0 \<and>
           (is_static \<or> GetVRegReference (shadow_frame st) (unat (VRegB_22c w)) \<noteq> Some 0) \<and>
           GetVRegReference (shadow_frame st) (if is_static then unat (VRegA_21c w) else unat (VRegA_22c w)) \<noteq> Some 0 \<and>
           fst (GetFieldType (field_model env) f self) = 0)
      | None \<Rightarrow> False)"

definition put_fault :: "'w Env \<Rightarrow> CodeItem \<Rightarrow> uint16 \<Rightarrow> 'w Interp \<Rightarrow> bool" where
  "put_fault env ci w st \<longleftrightarrow> do_access_check env \<and>
     (Opcode w = IPUT_OBJECT \<and> unresolved_put env ci InstanceObjectWrite w st \<or>
      Opcode w = SPUT_OBJECT \<and> unresolved_put env ci StaticObjectWrite w st)"

definition fill_overruns :: "insns \<Rightarrow> nat \<Rightarrow> ArrayObject \<Rightarrow> bool" where
  "fill_overruns code payload array \<longleftrightarrow>
     (case (Fetch16 code payload 1, Fetch32 code payload 2) of
        (Some width, Some count) \<Rightarrow>
          sint count \<le> int (GetLength array) \<and>
          GetLength array < unat (count * ucast width) div unat width
      | _ \<Rightarrow> False)"

definition fill_fault :: "CodeItem \<Rightarrow> uint16 \<Rightarrow> 'w Interp \<Rightarrow> bool" where
  "fill_fault ci w st \<longleftrightarrow> Opcode w = FILL_ARRAY_DATA \<and>
     (case Option.bind (VRegB_31t (insns ci) (inst st)) (RelativeAt (inst st)) of
        Some payload \<Rightarrow>
          (case GetVRegReference (shadow_frame st) (unat (VRegA_31t w)) of
             Some obj \<Rightarrow> obj \<noteq> 0 \<and>
               (case heap (thread st) obj of Some array \<Rightarrow> fill_overruns (insns ci) payload array | None \<Rightarrow> False)
           | None \<Rightarrow> False)
      | None \<Rightarrow> False)"

definition fault_at :: "'w Env \<Rightarrow> CodeItem \<Rightarrow> uint16 \<Rightarrow> 'w Interp \<Rightarrow> bool" where
  "fault_at env ci w st \<longleftrightarrow> return_fault env ci w st \<or> put_fault env ci w st \<or> fill_fault ci w st"

text \<open>A failed monitor check changes no register.\<close>

lemma monitor_checks_registers:
  assumes "HANDLE_MONITOR_CHECKS env ci st = Some (Running st1)"
  shows "vregs (shadow_frame st1) = vregs (shadow_frame st)"
    "number_of_vregs (shadow_frame st1) = number_of_vregs (shadow_frame st)"
proof -
  have c: "DoMonitorCheckOnExit env f self = (ok, g, self') \<Longrightarrow> vregs g = vregs f \<and> number_of_vregs g = number_of_vregs f"
    for f self ok g self'
    by (auto simp: DoMonitorCheckOnExit_def CheckAllMonitorsReleasedOrThrow_def Let_def
        split: if_splits option.splits)
  obtain ok g self where m: "DoMonitorCheckOnExit env (shadow_frame st) (thread st) = (ok, g, self)"
    by (metis prod_cases3)
  have h: "HANDLE_PENDING_EXCEPTION env ci s = Some (Running s1) \<Longrightarrow> shadow_frame s1 = shadow_frame s" for s s1
    by (auto simp: HANDLE_PENDING_EXCEPTION_def leave_def bind_Some_iff Let_def split: if_splits prod.splits)
  show "vregs (shadow_frame st1) = vregs (shadow_frame st)"
    "number_of_vregs (shadow_frame st1) = number_of_vregs (shadow_frame st)"
    using assms c [OF m] h unfolding HANDLE_MONITOR_CHECKS_def m Let_def
    by (auto split: if_splits)
qed

lemma registers_cong:
  "vregs f = vregs g \<Longrightarrow> number_of_vregs f = number_of_vregs g \<Longrightarrow> GetVRegReference f i = GetVRegReference g i"
  by (simp add: GetVRegReference_def References_get_def HasReferenceArray_def NumberOfVRegs_def)

lemma return_object_flows:
  assumes "GetVRegReference (shadow_frame st) (unat i) = Some a"
    and "\<And>self t self'. a \<noteq> 0 \<Longrightarrow> GetReturnType (objects env) self = (t, self') \<Longrightarrow> t \<noteq> 0 \<Longrightarrow>
      VerifierInstanceOf (objects env) self' a t"
    and "\<And>self. do_access_check env \<Longrightarrow> a \<noteq> 0 \<Longrightarrow> GetReturnType (objects env) (thread st) = (0, self) \<Longrightarrow>
      \<exists>v st2. HANDLE_PENDING_EXCEPTION env ci (st\<lparr>thread := self\<rparr>) = Some (Returned v st2)"
  shows "flows ci pc n (return_object env ci i st)"
proof -
  obtain t self where t: "GetReturnType (objects env) (thread st) = (t, self)" by fastforce
  show ?thesis
    unfolding return_object_def Let_def t using assms t
    by (cases "t = 0") (fastforce simp: flows_def leave_def)+
qed

lemma exec_return_flows:
  assumes "runtime_ok env" "\<not> return_fault env ci w st" "ready ci st w" "handlers_ok ci" "typed env ci st w"
    and "Opcode w \<in> set (map of_nat [0xe..<0x12]) \<or> Opcode w = RETURN_VOID_NO_BARRIER"
  shows "flows ci (inst st) (insn_width w) (exec_return env ci (Opcode w) w st)"
proof -
  obtain a where s: "shape_is (Opcode w) (if a = 0 then k10x else k11x) a 0 0"
      "a = (if Opcode w = RETURN_WIDE then 2 else if Opcode w \<in> {RETURN, RETURN_OBJECT} then 1 else 0)"
    using assms(6) by (auto simp: opcode_simps)
  note ret = return_flows [OF assms(1,3,4)]
  obtain o1 where o1: "HANDLE_MONITOR_CHECKS env ci st = Some o1"
    using MONITOR_CHECKS_flows [OF assms(1) ready_located [OF assms(3,4)]] by (auto simp: flows_def)
  show ?thesis
  proof (cases "Opcode w = RETURN_OBJECT")
    case True
    then obtain x where x: "GetVRegReference (shadow_frame st) (unat (VRegA_11x w)) = Some x"
      using readsD [OF vreg_ref.reads_writes(1) assms(3)] operands_A(2) [OF assms(3) s(1)] s(2) by auto
    have "flows ci (inst st) (insn_width w) (return_object env ci (VRegA_11x w) st1)" if "o1 = Running st1" for st1
    proof (rule return_object_flows [of _ _ x])
      show a: "GetVRegReference (shadow_frame st1) (unat (VRegA_11x w)) = Some x"
        using x monitor_checks_registers [of env ci st st1] o1 that registers_cong by metis
      show "\<exists>v st2. HANDLE_PENDING_EXCEPTION env ci (st1\<lparr>thread := self\<rparr>) = Some (Returned v st2)"
        if "do_access_check env" "x \<noteq> 0" "GetReturnType (objects env) (thread st1) = (0, self)" for self
        using assms(2) True o1 \<open>o1 = Running st1\<close> a that
        by (auto simp: return_fault_def split: option.splits outcome.splits)
    qed (use assms(5) True x in \<open>auto simp: typed_def\<close>)
    then show ?thesis
      using True o1 unfolding exec_return_def by (cases o1) (auto simp: flows_def)
  next
    case False
    have "Opcode w = RETURN \<Longrightarrow> \<exists>v. GetVReg (shadow_frame st) (unat (VRegA_11x w)) = Some v"
      using readsD [OF vreg.reads_writes(1) assms(3)] operands_A(2) [OF assms(3) s(1)] s(2) by simp
    moreover have "Opcode w = RETURN_WIDE \<Longrightarrow> \<exists>v. GetVRegLong (shadow_frame st) (unat (VRegA_11x w)) = Some v"
      using readsD [OF vreg_long.reads_writes(1) assms(3)] operands_A(2) [OF assms(3) s(1)] s(2) by simp
    ultimately show ?thesis
      unfolding exec_return_def using False assms(6) by (intro flows_if) (auto intro!: ret)
  qed
qed

lemma exec_monitor_flows:
  assumes "runtime_ok env" "ready ci st w" "handlers_ok ci" "Opcode w \<in> set (map of_nat [0x1d..<0x1f])"
  shows "flows ci (inst st) (insn_width w) (exec_monitor env ci (Opcode w) w st)"
proof -
  note l = ready_located [OF assms(2,3)]
  have s: "shape_is (Opcode w) k11x 1 0 0" using assms(4) by (auto simp: opcode_simps)
  have "insn_width w = 1" using assms(4) by (auto simp: opcode_simps)
  then show ?thesis
    unfolding exec_monitor_def Let_def
    using assms l readsD [OF vreg_ref.reads_writes(1) assms(2) operands_A(2) [OF assms(2) s refl]]
    by (intro progress) (assumption | simp add: opcode_simps)+
qed

lemma set_object_flows [progress]:
  assumes "ready ci st w" "handlers_ok ci" "room st (unat a) 1" "n = m"
    and "fst r = 0 \<Longrightarrow> IsExceptionPending (snd r)"
  shows "flows ci (inst st) n (set_object env ci a r m st)"
  unfolding set_object_def Let_def using assms ready_located [OF assms(1,2)]
  by (intro progress) (auto intro!: progress)

lemma exec_const_object_flows:
  assumes "runtime_ok env" "ready ci st w" "handlers_ok ci" "Opcode w \<in> set (map of_nat [0x1a..<0x1d])"
  shows "flows ci (inst st) (insn_width w) (exec_const_object env ci (Opcode w) w st)"
proof -
  obtain fmt where s: "shape_is (Opcode w) fmt 1 0 0" using assms(4) by (auto simp: opcode_simps)
  show ?thesis
    unfolding exec_const_object_def Let_def
    using assms literal_units [OF assms(2) s] operands_A [OF assms(2) s] s
    by (intro progress) (auto simp: opcode_simps runtime_ok_def)
qed


lemma exec_type_check_flows:
  assumes "runtime_ok env" "ready ci st w" "handlers_ok ci" "Opcode w \<in> set (map of_nat [0x1f..<0x21])"
  shows "flows ci (inst st) (insn_width w) (exec_type_check env ci (Opcode w) w st)"
proof -
  note l = ready_located [OF assms(2,3)]
  have s: "shape_is (Opcode w) (if Opcode w = CHECK_CAST then k21c else k22c) 1 (if Opcode w = CHECK_CAST then 0 else 1) 0"
    using assms(4) by (auto simp: opcode_simps)
  have r: "\<exists>x. GetVRegReference (shadow_frame st) (unat (if Opcode w = CHECK_CAST then VRegA_21c w else ucast (VRegB_22c w))) = Some x"
    using readsD [OF vreg_ref.reads_writes(1) assms(2)] operands_A(4) [OF assms(2) s] operands_B(2) [OF assms(2) s]
    by (auto split: if_splits)
  have p: "ResolveVerifyAndClinit (objects env) i self = (0, self') \<Longrightarrow> IsExceptionPending self'" for i self self'
    using assms(1) unfolding runtime_ok_def by (metis prod.sel)
  have "insn_width w = 2" using assms(4) by (auto simp: opcode_simps)
  then show ?thesis
    unfolding exec_type_check_def Let_def
    using assms l r literal_units [OF assms(2) s] operands_A(9) [OF assms(2) s]
    by (intro progress) (auto dest: p split: if_splits)
qed

lemma exec_throw_flows:
  assumes "runtime_ok env" "ready ci st w" "handlers_ok ci" "Opcode w = THROW"
  shows "flows ci (inst st) n (exec_throw env ci w st)"
proof -
  have s: "shape_is (Opcode w) k11x 1 0 0" using assms(4) by (simp add: opcode_simps)
  obtain e where "GetVRegReference (shadow_frame st) (unat (VRegA_11x w)) = Some e"
    using readsD [OF vreg_ref.reads_writes(1) assms(2) operands_A(2) [OF assms(2) s refl]] by auto
  then show ?thesis
    unfolding exec_throw_def Let_def using assms(1) ready_located [OF assms(2,3)]
    by (intro progress) (auto simp: runtime_ok_def SetException_def IsExceptionPending_def)
qed

lemma exec_new_instance_flows:
  assumes "runtime_ok env" "ready ci st w" "handlers_ok ci" "Opcode w = NEW_INSTANCE"
  shows "flows ci (inst st) (insn_width w) (exec_new_instance env ci w st)"
proof -
  note l = ready_located [OF assms(2,3)]
  have s: "shape_is (Opcode w) k21c 1 0 0" using assms(4) by (simp add: opcode_simps)
  have p: "ResolveVerifyAndClinit (objects env) i self = (0, self') \<Longrightarrow> IsExceptionPending self'"
    "AllocString (allocator env) self = (0, self') \<Longrightarrow> IsExceptionPending self'"
    "AllocObjectFromCode (allocator env) i self = (0, self') \<Longrightarrow> IsExceptionPending self'"
    "IsExceptionPending (AbortFinalizable (allocator env) obj self)" for i self self' obj
    using assms(1) unfolding runtime_ok_def by (metis prod.sel)+
  have "insn_width w = 2" using assms(4) by (simp add: opcode_simps)
  then show ?thesis
    unfolding exec_new_instance_def Let_def
    using assms l literal_units(3) [OF assms(2) s refl] operands_A(4) [OF assms(2) s refl]
    by (intro progress) (auto dest: p(1-3) intro: p(4) split: if_splits)
qed

lemma exec_array_length_flows:
  assumes "runtime_ok env" "ready ci st w" "handlers_ok ci" "typed env ci st w" "Opcode w = ARRAY_LENGTH"
  shows "flows ci (inst st) (insn_width w) (exec_array_length env ci w st)"
proof -
  have s: "shape_is (Opcode w) k12x 1 1 0" using assms(5) by (simp add: opcode_simps)
  have a: "array_register (insns ci) st w = Some (unat (VRegB_12x w))" using assms(5) by (simp add: array_register_def)
  have "\<exists>array. heap (thread st) x = Some array"
    if "GetVRegReference (shadow_frame st) (unat (VRegB_12x w)) = Some x" "x \<noteq> 0" for x
    using typed_array [OF assms(4) a that] by (auto simp: array_typed_def)
  moreover have "insn_width w = 1" using assms(5) by (simp add: opcode_simps)
  ultimately show ?thesis
    unfolding exec_array_length_def
    using assms(1,2) ready_located [OF assms(2,3)] operands_A(3) [OF assms(2) s refl]
      readsD [OF vreg_ref.reads_writes(1) assms(2) operands_B(1) [OF assms(2) s refl]]
    by (intro progress) auto
qed

section \<open>Calls\<close>

lemma call_op_flows [progress]:
  assumes "call_reports c" "located ci pc st" "n = m"
  shows "flows ci pc n (call_op env ci c m st)"
  unfolding call_op_def Let_def using assms
  by (intro progress) (auto simp: call_reports_def)

lemma exec_invoke_flows:
  assumes "calls_report env" "ready ci st w" "handlers_ok ci"
    and "Opcode w \<in> set (map of_nat ([0x6e..<0x73] @ [0x74..<0x79] @ [0xe9..<0xeb]))"
  shows "flows ci (inst st) (insn_width w) (exec_invoke env ci (Opcode w) st)"
  unfolding exec_invoke_def using assms ready_located [OF assms(2,3)]
  by (intro progress) (assumption | simp add: opcode_simps calls_report_def)+


section \<open>Fields\<close>

definition field_width :: "PrimType \<Rightarrow> nat" where
  "field_width t = (if t = kPrimLong then 2 else 1)"

abbreviation storable :: "PrimType \<Rightarrow> bool" where
  "storable t \<equiv> t \<notin> {kPrimFloat, kPrimDouble, kPrimVoid}"

lemma typed_access:
  assumes "storable t"
  shows "writes (\<lambda>f i. set_typed f i t) (field_width t)" "reads (\<lambda>f i. get_typed f i t) (field_width t)"
proof -
  have "set_typed f i t v \<noteq> None \<and> get_typed f i t \<noteq> None"
    if "frame_ok f" "i + field_width t \<le> NumberOfVRegs f" for f i v
  proof -
    have "SetVReg f i x \<noteq> None" "SetVRegReference f i x \<noteq> None" "GetVReg f i \<noteq> None" "GetVRegReference f i \<noteq> None" for x
      using that vreg.reads_writes vreg_ref.reads_writes unfolding reads_def writes_def field_width_def
      by (auto simp del: not_None_eq split: if_splits)
    moreover have "SetVRegLong f i x \<noteq> None" "GetVRegLong f i \<noteq> None" if "t = kPrimLong" for x
      using that \<open>frame_ok f\<close> \<open>i + field_width t \<le> NumberOfVRegs f\<close> vreg_long.reads_writes
      unfolding reads_def writes_def field_width_def by (auto simp del: not_None_eq)
    ultimately show ?thesis using assms by (cases t) (simp_all add: bind_eq_None_conv del: not_None_eq)
  qed
  then show "writes (\<lambda>f i. set_typed f i t) (field_width t)" "reads (\<lambda>f i. get_typed f i t) (field_width t)"
    unfolding writes_def reads_def by blast+
qed

text \<open>A result that is defined, and reports a pending exception unless it is a success.\<close>

definition delivers :: "('a \<Rightarrow> bool) \<Rightarrow> 'a option \<Rightarrow> bool" where
  "delivers P r \<longleftrightarrow> (\<exists>x. r = Some x \<and> P x)"

lemma delivers_Some [progress]: "P x \<Longrightarrow> delivers P (Some x)"
  by (simp add: delivers_def)

lemma delivers_bind [progress]:
  "\<exists>x. m = Some x \<Longrightarrow> (\<And>x. m = Some x \<Longrightarrow> delivers P (f x)) \<Longrightarrow> delivers P (Option.bind m f)"
  by auto

lemma delivers_if [progress]: "(b \<Longrightarrow> delivers P x) \<Longrightarrow> (\<not> b \<Longrightarrow> delivers P y) \<Longrightarrow> delivers P (if b then x else y)"
  by simp

lemma delivers_prod [progress]: "(\<And>a b. p = (a, b) \<Longrightarrow> delivers P (f a b)) \<Longrightarrow> delivers P (case p of (a, b) \<Rightarrow> f a b)"
  by (cases p) simp

lemma FindField_fails:
  "runtime_ok env \<Longrightarrow> FindFieldFromCode (field_model env) t i n self = (0, self') \<Longrightarrow> IsExceptionPending self'"
  unfolding runtime_ok_def by (metis prod.sel)

lemma throw_pending [simp]: "runtime_ok env \<Longrightarrow> IsExceptionPending (throw env k self)"
  by (simp add: runtime_ok_def)

lemma field_get_flows:
  assumes "runtime_ok env" "ready ci st w" "handlers_ok ci" "storable t" "n = 2"
    and "shape_is (Opcode w) (if find_type \<in> {StaticObjectRead, StaticPrimitiveRead} then k21c else k22c)
      (field_width t) (if find_type \<in> {StaticObjectRead, StaticPrimitiveRead} then 0 else 1) 0"
  shows "flows ci (inst st) n (field_get env ci find_type t w st)"
proof -
  have k: "0 < field_width t" by (simp add: field_width_def)
  let ?static = "find_type = StaticObjectRead \<or> find_type = StaticPrimitiveRead"
  have i: "\<exists>x. (if ?static then VRegB_21c (insns ci) (inst st) else VRegC_22c (insns ci) (inst st)) = Some x"
    using literal_units [OF assms(2,6)] by auto
  have r: "\<not> ?static \<Longrightarrow> \<exists>x. GetVRegReference (shadow_frame st) (unat (VRegB_22c w)) = Some x"
    using readsD [OF vreg_ref.reads_writes(1) assms(2)] operands_B(2) [OF assms(2,6)] by simp
  have v: "\<exists>f. set_typed (shadow_frame st) (if ?static then unat (VRegA_21c w) else unat (VRegA_22c w)) t v = Some f" for v
    using writes_room [OF typed_access(1) [OF assms(4)] assms(2) _ k] operands_A(4,9) [OF assms(2,6)] by auto
  have "delivers (\<lambda>(ok, f, self). ok \<or> IsExceptionPending self)
      (DoFieldGet env find_type t (insns ci) (inst st) w (shadow_frame st) (thread st))"
    unfolding DoFieldGet_def Let_def
    by (intro progress) (use i r v assms(1) FindField_fails in auto)
  then show ?thesis
    unfolding field_get_def using ready_located [OF assms(2,3)] assms(5)
    by (intro progress) (auto simp: delivers_def)
qed


lemma field_put_flows:
  assumes "runtime_ok env" "\<not> (do_access_check env \<and> t = kPrimNot \<and> unresolved_put env ci find_type w st)"
    and "ready ci st w" "handlers_ok ci" "storable t" "n = 2"
    and "t = kPrimNot \<Longrightarrow> find_type \<noteq> StaticPrimitiveWrite"
    and "shape_is (Opcode w) (if find_type \<in> {StaticObjectWrite, StaticPrimitiveWrite} then k21c else k22c)
      (field_width t) (if find_type \<in> {StaticObjectWrite, StaticPrimitiveWrite} then 0 else 1) 0"
  shows "flows ci (inst st) n (field_put env ci find_type t w st)"
proof -
  have k: "0 < field_width t" by (simp add: field_width_def)
  let ?static = "find_type = StaticObjectWrite \<or> find_type = StaticPrimitiveWrite"
  have i: "\<exists>x. (if ?static then VRegB_21c (insns ci) (inst st) else VRegC_22c (insns ci) (inst st)) = Some x"
    using literal_units [OF assms(3,8)] by auto
  have r: "\<not> ?static \<Longrightarrow> \<exists>x. GetVRegReference (shadow_frame st) (unat (VRegB_22c w)) = Some x"
    using readsD [OF vreg_ref.reads_writes(1) assms(3)] operands_B(2) [OF assms(3,8)] by simp
  have v: "\<exists>v. get_typed (shadow_frame st) (if ?static then unat (VRegA_21c w) else unat (VRegA_22c w)) t = Some v"
    using readsD [OF typed_access(2) [OF assms(5)] assms(3) _ k] operands_A(4,9) [OF assms(3,8)] by auto
  have "delivers (\<lambda>(ok, self). ok \<or> IsExceptionPending self)
      (DoFieldPut env find_type t (insns ci) (inst st) w (shadow_frame st) (thread st))"
    unfolding DoFieldPut_def Let_def
    by (intro progress)
      (use i r v assms(1,2,7) in \<open>auto simp: unresolved_put_def Let_def dest: FindField_fails split: option.splits\<close>)
  then show ?thesis
    unfolding field_put_def using ready_located [OF assms(3,4)] assms(6)
    by (intro progress) (auto simp: delivers_def)
qed

lemma field_quick_flows:
  assumes "runtime_ok env" "ready ci st w" "handlers_ok ci" "storable t" "n = 2"
    and "shape_is (Opcode w) k22c (field_width t) 1 0"
  shows "flows ci (inst st) n (field_get_quick env ci t w st)" "flows ci (inst st) n (field_put_quick env ci t w st)"
proof -
  have k: "0 < field_width t" by (simp add: field_width_def)
  note a = operands_A(9) [OF assms(2,6) refl]
  have i: "\<exists>x. VRegC_22c (insns ci) (inst st) = Some x" using literal_units(11) [OF assms(2,6) refl] .
  have r: "\<exists>x. GetVRegReference (shadow_frame st) (unat (VRegB_22c w)) = Some x"
    using readsD [OF vreg_ref.reads_writes(1) assms(2) operands_B(2) [OF assms(2,6) refl]] by simp
  have v: "\<exists>f. set_typed (shadow_frame st) (unat (VRegA_22c w)) t v = Some f" for v
    using writes_room [OF typed_access(1) [OF assms(4)] assms(2) a k] .
  have v': "\<exists>v. get_typed (shadow_frame st) (unat (VRegA_22c w)) t = Some v"
    using readsD [OF typed_access(2) [OF assms(4)] assms(2) a k] .
  have "delivers (\<lambda>(ok, f, self). ok \<or> IsExceptionPending self)
      (DoIGetQuick env t (insns ci) (inst st) w (shadow_frame st) (thread st))"
    unfolding DoIGetQuick_def Let_def by (intro progress) (use i r v assms(1) in auto)
  then show "flows ci (inst st) n (field_get_quick env ci t w st)"
    unfolding field_get_quick_def using ready_located [OF assms(2,3)] assms(5)
    by (intro progress) (auto simp: delivers_def)
  have "delivers (\<lambda>(ok, self). ok \<or> IsExceptionPending self)
      (DoIPutQuick env t (insns ci) (inst st) w (shadow_frame st) (thread st))"
    unfolding DoIPutQuick_def Let_def by (intro progress) (use i r v' assms(1) in auto)
  then show "flows ci (inst st) n (field_put_quick env ci t w st)"
    unfolding field_put_quick_def using ready_located [OF assms(2,3)] assms(5)
    by (intro progress) (auto simp: delivers_def)
qed

lemmas field_simps = opcode_simps field_width_def

lemma exec_iget_flows:
  assumes "runtime_ok env" "ready ci st w" "handlers_ok ci" "Opcode w \<in> set (map of_nat [0x52..<0x59])"
  shows "flows ci (inst st) (insn_width w) (exec_iget env ci (Opcode w) w st)"
  unfolding exec_iget_def using assms
  by (intro progress field_get_flows) (assumption | simp add: field_simps)+

lemma exec_sget_flows:
  assumes "runtime_ok env" "ready ci st w" "handlers_ok ci" "Opcode w \<in> set (map of_nat [0x60..<0x67])"
  shows "flows ci (inst st) (insn_width w) (exec_sget env ci (Opcode w) w st)"
  unfolding exec_sget_def using assms
  by (intro progress field_get_flows) (assumption | simp add: field_simps)+

lemma exec_iput_flows:
  assumes "runtime_ok env" "\<not> put_fault env ci w st" "ready ci st w" "handlers_ok ci"
    and "Opcode w \<in> set (map of_nat [0x59..<0x60])"
  shows "flows ci (inst st) (insn_width w) (exec_iput env ci (Opcode w) w st)"
  unfolding exec_iput_def using assms
  by (intro progress field_put_flows) (assumption | simp add: field_simps put_fault_def)+

lemma exec_sput_flows:
  assumes "runtime_ok env" "\<not> put_fault env ci w st" "ready ci st w" "handlers_ok ci"
    and "Opcode w \<in> set (map of_nat [0x67..<0x6e])"
  shows "flows ci (inst st) (insn_width w) (exec_sput env ci (Opcode w) w st)"
  unfolding exec_sput_def using assms
  by (intro progress field_put_flows) (assumption | simp add: field_simps put_fault_def)+

lemma exec_iget_quick_flows:
  assumes "runtime_ok env" "ready ci st w" "handlers_ok ci"
    and "Opcode w \<in> set (map of_nat ([0xe3..<0xe6] @ [0xef..<0xf3]))"
  shows "flows ci (inst st) (insn_width w) (exec_iget_quick env ci (Opcode w) w st)"
  unfolding exec_iget_quick_def using assms
  by (intro progress field_quick_flows) (assumption | simp add: field_simps)+

lemma exec_iput_quick_flows:
  assumes "runtime_ok env" "ready ci st w" "handlers_ok ci"
    and "Opcode w \<in> set (map of_nat ([0xe6..<0xe9] @ [0xeb..<0xef]))"
  shows "flows ci (inst st) (insn_width w) (exec_iput_quick env ci (Opcode w) w st)"
  unfolding exec_iput_quick_def using assms
  by (intro progress field_quick_flows) (assumption | simp add: field_simps)+


section \<open>Branches\<close>

lemma branch_targets:
  assumes "ready ci st w" "shape_is (Opcode w) fmt a b c"
  shows "fmt = k22t \<Longrightarrow> \<exists>d t. VRegC_22t (insns ci) (inst st) = Some d \<and>
      int t = int (inst st) + sint (scast d :: int32) \<and> target ci t"
    "fmt = k21t \<Longrightarrow> \<exists>d t. VRegB_21t (insns ci) (inst st) = Some d \<and>
      int t = int (inst st) + sint (scast d :: int32) \<and> target ci t"
    "fmt = k10t \<Longrightarrow> \<exists>t. int t = int (inst st) + sint (scast (VRegA_10t w) :: int32) \<and> target ci t"
    "fmt = k20t \<Longrightarrow> \<exists>d t. VRegA_20t (insns ci) (inst st) = Some d \<and>
      int t = int (inst st) + sint (scast d :: int32) \<and> target ci t"
    "fmt = k30t \<Longrightarrow> \<exists>d t. VRegA_30t (insns ci) (inst st) = Some d \<and>
      int t = int (inst st) + sint d \<and> target ci t"
proof -
  have "IsBranch (Opcode w) \<longrightarrow> (\<exists>d t. GetTargetOffset (insns ci) (inst st) = Some d \<and>
      int t = int (inst st) + sint d \<and> target ci t)"
    using assms(1) by (simp add: ready_def branch_ok_def target_def)
  moreover have "IsBranch (Opcode w) \<longleftrightarrow> fmt \<in> {k22t, k21t, k10t, k20t, k30t}"
    using format_targets [of "Opcode w"] ready_format(1) [OF assms] by simp
  ultimately show "fmt = k22t \<Longrightarrow> \<exists>d t. VRegC_22t (insns ci) (inst st) = Some d \<and>
      int t = int (inst st) + sint (scast d :: int32) \<and> target ci t"
    "fmt = k21t \<Longrightarrow> \<exists>d t. VRegB_21t (insns ci) (inst st) = Some d \<and>
      int t = int (inst st) + sint (scast d :: int32) \<and> target ci t"
    "fmt = k10t \<Longrightarrow> \<exists>t. int t = int (inst st) + sint (scast (VRegA_10t w) :: int32) \<and> target ci t"
    "fmt = k20t \<Longrightarrow> \<exists>d t. VRegA_20t (insns ci) (inst st) = Some d \<and>
      int t = int (inst st) + sint (scast d :: int32) \<and> target ci t"
    "fmt = k30t \<Longrightarrow> \<exists>d t. VRegA_30t (insns ci) (inst st) = Some d \<and>
      int t = int (inst st) + sint d \<and> target ci t"
    using ready_format(1,2) [OF assms] by (auto simp: GetTargetOffset_def)
qed

lemma if_22t_flows [progress]:
  assumes "ready ci st w" "shape_is (Opcode w) k22t 1 1 c" "n = 2"
  shows "flows ci (inst st) n (if_22t env ci cond w st)"
proof -
  note r = readsD [OF vreg.reads_writes(1) assms(1)]
  show ?thesis
    unfolding if_22t_def
    using r [OF operands_A(11) [OF assms(1,2) refl]] r [OF operands_B(4) [OF assms(1,2) refl]]
      branch_targets(1) [OF assms(1,2) refl] assms(3)
    by (auto intro: branch_if_flows)
qed

lemma if_21t_flows [progress]:
  assumes "ready ci st w" "shape_is (Opcode w) k21t 1 b c" "n = 2"
  shows "flows ci (inst st) n (if_21t env ci cond w st)"
  unfolding if_21t_def
  using readsD [OF vreg.reads_writes(1) assms(1) operands_A(7) [OF assms(1,2) refl]]
    branch_targets(2) [OF assms(1,2) refl] assms(3)
  by (auto intro: branch_if_flows)

lemma exec_if_flows:
  assumes "ready ci st w" "Opcode w \<in> set (map of_nat [0x32..<0x38])"
  shows "flows ci (inst st) (insn_width w) (exec_if env ci (Opcode w) w st)"
  unfolding exec_if_def using assms
  by (intro progress) (assumption | simp add: opcode_simps)+

lemma exec_ifz_flows:
  assumes "ready ci st w" "Opcode w \<in> set (map of_nat [0x38..<0x3e])"
  shows "flows ci (inst st) (insn_width w) (exec_ifz env ci (Opcode w) w st)"
  unfolding exec_ifz_def using assms
  by (intro progress) (assumption | simp add: opcode_simps)+

subsection \<open>Switches\<close>

text \<open>The cases in the table of a verified switch, and where they go.\<close>

lemma Fetch32_table:
  assumes "p + k + 2 * n \<le> length code" "i < n"
  shows "\<exists>x. Fetch32 code p (k + i * 2) = Some x"
  using assms by (intro Fetch32_in) simp

abbreviation cases_ok :: "(nat \<Rightarrow> bool) \<Rightarrow> insns \<Rightarrow> nat \<Rightarrow> (int32 \<times> int32) list \<Rightarrow> bool" where
  "cases_ok starts code pc table \<equiv>
     \<forall>e \<in> snd ` set table. \<exists>t. int t = int pc + sint e \<and> t < length code \<and> starts t"

lemma case_targets_offsets:
  assumes "case_targets_ok starts code pc p off n"
  obtains e where "\<And>i. i < n \<Longrightarrow> Fetch32 code p (off + i * 2) = Some (e i)"
    "\<And>i. i < n \<Longrightarrow> \<exists>t. int t = int pc + sint (e i) \<and> t < length code \<and> starts t"
proof -
  have "\<forall>i. \<exists>x. i < n \<longrightarrow> Fetch32 code p (off + i * 2) = Some x \<and> (\<exists>t. int t = int pc + sint x \<and> t < length code \<and> starts t)"
    using assms unfolding case_targets_ok_def by blast
  then obtain e where "\<forall>i. i < n \<longrightarrow> Fetch32 code p (off + i * 2) = Some (e i) \<and>
      (\<exists>t. int t = int pc + sint (e i) \<and> t < length code \<and> starts t)"
    by (rule exE [OF choice])
  then show ?thesis using that by blast
qed

lemma packed_table_exists:
  assumes "Fetch16 code p 1 = Some n" "p + (4 + 2 * unat n) \<le> length code"
    and "case_targets_ok starts code pc p 4 (unat n)"
  shows "\<exists>table. packed_table code p table \<and> cases_ok starts code pc table"
proof -
  obtain e where e: "\<And>i. i < unat n \<Longrightarrow> Fetch32 code p (4 + i * 2) = Some (e i)"
      "\<And>i. i < unat n \<Longrightarrow> \<exists>t. int t = int pc + sint (e i) \<and> t < length code \<and> starts t"
    using case_targets_offsets [OF assms(3)] by blast
  obtain x where x: "Fetch32 code p 2 = Some x" using Fetch32_in [of p 2 code] assms(2) by auto
  define table where "table = map (\<lambda>i. (x + of_nat i, e i)) [0..<unat n]"
  have "packed_table code p table"
    using assms(1) e(1) x unat_uint16_less [of n] by (auto simp: packed_table_def table_def hd_map)
  moreover have "cases_ok starts code pc table" using e(2) by (auto simp: table_def)
  ultimately show ?thesis by blast
qed

lemma sparse_table_exists:
  assumes "Fetch16 code p 1 = Some n" "p + (2 + 4 * unat n) \<le> length code"
    and "case_targets_ok starts code pc p (2 + 2 * unat n) (unat n)"
    and "\<And>i. Suc i < unat n \<Longrightarrow> \<exists>k l. Fetch32 code p (2 + i * 2) = Some k \<and>
      Fetch32 code p (2 + Suc i * 2) = Some l \<and> sint k < sint l"
  shows "\<exists>table. sparse_table code p table \<and> cases_ok starts code pc table"
proof -
  obtain e where e: "\<And>i. i < unat n \<Longrightarrow> Fetch32 code p (2 + 2 * unat n + i * 2) = Some (e i)"
      "\<And>i. i < unat n \<Longrightarrow> \<exists>t. int t = int pc + sint (e i) \<and> t < length code \<and> starts t"
    using case_targets_offsets [OF assms(3)] by blast
  have "\<forall>i. \<exists>x. i < unat n \<longrightarrow> Fetch32 code p (2 + i * 2) = Some x"
    using Fetch32_table [of p 2 "unat n" code] assms(2) by auto
  then obtain k where k: "\<forall>i. i < unat n \<longrightarrow> Fetch32 code p (2 + i * 2) = Some (k i)"
    by (rule exE [OF choice])
  define table where "table = map (\<lambda>i. (k i, e i)) [0..<unat n]"
  have "sint (k i) < sint (k (Suc i))" if "Suc i < unat n" for i
    using assms(4) [OF that] k that by (auto simp: Suc_lessD)
  then have "sorted_wrt (\<lambda>a b. sint (fst a) < sint (fst b)) table"
    by (subst sorted_wrt_iff_nth_Suc_transp) (auto simp: table_def transp_def)
  then have "sparse_table code p table"
    using assms(1) e(1) k unat_uint16_less [of n] by (simp add: sparse_table_def table_def mult.commute)
  moreover have "cases_ok starts code pc table" using e(2) by (auto simp: table_def)
  ultimately show ?thesis by blast
qed

lemma verified_switch:
  assumes "ready ci st w" "IsSwitch (Opcode w)"
  shows "\<exists>d p table. VRegB_31t (insns ci) (inst st) = Some d \<and> RelativeAt (inst st) d = Some p \<and>
    (if Opcode w = PACKED_SWITCH then packed_table (insns ci) p table else sparse_table (insns ci) p table) \<and>
    cases_ok (insn_start (insns ci)) (insns ci) (inst st) table"
proof -
  let ?packed = "Opcode w = PACKED_SWITCH" and ?code = "insns ci"
  have "switch_ok (insn_start ?code) ?code (inst st) (Opcode w)" using assms(1) by (simp add: ready_def)
  then obtain d p n where d: "Fetch32 ?code (inst st) 1 = Some d" "int p = int (inst st) + sint d" "Fetch16 ?code p 1 = Some n"
      "p + (if ?packed then 4 + 2 * unat n else 2 + 4 * unat n) \<le> length ?code"
      "case_targets_ok (insn_start ?code) ?code (inst st) p (if ?packed then 4 else 2 + 2 * unat n) (unat n)"
      "\<not> ?packed \<longrightarrow> (\<forall>i. Suc i < unat n \<longrightarrow> (\<exists>k l. Fetch32 ?code p (2 + i * 2) = Some k \<and>
         Fetch32 ?code p (2 + Suc i * 2) = Some l \<and> sint k < sint l))"
    using assms(2) unfolding switch_ok_def by blast
  have "RelativeAt (inst st) d = Some p" using d(2) by (simp add: RelativeAt_def flip: d(2))
  moreover have "VRegB_31t ?code (inst st) = Some d" using d(1) by (simp add: VRegB_31t_def)
  moreover have "\<exists>table. (if ?packed then packed_table ?code p table else sparse_table ?code p table) \<and>
      cases_ok (insn_start ?code) ?code (inst st) table"
    using packed_table_exists [OF d(3), of "insn_start ?code" "inst st"]
      sparse_table_exists [OF d(3), of "insn_start ?code" "inst st"] d(4-6)
    by (cases ?packed) (simp, simp)
  ultimately show ?thesis by blast
qed

lemma DoSwitch_cases:
  assumes "ready ci st w" "shape_is (Opcode w) k31t 1 0 0" "IsSwitch (Opcode w)"
  shows "\<exists>table v. cases_ok (insn_start (insns ci)) (insns ci) (inst st) table \<and>
    (if Opcode w = PACKED_SWITCH then DoPackedSwitch else DoSparseSwitch) (insns ci) (inst st) (shadow_frame st) w
      = Some (switch_lookup table v)"
proof -
  obtain d p table where t: "VRegB_31t (insns ci) (inst st) = Some d" "RelativeAt (inst st) d = Some p"
      "if Opcode w = PACKED_SWITCH then packed_table (insns ci) p table else sparse_table (insns ci) p table"
      "cases_ok (insn_start (insns ci)) (insns ci) (inst st) table"
    using verified_switch [OF assms(1,3)] by blast
  obtain v where v: "GetVReg (shadow_frame st) (unat (VRegA_31t w)) = Some v"
    using readsD [OF vreg.reads_writes(1) assms(1) operands_A(16) [OF assms(1,2) refl]] by auto
  show ?thesis
    using t(3,4) DoPackedSwitch_lookup [OF t(1,2) _ v] DoSparseSwitch_lookup [OF t(1,2) _ v]
    by (cases "Opcode w = PACKED_SWITCH") auto
qed

lemma switch_lookup_target:
  assumes "cases_ok (insn_start (insns ci)) (insns ci) pc table" "inst st = pc"
  shows "flows ci pc 3 (branch env (switch_lookup table v) st)"
proof (cases "map_of table v")
  case None
  then show ?thesis
    using assms(2) by (intro branch_flows [where t = "pc + 3"]) (simp_all add: switch_lookup_def)
next
  case (Some e)
  then have "e \<in> snd ` set table" by (force dest: map_of_SomeD)
  then obtain t where "int t = int pc + sint e" "target ci t" using assms(1) unfolding target_def by blast
  then show ?thesis
    using Some assms(2) by (intro branch_flows [where t = t]) (simp_all add: switch_lookup_def)
qed

lemma switch_opcodes: "IsSwitch opcode \<longleftrightarrow> opcode \<in> {PACKED_SWITCH, SPARSE_SWITCH}"
  unfolding IsSwitch_def
  by (rule opcode_all [where P = "\<lambda>opcode format flags verify.
    flags AND kSwitch \<noteq> 0 \<longleftrightarrow> opcode \<in> {PACKED_SWITCH, SPARSE_SWITCH}"])
    (simp add: table_defs)

lemma branch_target_flows:
  "int t = int (inst st) + sint off \<Longrightarrow> target ci t \<Longrightarrow> flows ci (inst st) n (branch env off st)"
  by (rule branch_flows) auto

lemma exec_goto_flows:
  assumes "ready ci st w" "Opcode w \<in> set (map of_nat [0x28..<0x2d])"
  shows "flows ci (inst st) (insn_width w) (exec_goto env ci (Opcode w) w st)"
proof (cases "IsSwitch (Opcode w)")
  case True
  then have o: "Opcode w = PACKED_SWITCH \<or> Opcode w = SPARSE_SWITCH" by (simp add: switch_opcodes)
  then have s: "shape_is (Opcode w) k31t 1 0 0" "insn_width w = 3" by (auto simp: opcode_simps)
  obtain table v where t: "cases_ok (insn_start (insns ci)) (insns ci) (inst st) table"
      "(if Opcode w = PACKED_SWITCH then DoPackedSwitch else DoSparseSwitch) (insns ci) (inst st) (shadow_frame st) w
        = Some (switch_lookup table v)"
    using DoSwitch_cases [OF assms(1) s(1) True] by blast
  show ?thesis
    using o s(2) t(2) switch_lookup_target [OF t(1) refl] unfolding exec_goto_def by auto
next
  case False
  obtain fmt where s: "shape_is (Opcode w) fmt 0 0 0"
      "fmt = (if Opcode w = GOTO then k10t else if Opcode w = GOTO_16 then k20t else k30t)"
    using assms(2) False by (auto simp: opcode_simps switch_opcodes)
  consider "Opcode w = GOTO" | "Opcode w = GOTO_16" | "Opcode w = GOTO_32"
    using assms(2) False by (auto simp: switch_opcodes)
  then show ?thesis
  proof cases
    case 1
    then obtain t where "int t = int (inst st) + sint (scast (VRegA_10t w) :: int32)" "target ci t"
      using branch_targets(3) [OF assms(1) s(1)] s(2) by auto
    from branch_target_flows [OF this] show ?thesis using 1 by (simp add: exec_goto_def)
  next
    case 2
    then obtain d t where d: "VRegA_20t (insns ci) (inst st) = Some d"
        "int t = int (inst st) + sint (scast d :: int32)" "target ci t"
      using branch_targets(4) [OF assms(1) s(1)] s(2) by auto
    from branch_target_flows [OF d(2,3)] show ?thesis using 2 d(1) by (simp add: exec_goto_def)
  next
    case 3
    then obtain d t where d: "VRegA_30t (insns ci) (inst st) = Some d" "int t = int (inst st) + sint d" "target ci t"
      using branch_targets(5) [OF assms(1) s(1)] s(2) by auto
    from branch_target_flows [OF d(2,3)] show ?thesis using 3 d(1) by (simp add: exec_goto_def)
  qed
qed

section \<open>Arrays\<close>

lemma aget_flows:
  assumes "runtime_ok env" "ready ci st w" "handlers_ok ci" "writes wr k" "0 < k"
    and "shape_is (Opcode w) k23x k 1 1" "n = 2"
    and array: "\<And>b a. VRegB_23x (insns ci) (inst st) = Some b \<Longrightarrow> GetVRegReference (shadow_frame st) (unat b) = Some a \<Longrightarrow>
      a \<noteq> 0 \<Longrightarrow> \<exists>obj xs. heap (thread st) a = Some obj \<and> as_array obj = Some xs \<and> length xs < 2 ^ 31"
  shows "flows ci (inst st) n (aget env ci as_array wr widen w st)"
proof -
  obtain x y u v where o: "VRegB_23x (insns ci) (inst st) = Some x" "VRegC_23x (insns ci) (inst st) = Some y"
      "GetVRegReference (shadow_frame st) (unat x) = Some u" "GetVReg (shadow_frame st) (unat y) = Some v"
    using operands_23x [OF vreg_ref.reads_writes(1) vreg.reads_writes(1) assms(2,6) zero_less_width(1) zero_less_width(1)] .
  note l = ready_located [OF assms(2,3)]
  show ?thesis
  proof (cases "u = 0")
    case True
    then show ?thesis unfolding aget_def using o assms(1) l by (auto intro: progress)
  next
    case False
    then obtain obj xs where h: "heap (thread st) u = Some obj" "as_array obj = Some xs" "length xs < 2 ^ 31"
      using array [OF o(1,3)] by blast
    have i: "unat v < length xs" if "\<not> v \<ge> of_nat (length xs)"
      using that h(3) by (simp add: word_le_nat_alt unat_of_nat)
    have "flows ci (inst st) n (set_reg wr (VRegA_23x w) z 2 st)" for z
      using set_reg_at [OF assms(4,5,2) operands_A(13) [OF assms(2,6) refl] refl assms(7)] .
    then show ?thesis
      unfolding aget_def CheckIsValidIndex_def using False o h assms(1) l i
      by (auto intro: progress simp: array_get_in)
  qed
qed

lemma aput_flows:
  assumes "runtime_ok env" "ready ci st w" "handlers_ok ci" "reads rd k" "0 < k"
    and "shape_is (Opcode w) k23x k 1 1" "n = 2"
    and array: "\<And>b a. VRegB_23x (insns ci) (inst st) = Some b \<Longrightarrow> GetVRegReference (shadow_frame st) (unat b) = Some a \<Longrightarrow>
      a \<noteq> 0 \<Longrightarrow> \<exists>obj xs. heap (thread st) a = Some obj \<and> as_array obj = Some xs \<and> length xs < 2 ^ 31"
    and check: "\<And>a v self self'. assignable a v self = (False, self') \<Longrightarrow> IsExceptionPending self'"
  shows "flows ci (inst st) n (aput env ci as_array mk rd narrow assignable log w st)"
proof -
  obtain x y u v where o: "VRegB_23x (insns ci) (inst st) = Some x" "VRegC_23x (insns ci) (inst st) = Some y"
      "GetVRegReference (shadow_frame st) (unat x) = Some u" "GetVReg (shadow_frame st) (unat y) = Some v"
    using operands_23x [OF vreg_ref.reads_writes(1) vreg.reads_writes(1) assms(2,6) zero_less_width(1) zero_less_width(1)] .
  obtain val where val: "rd (shadow_frame st) (unat (VRegA_23x w)) = Some val"
    using readsD [OF assms(4,2) operands_A(13) [OF assms(2,6) refl] assms(5)] by blast
  note l = ready_located [OF assms(2,3)]
  show ?thesis
  proof (cases "u = 0")
    case True
    then show ?thesis unfolding aput_def using o assms(1) l by (auto intro: progress)
  next
    case False
    then obtain obj xs where h: "heap (thread st) u = Some obj" "as_array obj = Some xs" "length xs < 2 ^ 31"
      using array [OF o(1,3)] by blast
    obtain ok self where a: "assignable u val (thread st) = (ok, self)" by fastforce
    have p: "\<not> ok \<Longrightarrow> IsExceptionPending self" using check a by auto
    have i: "unat v < length xs" if "\<not> v \<ge> of_nat (length xs)"
      using that h(3) by (simp add: word_le_nat_alt unat_of_nat)
    show ?thesis
      unfolding aput_def CheckIsValidIndex_def Let_def using False o h val a p assms(1,7) l i
      by (auto intro!: progress simp: array_set_in array_get_in)
  qed
qed


text \<open>The register of an array instruction is null or holds an array its cast accepts.\<close>

definition casts :: "(ArrayObject \<Rightarrow> 'e list option) \<Rightarrow> Code \<Rightarrow> bool" where
  "casts as_array opcode \<longleftrightarrow> AGET \<le> opcode \<and> opcode \<le> APUT_SHORT \<and>
     (\<forall>obj. array_kind opcode obj \<longrightarrow> (\<exists>xs. as_array obj = Some xs \<and> length xs = GetLength obj))"

lemma casts_opcodes:
  "casts AsBooleanArray AGET_BOOLEAN" "casts AsByteArray AGET_BYTE" "casts AsCharArray AGET_CHAR"
  "casts AsShortArray AGET_SHORT" "casts AsIntArray AGET" "casts AsLongArray AGET_WIDE" "casts AsObjectArray AGET_OBJECT"
  "casts AsBooleanArray APUT_BOOLEAN" "casts AsByteArray APUT_BYTE" "casts AsCharArray APUT_CHAR"
  "casts AsShortArray APUT_SHORT" "casts AsIntArray APUT" "casts AsLongArray APUT_WIDE" "casts AsObjectArray APUT_OBJECT"
  by (simp_all add: casts_def array_kind_def split: ArrayObject.split)

lemma casts_array:
  assumes "typed env ci st w" "casts as_array (Opcode w)"
    and "VRegB_23x (insns ci) (inst st) = Some b" "GetVRegReference (shadow_frame st) (unat b) = Some a" "a \<noteq> 0"
  shows "\<exists>obj xs. heap (thread st) a = Some obj \<and> as_array obj = Some xs \<and> length xs < 2 ^ 31"
proof -
  have r: "AGET \<le> Opcode w" "Opcode w \<le> APUT_SHORT" using assms(2) by (simp_all add: casts_def)
  then have "Opcode w \<noteq> ARRAY_LENGTH" "Opcode w \<noteq> FILL_ARRAY_DATA" by auto
  with r have "array_register (insns ci) st w = Some (unat b)"
    using assms(3) by (simp add: array_register_def)
  from typed_array [OF assms(1) this assms(4,5)] r obtain obj
    where "heap (thread st) a = Some obj" "GetLength obj < 2 ^ 31" "array_kind (Opcode w) obj"
    by (auto simp: array_typed_def)
  with assms(2) show ?thesis unfolding casts_def by metis
qed

lemmas aget_typed = aget_flows [OF _ _ _ _ _ _ _ casts_array]
lemmas aput_typed = aput_flows [OF _ _ _ _ _ _ _ casts_array]

lemma exec_aget_flows:
  assumes "runtime_ok env" "ready ci st w" "handlers_ok ci" "typed env ci st w"
    and "Opcode w \<in> set (map of_nat [0x44..<0x4b])"
  shows "flows ci (inst st) (insn_width w) (exec_aget env ci (Opcode w) w st)"
  unfolding exec_aget_def using assms
  by (intro progress aget_typed [OF _ _ _ vreg.reads_writes(2) zero_less_width(1)]
      aget_typed [OF _ _ _ vreg_ref.reads_writes(2) zero_less_width(1)]
      aget_typed [OF _ _ _ vreg_long.reads_writes(2) zero_less_width(2)])
    (assumption | simp add: opcode_simps casts_opcodes)+

lemma CheckAssignable_fails:
  "runtime_ok env \<Longrightarrow> CheckAssignable (objects env) a v self = (False, self') \<Longrightarrow> IsExceptionPending self'"
  unfolding runtime_ok_def by (metis prod.sel)

lemma exec_aput_flows:
  assumes "runtime_ok env" "ready ci st w" "handlers_ok ci" "typed env ci st w"
    and "Opcode w \<in> set (map of_nat [0x4b..<0x52])"
  shows "flows ci (inst st) (insn_width w) (exec_aput env ci (Opcode w) w st)"
  unfolding exec_aput_def Let_def using assms
  by (intro progress aput_typed [OF _ _ _ vreg.reads_writes(1) zero_less_width(1)]
      aput_typed [OF _ _ _ vreg_ref.reads_writes(1) zero_less_width(1)]
      aput_typed [OF _ _ _ vreg_long.reads_writes(1) zero_less_width(2)])
    (assumption | (erule CheckAssignable_fails [rotated]) | simp add: opcode_simps casts_opcodes)+


section \<open>New and filled arrays\<close>

lemma record_heap [simp]:
  "heap (record_component env a i v self) = heap self" "heap (record_reference env a i u self) = heap self"
  by (simp_all add: record_component_def record_reference_def)

lemma fill_new_array_int:
  assumes "\<forall>r \<in> set regs. \<exists>v. GetVReg frame r = Some v" "i + length regs \<le> length xs" "heap self a = Some (IntArray xs)"
  shows "\<exists>self'. fill_new_array env True frame a i regs self = Some self'"
  using assms
proof (induction regs arbitrary: i xs self)
  case (Cons r regs)
  then obtain v where "GetVReg frame r = Some v" by auto
  then show ?case using Cons.IH [of "i + 1" "xs[i := v]"] Cons.prems by (simp add: array_set_in array_get_in)
qed simp

lemma fill_new_array_object:
  assumes "\<forall>r \<in> set regs. \<exists>v. GetVRegReference frame r = Some v" "i + length regs \<le> length xs" "heap self a = Some (ObjectArray xs)"
  shows "\<exists>self'. fill_new_array env False frame a i regs self = Some self'"
  using assms
proof (induction regs arbitrary: i xs self)
  case (Cons r regs)
  then obtain v where "GetVRegReference frame r = Some v" by auto
  then show ?case using Cons.IH [of "i + 1" "xs[i := v]"] Cons.prems by (simp add: array_set_in array_get_in)
qed simp

lemma array_flags:
  "(opcode = FILLED_NEW_ARRAY \<longrightarrow> GetVerifyExtraFlags opcode = kVerifyVarArg) \<and>
   (opcode = FILLED_NEW_ARRAY_RANGE \<longrightarrow> GetVerifyExtraFlags opcode = kVerifyVarArgRange) \<and>
   (opcode = FILL_ARRAY_DATA \<longrightarrow> GetVerifyExtraFlags opcode = kVerifyArrayData)"
  unfolding GetVerifyExtraFlags_def
  by (rule opcode_all [where P = "\<lambda>opcode format flags verify.
     let k = verify AND (kVerifyArrayData OR kVerifyBranchTarget
       OR kVerifySwitchTargets OR kVerifyVarArg OR kVerifyVarArgNonZero OR kVerifyVarArgRange
       OR kVerifyVarArgRangeNonZero OR kVerifyError) in
     (opcode = FILLED_NEW_ARRAY \<longrightarrow> k = kVerifyVarArg) \<and>
     (opcode = FILLED_NEW_ARRAY_RANGE \<longrightarrow> k = kVerifyVarArgRange) \<and>
     (opcode = FILL_ARRAY_DATA \<longrightarrow> k = kVerifyArrayData)", unfolded Let_def])
    (simp add: table_defs)

text \<open>The argument registers of \<open>filled-new-array\<close>.\<close>

definition filled_registers :: "bool \<Rightarrow> insns \<Rightarrow> nat \<Rightarrow> uint16 \<Rightarrow> nat \<Rightarrow> nat list option" where
  "filled_registers is_range code pc w n =
     (if is_range then do { vregC \<leftarrow> VRegC_3rc code pc; Some (map (\<lambda>i. unat vregC + i) [0..<n]) }
      else do { arg \<leftarrow> GetVarArgs code pc (replicate 5 0) w; Some (map unat (take n arg)) })"

lemma filled_registers_ok:
  assumes "ready ci st w" "Opcode w \<in> {FILLED_NEW_ARRAY, FILLED_NEW_ARRAY_RANGE}"
    and n: "n = (if Opcode w = FILLED_NEW_ARRAY_RANGE then unat (VRegA_3rc w) else unat (VRegA_35c w))"
  shows "\<exists>regs. filled_registers (Opcode w = FILLED_NEW_ARRAY_RANGE) (insns ci) (inst st) w n = Some regs \<and>
    (\<forall>r \<in> set regs. r < NumberOfVRegs (shadow_frame st)) \<and> length regs \<le> n \<and>
    (Opcode w \<noteq> FILLED_NEW_ARRAY_RANGE \<longrightarrow> n \<le> 5)"
proof -
  have a: "arguments_ok ci (inst st) (Opcode w)" and f: "Fetch16 (insns ci) (inst st) 0 = Some w"
    and r: "NumberOfVRegs (shadow_frame st) = unat (registers_size ci)"
    using assms(1) by (simp_all add: ready_def)
  show ?thesis
  proof (cases "Opcode w = FILLED_NEW_ARRAY")
    case True
    have "FormatOf (Opcode w) = k35c" using True by (simp add: opcode_simps)
    then have v: "VRegA (insns ci) (inst st) = Some (ucast (VRegA_35c w))" using f by (simp add: VRegA_def)
    obtain args where "unat (VRegA_35c w) \<le> 5" "GetVarArgs (insns ci) (inst st) (replicate 5 0) w = Some args"
        "\<forall>x \<in> set (take (unat (VRegA_35c w)) args). reg_ok ci x"
      using a f v True array_flags [of "Opcode w"]
      by (auto simp: arguments_ok_def unsigned_ucast_eq)
    then show ?thesis using True r n by (auto simp: filled_registers_def)
  next
    case False
    then have o: "Opcode w = FILLED_NEW_ARRAY_RANGE" using assms(2) by simp
    then have "FormatOf (Opcode w) = k3rc" by (simp add: opcode_simps)
    then have v: "VRegA (insns ci) (inst st) = Some (ucast (VRegA_3rc w))"
        "VRegC (insns ci) (inst st) = map_option ucast (VRegC_3rc (insns ci) (inst st))"
      using f by (simp_all add: VRegA_def VRegC_def)
    then show ?thesis
      using a o r n array_flags [of "Opcode w"]
      by (auto simp: arguments_ok_def filled_registers_def)
  qed
qed


text \<open>An allocated array has the requested length and the kind of its class.\<close>

definition allocator_ok :: "'w Env \<Rightarrow> bool" where
  "allocator_ok env \<longleftrightarrow>
     (\<forall>c n self a self' t. AllocArray (allocator env) c n self = (a, self') \<longrightarrow>
        ComponentPrimitiveType (objects env) self c = Some t \<longrightarrow> t \<in> {kPrimNot, kPrimInt} \<longrightarrow>
        (if a = 0 then IsExceptionPending self'
         else (\<exists>xs. length xs = unat n \<and> heap self' a = Some (if t = kPrimInt then IntArray xs else ObjectArray xs))))"

lemma allocated:
  assumes "allocator_ok env" "AllocArray (allocator env) c n self = (a, self')"
    and "ComponentPrimitiveType (objects env) self c = Some t" "t = kPrimNot \<or> t = kPrimInt"
  shows "a = 0 \<Longrightarrow> IsExceptionPending self'"
    "a \<noteq> 0 \<Longrightarrow> \<exists>xs. length xs = unat n \<and> heap self' a = Some (if t = kPrimInt then IntArray xs else ObjectArray xs)"
  using assms unfolding allocator_ok_def by (metis insert_iff)+

lemma DoFilledNewArray_defined:
  assumes "runtime_ok env" "allocator_ok env" "ready ci st w"
    and "Opcode w \<in> {FILLED_NEW_ARRAY, FILLED_NEW_ARRAY_RANGE}"
    and cls: "\<And>i c self. VRegB (insns ci) (inst st) = Some i \<Longrightarrow>
      ResolveVerifyAndClinit (objects env) i (thread st) = (c, self) \<Longrightarrow> c \<noteq> 0 \<Longrightarrow>
      ComponentPrimitiveType (objects env) self c \<noteq> None"
  shows "\<exists>ok r self. DoFilledNewArray env (Opcode w = FILLED_NEW_ARRAY_RANGE) (insns ci) (inst st) w
    (shadow_frame st) result (thread st) = Some (ok, r, self) \<and> (ok \<or> IsExceptionPending self)"
proof -
  let ?range = "Opcode w = FILLED_NEW_ARRAY_RANGE"
  define len where "len = (if ?range then ucast (VRegA_3rc w) else ucast (VRegA_35c w) :: int32)"
  have ul: "unat len = (if ?range then unat (VRegA_3rc w) else unat (VRegA_35c w))"
    by (simp add: len_def unsigned_ucast_eq)
  have "unat len < 2 ^ 31"
    using unat_uint8_less [of "VRegA_3rc w"] unat_uint8_less [of "VRegA_35c w"] unfolding ul by (auto split: if_splits)
  moreover have "of_nat (unat len) = len" by simp
  ultimately have sl: "sint len = int (unat len)" using sint_of_nat32 by metis
  obtain regs where regs: "filled_registers ?range (insns ci) (inst st) w (unat len) = Some regs"
      "\<forall>r \<in> set regs. r < NumberOfVRegs (shadow_frame st)" "length regs \<le> unat len"
      "\<not> ?range \<Longrightarrow> unat len \<le> 5"
    using filled_registers_ok [OF assms(3,4) ul] by auto
  have f: "FormatOf (Opcode w) = (if ?range then k3rc else k35c)" "inst st + 3 \<le> length (insns ci)"
      "Fetch16 (insns ci) (inst st) 0 = Some w"
    using assms(3,4) unfolding ready_def by (auto simp: opcode_simps)
  obtain i where i: "(if ?range then VRegB_3rc (insns ci) (inst st) else VRegB_35c (insns ci) (inst st)) = Some i"
      "VRegB (insns ci) (inst st) = Some (ucast i)"
    using f by (auto simp: VRegB_def VRegB_3rc_def VRegB_35c_def Fetch16_in)
  obtain c self where c: "ResolveVerifyAndClinit (objects env) (ucast i) (thread st) = (c, self)" by fastforce
  have p: "c = 0 \<Longrightarrow> IsExceptionPending self" using assms(1) c unfolding runtime_ok_def by (metis prod.sel)
  have t: "c \<noteq> 0 \<Longrightarrow> \<exists>t. ComponentPrimitiveType (objects env) self c = Some t" using cls [OF i(2) c] by auto
  have r: "\<forall>r \<in> set regs. \<exists>v. GetVReg (shadow_frame st) r = Some v"
      "\<forall>r \<in> set regs. \<exists>v. GetVRegReference (shadow_frame st) r = Some v"
    using regs(2) readsD [OF vreg.reads_writes(1) assms(3)] readsD [OF vreg_ref.reads_writes(1) assms(3)] by auto
  have th: "IsExceptionPending (throw env k s)" for k s using assms(1) by (simp add: runtime_ok_def)
  have al: "(a = 0 \<longrightarrow> IsExceptionPending s) \<and> (a \<noteq> 0 \<longrightarrow>
      (\<exists>x. fill_new_array env (t = kPrimInt) (shadow_frame st) a 0 regs s = Some x))"
    if "AllocArray (allocator env) c len self = (a, s)" "ComponentPrimitiveType (objects env) self c = Some t"
      "t = kPrimNot \<or> t = kPrimInt" for a s t
  proof (cases "a = 0")
    case True
    then show ?thesis using allocated(1) [OF assms(2) that] by simp
  next
    case False
    from allocated(2) [OF assms(2) that this] obtain xs
      where "length xs = unat len" "heap s a = Some (if t = kPrimInt then IntArray xs else ObjectArray xs)"
      by blast
    then show ?thesis
      using False fill_new_array_int [OF r(1), of 0 xs] fill_new_array_object [OF r(2), of 0 xs] regs(3)
      by (cases "t = kPrimInt") auto
  qed
  have n: "\<not> (\<not> ?range \<and> 5 < sint len)" "\<not> sint len < 0" using sl regs(4) by linarith+
  have "delivers (\<lambda>(ok, r, self). ok \<or> IsExceptionPending self)
      (DoFilledNewArray env ?range (insns ci) (inst st) w (shadow_frame st) result (thread st))"
    unfolding DoFilledNewArray_def len_def [symmetric] Let_def if_not_P [OF n(1)] if_not_P [OF n(2)] i(1)
      filled_registers_def [symmetric] regs(1)
    using c p t th by (intro progress) (auto dest!: al split: if_splits)
  then show ?thesis by (auto simp: delivers_def)
qed

lemma AllocArrayFromCode_fails:
  "runtime_ok env \<Longrightarrow> fst (AllocArrayFromCode (allocator env) i n self) = 0 \<Longrightarrow>
    IsExceptionPending (snd (AllocArrayFromCode (allocator env) i n self))"
  by (simp add: runtime_ok_def)

lemma exec_new_array_flows:
  assumes "runtime_ok env" "allocator_ok env" "ready ci st w" "handlers_ok ci" "typed env ci st w"
    and "Opcode w \<in> set (map of_nat [0x23..<0x26])"
  shows "flows ci (inst st) (insn_width w) (exec_new_array env ci (Opcode w) w st)"
proof (cases "Opcode w = NEW_ARRAY")
  case True
  then have s: "shape_is (Opcode w) k22c 1 1 0" "insn_width w = 2" by (simp_all add: opcode_simps)
  show ?thesis
    unfolding exec_new_array_def using True assms(1,3,4) s(2) literal_units(11) [OF assms(3) s(1) refl]
      operands_A(9) [OF assms(3) s(1) refl]
      readsD [OF vreg.reads_writes(1) assms(3) operands_B(2) [OF assms(3) s(1) refl]]
    by (auto intro!: progress AllocArrayFromCode_fails)
next
  case False
  then have o: "Opcode w \<in> {FILLED_NEW_ARRAY, FILLED_NEW_ARRAY_RANGE}" "insn_width w = 3"
    using assms(6) by (auto simp: opcode_simps)
  have "\<exists>ok r self. DoFilledNewArray env (Opcode w = FILLED_NEW_ARRAY_RANGE) (insns ci) (inst st) w
      (shadow_frame st) (result_register st) (thread st) = Some (ok, r, self) \<and> (ok \<or> IsExceptionPending self)"
    using assms(5) o(1) unfolding typed_def by (intro DoFilledNewArray_defined [OF assms(1-3) o(1)]) blast
  then show ?thesis
    unfolding exec_new_array_def using False o ready_located [OF assms(3,4)]
    by (auto intro!: progress)
qed

section \<open>Array data\<close>

lemma those_map_defined: "\<forall>x \<in> set xs. \<exists>y. f x = Some y \<Longrightarrow> \<exists>ys. those (map f xs) = Some ys"
  by (induction xs) auto

lemma copy_payload_defined:
  assumes "\<forall>k < n * width. \<exists>b. payload_byte code p k = Some b" "n \<le> length xs"
  shows "\<exists>ys. copy_payload code p width n xs = Some ys \<and> length ys = length xs"
  using assms
proof (induction n)
  case (Suc n)
  then obtain ys where ys: "copy_payload code p width n xs = Some ys" "length ys = length xs" by auto
  obtain bs where "those (map (payload_byte code p) [n * width ..< Suc n * width]) = Some bs"
    using those_map_defined [of "[n * width ..< Suc n * width]" "payload_byte code p"] Suc.prems(1) by auto
  then show ?case using ys Suc.prems(2) by (simp add: array_set_in)
qed simp

lemma memcpy_payload_defined:
  assumes "\<forall>k < sz. \<exists>b. payload_byte code p k = Some b" "sz div element_width array \<le> GetLength array"
    and "element_width array \<noteq> 0"
  shows "\<exists>a. memcpy_payload code p (element_width array) sz array = Some a"
proof -
  have b: "\<forall>k < sz div d * d. \<exists>b. payload_byte code p k = Some b" for d
    using assms(1) div_times_less_eq_dividend [of sz d] by (meson order.strict_trans2)
  show ?thesis
    using assms(2,3) copy_payload_defined [OF b [of 1]] copy_payload_defined [OF b [of 2]]
      copy_payload_defined [OF b [of 4]] copy_payload_defined [OF b [of 8]]
    by (cases array) (fastforce simp: memcpy_payload_def element_width_def)+
qed

lemma payload_in_code:
  fixes size :: uint32
  assumes "unat (of_nat p + (4 + (size + 1) div 2) :: uint32) \<le> length code" "length code < 2 ^ 31"
    and "p + 3 < length code" "unat size + 1 < 2 ^ 32" "k < unat size"
  shows "\<exists>b. payload_byte code p k = Some b"
proof -
  have "unat ((size + 1) div 2) = (unat size + 1) div 2"
    using assms(4) by (simp add: unat_div unat_add_lem [THEN iffD1])
  moreover have "unat (of_nat p :: uint32) = p" using assms(2,3) by (simp add: unat_of_nat)
  moreover have "p + (4 + (unat size + 1) div 2) < 2 ^ 32" using assms(2,3,4) by (simp; linarith)
  ultimately have "unat (of_nat p + (4 + (size + 1) div 2)) = p + (4 + (unat size + 1) div 2)"
    by (simp add: unat_add_lem [THEN iffD1])
  then have "p + (4 + k div 2) < length code" using assms(1,5) by linarith
  then show ?thesis by (simp add: payload_byte_def Fetch16_in)
qed

lemma Fetch32_range: "Fetch32 code p k = Some x \<Longrightarrow> p + k + 1 < length code"
  by (auto simp: Fetch32_def Fetch16_def bind_Some_iff split: if_splits)

lemma product_bound:
  fixes c :: uint32 and n :: uint16
  assumes "unat (c * ucast n) div unat n < 2 ^ 31" "unat n \<in> {1, 2, 4, 8}"
  shows "unat (c * ucast n) + 1 < 2 ^ 32"
proof -
  have u: "unat (c * ucast n) = unat c * unat n mod 2 ^ 32" by (simp add: unat_word_ariths unsigned_ucast_eq)
  have "unat (c * ucast n) + 1 \<noteq> 2 ^ 32"
  proof (cases "unat n = 1")
    case True
    then show ?thesis using assms(1) by simp
  next
    case False
    then have "even (unat c * unat n)" using assms(2) by auto
    then have "even (unat (c * ucast n))" unfolding u by (subst dvd_mod_iff) simp_all
    then have "odd (unat (c * ucast n) + 1)" by simp
    then show ?thesis by (metis even_numeral even_power zero_less_numeral)
  qed
  then show ?thesis using unsigned_less [of "c * ucast n", where 'a = nat] by simp
qed

lemma element_width_cases: "element_width array \<noteq> 0 \<Longrightarrow> element_width array \<in> {1, 2, 4, 8}"
  by (cases array) (simp_all add: element_width_def)

lemma FillArrayData_defined:
  assumes "runtime_ok env" "heap self a = Some array" "GetLength array < 2 ^ 31"
    and "Fetch16 code p 1 = Some n" "Fetch32 code p 2 = Some c" "length code < 2 ^ 31"
    and "unat (of_nat p + (4 + (ucast n * c + 1) div 2) :: uint32) \<le> length code"
    and "\<not> fill_overruns code p array" "unat n = element_width array" "element_width array \<noteq> 0"
  shows "\<exists>ok self'. FillArrayData env code a p self = Some (ok, self') \<and> (ok \<or> IsExceptionPending self')"
proof (cases "a = 0 \<or> int (GetLength array) < sint c")
  case True
  then show ?thesis using assms(1,2,4,5) by (auto simp: FillArrayData_def runtime_ok_def)
next
  case False
  then have b: "unat (c * ucast n) div unat n \<le> GetLength array"
    using assms(4,5,8) by (simp add: fill_overruns_def)
  have n: "unat n \<in> {1, 2, 4, 8}" using assms(9) element_width_cases [OF assms(10)] by simp
  have "unat (c * ucast n) + 1 < 2 ^ 32" using product_bound b assms(3) n by simp
  then have "\<forall>k < unat (c * ucast n). \<exists>b. payload_byte code p k = Some b"
    using assms(6,7) Fetch32_range [OF assms(5)]
    by (intro allI impI payload_in_code [where size = "c * ucast n"]) (simp_all add: mult.commute)
  then obtain d where "memcpy_payload code p (unat n) (unat (c * ucast n)) array = Some d"
    using memcpy_payload_defined [of "unat (c * ucast n)" code p array] b assms(9,10) by fastforce
  then show ?thesis using False assms(2,4,5) by (auto simp: FillArrayData_def Let_def)
qed

text \<open>The copy keeps kind and length of the array, and runs over its end exactly if it is too long.\<close>

lemma copy_payload_length: "copy_payload code p width n xs = Some ys \<Longrightarrow> length ys = length xs"
  by (induction n arbitrary: ys) (auto simp: bind_Some_iff array_set_def split: if_splits)

lemma copy_payload_overrun: "length xs < n \<Longrightarrow> copy_payload code p width n xs = None"
proof (induction n)
  case (Suc n)
  then show ?case
    by (cases "copy_payload code p width n xs")
      (auto simp: array_set_def dest: copy_payload_length split: bind_splits)
qed simp

lemma memcpy_payload_kind:
  "memcpy_payload code p width sz array = Some array' \<Longrightarrow>
    GetLength array' = GetLength array \<and> element_width array' = element_width array"
  by (cases array) (auto simp: memcpy_payload_def element_width_def copy_payload_length split: if_splits)

lemma memcpy_payload_overrun:
  "GetLength array < sz div width \<Longrightarrow> memcpy_payload code p width sz array = None"
  by (cases array) (auto simp: memcpy_payload_def copy_payload_overrun)

lemma FillArrayData_fills:
  assumes "FillArrayData env code a p self = Some (True, self')"
  shows "\<exists>array c. heap self' a = Some array \<and> Fetch32 code p 2 = Some c \<and> sint c \<le> int (GetLength array) \<and>
    (\<forall>old. heap self a = Some old \<longrightarrow> element_width array = element_width old)"
  using assms
  by (auto simp: FillArrayData_def Let_def bind_Some_iff dest!: memcpy_payload_kind split: if_splits)

lemma FillArrayData_overruns:
  "a \<noteq> 0 \<Longrightarrow> heap self a = Some array \<Longrightarrow> fill_overruns code p array \<Longrightarrow> FillArrayData env code a p self = None"
  by (auto simp: FillArrayData_def fill_overruns_def Let_def memcpy_payload_overrun split: option.splits)

text \<open>The class of an array tells the kind of its components.\<close>

definition component_of :: "ArrayObject \<Rightarrow> PrimType \<Rightarrow> bool" where
  "component_of array t \<longleftrightarrow>
     (case array of
        BooleanArray xs \<Rightarrow> t = kPrimBoolean | ByteArray xs \<Rightarrow> t = kPrimByte | CharArray xs \<Rightarrow> t = kPrimChar
      | ShortArray xs \<Rightarrow> t = kPrimShort | IntArray xs \<Rightarrow> t = kPrimInt \<or> t = kPrimFloat
      | LongArray xs \<Rightarrow> t = kPrimLong \<or> t = kPrimDouble | ObjectArray xs \<Rightarrow> t = kPrimNot)"

definition classes_ok :: "'w Env \<Rightarrow> bool" where
  "classes_ok env \<longleftrightarrow>
     (\<forall>self a array. heap self a = Some array \<longrightarrow>
        (\<exists>t. ComponentPrimitiveType (objects env) self (GetClass (objects env) self a) = Some t \<and> component_of array t))"

lemma record_elements_defined: "n \<le> length xs \<Longrightarrow> \<exists>self'. record_elements env a widen xs n self = Some self'"
  by (induction n) (auto simp: array_get_in)

lemma RecordArrayElements_defined:
  assumes "classes_ok env" "heap self a = Some array" "sint c \<le> int (GetLength array)" "element_width array \<noteq> 0"
  shows "\<exists>self'. RecordArrayElementsInTransaction env a c self = Some self'"
proof -
  obtain t where t: "ComponentPrimitiveType (objects env) self (GetClass (objects env) self a) = Some t"
      "component_of array t"
    using assms(1,2) unfolding classes_ok_def by blast
  show ?thesis
    using t assms(2-4)
    by (cases array) (auto simp: RecordArrayElementsInTransaction_def component_of_def element_width_def nat_le_iff
        intro!: record_elements_defined)
qed

lemma exec_fill_array_data_flows:
  assumes "runtime_ok env" "classes_ok env" "\<not> fill_fault ci w st" "ready ci st w" "handlers_ok ci"
    and "typed env ci st w" "Opcode w = FILL_ARRAY_DATA"
  shows "flows ci (inst st) (insn_width w) (exec_fill_array_data env ci w st)"
proof -
  have s: "shape_is (Opcode w) k31t 1 0 0" "insn_width w = 3" using assms(7) by (simp_all add: opcode_simps)
  obtain a where a: "GetVRegReference (shadow_frame st) (unat (VRegA_31t w)) = Some a"
    using readsD [OF vreg_ref.reads_writes(1) assms(4) operands_A(16) [OF assms(4) s(1) refl]] by auto
  obtain d p n c where d: "Fetch32 (insns ci) (inst st) 1 = Some d" "int p = int (inst st) + sint d"
      and p: "Fetch16 (insns ci) p 1 = Some n" "Fetch32 (insns ci) p 2 = Some c"
        "unat (of_nat p + (4 + (ucast n * c + 1) div 2) :: uint32) \<le> length (insns ci)"
    using assms(4,7) array_flags [of "Opcode w"] unfolding ready_def array_data_ok_def by auto
  have r: "RelativeAt (inst st) d = Some p" using d(2) by (simp add: RelativeAt_def flip: d(2))
  have v: "VRegB_31t (insns ci) (inst st) = Some d" using d(1) by (simp add: VRegB_31t_def)
  have "\<exists>ok self. FillArrayData env (insns ci) a p (thread st) = Some (ok, self) \<and> (\<not> ok \<longrightarrow> IsExceptionPending self) \<and>
      (ok \<longrightarrow> (\<exists>self'. RecordArrayElementsInTransaction env a c self = Some self'))"
  proof (cases "a = 0")
    case True
    then show ?thesis using assms(1) by (auto simp: FillArrayData_def)
  next
    case False
    have "array_register (insns ci) st w = Some (unat (VRegA_31t w))" using assms(7) by (simp add: array_register_def)
    from typed_array [OF assms(6) this a False] obtain array
      where h: "heap (thread st) a = Some array" "GetLength array < 2 ^ 31" by (auto simp: array_typed_def)
    have w: "unat n = element_width array" "element_width array \<noteq> 0"
      using assms(6,7) v r p(1) a h(1) unfolding typed_def by blast+
    have o: "\<not> fill_overruns (insns ci) p array"
      using assms(3,7) v r a False h(1) by (simp add: fill_fault_def)
    have "length (insns ci) < 2 ^ 31" using assms(4) by (simp add: ready_def)
    from FillArrayData_defined [OF assms(1) h p(1,2) this p(3) o w] obtain ok self
      where f: "FillArrayData env (insns ci) a p (thread st) = Some (ok, self)" "ok \<or> IsExceptionPending self"
      by blast
    have "\<exists>self'. RecordArrayElementsInTransaction env a c self = Some self'" if ok
      using FillArrayData_fills [of env "insns ci" a p "thread st" self] f(1) that p(2) h(1) w(2)
        RecordArrayElements_defined [OF assms(2)] by fastforce
    with f show ?thesis by blast
  qed
  then show ?thesis
    unfolding exec_fill_array_data_def using a r v s(2) p(2) ready_located [OF assms(4,5)]
    by (auto intro!: progress simp: flows_go_next located_def split: if_splits)
qed

section \<open>The faults\<close>

lemma widened_null: "(ucast (a :: uint32) :: uint64) = 0 \<longleftrightarrow> a = 0"
  by (simp add: word_unat_eq_iff unsigned_ucast_eq)

lemma DoFieldPut_unresolved:
  assumes "do_access_check env" "unresolved_put env ci find_type w st" "find_type \<in> {InstanceObjectWrite, StaticObjectWrite}"
  shows "DoFieldPut env find_type kPrimNot (insns ci) (inst st) w (shadow_frame st) (thread st) = None"
proof -
  let ?static = "find_type = StaticObjectWrite"
  obtain i where i: "(if ?static then VRegB_21c (insns ci) (inst st) else VRegC_22c (insns ci) (inst st)) = Some i"
    using assms(2) by (auto simp: unresolved_put_def Let_def split: option.splits)
  obtain f self where f: "FindFieldFromCode (field_model env) find_type (ucast i) kObjectReferenceSize (thread st) = (f, self)"
    by fastforce
  have u: "f \<noteq> 0" "\<not> ?static \<Longrightarrow> GetVRegReference (shadow_frame st) (unat (VRegB_22c w)) \<noteq> Some 0"
      "GetVRegReference (shadow_frame st) (if ?static then unat (VRegA_21c w) else unat (VRegA_22c w)) \<noteq> Some 0"
      "fst (GetFieldType (field_model env) f self) = 0"
    using assms(2) i f by (simp_all add: unresolved_put_def Let_def)
  obtain c self' where c: "GetFieldType (field_model env) f self = (c, self')" by fastforce
  show ?thesis
  proof (cases "find_type = StaticObjectWrite")
    case True
    then show ?thesis
      using i f u c assms(1) unfolding DoFieldPut_def Let_def
      by (cases "GetVRegReference (shadow_frame st) (unat (VRegA_21c w))") (simp_all add: widened_null)
  next
    case False
    then have t: "find_type = InstanceObjectWrite" using assms(3) by simp
    show ?thesis
      using i f u c assms(1) t unfolding DoFieldPut_def Let_def
      by (cases "GetVRegReference (shadow_frame st) (unat (VRegA_22c w))";
          cases "GetVRegReference (shadow_frame st) (unat (VRegB_22c w))") (simp_all add: widened_null)
  qed
qed

lemma return_object_fault:
  assumes "return_fault env ci w st"
  shows "exec_return env ci (Opcode w) w st = None"
proof -
  have o: "Opcode w = RETURN_OBJECT" "do_access_check env" using assms by (simp_all add: return_fault_def)
  obtain st1 a where m: "HANDLE_MONITOR_CHECKS env ci st = Some (Running st1)"
      "GetVRegReference (shadow_frame st1) (unat (VRegA_11x w)) = Some a" "a \<noteq> 0"
    using assms by (auto simp: return_fault_def split: option.splits outcome.splits)
  obtain t self where t: "GetReturnType (objects env) (thread st1) = (t, self)" by fastforce
  have "t = 0" "\<nexists>v st2. HANDLE_PENDING_EXCEPTION env ci (st1\<lparr>thread := self\<rparr>) = Some (Returned v st2)"
    using assms m t by (auto simp: return_fault_def split: option.splits outcome.splits)
  moreover from this have "Option.bind (HANDLE_PENDING_EXCEPTION env ci (st1\<lparr>thread := self\<rparr>)) (\<lambda>o1. and_then o1 (\<lambda>_. None)) = None"
    by (cases "HANDLE_PENDING_EXCEPTION env ci (st1\<lparr>thread := self\<rparr>)" rule: option.exhaust)
      (simp, metis and_then.simps(1) bind.bind_lunit outcome.exhaust)
  ultimately show ?thesis
    using o m t by (simp add: exec_return_def return_object_def)
qed

lemma exec_fill_array_data_fault: "fill_fault ci w st \<Longrightarrow> exec_fill_array_data env ci w st = None"
  by (auto simp: fill_fault_def exec_fill_array_data_def FillArrayData_overruns split: option.splits bind_splits)

text \<open>Every fault is undefined behaviour of the interpreter.\<close>

lemma fault_dispatch:
  "dispatch env ci RETURN_OBJECT w st = exec_return env ci RETURN_OBJECT w st"
  "dispatch env ci FILL_ARRAY_DATA w st = exec_fill_array_data env ci w st"
  "dispatch env ci IPUT_OBJECT w st = field_put env ci InstanceObjectWrite kPrimNot w st"
  "dispatch env ci SPUT_OBJECT w st = field_put env ci StaticObjectWrite kPrimNot w st"
  by (simp_all add: dispatch_def exec_iput_def exec_sput_def)

lemma fault_undefined:
  assumes "fault_at env ci w st"
  shows "dispatch env ci (Opcode w) w st = None"
proof -
  consider "return_fault env ci w st" "Opcode w = RETURN_OBJECT" | "fill_fault ci w st" "Opcode w = FILL_ARRAY_DATA"
    | "do_access_check env" "unresolved_put env ci InstanceObjectWrite w st" "Opcode w = IPUT_OBJECT"
    | "do_access_check env" "unresolved_put env ci StaticObjectWrite w st" "Opcode w = SPUT_OBJECT"
    using assms unfolding fault_at_def put_fault_def return_fault_def fill_fault_def by blast
  then show ?thesis
  proof cases
    case 1
    then show ?thesis using return_object_fault [OF 1(1)] by (simp only: fault_dispatch)
  next
    case 2
    then show ?thesis using exec_fill_array_data_fault [OF 2(1)] by (simp only: fault_dispatch)
  qed (simp_all only: fault_dispatch field_put_def DoFieldPut_unresolved insert_iff bind.bind_lzero simp_thms)
qed

end
