(* ===== verification/Verified_Execution.thy ===== *)
theory Verified_Execution
  imports Verified_Handlers
begin

text \<open>
  The composition of verifier and interpreter: a method that the static passes accept and whose
  types are right is stuck in the interpreter at three faults only, round for round, whatever the
  runtime behind the interpreter does within its contract.
\<close>

section \<open>One round\<close>

definition environment_ok :: "'w Env \<Rightarrow> bool" where
  "environment_ok env \<longleftrightarrow> runtime_ok env \<and> calls_report env \<and> calls_keep env \<and> allocator_ok env \<and> classes_ok env"

lemma opcode_between:
  assumes "lo \<le> unat opcode" "unat opcode < hi"
  shows "(opcode :: Code) \<in> set (map of_nat [lo..<hi])"
proof -
  have "of_nat (unat opcode) \<in> set (map of_nat [lo..<hi] :: Code list)"
    using assms unfolding set_map by (intro imageI) simp
  then show ?thesis by simp
qed

lemma opcode_betweens:
  "unat opcode < hi \<Longrightarrow> (opcode :: Code) = 0 \<or> opcode = 1 \<or> opcode \<in> set (map of_nat [2..<hi])"
  "lo \<le> unat opcode \<and> unat opcode < hi \<or> opcode = r \<Longrightarrow> opcode \<in> set (map of_nat [lo..<hi]) \<or> opcode = r"
  "lo \<le> unat opcode \<and> unat opcode < hi \<or> lo' \<le> unat opcode \<and> unat opcode < hi' \<Longrightarrow>
    opcode \<in> set (map of_nat ([lo..<hi] @ [lo'..<hi']))"
  "lo \<le> unat opcode \<and> unat opcode < hi \<or> lo' \<le> unat opcode \<and> unat opcode < hi' \<or>
     lo'' \<le> unat opcode \<and> unat opcode < hi'' \<Longrightarrow>
    opcode \<in> set (map of_nat ([lo..<hi] @ [lo'..<hi'] @ [lo''..<hi'']))"
proof -
  show "(opcode :: Code) = 0 \<or> opcode = 1 \<or> opcode \<in> set (map of_nat [2..<hi])" if "unat opcode < hi"
  proof (cases "2 \<le> unat opcode")
    case True
    then show ?thesis using opcode_between that by blast
  next
    case False
    then have "unat opcode = 0 \<or> unat opcode = 1" by linarith
    then show ?thesis by (auto simp: word_unat_eq_iff)
  qed
  note b = opcode_between [of _ opcode]
  show "lo \<le> unat opcode \<and> unat opcode < hi \<or> opcode = r \<Longrightarrow> opcode \<in> set (map of_nat [lo..<hi]) \<or> opcode = r"
    using b by blast
  show "lo \<le> unat opcode \<and> unat opcode < hi \<or> lo' \<le> unat opcode \<and> unat opcode < hi' \<Longrightarrow>
    opcode \<in> set (map of_nat ([lo..<hi] @ [lo'..<hi']))"
    using b unfolding map_append set_append by blast
  show "lo \<le> unat opcode \<and> unat opcode < hi \<or> lo' \<le> unat opcode \<and> unat opcode < hi' \<or>
      lo'' \<le> unat opcode \<and> unat opcode < hi'' \<Longrightarrow>
    opcode \<in> set (map of_nat ([lo..<hi] @ [lo'..<hi'] @ [lo''..<hi'']))"
    using b unfolding map_append set_append by blast
qed

lemmas opcode_order = word_le_nat_alt word_less_nat_alt word_unat_eq_iff

lemma dispatch_flows:
  assumes "environment_ok env" "ready ci st w" "handlers_ok ci" "typed env ci st w" "executable (Opcode w)"
    and "\<not> fault_at env ci w st"
  shows "flows ci (inst st) (insn_width w) (dispatch env ci (Opcode w) w st)"
proof -
  have e: "runtime_ok env" "calls_report env" "allocator_ok env" "classes_ok env"
    using assms(1) by (simp_all add: environment_ok_def)
  have f: "\<not> return_fault env ci w st" "\<not> put_fault env ci w st" "\<not> fill_fault ci w st"
    using assms(6) by (simp_all add: fault_at_def)
  have m: "Opcode w = MOVE_EXCEPTION \<Longrightarrow> IsExceptionPending (thread st)" using assms(4) by (simp add: typed_def)
  have x: "unat (Opcode w) < 243" "\<not> (unat (Opcode w) \<ge> 0x3e \<and> unat (Opcode w) \<le> 0x43)"
      "unat (Opcode w) \<noteq> 0x79" "unat (Opcode w) \<noteq> 0x7a"
    using assms(5) by (auto simp: executable_def word_unat_eq_iff)
  note r = assms(2) note h = assms(3) note t = assms(4)
  show ?thesis
    unfolding dispatch_def
    by (intro flows_if exec_move_flows [OF r] exec_move_result_flows [OF r _ m]
        exec_return_flows [OF e(1) f(1) r h t] exec_const_flows [OF r] exec_const_object_flows [OF e(1) r h]
        exec_monitor_flows [OF e(1) r h] exec_type_check_flows [OF e(1) r h]
        exec_array_length_flows [OF e(1) r h t] exec_new_instance_flows [OF e(1) r h]
        exec_new_array_flows [OF e(1,3) r h t] exec_fill_array_data_flows [OF e(1,4) f(3) r h t]
        exec_throw_flows [OF e(1) r h] exec_goto_flows [OF r] exec_cmp_flows [OF r] exec_if_flows [OF r]
        exec_ifz_flows [OF r] exec_aget_flows [OF e(1) r h t] exec_aput_flows [OF e(1) r h t]
        exec_iget_flows [OF e(1) r h] exec_iput_flows [OF e(1) f(2) r h] exec_sget_flows [OF e(1) r h]
        exec_sput_flows [OF e(1) f(2) r h] exec_invoke_flows [OF e(2) r h] exec_unop_flows [OF r]
        exec_convert_flows [OF r] exec_int_23x_flows [OF e(1) r h] exec_long_23x_flows [OF e(1) r h]
        exec_float_23x_flows [OF r] exec_double_23x_flows [OF r] exec_int_2addr_flows [OF e(1) r h]
        exec_long_2addr_flows [OF e(1) r h] exec_float_2addr_flows [OF r] exec_double_2addr_flows [OF r]
        exec_lit16_flows [OF e(1) r h] exec_lit8_flows [OF e(1) r h] exec_iget_quick_flows [OF e(1) r h]
        exec_iput_quick_flows [OF e(1) r h] opcode_between opcode_betweens)
      (use x in \<open>auto simp: opcode_order\<close>)
qed


text \<open>The state in which a round calls the handler.\<close>

definition entered :: "'w Interp \<Rightarrow> 'w Interp" where
  "entered st = st\<lparr>dex_pc := of_nat (inst st), shadow_frame := SetDexPC (of_nat (inst st)) (shadow_frame st)\<rparr>"

lemma step_entered:
  "step env ci st = do { w \<leftarrow> Fetch16 (insns ci) (inst st) 0; dispatch env ci (Opcode w) w (entered st) }"
  by (simp add: step_def entered_def Let_def)

lemma entered_simps [simp]:
  "inst (entered st) = inst st" "thread (entered st) = thread st" "dex_pc (entered st) = of_nat (inst st)"
  "frame_ok (shadow_frame (entered st)) = frame_ok (shadow_frame st)"
  "NumberOfVRegs (shadow_frame (entered st)) = NumberOfVRegs (shadow_frame st)"
  "GetVRegReference (shadow_frame (entered st)) i = GetVRegReference (shadow_frame st) i"
  by (simp_all add: entered_def SetDexPC_def frame_ok_def NumberOfVRegs_def GetVRegReference_def
      References_get_def HasReferenceArray_def)

lemma typed_entered [simp]: "typed env ci (entered st) w = typed env ci st w"
  by (simp add: typed_def array_register_def array_typed_def)

text \<open>The types are right for the instruction that the state is about to execute.\<close>

definition well_typed :: "'w Env \<Rightarrow> CodeItem \<Rightarrow> 'w Interp \<Rightarrow> bool" where
  "well_typed env ci st \<longleftrightarrow> inst st < length (insns ci) \<and>
     (\<forall>w. Fetch16 (insns ci) (inst st) 0 = Some w \<longrightarrow> typed env ci st w)"

text \<open>The instruction that the state is about to execute is one of the faults.\<close>

definition fault :: "'w Env \<Rightarrow> CodeItem \<Rightarrow> 'w Interp \<Rightarrow> bool" where
  "fault env ci st \<longleftrightarrow>
     (case Fetch16 (insns ci) (inst st) 0 of Some w \<Rightarrow> fault_at env ci w (entered st) | None \<Rightarrow> False)"

lemma fault_step: "fault env ci st \<Longrightarrow> step env ci st = None"
  by (auto simp: fault_def step_entered fault_undefined split: option.splits)

text \<open>The invariant of an execution of a verified method.\<close>

definition on_track :: "CodeItem \<Rightarrow> 'w Interp \<Rightarrow> bool" where
  "on_track ci st \<longleftrightarrow> insn_start (insns ci) (inst st) \<and> inst st \<le> length (insns ci) \<and>
     fits (ucast (registers_size ci)) (shadow_frame st)"

lemma walk_between:
  assumes "walk code p q" "walk code p r" "q \<le> r"
  shows "walk code q r"
  using assms
proof (induction rule: walk.induct)
  case (step q n)
  have n: "0 < n" using SizeInCodeUnits_pos [OF step.hyps(3)] .
  then have "walk code q r" using step by simp
  then show ?case using walk_head [of code q r] step.hyps(3) step.prems(2) n by auto
qed

text \<open>What the static passes leave to the interpreter.\<close>

definition verified :: "CodeItem \<Rightarrow> bool" where
  "verified ci \<longleftrightarrow> insn_start (insns ci) (length (insns ci)) \<and> length (insns ci) < 2 ^ 31 \<and>
     (\<forall>pc < length (insns ci). insn_start (insns ci) pc \<longrightarrow>
        (\<exists>df. instruction_ok ci df (insn_start (insns ci)) pc))"

lemma VerifyStatic_verified:
  "VerifyStatic v = Some (True, v') \<Longrightarrow> insns_size v < 2 ^ 31 \<Longrightarrow> verified (code_item v)"
  using VerifyStatic_sound unfolding verified_def insns_size_def by blast

lemma verified_step:
  assumes "verified ci" "insn_start (insns ci) pc" "pc < length (insns ci)"
  shows "\<exists>n. SizeInCodeUnits (insns ci) pc = Some n \<and> insn_start (insns ci) (pc + n) \<and> pc + n \<le> length (insns ci)"
proof -
  have "walk (insns ci) pc (length (insns ci))"
    using walk_between [OF assms(2)] assms(1,3) by (simp add: verified_def)
  then show ?thesis
    using walk_head [of "insns ci" pc] assms(2,3) walk_le by (fastforce intro: walk.step)
qed

lemma verified_ready:
  assumes "verified ci" "on_track ci st" "well_typed env ci st"
  obtains w where "Fetch16 (insns ci) (inst st) 0 = Some w" "ready ci (entered st) w" "typed env ci st w"
    "executable (Opcode w)" "insn_start (insns ci) (inst st + insn_width w)" "inst st + insn_width w \<le> length (insns ci)"
proof -
  have pc: "inst st < length (insns ci)" "insn_start (insns ci) (inst st)"
    using assms(2,3) by (simp_all add: on_track_def well_typed_def)
  obtain df where "instruction_ok ci df (insn_start (insns ci)) (inst st)"
    using assms(1) pc unfolding verified_def by blast
  then obtain w where w: "Fetch16 (insns ci) (inst st) 0 = Some w" "\<not> IsExperimental (Opcode w)"
      "GetVerifyExtraFlags (Opcode w) \<noteq> kVerifyError" "registers_ok ci (inst st) (Opcode w)"
      "branch_ok (insn_start (insns ci)) (insns ci) (inst st) (Opcode w)"
      "switch_ok (insn_start (insns ci)) (insns ci) (inst st) (Opcode w)"
      "array_data_ok (insn_start (insns ci)) (insns ci) (inst st) (Opcode w)" "arguments_ok ci (inst st) (Opcode w)"
    unfolding instruction_ok_def by blast
  have t: "typed env ci st w" using assms(3) w(1) by (simp add: well_typed_def)
  obtain n where n: "SizeInCodeUnits (insns ci) (inst st) = Some n" "insn_start (insns ci) (inst st + n)"
      "inst st + n \<le> length (insns ci)"
    using verified_step [OF assms(1) pc(2,1)] by blast
  have "n = insn_width w"
  proof (cases "Opcode w = NOP")
    case True
    then have "w = 0" using t by (simp add: typed_def)
    then show ?thesis
      using n(1) w(1) True NOP_format
      by (simp add: SizeInCodeUnits_def size_row INSTRUCTION_SIZE_format SizeInCodeUnitsComplexOpcode_def
          format_size_def less_eq_Format_def Let_def)
  qed (use SizeInCodeUnits_cases [OF n(1) w(1)] in simp)
  moreover have "NumberOfVRegs (shadow_frame st) = unat (registers_size ci)"
    using assms(2) by (simp add: on_track_def fits_def NumberOfVRegs_def unsigned_ucast_eq)
  then have "ready ci (entered st) w"
    using w n(3) calculation assms(1,2) by (simp add: ready_def verified_def on_track_def fits_def)
  ultimately show ?thesis using that w(1-3) t n(2,3) verified_executable by blast
qed


section \<open>Executions\<close>

lemma verified_round:
  assumes "environment_ok env" "handlers_ok ci" "verified ci" "on_track ci st" "well_typed env ci st"
    and "\<not> fault env ci st"
  shows "\<exists>r. step env ci st = Some r \<and> (\<forall>st'. r = Running st' \<longrightarrow> on_track ci st')"
proof -
  obtain w where w: "Fetch16 (insns ci) (inst st) 0 = Some w" "ready ci (entered st) w" "typed env ci st w"
      "executable (Opcode w)" "insn_start (insns ci) (inst st + insn_width w)"
      "inst st + insn_width w \<le> length (insns ci)"
    using verified_ready [OF assms(3-5)] .
  have "flows ci (inst (entered st)) (insn_width w) (dispatch env ci (Opcode w) w (entered st))"
    using dispatch_flows [OF assms(1) w(2) assms(2) _ w(4)] w(1,3) assms(6) by (simp add: fault_def)
  then obtain r where r: "step env ci st = Some r"
      "\<And>st'. r = Running st' \<Longrightarrow> inst st' = inst st + insn_width w \<or> target ci (inst st')"
    unfolding step_entered w(1) by (auto simp: flows_def)
  have "fits (ucast (registers_size ci)) (shadow_frame (out_state r))"
    using ensuresD [OF step_keeps r(1)] assms(1,4) by (simp add: environment_ok_def on_track_def)
  then have "on_track ci st'" if "r = Running st'" for st'
    using r(2) [OF that] that w(5,6) by (auto simp: on_track_def target_def)
  with r(1) show ?thesis by blast
qed

text \<open>The states between the rounds of an execution.\<close>

inductive reaches :: "'w Env \<Rightarrow> CodeItem \<Rightarrow> 'w Interp \<Rightarrow> 'w Interp \<Rightarrow> bool" for env ci st0 where
  start: "reaches env ci st0 st0"
| round: "reaches env ci st0 st \<Longrightarrow> step env ci st = Some (Running st') \<Longrightarrow> \<not> interpret_one_instruction env \<Longrightarrow>
    reaches env ci st0 st'"

lemma reaches_trans: "reaches env ci st1 st2 \<Longrightarrow> reaches env ci st0 st1 \<Longrightarrow> reaches env ci st0 st2"
  by (induction rule: reaches.induct) (auto intro: reaches.round)

lemma reaches_on_track:
  assumes "reaches env ci st0 st" "environment_ok env" "handlers_ok ci" "verified ci" "on_track ci st0"
    and "\<And>st. reaches env ci st0 st \<Longrightarrow> well_typed env ci st"
  shows "on_track ci st"
  using assms(1)
proof (induction rule: reaches.induct)
  case (round st st')
  then have "\<not> fault env ci st" using fault_step by force
  then show ?case using verified_round [OF assms(2-4) round.IH] assms(6) round by fastforce
qed (rule assms(5))

lemma execute_defined:
  assumes "environment_ok env" "handlers_ok ci" "verified ci" "on_track ci st"
    and "\<And>st'. reaches env ci st st' \<Longrightarrow> well_typed env ci st'"
    and "\<And>st'. reaches env ci st st' \<Longrightarrow> \<not> fault env ci st'"
  shows "\<exists>r. execute env ci n st = Some r"
  using assms(4-6)
proof (induction n arbitrary: st)
  case (Suc n)
  obtain r where r: "step env ci st = Some r" "\<And>st'. r = Running st' \<Longrightarrow> on_track ci st'"
    using verified_round [OF assms(1-3) Suc.prems(1)] Suc.prems(2,3) reaches.start by blast
  have "\<exists>r'. execute env ci n st' = Some r'" if "r = Running st'" "\<not> interpret_one_instruction env" for st'
    using Suc.IH [of st'] r that Suc.prems(2,3) by (metis reaches.start reaches.round reaches_trans)
  then show ?case using r(1) by (cases r) auto
qed simp

text \<open>A state that an execution reaches is the state after some number of rounds.\<close>

lemma reaches_execute:
  assumes "reaches env ci st0 st" "step env ci st = None"
  shows "\<exists>n. execute env ci n st0 = None"
proof -
  have "\<exists>n. \<forall>m. execute env ci (n + m) st0 = execute env ci m st"
    using assms(1)
  proof (induction rule: reaches.induct)
    case start
    show ?case by (rule exI [of _ 0]) simp
  next
    case (round st st')
    then obtain n where n: "\<And>m. execute env ci (n + m) st0 = execute env ci m st" by blast
    have "execute env ci (Suc n + m) st0 = execute env ci m st'" for m
      using round.hyps(2,3) n [of "Suc m"] by simp
    then show ?case by blast
  qed
  then obtain n where "execute env ci (n + 1) st0 = execute env ci 1 st" by blast
  then show ?thesis using assms(2) by (intro exI [of _ "n + 1"]) simp
qed

abbreviation entry :: "ShadowFrame \<Rightarrow> 'w Thread \<Rightarrow> uint64 \<Rightarrow> 'w Interp" where
  "entry frame self result \<equiv>
     \<lparr>shadow_frame = frame, thread = self, inst = 0, dex_pc = 0, result_register = result,
      lambda_captured_variable_index = 0\<rparr>"

section \<open>A verified loop\<close>

abbreviation loop_method :: MethodVerifier where
  "loop_method \<equiv> example_verifier [0x0012, 0xff28]"

lemma example_classes_ok: "classes_ok example_env"
  by (auto simp: classes_ok_def example_env_def example_objects_def example_class_def example_component_def
      component_of_def Let_def split: ArrayObject.split)

lemma example_environment_ok: "environment_ok example_env"
  unfolding environment_ok_def
  by (intro conjI example_calls_keep example_classes_ok)
    (simp_all add: runtime_ok_def calls_report_def call_reports_def allocator_ok_def
      IsExceptionPending_def example_env_def example_objects_def Let_def)

lemma loop_starts: "insn_start [0x0012, 0xff28] 1"
  using walk.step [OF walk.here, of 0 "[0x0012, 0xff28]" 1] example_sizes(1) by simp

lemma loop_handlers: "handlers_ok (code_item loop_method)"
proof -
  have "\<exists>it e. Init_offset (code_item loop_method) 1 = Some it \<and> handlers_of it = Some ([(kDexNoIndex16, 1)], e)"
    by (simp add: example_verifier_def Init_offset_def GetCatchHandlerData_def handlers_of.simps HasNext_def
        Init_data_def Next_handler_def DecodeSignedLeb128_def DecodeUnsignedLeb128_def next_byte_def array_get_def)
  then show ?thesis
    using loop_starts by (auto simp: handlers_ok_def tries_ok_def target_def example_verifier_def)
qed

lemma loop_dispatch:
  "dispatch env ci 0x12 w st = exec_const ci 0x12 w st" "dispatch env ci 0x28 w st = exec_goto env ci 0x28 w st"
  by (simp_all add: dispatch_def)

lemma loop_step:
  assumes "inst st < 2" "step example_env (code_item loop_method) st = Some (Running st')"
  shows "inst st' < 2"
proof -
  have "inst st = 0 \<or> inst st = 1" using assms(1) by linarith
  then have "step example_env (code_item loop_method) st =
      (if inst st = 0 then exec_const (code_item loop_method) 0x12 0x12 (entered st)
       else exec_goto example_env (code_item loop_method) 0x28 0xff28 (entered st))"
    by (auto simp: step_entered example_verifier_def Fetch16_def array_get_def Opcode_def loop_dispatch)
  then show ?thesis
    using assms
    by (auto simp: exec_const_def set_const_def set_reg_def go_next_def VRegA_11n_def
        exec_goto_def branch_def BRANCH_INSTRUMENTATION_def bind_Some_iff
        example_env_def RelativeAt_def VRegA_10t_def InstA_def InstAA_def Let_def split: if_splits)
qed

lemma loop_inst:
  assumes "reaches example_env (code_item loop_method) st0 st" "inst st0 < 2"
  shows "inst st = 0 \<or> inst st = 1"
proof -
  have "inst st < 2" using assms by (induction rule: reaches.induct) (auto dest: loop_step)
  then show ?thesis by linarith
qed

lemma loop_typed:
  assumes "reaches example_env (code_item loop_method) st0 st" "inst st0 < 2"
  shows "well_typed example_env (code_item loop_method) st"
  using loop_inst [OF assms]
  by (elim disjE; simp add: well_typed_def example_verifier_def Fetch16_def array_get_def typed_def Opcode_def array_register_def)

lemma loop_no_fault:
  assumes "reaches example_env (code_item loop_method) st0 st" "inst st0 < 2"
  shows "\<not> fault example_env (code_item loop_method) st"
  using loop_inst [OF assms]
  by (elim disjE; simp add: fault_def fault_at_def return_fault_def put_fault_def fill_fault_def example_verifier_def
      Fetch16_def array_get_def Opcode_def)

section \<open>Property\<close>



end
