(* ===== verification/Verifier_Limits.thy ===== *)
theory Verifier_Limits
  imports Verified_Handlers
begin

text \<open>
  Two limits of the array data checks: the element count of a payload is unsigned in the verifier
  and signed in the interpreter, and the upper half of the count is read before the end of the table
  is checked.
\<close>

section \<open>Methods with array data\<close>

text \<open>
  \<open>fill-array-data v0, +4\<close>, \<open>return-void\<close>, and a payload of \<open>0x80000001\<close> elements of two bytes.
\<close>

definition huge_payload :: insns where
  "huge_payload = [0x0026, 4, 0, 0x000e, 0x0300, 2, 1, 0x8000, 0xbeef]"

text \<open>
  \<open>fill-array-data v0, +4\<close>, \<open>return-void\<close>, and in the place of the payload another
  \<open>fill-array-data\<close>, which ends the code.
\<close>

definition short_payload :: insns where
  "short_payload = [0x0026, 4, 0, 0x000e, 0x0026, 4, 0]"

definition without_tries :: "insns \<Rightarrow> MethodVerifier" where
  "without_tries code = (example_verifier code)\<lparr>code_item := (code_item (example_verifier code))\<lparr>tries := []\<rparr>\<rparr>"

lemma payload_rows:
  "FormatOf 0x26 = k31t" "FlagsOf 0x26 = 0x20000A" "VerifyFlagsOf 0x26 = 0x4001"
  "FormatOf 0x0e = k10x" "FlagsOf 0x0e = 16" "VerifyFlagsOf 0x0e = 0"
  "FormatOf 0 = k10x" "FlagsOf 0 = 2" "VerifyFlagsOf 0 = 0"
  by (simp_all add: row_lookups table_defs)

lemma payload_sizes:
  "SizeInCodeUnits huge_payload 0 = Some 3" "SizeInCodeUnits huge_payload 3 = Some 1"
  "SizeInCodeUnits huge_payload 4 = Some 5"
  "SizeInCodeUnits short_payload 0 = Some 3" "SizeInCodeUnits short_payload 3 = Some 1"
  "SizeInCodeUnits short_payload 4 = Some 3"
  by (simp_all add: huge_payload_def short_payload_def SizeInCodeUnits_def Fetch16_def Fetch32_def array_get_def
      Opcode_def size_row payload_rows INSTRUCTION_SIZE_def less_eq_Format_def SizeInCodeUnitsComplexOpcode_def
      Let_def)

lemma payload_units:
  "huge_payload \<noteq> []" "length huge_payload = 9" "huge_payload ! 0 = 0x0026" "huge_payload ! 3 = 0x000e"
  "huge_payload ! 4 = 0x0300" "huge_payload ! 5 = 2"
  "short_payload \<noteq> []" "length short_payload = 7" "short_payload ! 0 = 0x0026" "short_payload ! 3 = 0x000e"
  "short_payload ! 4 = 0x0026" "short_payload ! 5 = 4"
  "Fetch32 huge_payload 0 1 = Some 4" "Fetch32 huge_payload 4 2 = Some 0x80000001"
  "Fetch32 huge_payload 0 (Suc 0) = Some 4"
  "Fetch32 short_payload 0 (Suc 0) = Some 4" "Fetch32 short_payload 4 2 = None"
  by (simp_all add: huge_payload_def short_payload_def Fetch32_def Fetch16_def array_get_def)

lemma payload_flags: "replicate 9 x = [x, x, x, x, x, x, x, x, x]" "replicate 7 x = [x, x, x, x, x, x, x]"
  by (simp_all add: numeral_eq_Suc)

lemmas payload_eval = example_eval payload_rows payload_sizes payload_units payload_flags without_tries_def
  CheckArrayData_def Let_def VRegA_31t_def InstAA_def

lemma huge_payload_accepted: "\<exists>v'. VerifyStatic (without_tries huge_payload) = Some (True, v')"
  by (simp add: payload_eval)

lemma huge_payload_bytes: "those (map (payload_byte huge_payload 4) [0..<2]) = Some [0xef, 0xbe]"
  by (simp add: huge_payload_def payload_byte_def Fetch16_def array_get_def upt_rec Let_def)

lemma huge_payload_overflow:
  assumes "heap self a = Some (ShortArray [])" "a \<noteq> 0"
  shows "FillArrayData env huge_payload a 4 self = None"
  using assms
  by (simp add: FillArrayData_def payload_units Fetch16_def array_get_def memcpy_payload_def huge_payload_bytes
      array_set_def Let_def)

section \<open>Properties\<close>



end
