(* ===== verification/Spec2Isabelle.thy ===== *)
theory Spec2Isabelle
  imports Verified_Execution Verifier_Limits
begin

text \<open>
  A verification library for the Intel extension of the Android runtime (\<open>src/art-extension\<close>).

  \<^bold>\<open>The program.\<close> The repository is the ART virtual machine of Android Nougat with Intel's additions.
  Under \<open>runtime\<close> are the reader of dex files, the bytecode verifier, the interpreters, the garbage
  collectors, the class linker and the native interfaces; under \<open>compiler\<close> the optimising compiler,
  its back ends and the writers of compiled code; next to them the command line tools.  A method
  passes through the parts below in this order: its instructions and exception table are decoded
  from the dex file, the static passes of the verifier accept or reject them, and the interpreter
  executes them on a shadow frame.

  \<^bold>\<open>The theories.\<close>

  \<^item> \<open>ART_Prelude\<close>: machine integers as words, checked array accesses (an access outside of an array
    is \<open>None\<close>), bit masks, C++ division, and the locale \<open>codec\<close> of variable length encodings.
  \<^item> \<open>Leb128\<close>: the encoders and decoders of \<open>runtime/leb128.h\<close>; streams round-trip, sizes are exact,
    and the in-place update keeps the other bytes.
  \<^item> \<open>Dex_Instruction_List\<close>, \<open>Dex_Instruction\<close>: the instruction table of
    \<open>runtime/dex_instruction_list.h\<close> and the operand decoders of \<open>runtime/dex_instruction.h\<close>; the
    operands that the verifier asks for are decodable.
  \<^item> \<open>Dex_Code_Item\<close>: code items, the binary search over the try table and the catch handler iterator
    (\<open>runtime/dex_file.cc\<close>), \<open>FindCatchBlock\<close> of \<open>runtime/art_method.cc\<close>.
  \<^item> \<open>Method_Verifier\<close>: the passes of \<open>runtime/verifier/method_verifier.cc\<close> before the type analysis,
    which is a parameter, as functions on the verifier's state; the locales \<open>framed_check\<close> and
    \<open>reporting_check\<close> state what every check keeps and that a rejection is reported.
  \<^item> \<open>Verifier_Soundness\<close>: what an accepted method guarantees about its instructions, branches,
    switches, array data and exception table.
  \<^item> \<open>Verifier_Limits\<close>: two gaps of the array data checks.
  \<^item> \<open>Shadow_Frame\<close>: the registers of \<open>runtime/stack.h\<close>, raw values and references; the locale
    \<open>register_kind\<close> has the laws of reading and writing one kind of register.
  \<^item> \<open>Primitive_Types\<close>: \<open>runtime/primitive.h\<close>.
  \<^item> \<open>Interpreter_Common\<close>, \<open>Interpreter_Switch\<close>: arithmetic, switches, arrays, fields, lock counting
    and exception dispatch of \<open>runtime/interpreter/interpreter_common.h\<close>; switches refine the lookup in
    a table of cases.
  \<^item> \<open>Interpreter\<close>: one definition for each group of opcodes of
    \<open>runtime/interpreter/interpreter_switch_impl.cc\<close>, the dispatch and the loop.
  \<^item> \<open>Interpreter_Frames\<close>: the invariant of the frame is kept by every execution.
  \<^item> \<open>Opcode_Shapes\<close>, \<open>Interpreter_Progress\<close>, \<open>Verified_Handlers\<close>, \<open>Verified_Execution\<close>: the composition
    of verifier and interpreter.  Each handler, at an instruction the verifier has accepted, is
    defined and goes on at an instruction of the method; hence so does every execution.

  \<^bold>\<open>State and errors.\<close> Objects of the source are records, passed through and returned by the
  operations.  The runtime that the interpreter calls (allocation, resolution, calls, monitors, the
  floating point unit) is a record of functions, \<open>Env\<close>, with its contract as named hypotheses that an
  example discharges.  \<open>None\<close> stands for undefined behaviour and failed checks of the C++ code;
  exceptions of the Java program are part of the state.

  \<^bold>\<open>Bounds.\<close> The interpreter loop takes a number of rounds, \<open>execute env ci n st\<close>; the theorems hold
  for every number, so none is singled out.  All other loops are total functions with their
  termination proved.

  \<^bold>\<open>Not modelled.\<close> The register type analysis of the verifier (its effect is the hypothesis
  \<open>well_typed\<close> of the composition), the other two interpreters, the garbage collectors, class
  linking, the compiler, assemblers, debugger, profiler, file formats other than code items,
  threads, and the command line tools.
\<close>

end
